(* ===== verification/Prelude.thy ===== *)
theory Prelude
  imports Main "HOL-Library.Word"
begin

text \<open>
  Shared vocabulary of the development: the machine types of the C program on its LP64 target
  (64-bit \<^verbatim>\<open>size_t\<close>, \<^verbatim>\<open>signed long\<close> and pointers), the ways a C call can
  go wrong (\<open>fault\<close>), sequencing of calls that may go wrong, C's signed addition, a generic
  locale for invariants of transition systems, and the word lemmas the components share.
\<close>

section \<open>Machine types\<close>

type_synonym size_t = "64 word"

type_synonym slong = "64 word" \<comment> \<open>two's complement; \<open>sint\<close> reads the value\<close>

type_synonym addr = "64 word"

abbreviation (input) NULL :: addr where "NULL \<equiv> 0"

section \<open>Calls that may go wrong\<close>

datatype fault =
    Assertion_failed   \<comment> \<open>\<^verbatim>\<open>assert\<close> aborts the process\<close>
  | Signed_overflow    \<comment> \<open>undefined behaviour of signed arithmetic\<close>
  | Mutex_misuse       \<comment> \<open>locking a mutex that is not initialised, or unlocking one not held\<close>
  | Deadlock           \<comment> \<open>a thread waits for something that never happens\<close>
  | Out_of_bounds      \<comment> \<open>an access outside an object\<close>
  | Bad_argument       \<comment> \<open>\<^verbatim>\<open>va_arg\<close> without an argument of the type it names\<close>
  | No_return          \<comment> \<open>a loop that never ends\<close>

type_synonym 'a res = "fault + 'a"

fun rbind :: "'a res \<Rightarrow> ('a \<Rightarrow> 'b res) \<Rightarrow> 'b res" where
  "rbind (Inl e) k = Inl e"
| "rbind (Inr x) k = k x"

lemma rbind_eq_Inr: "rbind m k = Inr y \<longleftrightarrow> (\<exists>x. m = Inr x \<and> k x = Inr y)"
  by (cases m) auto

lemma rbind_eq_Inl: "rbind m k = Inl e \<longleftrightarrow> m = Inl e \<or> (\<exists>x. m = Inr x \<and> k x = Inl e)"
  by (cases m) auto

lemma rbind_assoc: "rbind (rbind m k) l = rbind m (\<lambda>x. rbind (k x) l)"
  by (cases m) auto

lemma rbind_Inr_right [simp]: "rbind m Inr = m"
  by (cases m) auto

lemma rbind_cong [fundef_cong]:
  "m = m' \<Longrightarrow> (\<And>x. m' = Inr x \<Longrightarrow> k x = k' x) \<Longrightarrow> rbind m k = rbind m' k'"
  by (cases m') auto

section \<open>Collections of rewrite rules\<close>

named_theorems model_simps \<open>definitions unfolded when a call is executed symbolically\<close>

named_theorems nat_simps \<open>word comparisons and arithmetic read as natural numbers\<close>

section \<open>C's signed addition\<close>

definition slong_min :: int where "slong_min = - (2 ^ 63)"
definition slong_max :: int where "slong_max = 2 ^ 63 - 1"

definition slong_add :: "slong \<Rightarrow> slong \<Rightarrow> slong res" where
  "slong_add a b =
     (if slong_min \<le> sint a + sint b \<and> sint a + sint b \<le> slong_max
      then Inr (a + b) else Inl Signed_overflow)"

lemma slong_add_Inr: "slong_add a b = Inr c \<Longrightarrow> c = a + b"
  by (simp add: slong_add_def split: if_splits)

section \<open>Words as natural numbers\<close>

lemmas word_le_unat [nat_simps] = word_le_nat_alt
lemmas word_less_unat [nat_simps] = word_less_nat_alt

lemma unat_add_le [nat_simps]:
  "unat a + unat b < 2 ^ LENGTH('a) \<Longrightarrow> unat (a + b) = unat a + unat b" for a b :: "'a::len word"
  by (simp add: unat_word_ariths)

lemma unat_diff_le [nat_simps]:
  "unat b \<le> unat a \<Longrightarrow> unat (a - b) = unat a - unat b" for a b :: "'a::len word"
  by (simp add: unat_sub word_le_nat_alt)

lemma unat_lt64 [simp]: "unat (a :: 64 word) < 18446744073709551616"
  using unsigned_less [of a, where 'a = nat] by simp

lemma unat_le64: "unat (a :: 64 word) \<le> 18446744073709551615"
  using unat_lt64 [of a] by linarith

lemma unat_uminus64 [nat_simps]:
  "unat (- b) = (if b = 0 then 0 else 2 ^ 64 - unat b)" for b :: "64 word"
proof -
  have "unat (0 - b) = (if unat b \<le> unat (0 :: 64 word) then unat (0 :: 64 word) - unat b
       else unat (0 :: 64 word) + 2 ^ 64 - unat b)"
    using unat_sub_if_size [of "0 :: 64 word" b] by (simp add: word_size)
  then show ?thesis by (simp add: unat_eq_0)
qed

lemma sint64_cases:
  "sint (a :: 64 word) = (if uint a < 2 ^ 63 then uint a else uint a - 2 ^ 64)"
proof -
  have sint: "sint a = (uint a + 2 ^ 63) mod 2 ^ 64 - 2 ^ 63"
    using int_word_sint [of "uint a", where 'a = 64] by simp
  have bounds: "0 \<le> uint a" "uint a < 2 ^ 64"
    using unsigned_less [of a, where 'a = int] by simp_all
  show ?thesis
  proof (cases "uint a < 2 ^ 63")
    case True
    with bounds have "(uint a + 2 ^ 63) mod 2 ^ 64 = uint a + 2 ^ 63"
      by (intro mod_pos_pos_trivial) auto
    with True sint show ?thesis by simp
  next
    case False
    then have "(uint a + 2 ^ 63 - 2 ^ 64) mod 2 ^ 64 = uint a + 2 ^ 63 - 2 ^ 64"
      using bounds by (intro mod_pos_pos_trivial) auto
    moreover have "(uint a + 2 ^ 63) mod 2 ^ 64 = (uint a + 2 ^ 63 - 2 ^ 64) mod 2 ^ 64"
      by (simp only: minus_mod_self2)
    ultimately show ?thesis using False sint by simp
  qed
qed

lemma uint_unat64: "uint (a :: 64 word) = int (unat a)"
  by (rule uint_nat)

lemma uint_unat_less: "unat (a :: 64 word) < n \<longleftrightarrow> uint a < int n"
  by (simp only: uint_unat64 of_nat_less_iff)

lemma sint64_small: "uint (a :: 64 word) < 2 ^ 63 \<Longrightarrow> sint a = uint a"
  by (simp add: sint64_cases)

lemma uint64_minus: "b \<noteq> 0 \<Longrightarrow> uint (- b) = 2 ^ 64 - uint b" for b :: "64 word"
proof -
  assume "b \<noteq> 0"
  then have "unat (- b) = 2 ^ 64 - unat b" by (simp add: unat_uminus64)
  moreover have "unat b \<le> 2 ^ 64" by (rule less_imp_le) simp
  ultimately have "int (unat (- b)) = int (2 ^ 64) - int (unat b)"
    by (simp only: of_nat_diff)
  then show ?thesis by (simp add: uint_unat64 del: of_nat_unat)
qed

lemma sint64_minus: "uint (b :: 64 word) \<le> 2 ^ 63 \<Longrightarrow> sint (- b) = - uint b"
  by (cases "b = 0") (simp_all add: sint64_cases uint64_minus)

text \<open>
  The two additions the memory manager performs on its counters: growing a counter within the
  non-negative half of \<^verbatim>\<open>signed long\<close>, and giving back at most what the counter holds.
\<close>

lemma slong_add_grow:
  assumes "unat a + unat b < 2 ^ 63"
  shows "slong_add a b = Inr (a + b)"
proof -
  have "int (unat a + unat b) < int (2 ^ 63)"
    using assms by (simp only: of_nat_less_iff)
  then have "uint a + uint b < 2 ^ 63" by simp
  moreover have "0 \<le> uint a" "0 \<le> uint b" by simp_all
  ultimately have "uint a < 2 ^ 63" "uint b < 2 ^ 63" "uint a + uint b < 2 ^ 63" by linarith+
  moreover have "0 \<le> uint a" "0 \<le> uint b" by simp_all
  ultimately have "slong_min \<le> sint a + sint b \<and> sint a + sint b \<le> slong_max"
    unfolding slong_min_def slong_max_def
    using sint64_small [of a] sint64_small [of b] by linarith
  then show ?thesis by (simp add: slong_add_def)
qed

lemma slong_add_shrink:
  assumes "unat b \<le> unat a" and "unat a < 2 ^ 63"
  shows "slong_add a (- b) = Inr (a - b)"
proof -
  have "int (unat b) \<le> int (unat a)" "int (unat a) < int (2 ^ 63)"
    using assms by (simp_all only: of_nat_less_iff of_nat_le_iff)
  then have "uint b \<le> uint a" "uint a < 2 ^ 63" by simp_all
  moreover have "0 \<le> uint a" "0 \<le> uint b" by simp_all
  ultimately have "slong_min \<le> sint a + sint (- b) \<and> sint a + sint (- b) \<le> slong_max"
    unfolding slong_min_def slong_max_def
    using sint64_small [of a] sint64_minus [of b] by linarith
  then show ?thesis by (simp add: slong_add_def)
qed

text \<open>Giving back more than a counter holds wraps it, without signed overflow.\<close>

lemma slong_add_wrap_down:
  assumes "unat a < unat b" and "unat b < 2 ^ 63"
  shows "slong_add a (- b) = Inr (a - b)"
proof -
  have "int (unat a) < int (unat b)" "int (unat b) < int (2 ^ 63)"
    using assms by (simp_all only: of_nat_less_iff)
  then have "uint a < uint b" "uint b < 2 ^ 63" by simp_all
  moreover have "0 \<le> uint a" "0 \<le> uint b" by simp_all
  ultimately have "slong_min \<le> sint a + sint (- b) \<and> sint a + sint (- b) \<le> slong_max"
    unfolding slong_min_def slong_max_def
    using sint64_small [of a] sint64_minus [of b] by linarith
  then show ?thesis by (simp add: slong_add_def)
qed

section \<open>Invariants of transition systems\<close>

text \<open>
  The contract between a step relation and a predicate that is an invariant of it; the client's
  lemmas (the predicate holds in every reachable state, and along every run) are proved once here.
\<close>

inductive steps :: "('s \<Rightarrow> 's \<Rightarrow> bool) \<Rightarrow> 's \<Rightarrow> 's \<Rightarrow> bool" for step where
  steps_refl: "steps step s s"
| steps_step: "steps step s t \<Longrightarrow> step t u \<Longrightarrow> steps step s u"

lemma steps_trans: "steps step t u \<Longrightarrow> steps step s t \<Longrightarrow> steps step s u"
  by (induction rule: steps.induct) (auto intro: steps.intros)

lemma steps_one: "step s t \<Longrightarrow> steps step s t"
  by (auto intro: steps.intros)

lemma steps_first: "step s t \<Longrightarrow> steps step t u \<Longrightarrow> steps step s u"
  by (rule steps_trans [OF _ steps_one])

locale invariant =
  fixes step :: "'s \<Rightarrow> 's \<Rightarrow> bool"
    and inv :: "'s \<Rightarrow> bool"
  assumes step_inv: "inv s \<Longrightarrow> step s t \<Longrightarrow> inv t"
begin

lemma steps_inv: "steps step s t \<Longrightarrow> inv s \<Longrightarrow> inv t"
  by (induction rule: steps.induct) (auto intro: step_inv)

end

end
