(* ===== verification/Pthread_Mutex.thy ===== *)
theory Pthread_Mutex
  imports Prelude
begin

text \<open>
  The part of POSIX threads the memory manager uses: a default mutex, as a value that says whether
  it is initialised and which thread holds it. Initialising an initialised mutex, locking or
  unlocking one that is not initialised, and unlocking one the thread does not hold are undefined
  behaviour (\<open>Mutex_misuse\<close>); a sequential caller that locks a held mutex never returns
  (\<open>Deadlock\<close>). A file-scope mutex of C starts as zero bytes, not initialised.
\<close>

type_synonym tid = nat

datatype pthread_mutex_t = Mutex_uninit | Mutex_unlocked | Mutex_locked tid

fun pthread_mutex_init :: "pthread_mutex_t \<Rightarrow> pthread_mutex_t res" where
  "pthread_mutex_init Mutex_uninit = Inr Mutex_unlocked"
| "pthread_mutex_init Mutex_unlocked = Inl Mutex_misuse"
| "pthread_mutex_init (Mutex_locked t) = Inl Mutex_misuse"

fun pthread_mutex_destroy :: "pthread_mutex_t \<Rightarrow> pthread_mutex_t res" where
  "pthread_mutex_destroy Mutex_unlocked = Inr Mutex_uninit"
| "pthread_mutex_destroy Mutex_uninit = Inl Mutex_misuse"
| "pthread_mutex_destroy (Mutex_locked t) = Inl Mutex_misuse"

fun pthread_mutex_lock :: "tid \<Rightarrow> pthread_mutex_t \<Rightarrow> pthread_mutex_t res" where
  "pthread_mutex_lock t Mutex_uninit = Inl Mutex_misuse"
| "pthread_mutex_lock t Mutex_unlocked = Inr (Mutex_locked t)"
| "pthread_mutex_lock t (Mutex_locked u) = Inl Deadlock"

fun pthread_mutex_unlock :: "tid \<Rightarrow> pthread_mutex_t \<Rightarrow> pthread_mutex_t res" where
  "pthread_mutex_unlock t Mutex_uninit = Inl Mutex_misuse"
| "pthread_mutex_unlock t Mutex_unlocked = Inl Mutex_misuse"
| "pthread_mutex_unlock t (Mutex_locked u) = (if t = u then Inr Mutex_unlocked else Inl Mutex_misuse)"

fun_cases lock_Inr: "pthread_mutex_lock t m = Inr m'"
fun_cases unlock_Inr: "pthread_mutex_unlock t m = Inr m'"

lemma lock_Inr_iff: "pthread_mutex_lock t m = Inr m' \<longleftrightarrow> m = Mutex_unlocked \<and> m' = Mutex_locked t"
  by (auto elim: lock_Inr)

lemma unlock_Inr_iff: "pthread_mutex_unlock t m = Inr m' \<longleftrightarrow> m = Mutex_locked t \<and> m' = Mutex_unlocked"
  by (auto elim!: unlock_Inr split: if_splits)

end
