(* ===== verification/Policy_Mgr.thy ===== *)
theory Policy_Mgr
  imports Pthread_Mutex
begin

text \<open>
  The policy manager, \<^verbatim>\<open>src/policy_mgr.h\<close> and \<^verbatim>\<open>src/policy_mgr.c\<close>: the statistics of
  the two pools (a record per C struct, the array of pools as a list), initialisation, and the two
  operations on the statistics, admission of a request and adjustment after the fact. Counters are
  64-bit words with C's wrap-around; \<^verbatim>\<open>assert(false)\<close> and signed overflow are faults.
\<close>

section \<open>Data (policy\_mgr.h)\<close>

datatype policyMgrPool = POLICY_MGR_EXEC_POOL | POLICY_MGR_STORAGE_POOL | POLICY_MGR_POOL_MAX

fun pool_index :: "policyMgrPool \<Rightarrow> nat" where
  "pool_index POLICY_MGR_EXEC_POOL = 0"
| "pool_index POLICY_MGR_STORAGE_POOL = 1"
| "pool_index POLICY_MGR_POOL_MAX = 2"

definition K1_Ki :: size_t where "K1_Ki = 1024"
definition K1_Mi :: size_t where "K1_Mi = 1024 * K1_Ki"
definition K1_Gi :: size_t where "K1_Gi = 1024 * K1_Mi"

definition POLICY_MGR_EXEC_POOL_QUOTA :: size_t where "POLICY_MGR_EXEC_POOL_QUOTA = 50"

definition PM_EXEC_POOL_MIN_REQ_SIZE :: size_t where "PM_EXEC_POOL_MIN_REQ_SIZE = 1"
definition PM_EXEC_POOL_MAX_REQ_SIZE :: size_t where "PM_EXEC_POOL_MAX_REQ_SIZE = 8 * K1_Mi"
definition PM_STORAGE_POOL_MIN_REQ_SIZE :: size_t where "PM_STORAGE_POOL_MIN_REQ_SIZE = 4 * K1_Ki"
definition PM_STORAGE_POOL_MAX_REQ_SIZE :: size_t where "PM_STORAGE_POOL_MAX_REQ_SIZE = 64 * K1_Mi"

lemmas size_consts =
  K1_Ki_def K1_Mi_def K1_Gi_def POLICY_MGR_EXEC_POOL_QUOTA_def
  PM_EXEC_POOL_MIN_REQ_SIZE_def PM_EXEC_POOL_MAX_REQ_SIZE_def
  PM_STORAGE_POOL_MIN_REQ_SIZE_def PM_STORAGE_POOL_MAX_REQ_SIZE_def

record policyMgrPoolCtx =
  used_memory_policyMgrPoolCtx :: size_t
  min_req_size_policyMgrPoolCtx :: size_t
  max_req_size_policyMgrPoolCtx :: size_t
  total_pool_mem_policyMgrPoolCtx :: size_t

record policyMgrStats =
  total_memory_policyMgrStats :: size_t
  poolStats_policyMgrStats :: "policyMgrPoolCtx list"
  mutex_policyMgrStats :: pthread_mutex_t

text \<open>The file-scope variable \<^verbatim>\<open>pm_stats\<close> before initialisation: zero bytes.\<close>

definition pm_stats_zero :: policyMgrStats where
  "pm_stats_zero =
     \<lparr>total_memory_policyMgrStats = 0,
      poolStats_policyMgrStats = replicate (pool_index POLICY_MGR_POOL_MAX)
        \<lparr>used_memory_policyMgrPoolCtx = 0, min_req_size_policyMgrPoolCtx = 0,
         max_req_size_policyMgrPoolCtx = 0, total_pool_mem_policyMgrPoolCtx = 0\<rparr>,
      mutex_policyMgrStats = Mutex_uninit\<rparr>"

text \<open>Reading and replacing one element of the array of pools.\<close>

definition pool_ctx :: "policyMgrStats \<Rightarrow> policyMgrPool \<Rightarrow> policyMgrPoolCtx" where
  "pool_ctx s p = poolStats_policyMgrStats s ! pool_index p"

definition set_pool_ctx ::
  "policyMgrPool \<Rightarrow> policyMgrPoolCtx \<Rightarrow> policyMgrStats \<Rightarrow> policyMgrStats" where
  "set_pool_ctx p c s =
     s\<lparr>poolStats_policyMgrStats := (poolStats_policyMgrStats s)[pool_index p := c]\<rparr>"

definition set_used :: "policyMgrPool \<Rightarrow> size_t \<Rightarrow> policyMgrStats \<Rightarrow> policyMgrStats" where
  "set_used p n s = set_pool_ctx p ((pool_ctx s p)\<lparr>used_memory_policyMgrPoolCtx := n\<rparr>) s"

section \<open>Initialisation and destruction (policy\_mgr.c)\<close>

definition initPolicyMgr :: "size_t \<Rightarrow> policyMgrStats \<Rightarrow> (bool \<times> policyMgrStats) res" where
  "initPolicyMgr total_memory_bytes s0 =
     (let s = s0\<lparr>total_memory_policyMgrStats := total_memory_bytes\<rparr> in
      rbind (pthread_mutex_init (mutex_policyMgrStats s)) (\<lambda>m.
      let s = s\<lparr>mutex_policyMgrStats := m\<rparr>;
          exec_pool_total_mem = (POLICY_MGR_EXEC_POOL_QUOTA * total_memory_bytes) div 100;
          pool_ctx_e = (pool_ctx s POLICY_MGR_EXEC_POOL)
            \<lparr>total_pool_mem_policyMgrPoolCtx := exec_pool_total_mem,
             min_req_size_policyMgrPoolCtx := PM_EXEC_POOL_MIN_REQ_SIZE,
             max_req_size_policyMgrPoolCtx := PM_EXEC_POOL_MAX_REQ_SIZE,
             used_memory_policyMgrPoolCtx := 0\<rparr>;
          s = set_pool_ctx POLICY_MGR_EXEC_POOL pool_ctx_e s;
          pool_ctx_s = (pool_ctx s POLICY_MGR_STORAGE_POOL)
            \<lparr>total_pool_mem_policyMgrPoolCtx := total_memory_bytes - exec_pool_total_mem,
             min_req_size_policyMgrPoolCtx := PM_STORAGE_POOL_MIN_REQ_SIZE,
             max_req_size_policyMgrPoolCtx := PM_STORAGE_POOL_MAX_REQ_SIZE,
             used_memory_policyMgrPoolCtx := 0\<rparr>;
          s = set_pool_ctx POLICY_MGR_STORAGE_POOL pool_ctx_s s
      in Inr (True, s)))"

definition destroyPolicyMgr :: "policyMgrStats \<Rightarrow> policyMgrStats res" where
  "destroyPolicyMgr s =
     rbind (pthread_mutex_destroy (mutex_policyMgrStats s)) (\<lambda>m. Inr (s\<lparr>mutex_policyMgrStats := m\<rparr>))"

section \<open>Locking\<close>

definition lock_stats :: "tid \<Rightarrow> policyMgrStats \<Rightarrow> policyMgrStats res" where
  "lock_stats t s =
     rbind (pthread_mutex_lock t (mutex_policyMgrStats s)) (\<lambda>m. Inr (s\<lparr>mutex_policyMgrStats := m\<rparr>))"

definition unlock_stats :: "tid \<Rightarrow> policyMgrStats \<Rightarrow> policyMgrStats res" where
  "unlock_stats t s =
     rbind (pthread_mutex_unlock t (mutex_policyMgrStats s)) (\<lambda>m. Inr (s\<lparr>mutex_policyMgrStats := m\<rparr>))"

section \<open>Admission: policyMgrAlloc\<close>

text \<open>
  The critical section reads the statistics into local variables first. The record holds them, so
  that the interleaved model can take the reads and the update as separate steps.
\<close>

record alloc_locals =
  exec_pool_used :: size_t
  storage_pool_total :: size_t
  storage_pool_used :: size_t
  total_system_memory :: size_t
  total_used :: size_t

definition policyMgrAlloc_read :: "policyMgrStats \<Rightarrow> alloc_locals" where
  "policyMgrAlloc_read s =
     (let exec_used = used_memory_policyMgrPoolCtx (pool_ctx s POLICY_MGR_EXEC_POOL);
          storage_used = used_memory_policyMgrPoolCtx (pool_ctx s POLICY_MGR_STORAGE_POOL)
      in \<lparr>exec_pool_used = exec_used,
          storage_pool_total = total_pool_mem_policyMgrPoolCtx (pool_ctx s POLICY_MGR_STORAGE_POOL),
          storage_pool_used = storage_used,
          total_system_memory = total_memory_policyMgrStats s,
          total_used = exec_used + storage_used\<rparr>)"

text \<open>
  The \<^verbatim>\<open>switch\<close>: \<open>Inr True\<close> is \<^verbatim>\<open>break\<close>, \<open>Inr False\<close> is
  \<^verbatim>\<open>goto done\<close>.
\<close>

fun policyMgrAlloc_switch ::
  "policyMgrPool \<Rightarrow> size_t \<Rightarrow> alloc_locals \<Rightarrow> policyMgrStats \<Rightarrow> bool res" where
  "policyMgrAlloc_switch POLICY_MGR_EXEC_POOL num_bytes l s =
     (let exec_pool_ctx = pool_ctx s POLICY_MGR_EXEC_POOL in
      if num_bytes > max_req_size_policyMgrPoolCtx exec_pool_ctx \<or>
         num_bytes < min_req_size_policyMgrPoolCtx exec_pool_ctx \<or>
         num_bytes > total_system_memory l
      then Inr False
      else if total_system_memory l - num_bytes < exec_pool_used l then Inr False
      else Inr True)"
| "policyMgrAlloc_switch POLICY_MGR_STORAGE_POOL num_bytes l s =
     (let storage_pool_ctx = pool_ctx s POLICY_MGR_STORAGE_POOL in
      if num_bytes > max_req_size_policyMgrPoolCtx storage_pool_ctx \<or>
         num_bytes < min_req_size_policyMgrPoolCtx storage_pool_ctx \<or>
         num_bytes > storage_pool_total l
      then Inr False
      else if storage_pool_total l - num_bytes < storage_pool_used l then Inr False
      else Inr True)"
| "policyMgrAlloc_switch POLICY_MGR_POOL_MAX num_bytes l s = Inl Assertion_failed"

definition policyMgrAlloc_decide ::
  "policyMgrPool \<Rightarrow> size_t \<Rightarrow> alloc_locals \<Rightarrow> policyMgrStats \<Rightarrow> (bool \<times> policyMgrStats) res" where
  "policyMgrAlloc_decide alloc_pool_type num_bytes l s =
     rbind (policyMgrAlloc_switch alloc_pool_type num_bytes l s) (\<lambda>go.
       if \<not> go then Inr (False, s)
       else if total_system_memory l - num_bytes < total_used l then Inr (False, s)
       else if alloc_pool_type = POLICY_MGR_EXEC_POOL
         then Inr (True, set_used POLICY_MGR_EXEC_POOL (exec_pool_used l + num_bytes) s)
         else Inr (True, set_used POLICY_MGR_STORAGE_POOL (storage_pool_used l + num_bytes) s))"

definition policyMgrAlloc ::
  "tid \<Rightarrow> policyMgrPool \<Rightarrow> size_t \<Rightarrow> policyMgrStats \<Rightarrow> (bool \<times> policyMgrStats) res" where
  "policyMgrAlloc t alloc_pool_type num_bytes s =
     rbind (lock_stats t s) (\<lambda>s.
     rbind (policyMgrAlloc_decide alloc_pool_type num_bytes (policyMgrAlloc_read s) s) (\<lambda>(ret, s).
     rbind (unlock_stats t s) (\<lambda>s. Inr (ret, s))))"

section \<open>Adjustment: policyMgrAdjustAlloc\<close>

definition policyMgrAdjustAlloc_read :: "policyMgrPool \<Rightarrow> policyMgrStats \<Rightarrow> size_t res" where
  "policyMgrAdjustAlloc_read pool s =
     (if pool_index pool < length (poolStats_policyMgrStats s)
      then Inr (used_memory_policyMgrPoolCtx (pool_ctx s pool)) else Inl Out_of_bounds)"

definition policyMgrAdjustAlloc_write ::
  "policyMgrPool \<Rightarrow> slong \<Rightarrow> size_t \<Rightarrow> policyMgrStats \<Rightarrow> policyMgrStats res" where
  "policyMgrAdjustAlloc_write pool bytes_diff used s =
     rbind (slong_add used bytes_diff) (\<lambda>n. Inr (set_used pool n s))"

definition policyMgrAdjustAlloc ::
  "tid \<Rightarrow> policyMgrPool \<Rightarrow> slong \<Rightarrow> policyMgrStats \<Rightarrow> policyMgrStats res" where
  "policyMgrAdjustAlloc t pool bytes_diff s =
     rbind (lock_stats t s) (\<lambda>s.
     rbind (policyMgrAdjustAlloc_read pool s) (\<lambda>used.
     rbind (policyMgrAdjustAlloc_write pool bytes_diff used s) (\<lambda>s.
     unlock_stats t s)))"

section \<open>Well-formed statistics\<close>

abbreviation used :: "policyMgrStats \<Rightarrow> policyMgrPool \<Rightarrow> size_t" where
  "used s p \<equiv> used_memory_policyMgrPoolCtx (pool_ctx s p)"

abbreviation pool_total :: "policyMgrStats \<Rightarrow> policyMgrPool \<Rightarrow> size_t" where
  "pool_total s p \<equiv> total_pool_mem_policyMgrPoolCtx (pool_ctx s p)"

text \<open>
  What initialisation establishes and no operation changes: the shape of the array, the request
  limits of each pool, and a storage quota that fits the system memory.
\<close>

definition pm_config :: "policyMgrStats \<Rightarrow> bool" where
  "pm_config s \<longleftrightarrow>
     length (poolStats_policyMgrStats s) = 2 \<and>
     min_req_size_policyMgrPoolCtx (pool_ctx s POLICY_MGR_EXEC_POOL) = PM_EXEC_POOL_MIN_REQ_SIZE \<and>
     max_req_size_policyMgrPoolCtx (pool_ctx s POLICY_MGR_EXEC_POOL) = PM_EXEC_POOL_MAX_REQ_SIZE \<and>
     min_req_size_policyMgrPoolCtx (pool_ctx s POLICY_MGR_STORAGE_POOL) = PM_STORAGE_POOL_MIN_REQ_SIZE \<and>
     max_req_size_policyMgrPoolCtx (pool_ctx s POLICY_MGR_STORAGE_POOL) = PM_STORAGE_POOL_MAX_REQ_SIZE \<and>
     pool_total s POLICY_MGR_EXEC_POOL + pool_total s POLICY_MGR_STORAGE_POOL = total_memory_policyMgrStats s \<and>
     pool_total s POLICY_MGR_STORAGE_POOL \<le> total_memory_policyMgrStats s"

definition pm_load :: "policyMgrStats \<Rightarrow> nat" where
  "pm_load s = unat (used s POLICY_MGR_EXEC_POOL) + unat (used s POLICY_MGR_STORAGE_POOL)"

text \<open>The state every call expects: configured, unlocked, and counters far from wrapping.\<close>

definition pm_ready :: "policyMgrStats \<Rightarrow> bool" where
  "pm_ready s \<longleftrightarrow> pm_config s \<and> mutex_policyMgrStats s = Mutex_unlocked \<and> pm_load s < 2 ^ 63"

lemma pm_config_length [simp]: "pm_config s \<Longrightarrow> length (poolStats_policyMgrStats s) = 2"
  by (simp add: pm_config_def)

lemma pool_index_lt2: "pool_index p < 2 \<longleftrightarrow> p \<noteq> POLICY_MGR_POOL_MAX"
  by (cases p) auto

lemma pool_index_inj [simp]: "pool_index p = pool_index q \<longleftrightarrow> p = q"
  by (cases p; cases q) auto

text \<open>
  The enumeration is ordered as C orders it, by its values; the pools are what lies below
  \<^verbatim>\<open>POLICY_MGR_POOL_MAX\<close>, and what is in use is a sum over them.
\<close>

instantiation policyMgrPool :: linorder
begin

definition less_eq_policyMgrPool :: "policyMgrPool \<Rightarrow> policyMgrPool \<Rightarrow> bool" where
  "less_eq_policyMgrPool p q \<longleftrightarrow> pool_index p \<le> pool_index q"

definition less_policyMgrPool :: "policyMgrPool \<Rightarrow> policyMgrPool \<Rightarrow> bool" where
  "less_policyMgrPool p q \<longleftrightarrow> pool_index p < pool_index q"

instance
  by standard (auto simp: less_eq_policyMgrPool_def less_policyMgrPool_def)

end

lemma below_pool_max: "p < POLICY_MGR_POOL_MAX \<longleftrightarrow> p \<noteq> POLICY_MGR_POOL_MAX"
  by (simp add: less_policyMgrPool_def pool_index_lt2)

lemma all_pools: "{..<POLICY_MGR_POOL_MAX} = {POLICY_MGR_EXEC_POOL, POLICY_MGR_STORAGE_POOL}"
  unfolding set_eq_iff lessThan_iff below_pool_max
proof
  show "p \<noteq> POLICY_MGR_POOL_MAX \<longleftrightarrow> p \<in> {POLICY_MGR_EXEC_POOL, POLICY_MGR_STORAGE_POOL}" for p
    by (cases p) simp_all
qed

lemma pm_load_sum: "pm_load s = (\<Sum>p<POLICY_MGR_POOL_MAX. unat (used s p))"
  by (simp add: all_pools pm_load_def)

lemma used_le_pm_load: "p \<noteq> POLICY_MGR_POOL_MAX \<Longrightarrow> unat (used s p) \<le> pm_load s"
  unfolding pm_load_sum
  by (rule member_le_sum) (simp_all add: below_pool_max, simp add: all_pools)

subsection \<open>Frame rules of the counter update and of the lock\<close>

lemma pool_ctx_set_used:
  "length (poolStats_policyMgrStats s) = 2 \<Longrightarrow> p \<noteq> POLICY_MGR_POOL_MAX \<Longrightarrow>
   pool_ctx (set_used p n s) q =
     (if q = p then (pool_ctx s p)\<lparr>used_memory_policyMgrPoolCtx := n\<rparr> else pool_ctx s q)"
  by (simp add: pool_ctx_def set_used_def set_pool_ctx_def pool_index_lt2 nth_list_update)

lemma set_used_frame [simp]:
  "total_memory_policyMgrStats (set_used p n s) = total_memory_policyMgrStats s"
  "mutex_policyMgrStats (set_used p n s) = mutex_policyMgrStats s"
  "length (poolStats_policyMgrStats (set_used p n s)) = length (poolStats_policyMgrStats s)"
  by (simp_all add: set_used_def set_pool_ctx_def)

lemma set_used_mutex_commute:
  "set_used p n (s\<lparr>mutex_policyMgrStats := m\<rparr>) = (set_used p n s)\<lparr>mutex_policyMgrStats := m\<rparr>"
  by (simp add: set_used_def set_pool_ctx_def pool_ctx_def)

lemma pool_ctx_mutex [simp]: "pool_ctx (s\<lparr>mutex_policyMgrStats := m\<rparr>) p = pool_ctx s p"
  by (simp add: pool_ctx_def)

lemma pm_config_set_used [simp]:
  "pm_config s \<Longrightarrow> p \<noteq> POLICY_MGR_POOL_MAX \<Longrightarrow> pm_config (set_used p n s)"
  by (simp add: pm_config_def pool_ctx_set_used)

lemma pool_total_set_used [simp]:
  "pm_config s \<Longrightarrow> p \<noteq> POLICY_MGR_POOL_MAX \<Longrightarrow> pool_total (set_used p n s) q = pool_total s q"
  by (simp add: pool_ctx_set_used)

lemma pm_config_mutex [simp]: "pm_config (s\<lparr>mutex_policyMgrStats := m\<rparr>) = pm_config s"
  by (simp add: pm_config_def)

lemma pm_load_mutex [simp]: "pm_load (s\<lparr>mutex_policyMgrStats := m\<rparr>) = pm_load s"
  by (simp add: pm_load_def)

lemma set_used_same: "length (poolStats_policyMgrStats s) = 2 \<Longrightarrow> p \<noteq> POLICY_MGR_POOL_MAX \<Longrightarrow>
   set_used p (used s p) s = s"
  by (simp add: set_used_def set_pool_ctx_def pool_ctx_def)

lemma set_used_set_used:
  "length (poolStats_policyMgrStats s) = 2 \<Longrightarrow> p \<noteq> POLICY_MGR_POOL_MAX \<Longrightarrow>
   set_used p m (set_used p n s) = set_used p m s"
  by (simp add: set_used_def set_pool_ctx_def pool_ctx_def pool_index_lt2)

lemma lock_stats_eq:
  "mutex_policyMgrStats s = Mutex_unlocked \<Longrightarrow>
   lock_stats t s = Inr (s\<lparr>mutex_policyMgrStats := Mutex_locked t\<rparr>)"
  by (simp add: lock_stats_def)

lemma unlock_stats_eq:
  "mutex_policyMgrStats s = Mutex_locked t \<Longrightarrow>
   unlock_stats t s = Inr (s\<lparr>mutex_policyMgrStats := Mutex_unlocked\<rparr>)"
  by (simp add: unlock_stats_def)

text \<open>Around an unlocked mutex the lock and unlock cancel: a call is its critical section.\<close>

lemma mutex_restore: "mutex_policyMgrStats s = m \<Longrightarrow> s\<lparr>mutex_policyMgrStats := m\<rparr> = s"
  by auto

lemma policyMgrAlloc_read_mutex [simp]:
  "policyMgrAlloc_read (s\<lparr>mutex_policyMgrStats := m\<rparr>) = policyMgrAlloc_read s"
  by (simp add: policyMgrAlloc_read_def)

lemma policyMgrAlloc_switch_mutex [simp]:
  "policyMgrAlloc_switch p n l (s\<lparr>mutex_policyMgrStats := m\<rparr>) = policyMgrAlloc_switch p n l s"
  by (cases p) simp_all

lemma policyMgrAlloc_critical:
  assumes "mutex_policyMgrStats s = Mutex_unlocked"
  shows "policyMgrAlloc t p n s = policyMgrAlloc_decide p n (policyMgrAlloc_read s) s"
  using assms mutex_restore [OF assms]
  by (cases "policyMgrAlloc_switch p n (policyMgrAlloc_read s) s")
     (auto simp: policyMgrAlloc_def policyMgrAlloc_decide_def lock_stats_eq unlock_stats_eq
        set_used_mutex_commute mutex_restore)

lemma policyMgrAdjustAlloc_critical:
  assumes "mutex_policyMgrStats s = Mutex_unlocked"
  shows "policyMgrAdjustAlloc t p d s =
     rbind (policyMgrAdjustAlloc_read p s) (\<lambda>u. policyMgrAdjustAlloc_write p d u s)"
  using assms
  by (auto simp: policyMgrAdjustAlloc_def policyMgrAdjustAlloc_read_def policyMgrAdjustAlloc_write_def
        lock_stats_eq unlock_stats_eq set_used_mutex_commute mutex_restore slong_add_def)

end
