(* ===== verification/Accounting.thy ===== *)
theory Accounting
  imports Prelude
begin

text \<open>
  The interface between the policy manager and the allocator on top of it: reserve bytes for a pool
  (granted or not) and adjust a pool's counter, with the laws the allocator relies on. The
  allocator's own patterns (reserve, then charge the real size; reserve, then roll back) are proved
  once here; the policy manager's model is an instance (theory Policy\_Spec).
\<close>

locale pool_accounting =
  fixes reserve :: "'p \<Rightarrow> size_t \<Rightarrow> 's \<Rightarrow> (bool \<times> 's) res"
    and adjust :: "'p \<Rightarrow> slong \<Rightarrow> 's \<Rightarrow> 's res"
    and usage :: "'s \<Rightarrow> 'p \<Rightarrow> nat"
    and total_load :: "'s \<Rightarrow> nat"
    and limit :: "'s \<Rightarrow> nat"
    and config :: "'s \<Rightarrow> 'c"
    and valid :: "'p \<Rightarrow> bool"
    and ready :: "'s \<Rightarrow> bool"
  assumes reserve_returns:
      "ready s \<Longrightarrow> valid p \<Longrightarrow> \<exists>r s'. reserve p n s = Inr (r, s')"
    and reserve_denied: "ready s \<Longrightarrow> reserve p n s = Inr (False, s') \<Longrightarrow> s' = s"
    and reserve_granted:
      "ready s \<Longrightarrow> reserve p n s = Inr (True, s') \<Longrightarrow>
       ready s' \<and> valid p \<and> usage s' = (usage s)(p := usage s p + unat n) \<and>
       limit s' = limit s \<and> config s' = config s \<and> total_load s' = total_load s + unat n \<and> total_load s' \<le> limit s"
    and adjust_grow:
      "ready s \<Longrightarrow> valid p \<Longrightarrow> total_load s + unat d < 2 ^ 63 \<Longrightarrow>
       \<exists>s'. adjust p d s = Inr s' \<and> ready s' \<and> usage s' = (usage s)(p := usage s p + unat d) \<and>
         limit s' = limit s \<and> config s' = config s \<and> total_load s' = total_load s + unat d"
    and adjust_shrink:
      "ready s \<Longrightarrow> valid p \<Longrightarrow> unat d \<le> usage s p \<Longrightarrow>
       \<exists>s'. adjust p (- d) s = Inr s' \<and> ready s' \<and> usage s' = (usage s)(p := usage s p - unat d) \<and>
         limit s' = limit s \<and> config s' = config s \<and> total_load s' = total_load s - unat d"
    and usage_le_load: "ready s \<Longrightarrow> valid p \<Longrightarrow> usage s p \<le> total_load s"
begin

text \<open>A granted reservation, topped up to the real size, charges the real size.\<close>

lemma charge:
  assumes "ready s" and "reserve p n s = Inr (True, s1)" and "n \<le> m"
    and "limit s + (unat m - unat n) < 2 ^ 63"
  shows "\<exists>s2. (if n < m then adjust p (m - n) s1 else Inr s1) = Inr s2 \<and> ready s2 \<and>
    usage s2 = (usage s)(p := usage s p + unat m) \<and> limit s2 = limit s \<and> config s2 = config s \<and>
    total_load s2 = total_load s + unat m \<and> total_load s2 \<le> limit s + (unat m - unat n)"
proof -
  note g = reserve_granted [OF assms(1,2)]
  have nm: "unat n \<le> unat m" "unat (m - n) = unat m - unat n"
    using assms(3) by (simp_all add: nat_simps)
  show ?thesis
  proof (cases "n < m")
    case True
    have "total_load s1 + unat (m - n) < 2 ^ 63" using g nm assms(4) by linarith
    then obtain s2 where "adjust p (m - n) s1 = Inr s2" "ready s2"
        "usage s2 = (usage s1)(p := usage s1 p + unat (m - n))" "limit s2 = limit s1" "config s2 = config s1"
        "total_load s2 = total_load s1 + unat (m - n)"
      using adjust_grow g by blast
    with True g nm show ?thesis by auto
  next
    case False
    with assms(3) have "n = m" by simp
    with g show ?thesis by auto
  qed
qed

text \<open>A granted reservation taken back leaves every counter as it was.\<close>

lemma rollback:
  assumes "ready s" and "reserve p n s = Inr (True, s1)"
  shows "\<exists>s2. adjust p (- n) s1 = Inr s2 \<and> ready s2 \<and> usage s2 = usage s \<and>
    limit s2 = limit s \<and> config s2 = config s \<and> total_load s2 = total_load s"
proof -
  note g = reserve_granted [OF assms]
  then have "unat n \<le> usage s1 p" by simp
  then obtain s2 where "adjust p (- n) s1 = Inr s2" "ready s2"
      "usage s2 = (usage s1)(p := usage s1 p - unat n)" "limit s2 = limit s1" "config s2 = config s1"
      "total_load s2 = total_load s1 - unat n"
    using adjust_shrink g by blast
  with g show ?thesis by auto
qed

end

end
