(* ===== verification/Policy_Spec.thy ===== *)
theory Policy_Spec
  imports Policy_Mgr Accounting
begin

text \<open>
  What the policy manager promises, on natural numbers: a capacity, a quota for the storage pool
  and a load per pool, with an admission rule. The word-level code of \<^verbatim>\<open>policy_mgr.c\<close>
  refines it: initialisation, admission and adjustment each commute with the abstraction.
\<close>

section \<open>The abstract policy\<close>

record policy =
  capacity :: nat
  quota :: nat
  load :: "policyMgrPool \<Rightarrow> nat"

fun admits :: "policyMgrPool \<Rightarrow> nat \<Rightarrow> policy \<Rightarrow> bool" where
  "admits POLICY_MGR_EXEC_POOL n a \<longleftrightarrow>
     1 \<le> n \<and> n \<le> 8 * 1024 * 1024 \<and>
     load a POLICY_MGR_EXEC_POOL + load a POLICY_MGR_STORAGE_POOL + n \<le> capacity a"
| "admits POLICY_MGR_STORAGE_POOL n a \<longleftrightarrow>
     4 * 1024 \<le> n \<and> n \<le> 64 * 1024 * 1024 \<and>
     load a POLICY_MGR_STORAGE_POOL + n \<le> quota a \<and>
     load a POLICY_MGR_EXEC_POOL + load a POLICY_MGR_STORAGE_POOL + n \<le> capacity a"
| "admits POLICY_MGR_POOL_MAX n a \<longleftrightarrow> False"

definition add_load :: "policyMgrPool \<Rightarrow> int \<Rightarrow> policy \<Rightarrow> policy" where
  "add_load p d a = a\<lparr>load := (load a)(p := nat (int (load a p) + d))\<rparr>"

definition spec_alloc :: "policyMgrPool \<Rightarrow> nat \<Rightarrow> policy \<Rightarrow> bool \<times> policy" where
  "spec_alloc p n a = (if admits p n a then (True, add_load p (int n) a) else (False, a))"

definition spec_init :: "nat \<Rightarrow> policy" where
  "spec_init bytes = \<lparr>capacity = bytes, quota = bytes - bytes div 2, load = (\<lambda>_. 0)\<rparr>"

text \<open>The policy's own invariant: what the pools hold fits, and storage keeps to its quota.\<close>

definition within_limits :: "policy \<Rightarrow> bool" where
  "within_limits a \<longleftrightarrow>
     load a POLICY_MGR_EXEC_POOL + load a POLICY_MGR_STORAGE_POOL \<le> capacity a \<and>
     load a POLICY_MGR_STORAGE_POOL \<le> quota a"

lemma spec_alloc_within_limits:
  "within_limits a \<Longrightarrow> within_limits (snd (spec_alloc p n a))"
  by (cases p) (auto simp: within_limits_def spec_alloc_def add_load_def nat_add_distrib)

section \<open>Abstraction\<close>

definition abs_policy :: "policyMgrStats \<Rightarrow> policy" where
  "abs_policy s =
     \<lparr>capacity = unat (total_memory_policyMgrStats s),
      quota = unat (pool_total s POLICY_MGR_STORAGE_POOL),
      load = (\<lambda>p. if p = POLICY_MGR_POOL_MAX then 0 else unat (used s p))\<rparr>"

lemma abs_policy_simps [simp]:
  "capacity (abs_policy s) = unat (total_memory_policyMgrStats s)"
  "quota (abs_policy s) = unat (pool_total s POLICY_MGR_STORAGE_POOL)"
  "p \<noteq> POLICY_MGR_POOL_MAX \<Longrightarrow> load (abs_policy s) p = unat (used s p)"
  by (simp_all add: abs_policy_def)

lemma abs_policy_mutex [simp]: "abs_policy (s\<lparr>mutex_policyMgrStats := m\<rparr>) = abs_policy s"
  by (auto simp: abs_policy_def)

lemma abs_policy_set_used:
  "pm_config s \<Longrightarrow> p \<noteq> POLICY_MGR_POOL_MAX \<Longrightarrow>
   abs_policy (set_used p n s) = (abs_policy s)\<lparr>load := (load (abs_policy s))(p := unat n)\<rparr>"
  by (auto simp: abs_policy_def pool_ctx_set_used)

text \<open>What is admitted fits into the memory.\<close>

lemma admits_fits: "admits p n (abs_policy s) \<Longrightarrow> pm_load s + n \<le> unat (total_memory_policyMgrStats s)"
  by (cases p) (auto simp: pm_load_def)

text \<open>The size limits, read as natural numbers.\<close>

lemma size_limits [nat_simps]:
  "unat PM_EXEC_POOL_MIN_REQ_SIZE = 1"
  "unat PM_EXEC_POOL_MAX_REQ_SIZE = 8 * 1024 * 1024"
  "unat PM_STORAGE_POOL_MIN_REQ_SIZE = 4 * 1024"
  "unat PM_STORAGE_POOL_MAX_REQ_SIZE = 64 * 1024 * 1024"
  by (simp_all add: size_consts)

section \<open>Admission refines the abstract rule\<close>

text \<open>
  A guard of the form \<^verbatim>\<open>n > t || t - n < u\<close> says, without wrapping, that
  \<^verbatim>\<open>u + n\<close> does not fit into \<^verbatim>\<open>t\<close>.
\<close>

lemma fits_iff:
  "unat n \<le> unat t \<Longrightarrow> t - n < u \<longleftrightarrow> \<not> unat u + unat n \<le> unat t" for n t u :: size_t
  by (auto simp: nat_simps)

lemma load_sum:
  "pm_load s < 2 ^ 63 \<Longrightarrow>
   unat (used s POLICY_MGR_EXEC_POOL + used s POLICY_MGR_STORAGE_POOL) = pm_load s"
  by (simp add: pm_load_def nat_simps)

lemma switch_exec:
  assumes "pm_config s"
  shows "policyMgrAlloc_switch POLICY_MGR_EXEC_POOL n (policyMgrAlloc_read s) s =
    Inr (1 \<le> unat n \<and> unat n \<le> 8 * 1024 * 1024 \<and>
         unat (used s POLICY_MGR_EXEC_POOL) + unat n \<le> unat (total_memory_policyMgrStats s))"
  using assms fits_iff [of n "total_memory_policyMgrStats s" "used s POLICY_MGR_EXEC_POOL"]
  by (auto simp: policyMgrAlloc_read_def Let_def pm_config_def nat_simps not_less)

lemma switch_storage:
  assumes "pm_config s"
  shows "policyMgrAlloc_switch POLICY_MGR_STORAGE_POOL n (policyMgrAlloc_read s) s =
    Inr (4 * 1024 \<le> unat n \<and> unat n \<le> 64 * 1024 * 1024 \<and>
         unat (used s POLICY_MGR_STORAGE_POOL) + unat n \<le> unat (pool_total s POLICY_MGR_STORAGE_POOL))"
  using assms fits_iff [of n "pool_total s POLICY_MGR_STORAGE_POOL" "used s POLICY_MGR_STORAGE_POOL"]
  by (auto simp: policyMgrAlloc_read_def Let_def pm_config_def nat_simps not_less)

lemmas switch_pool_max = policyMgrAlloc_switch.simps(3)

declare policyMgrAlloc_switch.simps [simp del]

lemma system_check:
  assumes "pm_load s < 2 ^ 63" and "unat n \<le> unat (total_memory_policyMgrStats s)"
  shows "total_system_memory (policyMgrAlloc_read s) - n < total_used (policyMgrAlloc_read s)
    \<longleftrightarrow> \<not> pm_load s + unat n \<le> unat (total_memory_policyMgrStats s)"
  using fits_iff [OF assms(2)] load_sum [OF assms(1)]
  by (simp add: policyMgrAlloc_read_def Let_def)

lemma read_used [simp]:
  "exec_pool_used (policyMgrAlloc_read s) = used s POLICY_MGR_EXEC_POOL"
  "storage_pool_used (policyMgrAlloc_read s) = used s POLICY_MGR_STORAGE_POOL"
  by (simp_all add: policyMgrAlloc_read_def Let_def)

lemma decide_admits:
  assumes "pm_config s" and "pm_load s < 2 ^ 63" and "p \<noteq> POLICY_MGR_POOL_MAX"
  shows "policyMgrAlloc_decide p n (policyMgrAlloc_read s) s =
    (if admits p (unat n) (abs_policy s) then Inr (True, set_used p (used s p + n) s)
     else Inr (False, s))"
proof (cases p)
  case POLICY_MGR_EXEC_POOL
  then show ?thesis
    using assms system_check [OF assms(2), of n]
    by (auto simp: policyMgrAlloc_decide_def switch_exec pm_load_def)
next
  case POLICY_MGR_STORAGE_POOL
  have "unat (pool_total s POLICY_MGR_STORAGE_POOL) \<le> unat (total_memory_policyMgrStats s)"
    using assms(1) by (simp add: pm_config_def word_le_nat_alt)
  with POLICY_MGR_STORAGE_POOL show ?thesis
    using assms system_check [OF assms(2), of n]
    by (auto simp: policyMgrAlloc_decide_def switch_storage pm_load_def)
qed (use assms(3) in simp)

section \<open>Initialisation\<close>

lemma unat_half_quota:
  "unat ((POLICY_MGR_EXEC_POOL_QUOTA * b) div 100) = (50 * unat b mod 2 ^ 64) div 100"
  by (simp add: size_consts unat_div unat_word_ariths)

lemma half_quota_le: "(POLICY_MGR_EXEC_POOL_QUOTA * b) div 100 \<le> b"
proof -
  have "(50 * unat b mod 2 ^ 64) div 100 \<le> (50 * unat b) div 100"
    by (intro div_le_mono) (rule mod_less_eq_dividend)
  also have "\<dots> \<le> unat b" by simp
  finally show ?thesis by (simp only: word_le_nat_alt unat_half_quota)
qed

lemma initPolicyMgr_config:
  assumes "mutex_policyMgrStats s = Mutex_uninit" and "length (poolStats_policyMgrStats s) = 2"
  obtains s' where "initPolicyMgr b s = Inr (True, s')" and "pm_ready s'"
    and "total_memory_policyMgrStats s' = b"
    and "used s' POLICY_MGR_EXEC_POOL = 0" and "used s' POLICY_MGR_STORAGE_POOL = 0"
    and "pool_total s' POLICY_MGR_EXEC_POOL = (POLICY_MGR_EXEC_POOL_QUOTA * b) div 100"
    and "pool_total s' POLICY_MGR_STORAGE_POOL = b - (POLICY_MGR_EXEC_POOL_QUOTA * b) div 100"
proof -
  from assms(2) obtain c0 c1 where arr: "poolStats_policyMgrStats s = [c0, c1]"
    by (auto simp: numeral_2_eq_2 length_Suc_conv)
  have le: "b - (POLICY_MGR_EXEC_POOL_QUOTA * b) div 100 \<le> b"
    using half_quota_le by (rule word_sub_le)
  show thesis
    by (rule that, simp add: initPolicyMgr_def Let_def assms(1))
       (simp_all add: arr le pm_ready_def pm_config_def pm_load_def pool_ctx_def set_pool_ctx_def)
qed

lemma initPolicyMgr_spec:
  assumes "mutex_policyMgrStats s = Mutex_uninit" and "length (poolStats_policyMgrStats s) = 2"
    and "50 * unat b < 2 ^ 64"
  obtains s' where "initPolicyMgr b s = Inr (True, s')" and "pm_ready s'"
    and "abs_policy s' = spec_init (unat b)" and "unat (pool_total s' POLICY_MGR_EXEC_POOL) = unat b div 2"
proof -
  from assms(1,2) obtain s' where s': "initPolicyMgr b s = Inr (True, s')" "pm_ready s'"
      "total_memory_policyMgrStats s' = b"
      "used s' POLICY_MGR_EXEC_POOL = 0" "used s' POLICY_MGR_STORAGE_POOL = 0"
      "pool_total s' POLICY_MGR_EXEC_POOL = (POLICY_MGR_EXEC_POOL_QUOTA * b) div 100"
      "pool_total s' POLICY_MGR_STORAGE_POOL = b - (POLICY_MGR_EXEC_POOL_QUOTA * b) div 100"
    by (rule initPolicyMgr_config)
  have half: "unat ((POLICY_MGR_EXEC_POOL_QUOTA * b) div 100) = unat b div 2"
    using assms(3) by (simp add: unat_half_quota)
  have zero: "unat (used s' p) = 0" if "p \<noteq> POLICY_MGR_POOL_MAX" for p
    using s'(4,5) that by (cases p) auto
  have "unat (b - (POLICY_MGR_EXEC_POOL_QUOTA * b) div 100) = unat b - unat b div 2"
    by (simp add: unat_diff_le half)
  then have "abs_policy s' = spec_init (unat b)"
    using s' zero by (auto simp: abs_policy_def spec_init_def)
  with s' half show thesis by (auto intro: that)
qed

text \<open>
  A configured state of 128 MiB, as the functional tests use, with given loads: the concrete input
  of the witnesses below.
\<close>

definition stats_128Mi :: "size_t \<Rightarrow> size_t \<Rightarrow> policyMgrStats" where
  "stats_128Mi e s =
     \<lparr>total_memory_policyMgrStats = 134217728,
      poolStats_policyMgrStats =
        [\<lparr>used_memory_policyMgrPoolCtx = e, min_req_size_policyMgrPoolCtx = 1,
          max_req_size_policyMgrPoolCtx = 8388608, total_pool_mem_policyMgrPoolCtx = 67108864\<rparr>,
         \<lparr>used_memory_policyMgrPoolCtx = s, min_req_size_policyMgrPoolCtx = 4096,
          max_req_size_policyMgrPoolCtx = 67108864, total_pool_mem_policyMgrPoolCtx = 67108864\<rparr>],
      mutex_policyMgrStats = Mutex_unlocked\<rparr>"

lemma stats_128Mi_simps [simp]:
  "total_memory_policyMgrStats (stats_128Mi e s) = 134217728"
  "used (stats_128Mi e s) POLICY_MGR_EXEC_POOL = e"
  "used (stats_128Mi e s) POLICY_MGR_STORAGE_POOL = s"
  "pool_total (stats_128Mi e s) POLICY_MGR_STORAGE_POOL = 67108864"
  "mutex_policyMgrStats (stats_128Mi e s) = Mutex_unlocked"
  by (simp_all add: stats_128Mi_def pool_ctx_def)

lemma stats_128Mi_config [simp]: "pm_config (stats_128Mi e s)"
  by (simp add: pm_config_def stats_128Mi_def pool_ctx_def size_consts)

lemma stats_128Mi_ready:
  "unat e + unat s < 2 ^ 63 \<Longrightarrow> pm_ready (stats_128Mi e s)"
  by (simp add: pm_ready_def pm_load_def)

section \<open>Properties of initialisation\<close>

text \<open>
  C14: \<^verbatim>\<open>initPolicyMgr\<close> on an uninitialised \<^verbatim>\<open>pm_stats\<close> succeeds for every
  memory size whose 50-fold fits into \<^verbatim>\<open>size_t\<close>, leaves the mutex initialised and free, sets
  the request limits, empties both pools and splits the memory in two halves (the storage pool gets
  the odd byte): the state it builds refines the abstract initial policy.
\<close>
theorem initPolicyMgr_refines:
  assumes "mutex_policyMgrStats s = Mutex_uninit" and "length (poolStats_policyMgrStats s) = 2"
    and "50 * unat b < 2 ^ 64"
  shows "\<exists>s'. initPolicyMgr b s = Inr (True, s') \<and> pm_ready s' \<and> abs_policy s' = spec_init (unat b)
    \<and> unat (pool_total s' POLICY_MGR_EXEC_POOL) = unat b div 2"
  using initPolicyMgr_spec [OF assms] by blast

theorem initPolicyMgr_refines_witness:
  "\<exists>s'. initPolicyMgr 1001 pm_stats_zero = Inr (True, s') \<and> pm_ready s' \<and> abs_policy s' = spec_init 1001
    \<and> unat (pool_total s' POLICY_MGR_EXEC_POOL) = 500"
  using initPolicyMgr_refines [of pm_stats_zero 1001] by (simp add: pm_stats_zero_def)

text \<open>
  C22: the product \<^verbatim>\<open>50 * total_memory_bytes\<close> is computed in \<^verbatim>\<open>size_t\<close> and wraps for
  huge sizes: from 50 * total >= 2^64 on, the execution pool gets a hundredth of the wrapped product,
  which is below 2^64 / 100 bytes and less than half of the memory, and the storage pool gets all the
  rest, more than half of it, instead of the 50-50 split.
\<close>
theorem initPolicyMgr_split_wraps:
  assumes "mutex_policyMgrStats s = Mutex_uninit" and "length (poolStats_policyMgrStats s) = 2"
    and "2 ^ 64 \<le> 50 * unat b" and "initPolicyMgr b s = Inr (r, s')"
  shows "unat (pool_total s' POLICY_MGR_EXEC_POOL) = (50 * unat b mod 2 ^ 64) div 100 \<and>
    100 * unat (pool_total s' POLICY_MGR_EXEC_POOL) < 2 ^ 64 \<and>
    unat (pool_total s' POLICY_MGR_EXEC_POOL) < unat b div 2 \<and>
    unat (pool_total s' POLICY_MGR_STORAGE_POOL) = unat b - unat (pool_total s' POLICY_MGR_EXEC_POOL) \<and>
    unat b - unat b div 2 < unat (pool_total s' POLICY_MGR_STORAGE_POOL)"
proof -
  from assms(1,2) obtain s'' where "initPolicyMgr b s = Inr (True, s'')" and
      "pool_total s'' POLICY_MGR_EXEC_POOL = (POLICY_MGR_EXEC_POOL_QUOTA * b) div 100"
      "pool_total s'' POLICY_MGR_STORAGE_POOL = b - (POLICY_MGR_EXEC_POOL_QUOTA * b) div 100"
    by (rule initPolicyMgr_config)
  with assms(4) have tot:
      "pool_total s' POLICY_MGR_EXEC_POOL = (POLICY_MGR_EXEC_POOL_QUOTA * b) div 100"
      "pool_total s' POLICY_MGR_STORAGE_POOL = b - (POLICY_MGR_EXEC_POOL_QUOTA * b) div 100"
    by simp_all
  have "50 * unat b mod 2 ^ 64 \<le> 50 * unat b - 2 ^ 64"
    using assms(3) by (metis le_mod_geq mod_less_eq_dividend)
  then have "(50 * unat b mod 2 ^ 64) div 100 \<le> (50 * unat b - 2 ^ 64) div 100"
    by (rule div_le_mono)
  also have "\<dots> < unat b div 2"
    using assms(3) by simp
  finally have "(50 * unat b mod 2 ^ 64) div 100 < unat b div 2" .
  then have less: "unat (pool_total s' POLICY_MGR_EXEC_POOL) < unat b div 2"
    by (simp only: tot unat_half_quota)
  moreover have rest: "unat (pool_total s' POLICY_MGR_STORAGE_POOL)
      = unat b - unat (pool_total s' POLICY_MGR_EXEC_POOL)"
    using less unfolding tot by (intro unat_diff_le) linarith
  moreover have share: "unat (pool_total s' POLICY_MGR_EXEC_POOL) = (50 * unat b mod 2 ^ 64) div 100"
    by (simp only: tot unat_half_quota)
  moreover have "100 * ((50 * unat b mod 2 ^ 64) div 100) < 2 ^ 64"
    by (rule le_less_trans [OF times_div_less_eq_dividend mod_less_divisor]) simp
  ultimately show ?thesis by (intro conjI) (simp only: share, linarith+)
qed

theorem initPolicyMgr_split_wraps_witness:
  "\<exists>s'. initPolicyMgr 1000000000000000000 pm_stats_zero = Inr (True, s') \<and>
     unat (pool_total s' POLICY_MGR_EXEC_POOL) < 500000000000000000"
proof -
  have zero: "mutex_policyMgrStats pm_stats_zero = Mutex_uninit"
      "length (poolStats_policyMgrStats pm_stats_zero) = 2"
    by (simp_all add: pm_stats_zero_def)
  then obtain s' where s': "initPolicyMgr 1000000000000000000 pm_stats_zero = Inr (True, s')"
    by (rule initPolicyMgr_config)
  with initPolicyMgr_split_wraps [OF zero _ s'] show ?thesis by simp
qed

section \<open>Properties of admission\<close>

lemma admitted_load:
  assumes "pm_config s" and "p \<noteq> POLICY_MGR_POOL_MAX" and "admits p (unat n) (abs_policy s)"
  shows "abs_policy (set_used p (used s p + n) s) = add_load p (int (unat n)) (abs_policy s)"
    and "pm_load (set_used p (used s p + n) s) = pm_load s + unat n"
proof -
  have "unat (used s p) + unat n \<le> unat (total_memory_policyMgrStats s)"
    using admits_fits [OF assms(3)] used_le_pm_load [OF assms(2), of s] by linarith
  then have sum: "unat (used s p + n) = unat (used s p) + unat n"
    by (intro unat_add_le) (simp, meson le_less_trans unat_lt64)
  then show "abs_policy (set_used p (used s p + n) s) = add_load p (int (unat n)) (abs_policy s)"
    using assms(1,2) by (simp add: abs_policy_set_used add_load_def nat_add_distrib)
  show "pm_load (set_used p (used s p + n) s) = pm_load s + unat n"
    using assms(1,2) sum by (cases p) (auto simp: pm_load_def pool_ctx_set_used)
qed

text \<open>The decision on its own, as the interleaved model takes it.\<close>

lemma decide_refines:
  assumes "pm_config s" and "pm_load s < 2 ^ 63" and "p \<noteq> POLICY_MGR_POOL_MAX"
    and "policyMgrAlloc_decide p n (policyMgrAlloc_read s) s = Inr (r, s')"
  shows "spec_alloc p (unat n) (abs_policy s) = (r, abs_policy s')"
  using assms decide_admits [OF assms(1-3), of n] admitted_load(1) [OF assms(1,3), of n]
  by (auto simp: spec_alloc_def split: if_splits)

lemma policyMgrAlloc_refines_core:
  assumes "pm_ready s" and "p \<noteq> POLICY_MGR_POOL_MAX"
    and "unat (total_memory_policyMgrStats s) < 2 ^ 63"
  obtains s' where "policyMgrAlloc t p n s = Inr (fst (spec_alloc p (unat n) (abs_policy s)), s')"
    and "abs_policy s' = snd (spec_alloc p (unat n) (abs_policy s))" and "pm_ready s'"
    and "\<not> admits p (unat n) (abs_policy s) \<Longrightarrow> s' = s"
    and "admits p (unat n) (abs_policy s) \<Longrightarrow> s' = set_used p (used s p + n) s"
proof (cases "admits p (unat n) (abs_policy s)")
  case True
  have conf: "pm_config s" using assms(1) by (simp add: pm_ready_def)
  note load = admitted_load [OF conf assms(2) True]
  have "pm_ready (set_used p (used s p + n) s)"
    using assms admits_fits [OF True] load(2) by (auto simp: pm_ready_def)
  with load(1) show ?thesis
    using assms(1,2) True
    by (intro that [of "set_used p (used s p + n) s"]) (auto simp: policyMgrAlloc_critical decide_admits spec_alloc_def pm_ready_def)
next
  case False
  then show ?thesis
    using assms(1,2)
    by (intro that [of s]) (auto simp: policyMgrAlloc_critical decide_admits spec_alloc_def pm_ready_def)
qed

text \<open>
  C1: admission, word for word: in a configured, unlocked state, for the execution and the storage
  pool, \<^verbatim>\<open>policyMgrAlloc\<close> returns without a fault, grants exactly the requests the abstract
  policy admits (size limits of the pool, storage quota, system capacity, on natural numbers with no
  wrap-around), charges a granted request to its pool and nothing else, leaves the statistics
  untouched when it refuses, and releases the mutex.
\<close>
theorem policyMgrAlloc_refines:
  assumes "pm_ready s" and "p \<noteq> POLICY_MGR_POOL_MAX"
    and "unat (total_memory_policyMgrStats s) < 2 ^ 63"
  shows "\<exists>r s'. policyMgrAlloc t p n s = Inr (r, s') \<and>
    (r, abs_policy s') = spec_alloc p (unat n) (abs_policy s) \<and>
    pm_ready s' \<and> (\<not> r \<longrightarrow> s' = s)"
  using policyMgrAlloc_refines_core [OF assms, of t n]
  by (metis prod.collapse spec_alloc_def fst_conv)

theorem policyMgrAlloc_refines_witness:
  "\<exists>r s'. policyMgrAlloc 1 POLICY_MGR_STORAGE_POOL 4096 (stats_128Mi 67108864 0) = Inr (r, s') \<and>
    (r, abs_policy s') = spec_alloc POLICY_MGR_STORAGE_POOL 4096 (abs_policy (stats_128Mi 67108864 0)) \<and>
    pm_ready s' \<and> (\<not> r \<longrightarrow> s' = stats_128Mi 67108864 0)"
  using policyMgrAlloc_refines [OF stats_128Mi_ready, of 67108864 0 POLICY_MGR_STORAGE_POOL 1 4096]
  by simp

lemma policyMgrAlloc_granted:
  assumes "pm_ready s" and "unat (total_memory_policyMgrStats s) < 2 ^ 63"
    and "policyMgrAlloc t p n s = Inr (True, s')"
  shows "p \<noteq> POLICY_MGR_POOL_MAX" and "admits p (unat n) (abs_policy s)"
    and "s' = set_used p (used s p + n) s" and "unat (used s' p) = unat (used s p) + unat n"
    and "pm_load s' = pm_load s + unat n" and "pm_ready s'"
    and "q \<noteq> p \<Longrightarrow> pool_ctx s' q = pool_ctx s q"
proof -
  show p: "p \<noteq> POLICY_MGR_POOL_MAX"
    using assms(1,3) by (auto simp: policyMgrAlloc_critical policyMgrAlloc_decide_def pm_ready_def
        switch_pool_max)
  have len: "length (poolStats_policyMgrStats s) = 2"
    using assms(1) by (simp add: pm_ready_def)
  obtain s'' where s'': "policyMgrAlloc t p n s = Inr (fst (spec_alloc p (unat n) (abs_policy s)), s'')"
      "abs_policy s'' = snd (spec_alloc p (unat n) (abs_policy s))" "pm_ready s''"
      "admits p (unat n) (abs_policy s) \<Longrightarrow> s'' = set_used p (used s p + n) s"
    by (rule policyMgrAlloc_refines_core [OF assms(1) p assms(2), where t = t and n = n]) (rule that)
  with assms(3) show adm: "admits p (unat n) (abs_policy s)"
    by (auto simp: spec_alloc_def split: if_splits)
  with s'' assms(3) show s': "s' = set_used p (used s p + n) s" and "pm_ready s'" by auto
  have "load (abs_policy s') p = load (abs_policy s) p + unat n"
    using s'' assms(3) adm by (simp add: spec_alloc_def add_load_def nat_add_distrib)
  with p show u: "unat (used s' p) = unat (used s p) + unat n" by simp
  have frame: "pool_ctx s' r = pool_ctx s r" if "r \<noteq> p" for r
    using that p len by (simp add: s' pool_ctx_set_used)
  then show "q \<noteq> p \<Longrightarrow> pool_ctx s' q = pool_ctx s q" .
  show "pm_load s' = pm_load s + unat n"
    using p u frame by (cases p) (simp_all add: pm_load_def)
qed

text \<open>
  A granted request never over-commits: the two pools together stay within the system memory
  and a granted storage request stays within the storage quota.
\<close>
theorem policyMgrAlloc_no_overcommit:
  assumes "pm_ready s" and "unat (total_memory_policyMgrStats s) < 2 ^ 63"
    and "policyMgrAlloc t p n s = Inr (True, s')"
  shows "pm_load s' \<le> unat (total_memory_policyMgrStats s') \<and>
    (p = POLICY_MGR_STORAGE_POOL \<longrightarrow> used s' p \<le> pool_total s' p)"
proof -
  note g = policyMgrAlloc_granted [OF assms]
  have "total_memory_policyMgrStats s' = total_memory_policyMgrStats s"
      "pool_total s' p = pool_total s p"
    using assms(1) g(1) by (simp_all add: g(3) pool_ctx_set_used pm_ready_def)
  with g(1,2,4,5) show ?thesis by (cases p) (auto simp: pm_load_def word_le_nat_alt)
qed

theorem policyMgrAlloc_no_overcommit_witness:
  "\<exists>s'. policyMgrAlloc 1 POLICY_MGR_STORAGE_POOL 4096 (stats_128Mi 0 0) = Inr (True, s') \<and>
     pm_load s' \<le> unat (total_memory_policyMgrStats s') \<and>
     used s' POLICY_MGR_STORAGE_POOL \<le> pool_total s' POLICY_MGR_STORAGE_POOL"
proof -
  have "policyMgrAlloc 1 POLICY_MGR_STORAGE_POOL 4096 (stats_128Mi 0 0)
      = Inr (True, stats_128Mi 0 4096)"
    by (code_simp)
  with policyMgrAlloc_no_overcommit [OF stats_128Mi_ready _ this] show ?thesis by simp
qed

text \<open>
  Memory flows one way: the execution pool's own total is never consulted, so no decision of
  \<^verbatim>\<open>policyMgrAlloc\<close> changes when it does. Execution requests borrow the storage pool's
  share, up to the system memory.
\<close>
theorem exec_pool_total_not_enforced:
  assumes "length (poolStats_policyMgrStats s) = 2"
  shows "map_sum id fst (policyMgrAlloc t p n (set_pool_ctx POLICY_MGR_EXEC_POOL
      ((pool_ctx s POLICY_MGR_EXEC_POOL)\<lparr>total_pool_mem_policyMgrPoolCtx := q\<rparr>) s))
    = map_sum id fst (policyMgrAlloc t p n s)"
proof -
  let ?s' = "set_pool_ctx POLICY_MGR_EXEC_POOL
      ((pool_ctx s POLICY_MGR_EXEC_POOL)\<lparr>total_pool_mem_policyMgrPoolCtx := q\<rparr>) s"
  have ctx: "pool_ctx ?s' POLICY_MGR_EXEC_POOL =
        (pool_ctx s POLICY_MGR_EXEC_POOL)\<lparr>total_pool_mem_policyMgrPoolCtx := q\<rparr>"
      "pool_ctx ?s' POLICY_MGR_STORAGE_POOL = pool_ctx s POLICY_MGR_STORAGE_POOL"
      "total_memory_policyMgrStats ?s' = total_memory_policyMgrStats s"
      "mutex_policyMgrStats ?s' = mutex_policyMgrStats s"
    using assms by (simp_all add: pool_ctx_def set_pool_ctx_def)
  then have read: "policyMgrAlloc_read ?s' = policyMgrAlloc_read s"
    by (simp add: policyMgrAlloc_read_def)
  have switch: "policyMgrAlloc_switch p n l ?s' = policyMgrAlloc_switch p n l s" for l
    by (cases p) (simp_all add: ctx policyMgrAlloc_switch.simps)
  show ?thesis
  proof (cases "mutex_policyMgrStats s = Mutex_unlocked")
    case True
    with ctx(4) show ?thesis
      by (cases "policyMgrAlloc_switch p n (policyMgrAlloc_read s) s")
         (simp_all add: policyMgrAlloc_critical policyMgrAlloc_decide_def read switch)
  next
    case False
    with ctx(4) show ?thesis
      by (cases "mutex_policyMgrStats s") (simp_all add: policyMgrAlloc_def lock_stats_def)
  qed
qed

theorem exec_pool_total_not_enforced_witness:
  "map_sum id fst (policyMgrAlloc 1 POLICY_MGR_EXEC_POOL 8388608 (set_pool_ctx POLICY_MGR_EXEC_POOL
      ((pool_ctx (stats_128Mi 0 0) POLICY_MGR_EXEC_POOL)\<lparr>total_pool_mem_policyMgrPoolCtx := 0\<rparr>)
      (stats_128Mi 0 0)))
    = map_sum id fst (policyMgrAlloc 1 POLICY_MGR_EXEC_POOL 8388608 (stats_128Mi 0 0))"
  by (rule exec_pool_total_not_enforced) (simp add: stats_128Mi_def)

text \<open>
  A request for a pool that does not exist aborts on \<^verbatim>\<open>assert(false)\<close>, and an
  adjustment of it reads outside the array of pools.
\<close>
theorem pool_max_is_an_error:
  assumes "pm_ready s"
  shows "policyMgrAlloc t POLICY_MGR_POOL_MAX n s = Inl Assertion_failed \<and>
    policyMgrAdjustAlloc t POLICY_MGR_POOL_MAX d s = Inl Out_of_bounds"
  using assms by (simp add: pm_ready_def policyMgrAlloc_critical policyMgrAlloc_decide_def
      switch_pool_max policyMgrAdjustAlloc_critical policyMgrAdjustAlloc_read_def)

theorem pool_max_is_an_error_witness:
  "policyMgrAlloc 1 POLICY_MGR_POOL_MAX 8 (stats_128Mi 0 0) = Inl Assertion_failed \<and>
    policyMgrAdjustAlloc 1 POLICY_MGR_POOL_MAX 8 (stats_128Mi 0 0) = Inl Out_of_bounds"
  using pool_max_is_an_error [OF stats_128Mi_ready] by simp

section \<open>Properties of adjustment\<close>

lemma unat_add_sint:
  fixes a d :: "64 word"
  assumes "0 \<le> int (unat a) + sint d" and "int (unat a) + sint d < 2 ^ 63"
  shows "int (unat (a + d)) = int (unat a) + sint d"
proof -
  have "word_of_int (uint a + sint d) = a + d" by simp
  moreover have "uint (word_of_int (uint a + sint d) :: 64 word) = (uint a + sint d) mod 2 ^ 64"
    by (subst uint_word_of_int) simp
  ultimately have "uint (a + d) = (uint a + sint d) mod 2 ^ 64" by (simp only:)
  also have "\<dots> = uint a + sint d"
    using assms by (intro mod_pos_pos_trivial) auto
  finally show ?thesis by simp
qed

text \<open>The addition on its own: if the counter stays in range, it is exact.\<close>

lemma slong_add_exact:
  assumes "slong_add a d = Inr n" and "unat a < 2 ^ 63" and "unat n < 2 ^ 63"
  shows "int (unat n) = int (unat a) + sint d"
proof -
  have small: "uint a < 2 ^ 63" "uint n < 2 ^ 63"
    using assms(2,3) by (simp_all add: uint_unat_less)
  have n: "n = a + d" and r: "sint a + sint d < 2 ^ 63" "- (2 ^ 63) \<le> sint a + sint d"
    using assms(1) by (auto simp: slong_add_def slong_min_def slong_max_def split: if_splits)
  have "sint n = signed_take_bit 63 (sint a + sint d)"
    unfolding n by (simp add: sint_word_ariths)
  also have "\<dots> = sint a + sint d"
    using r by (intro signed_take_bit_int_eq_self) simp_all
  finally have "sint n = sint a + sint d" .
  then show ?thesis
    using sint64_small [OF small(1)] sint64_small [OF small(2)] by (simp only: uint_unat64)
qed

lemma write_refines:
  assumes "pm_config s" and "p \<noteq> POLICY_MGR_POOL_MAX" and "unat (used s p) < 2 ^ 63"
    and "policyMgrAdjustAlloc_write p d (used s p) s = Inr s'" and "unat (used s' p) < 2 ^ 63"
  shows "abs_policy s' = add_load p (sint d) (abs_policy s)"
proof -
  obtain n where n: "slong_add (used s p) d = Inr n" "s' = set_used p n s"
    using assms(4) by (auto simp: policyMgrAdjustAlloc_write_def rbind_eq_Inr)
  with assms(1,2,5) have "unat n < 2 ^ 63" by (simp add: pool_ctx_set_used)
  from slong_add_exact [OF n(1) assms(3) this] have "unat n = nat (int (unat (used s p)) + sint d)"
    by (metis nat_int)
  with n(2) assms(1,2) show ?thesis by (simp add: abs_policy_set_used add_load_def)
qed

text \<open>
  C12: \<^verbatim>\<open>policyMgrAdjustAlloc\<close> adds its signed argument to the pool's counter: whenever
  the exact sum is a non-negative \<^verbatim>\<open>signed long\<close>, there is no overflow, the other pool and the
  limits keep their values, the lock is released, and the abstract load changes by exactly that much.
\<close>
theorem policyMgrAdjustAlloc_refines:
  assumes "pm_config s" and "mutex_policyMgrStats s = Mutex_unlocked" and "p \<noteq> POLICY_MGR_POOL_MAX"
    and "unat (used s p) < 2 ^ 63"
    and "0 \<le> int (unat (used s p)) + sint d" and "int (unat (used s p)) + sint d < 2 ^ 63"
  shows "\<exists>s'. policyMgrAdjustAlloc t p d s = Inr s' \<and> pm_config s' \<and>
    mutex_policyMgrStats s' = Mutex_unlocked \<and> abs_policy s' = add_load p (sint d) (abs_policy s)"
proof -
  have "int (unat (used s p)) < int (2 ^ 63)" using assms(4) by (simp only: of_nat_less_iff)
  then have "sint (used s p) = uint (used s p)" by (intro sint64_small) simp
  then have "slong_add (used s p) d = Inr (used s p + d)"
    using assms(5,6) by (simp add: slong_add_def slong_min_def slong_max_def)
  moreover have "unat (used s p + d) = nat (int (unat (used s p)) + sint d)"
    using unat_add_sint [OF assms(5,6)] by (metis nat_int)
  ultimately show ?thesis
    using assms(1,2,3)
    by (auto simp: policyMgrAdjustAlloc_critical policyMgrAdjustAlloc_read_def pool_index_lt2
        policyMgrAdjustAlloc_write_def abs_policy_set_used add_load_def)
qed

theorem policyMgrAdjustAlloc_refines_witness:
  "\<exists>s'. policyMgrAdjustAlloc 1 POLICY_MGR_EXEC_POOL (- 8) (stats_128Mi 24 0) = Inr s' \<and> pm_config s' \<and>
    mutex_policyMgrStats s' = Mutex_unlocked \<and>
    abs_policy s' = add_load POLICY_MGR_EXEC_POOL (- 8) (abs_policy (stats_128Mi 24 0))"
proof -
  have "sint (- 8 :: slong) = - 8" by simp
  then show ?thesis
    using policyMgrAdjustAlloc_refines [of "stats_128Mi 24 0" POLICY_MGR_EXEC_POOL "- 8" 1] by simp
qed

lemma rollback_exact:
  assumes "pm_ready s" and "unat (total_memory_policyMgrStats s) < 2 ^ 63"
    and "policyMgrAlloc t p n s = Inr (True, s')"
  shows "policyMgrAdjustAlloc u p (- n) s' = Inr s"
proof -
  note g = policyMgrAlloc_granted [OF assms]
  have len: "length (poolStats_policyMgrStats s) = 2" and len': "length (poolStats_policyMgrStats s') = 2"
    using assms(1) g(6) by (simp_all add: pm_ready_def)
  have "unat (used s' p) \<le> pm_load s'" using g(1) by (intro used_le_pm_load) auto
  also have "\<dots> < 2 ^ 63" using g(6) by (simp add: pm_ready_def)
  finally have "slong_add (used s' p) (- n) = Inr (used s' p - n)"
    using g(4) by (intro slong_add_shrink) linarith+
  moreover have "used s' p - n = used s p" using g(1) len by (simp add: g(3) pool_ctx_set_used)
  moreover have "set_used p (used s p) s' = s"
    using g(1) len by (simp add: g(3) set_used_set_used set_used_same)
  ultimately show ?thesis
    using g(1,6) len' by (simp add: policyMgrAdjustAlloc_critical pm_ready_def
        policyMgrAdjustAlloc_read_def pool_index_lt2 policyMgrAdjustAlloc_write_def)
qed

text \<open>
  C15: round trip: taking back a granted reservation restores the statistics, field for field. This
  is the path of \<^verbatim>\<open>allocMem\<close> when \<^verbatim>\<open>je_malloc\<close> returns NULL.
\<close>
theorem reservation_rollback:
  assumes "pm_ready s" and "unat (total_memory_policyMgrStats s) < 2 ^ 63"
    and "policyMgrAlloc t p n s = Inr (True, s')"
  shows "policyMgrAdjustAlloc u p (- n) s' = Inr s"
  using assms by (rule rollback_exact)

theorem reservation_rollback_witness:
  "policyMgrAdjustAlloc 1 POLICY_MGR_STORAGE_POOL (- 4096) (stats_128Mi 0 4096) = Inr (stats_128Mi 0 0)"
proof -
  have "policyMgrAlloc 1 POLICY_MGR_STORAGE_POOL 4096 (stats_128Mi 0 0)
      = Inr (True, stats_128Mi 0 4096)"
    by code_simp
  with reservation_rollback [OF stats_128Mi_ready] show ?thesis by simp
qed

text \<open>
  Giving back more than a pool holds is not detected: the counter wraps to a huge value without a
  fault, and from then on every request of that pool is refused.
\<close>

lemma underflow_blocks_pool:
  assumes "pm_config s" and "mutex_policyMgrStats s = Mutex_unlocked"
    and "p \<noteq> POLICY_MGR_POOL_MAX" and "unat (total_memory_policyMgrStats s) < 2 ^ 63"
    and "unat (used s p) < unat d" and "unat d < 2 ^ 63"
  shows "policyMgrAdjustAlloc t p (- d) s = Inr (set_used p (used s p - d) s)"
    and "policyMgrAlloc u p n (set_used p (used s p - d) s) = Inr (False, set_used p (used s p - d) s)"
    and "unat (used s p - d) = 2 ^ 64 - (unat d - unat (used s p))"
proof -
  let ?s' = "set_used p (used s p - d) s"
  have len: "length (poolStats_policyMgrStats s) = 2" using assms(1) by simp
  have wrap: "unat (used s p - d) = 2 ^ 64 - (unat d - unat (used s p))"
    using assms(5) unat_lt64 [of d] unat_sub_if_size [of "used s p" d] by (simp add: word_size)
  have "slong_add (used s p) (- d) = Inr (used s p - d)"
    using slong_add_wrap_down [OF assms(5,6)] .
  then have call: "policyMgrAdjustAlloc t p (- d) s = Inr ?s'"
    using assms(2,3) len by (simp add: policyMgrAdjustAlloc_critical
        policyMgrAdjustAlloc_read_def pool_index_lt2 policyMgrAdjustAlloc_write_def)
  have conf: "pm_config ?s'" and u: "used ?s' p = used s p - d"
    using assms(1,3) len by (simp_all add: pool_ctx_set_used)
  have "unat (pool_total ?s' POLICY_MGR_STORAGE_POOL) \<le> unat (total_memory_policyMgrStats ?s')"
    using conf by (simp add: pm_config_def word_le_nat_alt)
  moreover have "2 ^ 63 < unat (used ?s' p)" using assms(5,6) by (simp add: u wrap)
  ultimately have "policyMgrAlloc_switch p n (policyMgrAlloc_read ?s') ?s' = Inr False" for n
    using assms(3,4) conf by (cases p) (auto simp: switch_exec switch_storage)
  then show "policyMgrAlloc u p n ?s' = Inr (False, ?s')"
    using assms(2) by (simp add: policyMgrAlloc_critical policyMgrAlloc_decide_def)
  show "policyMgrAdjustAlloc t p (- d) s = Inr ?s'" by (rule call)
  show "unat (used s p - d) = 2 ^ 64 - (unat d - unat (used s p))" by (rule wrap)
qed

section \<open>The policy manager provides the accounting interface\<close>

lemma load_abs_upd:
  "pm_config s \<Longrightarrow> p \<noteq> POLICY_MGR_POOL_MAX \<Longrightarrow>
   load (abs_policy (set_used p n s)) = (load (abs_policy s))(p := unat n)"
  by (simp add: abs_policy_set_used)

lemma pm_load_upd:
  "pm_config s \<Longrightarrow> p \<noteq> POLICY_MGR_POOL_MAX \<Longrightarrow>
   pm_load (set_used p n s) + unat (used s p) = pm_load s + unat n"
  by (cases p) (simp_all add: pm_load_def pool_ctx_set_used)

lemma adjust_by:
  assumes "pm_ready s" and "p \<noteq> POLICY_MGR_POOL_MAX" and "slong_add (used s p) d = Inr n"
  shows "policyMgrAdjustAlloc t p d s = Inr (set_used p n s)"
  using assms by (simp add: policyMgrAdjustAlloc_critical pm_ready_def
      policyMgrAdjustAlloc_read_def pool_index_lt2 policyMgrAdjustAlloc_write_def)

interpretation pm: pool_accounting "policyMgrAlloc t" "policyMgrAdjustAlloc t"
  "\<lambda>s. load (abs_policy s)" pm_load "\<lambda>s. unat (total_memory_policyMgrStats s)"
  "\<lambda>s. quota (abs_policy s)"
  "\<lambda>p. p \<noteq> POLICY_MGR_POOL_MAX" "\<lambda>s. pm_ready s \<and> unat (total_memory_policyMgrStats s) < 2 ^ 62" for t
proof (unfold_locales, goal_cases)
  case (1 s p n)
  then show ?case by (auto elim: policyMgrAlloc_refines_core [of s p t n])
next
  case (2 s p n s')
  then show ?case
    by (cases "policyMgrAlloc_switch p n (policyMgrAlloc_read s) s")
       (auto simp: policyMgrAlloc_critical pm_ready_def policyMgrAlloc_decide_def split: if_splits)
next
  case (3 s p n s')
  then have "pm_ready s" "unat (total_memory_policyMgrStats s) < 2 ^ 63"
      "policyMgrAlloc t p n s = Inr (True, s')" by auto
  note g = policyMgrAlloc_granted [OF this]
  have "pm_load s' \<le> unat (total_memory_policyMgrStats s)"
    using g(1,2,5) by (cases p) (auto simp: pm_load_def)
  moreover have "load (abs_policy s') = (load (abs_policy s))(p := load (abs_policy s) p + unat n)"
    using g 3 by (auto simp: fun_eq_iff abs_policy_def)
  ultimately show ?case using g 3 by (simp add: pm_ready_def)
next
  case (4 s p d)
  have "unat (used s p) + unat d < 2 ^ 63" using 4 used_le_pm_load [of p s] by linarith
  then have add: "slong_add (used s p) d = Inr (used s p + d)"
      "unat (used s p + d) = unat (used s p) + unat d"
    by (auto intro: slong_add_grow unat_add_le)
  then show ?case
    using 4 adjust_by [of s p d] pm_load_upd [of s p "used s p + d"]
    by (auto simp: load_abs_upd pm_ready_def)
next
  case (5 s p d)
  then have le: "unat d \<le> unat (used s p)" by simp
  have "unat (used s p) < 2 ^ 63" using 5 used_le_pm_load [of p s] by (auto simp: pm_ready_def)
  with le have add: "slong_add (used s p) (- d) = Inr (used s p - d)"
      "unat (used s p - d) = unat (used s p) - unat d"
    by (auto intro: slong_add_shrink unat_diff_le)
  then show ?case
    using 5 adjust_by [of s p "- d"] pm_load_upd [of s p "used s p - d"] le
    by (auto simp: load_abs_upd pm_ready_def)
next
  case (6 s p)
  then show ?case by (simp add: used_le_pm_load)
qed

end
