(* ===== verification/Jemalloc_Api.thy ===== *)
theory Jemalloc_Api
  imports Prelude
begin

text \<open>
  The allocator underneath, jemalloc, is a library the repository only links against (its headers
  are under \<^verbatim>\<open>src/jemalloc\<close>, its code is not). The model takes its three entry points as a
  parameter: a record of functions on an abstract heap. What the memory manager relies on is stated
  as laws over a view of the heap, the live blocks with their real sizes; they are the documented
  behaviour of \<^verbatim>\<open>malloc\<close>, \<^verbatim>\<open>sallocx\<close> and \<^verbatim>\<open>free\<close>. A small concrete allocator
  at the end shows that the laws can hold; only witnesses use it.
\<close>

record 'h jemalloc =
  je_malloc :: "size_t \<Rightarrow> 'h \<Rightarrow> addr \<times> 'h"
  je_sallocx :: "addr \<Rightarrow> 'h \<Rightarrow> size_t"  \<comment> \<open>the code always passes flags 0\<close>
  je_free :: "addr \<Rightarrow> 'h \<Rightarrow> 'h"

type_synonym 'h heap_view = "'h \<Rightarrow> addr \<rightharpoonup> size_t"

section \<open>Documented behaviour\<close>

definition null_never_live :: "'h heap_view \<Rightarrow> bool" where
  "null_never_live live \<longleftrightarrow> (\<forall>h. live h NULL = None)"

text \<open>NULL on failure, otherwise a fresh block of at least the requested size.\<close>

definition malloc_law :: "'h jemalloc \<Rightarrow> 'h heap_view \<Rightarrow> bool" where
  "malloc_law je live \<longleftrightarrow>
     (\<forall>n h p h'. je_malloc je n h = (p, h') \<longrightarrow>
        (if p = NULL then live h' = live h
         else live h p = None \<and> (\<exists>m. n \<le> m \<and> live h' = (live h)(p \<mapsto> m))))"

definition sallocx_law :: "'h jemalloc \<Rightarrow> 'h heap_view \<Rightarrow> bool" where
  "sallocx_law je live \<longleftrightarrow> (\<forall>h p m. live h p = Some m \<longrightarrow> je_sallocx je p h = m)"

definition free_law :: "'h jemalloc \<Rightarrow> 'h heap_view \<Rightarrow> bool" where
  "free_law je live \<longleftrightarrow>
     (\<forall>h p m. live h p = Some m \<longrightarrow> live (je_free je p h) = (live h)(p := None))"

text \<open>Size classes waste at most \<open>S\<close> bytes per block (internal fragmentation).\<close>

definition slack_law :: "'h jemalloc \<Rightarrow> 'h heap_view \<Rightarrow> nat \<Rightarrow> bool" where
  "slack_law je live S \<longleftrightarrow>
     (\<forall>n h p h' m. je_malloc je n h = (p, h') \<longrightarrow> p \<noteq> NULL \<longrightarrow> live h' p = Some m \<longrightarrow>
        unat m \<le> unat n + S)"

definition je_contract :: "'h jemalloc \<Rightarrow> 'h heap_view \<Rightarrow> nat \<Rightarrow> bool" where
  "je_contract je live S \<longleftrightarrow>
     null_never_live live \<and> malloc_law je live \<and> sallocx_law je live \<and> free_law je live \<and>
     slack_law je live S"

lemma je_malloc_null:
  "je_contract je live S \<Longrightarrow> je_malloc je n h = (NULL, h') \<Longrightarrow> live h' = live h"
  by (auto simp: je_contract_def malloc_law_def)

lemma je_malloc_block:
  assumes "je_contract je live S" and "je_malloc je n h = (p, h')" and "p \<noteq> NULL"
  obtains m where "live h p = None" and "live h' = (live h)(p \<mapsto> m)" and "n \<le> m"
    and "unat m \<le> unat n + S" and "je_sallocx je p h' = m"
proof -
  from assms obtain m where m: "live h p = None" "n \<le> m" "live h' = (live h)(p \<mapsto> m)"
    unfolding je_contract_def malloc_law_def by metis
  moreover from m(3) have "live h' p = Some m" by simp
  ultimately show thesis
    using assms by (intro that) (auto simp: je_contract_def slack_law_def sallocx_law_def)
qed

lemma je_sallocx_live:
  "je_contract je live S \<Longrightarrow> live h p = Some m \<Longrightarrow> je_sallocx je p h = m"
  by (simp add: je_contract_def sallocx_law_def)

lemma je_free_live:
  "je_contract je live S \<Longrightarrow> live h p = Some m \<Longrightarrow> live (je_free je p h) = (live h)(p := None)"
  by (auto simp: je_contract_def free_law_def)

section \<open>An allocator that satisfies the laws\<close>

text \<open>
  Blocks in a list, sizes rounded up to a multiple of 8, addresses handed out in increasing order;
  it fails (NULL) on requests above 1 TiB and when the next address is taken.
\<close>

record bump_heap =
  next_addr :: addr
  blocks :: "(addr \<times> size_t) list"

definition round8 :: "size_t \<Rightarrow> size_t" where
  "round8 n = (n + 7) div 8 * 8"

definition bump_malloc :: "size_t \<Rightarrow> bump_heap \<Rightarrow> addr \<times> bump_heap" where
  "bump_malloc n h =
     (let p = next_addr h in
      if p = NULL \<or> n > 1099511627776 \<or> map_of (blocks h) p \<noteq> None then (NULL, h)
      else (p, \<lparr>next_addr = p + round8 n, blocks = (p, round8 n) # blocks h\<rparr>))"

definition bump_sallocx :: "addr \<Rightarrow> bump_heap \<Rightarrow> size_t" where
  "bump_sallocx p h = (case map_of (blocks h) p of None \<Rightarrow> 0 | Some m \<Rightarrow> m)"

definition bump_free :: "addr \<Rightarrow> bump_heap \<Rightarrow> bump_heap" where
  "bump_free p h = h\<lparr>blocks := filter (\<lambda>b. fst b \<noteq> p) (blocks h)\<rparr>"

definition bump_je :: "bump_heap jemalloc" where
  "bump_je = \<lparr>je_malloc = bump_malloc, je_sallocx = bump_sallocx, je_free = bump_free\<rparr>"

definition bump_live :: "bump_heap heap_view" where
  "bump_live h = (map_of (blocks h))(NULL := None)"

definition bump_empty :: bump_heap where
  "bump_empty = \<lparr>next_addr = 4096, blocks = []\<rparr>"

lemma unat_round8:
  assumes "n \<le> 1099511627776"
  shows "unat (round8 n) = (unat n + 7) div 8 * 8"
proof -
  have le: "unat n \<le> 1099511627776" using assms by (simp add: word_le_nat_alt)
  have "(unat n + 7) div 8 * 8 \<le> unat n + 7" by simp
  with le have "(unat n + 7) div 8 * 8 < 18446744073709551616" by linarith
  with le show ?thesis by (simp add: round8_def unat_word_ariths unat_div)
qed

lemma round8_bounds:
  assumes "n \<le> 1099511627776"
  shows "n \<le> round8 n \<and> unat (round8 n) \<le> unat n + 7"
proof -
  have "unat n \<le> (unat n + 7) div 8 * 8" by presburger
  moreover have "(unat n + 7) div 8 * 8 \<le> unat n + 7" by simp
  ultimately show ?thesis by (simp add: word_le_nat_alt unat_round8 [OF assms])
qed

lemma map_of_filter_key:
  "map_of (filter (\<lambda>b. fst b \<noteq> p) bs) = (map_of bs)(p := None)"
  by (induction bs) (auto simp: fun_eq_iff)

lemma bump_contract: "je_contract bump_je bump_live 7"
  unfolding je_contract_def
proof (intro conjI)
  show "null_never_live bump_live" by (simp add: null_never_live_def bump_live_def)
  show "malloc_law bump_je bump_live"
    using round8_bounds
    by (auto simp: malloc_law_def bump_je_def bump_malloc_def bump_live_def Let_def fun_upd_twist
        not_less split: if_splits)
  show "sallocx_law bump_je bump_live"
    by (auto simp: sallocx_law_def bump_je_def bump_sallocx_def bump_live_def split: if_splits)
  show "free_law bump_je bump_live"
    by (auto simp: free_law_def bump_je_def bump_free_def bump_live_def map_of_filter_key)
  show "slack_law bump_je bump_live 7"
    using round8_bounds
    by (auto simp: slack_law_def bump_je_def bump_malloc_def bump_live_def Let_def not_less
        split: if_splits)
qed

end
