(* ===== verification/Mem_Mgr.thy ===== *)
theory Mem_Mgr
  imports Policy_Spec Jemalloc_Api
begin

text \<open>
  The memory manager, \<^verbatim>\<open>include/mem_mgr.h\<close> and \<^verbatim>\<open>src/mem_mgr.c\<close>: the public
  functions over the policy manager and jemalloc. Its state is the policy manager's statistics and
  the allocator's heap; \<open>je\<close> is the allocator and \<open>t\<close> the calling thread.
\<close>

record 'h mem_mgr =
  pm_stats :: policyMgrStats
  je_heap :: 'h

section \<open>The functions of mem\_mgr.c\<close>

definition initMemoryManager :: "size_t \<Rightarrow> 'h mem_mgr \<Rightarrow> (bool \<times> 'h mem_mgr) res" where
  "initMemoryManager total_memory_bytes m =
     rbind (initPolicyMgr total_memory_bytes (pm_stats m)) (\<lambda>(r, s). Inr (r, m\<lparr>pm_stats := s\<rparr>))"

definition destroyMemoryManager :: "'h mem_mgr \<Rightarrow> 'h mem_mgr res" where
  "destroyMemoryManager m =
     rbind (destroyPolicyMgr (pm_stats m)) (\<lambda>s. Inr (m\<lparr>pm_stats := s\<rparr>))"

definition allocMem ::
  "'h jemalloc \<Rightarrow> tid \<Rightarrow> policyMgrPool \<Rightarrow> size_t \<Rightarrow> 'h mem_mgr \<Rightarrow> (addr \<times> 'h mem_mgr) res" where
  "allocMem je t pool num_bytes m =
     rbind (policyMgrAlloc t pool num_bytes (pm_stats m)) (\<lambda>(ok, s).
       let m = m\<lparr>pm_stats := s\<rparr> in
       if ok then
         (let (alloc_ptr, h) = je_malloc je num_bytes (je_heap m); m = m\<lparr>je_heap := h\<rparr> in
          if alloc_ptr \<noteq> NULL then
            (let real_alloc_size = je_sallocx je alloc_ptr h in
             if \<not> real_alloc_size \<ge> num_bytes then Inl Assertion_failed
             else if real_alloc_size > num_bytes then
               rbind (policyMgrAdjustAlloc t pool (real_alloc_size - num_bytes) (pm_stats m)) (\<lambda>s.
               Inr (alloc_ptr, m\<lparr>pm_stats := s\<rparr>))
             else Inr (alloc_ptr, m))
          else
            rbind (policyMgrAdjustAlloc t pool (- num_bytes) (pm_stats m)) (\<lambda>s.
            Inr (NULL, m\<lparr>pm_stats := s\<rparr>)))
       else Inr (NULL, m))"

definition allocStorageMemory ::
  "'h jemalloc \<Rightarrow> tid \<Rightarrow> size_t \<Rightarrow> 'h mem_mgr \<Rightarrow> (addr \<times> 'h mem_mgr) res" where
  "allocStorageMemory je t num_bytes m = allocMem je t POLICY_MGR_STORAGE_POOL num_bytes m"

definition allocExecMemory ::
  "'h jemalloc \<Rightarrow> tid \<Rightarrow> size_t \<Rightarrow> 'h mem_mgr \<Rightarrow> (addr \<times> 'h mem_mgr) res" where
  "allocExecMemory je t num_bytes m = allocMem je t POLICY_MGR_EXEC_POOL num_bytes m"

definition freeMem ::
  "'h jemalloc \<Rightarrow> tid \<Rightarrow> policyMgrPool \<Rightarrow> addr \<Rightarrow> 'h mem_mgr \<Rightarrow> 'h mem_mgr res" where
  "freeMem je t pool p m =
     (let num_bytes_freed = je_sallocx je p (je_heap m) in
      if num_bytes_freed \<le> 0 then Inr m
      else
        (let m = m\<lparr>je_heap := je_free je p (je_heap m)\<rparr> in
         rbind (policyMgrAdjustAlloc t pool (- num_bytes_freed) (pm_stats m)) (\<lambda>s.
         Inr (m\<lparr>pm_stats := s\<rparr>))))"

definition freeStorageMemory :: "'h jemalloc \<Rightarrow> tid \<Rightarrow> addr \<Rightarrow> 'h mem_mgr \<Rightarrow> 'h mem_mgr res" where
  "freeStorageMemory je t p m = freeMem je t POLICY_MGR_STORAGE_POOL p m"

definition freeExecMemory :: "'h jemalloc \<Rightarrow> tid \<Rightarrow> addr \<Rightarrow> 'h mem_mgr \<Rightarrow> 'h mem_mgr res" where
  "freeExecMemory je t p m = freeMem je t POLICY_MGR_EXEC_POOL p m"

section \<open>What the operations do\<close>

text \<open>
  The state in which a caller may call: the policy manager is ready and the memory to manage, plus
  one allocation's slack, stays within \<^verbatim>\<open>signed long\<close>.
\<close>

definition mm_ok :: "nat \<Rightarrow> 'h mem_mgr \<Rightarrow> bool" where
  "mm_ok S m \<longleftrightarrow> pm_ready (pm_stats m) \<and> unat (total_memory_policyMgrStats (pm_stats m)) < 2 ^ 62 \<and>
     S < 2 ^ 62"

abbreviation usage :: "'h mem_mgr \<Rightarrow> policyMgrPool \<Rightarrow> nat" where
  "usage m p \<equiv> load (abs_policy (pm_stats m)) p"

abbreviation managed :: "'h mem_mgr \<Rightarrow> nat" where
  "managed m \<equiv> unat (total_memory_policyMgrStats (pm_stats m))"

lemma initMemoryManager_spec:
  assumes "mutex_policyMgrStats (pm_stats m) = Mutex_uninit"
    and "length (poolStats_policyMgrStats (pm_stats m)) = 2"
    and "unat b < 2 ^ 58" and "S < 2 ^ 62"
  obtains m' where "initMemoryManager b m = Inr (True, m')" and "je_heap m' = je_heap m"
    and "mm_ok S m'" and "abs_policy (pm_stats m') = spec_init (unat b)"
proof -
  have "50 * unat b < 2 ^ 64" using assms(3) by simp
  then obtain s' where s': "initPolicyMgr b (pm_stats m) = Inr (True, s')" "pm_ready s'"
      "abs_policy s' = spec_init (unat b)"
    using assms(1,2) by (rule_tac initPolicyMgr_spec) auto
  then have "unat (total_memory_policyMgrStats s') = unat b"
    by (metis abs_policy_simps(1) policy.select_convs(1) spec_init_def)
  with s' assms(3,4) show thesis
    by (intro that [of "m\<lparr>pm_stats := s'\<rparr>"]) (auto simp: initMemoryManager_def mm_ok_def)
qed

text \<open>The request is refused by the policy manager: nothing happens.\<close>

lemma allocMem_denied:
  assumes "mm_ok S m" and "p \<noteq> POLICY_MGR_POOL_MAX"
    and "\<not> admits p (unat n) (abs_policy (pm_stats m))"
  shows "allocMem je t p n m = Inr (NULL, m)"
proof -
  have "unat (total_memory_policyMgrStats (pm_stats m)) < 2 ^ 63"
    using assms(1) by (simp add: mm_ok_def)
  then obtain s' where "policyMgrAlloc t p n (pm_stats m)
      = Inr (fst (spec_alloc p (unat n) (abs_policy (pm_stats m))), s')" "s' = pm_stats m"
    using assms policyMgrAlloc_refines_core [of "pm_stats m" p t n] by (auto simp: mm_ok_def)
  with assms(3) show ?thesis by (simp add: allocMem_def spec_alloc_def)
qed

lemma policyMgrAlloc_admitted:
  assumes "mm_ok S m" and "p \<noteq> POLICY_MGR_POOL_MAX"
    and "admits p (unat n) (abs_policy (pm_stats m))"
  obtains s' where "policyMgrAlloc t p n (pm_stats m) = Inr (True, s')"
proof -
  have "pm_ready (pm_stats m)" "unat (total_memory_policyMgrStats (pm_stats m)) < 2 ^ 63"
    using assms(1) by (simp_all add: mm_ok_def)
  then show thesis
    using assms(2,3) that by (auto simp: spec_alloc_def
        elim: policyMgrAlloc_refines_core [of "pm_stats m" p t n])
qed

text \<open>jemalloc has no memory: one attempt, and the reservation is rolled back.\<close>

lemma allocMem_null:
  assumes "mm_ok S m" and "p \<noteq> POLICY_MGR_POOL_MAX"
    and "admits p (unat n) (abs_policy (pm_stats m))" and "je_malloc je n (je_heap m) = (NULL, h')"
  shows "allocMem je t p n m = Inr (NULL, m\<lparr>je_heap := h'\<rparr>)"
proof -
  obtain s' where s': "policyMgrAlloc t p n (pm_stats m) = Inr (True, s')"
    using assms(1-3) by (rule policyMgrAlloc_admitted)
  have "pm_ready (pm_stats m)" "unat (total_memory_policyMgrStats (pm_stats m)) < 2 ^ 63"
    using assms(1) by (simp_all add: mm_ok_def)
  then have "policyMgrAdjustAlloc t p (- n) s' = Inr (pm_stats m)"
    using s' by (rule rollback_exact)
  with s' assms(4) show ?thesis by (simp add: allocMem_def)
qed

text \<open>A block: it is charged with its real size.\<close>

lemma allocMem_block:
  assumes "mm_ok S m" and "p \<noteq> POLICY_MGR_POOL_MAX" and "je_contract je live S"
    and "admits p (unat n) (abs_policy (pm_stats m))"
    and "je_malloc je n (je_heap m) = (a, h')" and "a \<noteq> NULL"
  obtains m' r where "allocMem je t p n m = Inr (a, m')" and "je_heap m' = h'" and "mm_ok S m'"
    and "live (je_heap m) a = None" and "live h' = (live (je_heap m))(a \<mapsto> r)" and "n \<le> r"
    and "usage m' = (usage m)(p := usage m p + unat r)" and "managed m' = managed m"
    and "pm_load (pm_stats m') = pm_load (pm_stats m) + unat r"
    and "pm_load (pm_stats m') \<le> managed m + (unat r - unat n)" and "unat r \<le> unat n + S"
    and "quota (abs_policy (pm_stats m')) = quota (abs_policy (pm_stats m))"
proof -
  obtain s1 where s1: "policyMgrAlloc t p n (pm_stats m) = Inr (True, s1)"
    using assms(1,2,4) by (rule policyMgrAlloc_admitted)
  obtain r where r: "live (je_heap m) a = None" "live h' = (live (je_heap m))(a \<mapsto> r)" "n \<le> r"
      "unat r \<le> unat n + S" "je_sallocx je a h' = r"
    using assms(3,5,6) by (rule je_malloc_block)
  have ready: "pm_ready (pm_stats m) \<and> managed m < 2 ^ 62"
    using assms(1) by (simp add: mm_ok_def)
  have "managed m + (unat r - unat n) < 2 ^ 63"
    using assms(1) r(4) by (auto simp: mm_ok_def)
  from pm.charge [OF ready s1 r(3) this] obtain s2 where
    s2: "(if n < r then policyMgrAdjustAlloc t p (r - n) s1 else Inr s1) = Inr s2"
      "pm_ready s2" "load (abs_policy s2) = (usage m)(p := usage m p + unat r)"
      "unat (total_memory_policyMgrStats s2) = managed m"
      "pm_load s2 = pm_load (pm_stats m) + unat r" "pm_load s2 \<le> managed m + (unat r - unat n)"
      "quota (abs_policy s2) = quota (abs_policy (pm_stats m))"
    by blast
  have "allocMem je t p n m = Inr (a, m\<lparr>pm_stats := s2, je_heap := h'\<rparr>)"
    using s1 s2(1) r(3,5) assms(5,6) by (simp add: allocMem_def Let_def split: if_splits)
  then show thesis
    using s2 r assms(1) ready
    by (intro that [of "m\<lparr>pm_stats := s2, je_heap := h'\<rparr>" r]) (auto simp: mm_ok_def)
qed

lemma freeMem_block:
  assumes "mm_ok S m" and "p \<noteq> POLICY_MGR_POOL_MAX" and "je_contract je live S"
    and "live (je_heap m) a = Some r" and "r \<noteq> 0" and "unat r \<le> usage m p"
  obtains m' where "freeMem je t p a m = Inr m'" and "mm_ok S m'"
    and "live (je_heap m') = (live (je_heap m))(a := None)"
    and "usage m' = (usage m)(p := usage m p - unat r)" and "managed m' = managed m"
    and "pm_load (pm_stats m') = pm_load (pm_stats m) - unat r"
    and "je_heap m' = je_free je a (je_heap m)"
    and "quota (abs_policy (pm_stats m')) = quota (abs_policy (pm_stats m))"
proof -
  have "pm_ready (pm_stats m) \<and> managed m < 2 ^ 62"
    using assms(1) by (simp add: mm_ok_def)
  from pm.adjust_shrink [OF this assms(2,6)] obtain s2 where
    s2: "policyMgrAdjustAlloc t p (- r) (pm_stats m) = Inr s2" "pm_ready s2"
      "load (abs_policy s2) = (usage m)(p := usage m p - unat r)"
      "unat (total_memory_policyMgrStats s2) = managed m" "pm_load s2 = pm_load (pm_stats m) - unat r"
      "quota (abs_policy s2) = quota (abs_policy (pm_stats m))"
    by blast
  have "freeMem je t p a m = Inr (m\<lparr>pm_stats := s2, je_heap := je_free je a (je_heap m)\<rparr>)"
    using s2(1) assms(5) je_sallocx_live [OF assms(3,4)]
    by (simp add: freeMem_def Let_def)
  then show thesis
    using s2 assms(1) je_free_live [OF assms(3,4)] 
    by (intro that [of "m\<lparr>pm_stats := s2, je_heap := je_free je a (je_heap m)\<rparr>"])
       (auto simp: mm_ok_def)
qed

section \<open>Properties of the public functions\<close>

definition mm_128Mi :: "bump_heap mem_mgr" where
  "mm_128Mi = \<lparr>pm_stats = stats_128Mi 0 0, je_heap = bump_empty\<rparr>"

lemma mm_128Mi_ok [simp]: "mm_ok 7 mm_128Mi"
  by (simp add: mm_ok_def mm_128Mi_def stats_128Mi_ready)

lemma allocMem_spec:
  assumes "mm_ok S m" and "p \<noteq> POLICY_MGR_POOL_MAX" and "je_contract je live S"
  shows "\<exists>a m'. allocMem je t p n m = Inr (a, m') \<and> mm_ok S m' \<and> managed m' = managed m \<and>
    (if \<not> admits p (unat n) (abs_policy (pm_stats m)) then a = NULL \<and> m' = m
     else je_heap m' = snd (je_malloc je n (je_heap m)) \<and> a = fst (je_malloc je n (je_heap m)) \<and>
       (if a = NULL then pm_stats m' = pm_stats m \<and> live (je_heap m') = live (je_heap m)
        else live (je_heap m) a = None \<and>
          (\<exists>r. n \<le> r \<and> live (je_heap m') = (live (je_heap m))(a \<mapsto> r) \<and>
             usage m' = (usage m)(p := usage m p + unat r))))"
proof (cases "admits p (unat n) (abs_policy (pm_stats m))")
  case False
  with allocMem_denied [OF assms(1,2)] assms(1) show ?thesis by auto
next
  case True
  obtain a h' where je: "je_malloc je n (je_heap m) = (a, h')" by fastforce
  show ?thesis
  proof (cases "a = NULL")
    case null: True
    have "allocMem je t p n m = Inr (NULL, m\<lparr>je_heap := h'\<rparr>)"
      using assms(1,2) True je unfolding null by (rule allocMem_null)
    then show ?thesis
      using assms(1) True je null je_malloc_null [OF assms(3), of n "je_heap m" h']
      by (auto simp: mm_ok_def)
  next
    case False
    show ?thesis
      using True je False
      by (rule_tac allocMem_block [OF assms True je False, where t = t]) auto
  qed
qed

text \<open>
  C2: \<^verbatim>\<open>allocMem\<close>, every branch: for both pools the call returns without a fault. It returns
  NULL exactly when the policy refuses the request or jemalloc has no memory (asked once, never
  again), and then the statistics and the live blocks are as before; otherwise it returns jemalloc's
  fresh block, at least as large as asked for, and its real size is charged to the pool, and only to it.
\<close>
theorem allocMem_correct:
  assumes "mm_ok S m" and "p \<noteq> POLICY_MGR_POOL_MAX" and "je_contract je live S"
  shows "\<exists>a m'. allocMem je t p n m = Inr (a, m') \<and> mm_ok S m' \<and> managed m' = managed m \<and>
    (if \<not> admits p (unat n) (abs_policy (pm_stats m)) then a = NULL \<and> m' = m
     else je_heap m' = snd (je_malloc je n (je_heap m)) \<and> a = fst (je_malloc je n (je_heap m)) \<and>
       (if a = NULL then pm_stats m' = pm_stats m \<and> live (je_heap m') = live (je_heap m)
        else live (je_heap m) a = None \<and>
          (\<exists>r. n \<le> r \<and> live (je_heap m') = (live (je_heap m))(a \<mapsto> r) \<and>
             usage m' = (usage m)(p := usage m p + unat r))))"
  using assms by (rule allocMem_spec)

theorem allocMem_correct_witness:
  "\<exists>a m'. allocMem bump_je 1 POLICY_MGR_EXEC_POOL 13 mm_128Mi = Inr (a, m') \<and> mm_ok 7 m' \<and> a = 4096"
proof -
  have adm: "admits POLICY_MGR_EXEC_POOL (unat (13 :: size_t)) (abs_policy (pm_stats mm_128Mi))"
    by (simp add: mm_128Mi_def)
  have "fst (je_malloc bump_je 13 (je_heap mm_128Mi)) = 4096"
    by (simp add: bump_je_def bump_malloc_def mm_128Mi_def bump_empty_def)
  then show ?thesis
    using allocMem_correct [OF mm_128Mi_ok _ bump_contract, of POLICY_MGR_EXEC_POOL 1 13] adm
    by (metis policyMgrPool.distinct(3))
qed

text \<open>
  C13: round trip: a block allocated from a pool and freed to it leaves the policy manager's loads and
  the set of live blocks as they were before the allocation.
\<close>
theorem alloc_free_roundtrip:
  assumes "mm_ok S m" and "p \<noteq> POLICY_MGR_POOL_MAX" and "je_contract je live S"
    and "allocMem je t p n m = Inr (a, m')" and "a \<noteq> NULL"
  shows "\<exists>m''. freeMem je u p a m' = Inr m'' \<and> abs_policy (pm_stats m'') = abs_policy (pm_stats m) \<and>
    live (je_heap m'') = live (je_heap m)"
proof -
  have adm: "admits p (unat n) (abs_policy (pm_stats m))"
    using allocMem_denied [OF assms(1,2), of n je t] assms(4,5) by auto
  obtain a' h' where je: "je_malloc je n (je_heap m) = (a', h')" by fastforce
  have "a' \<noteq> NULL"
    using allocMem_null [OF assms(1,2) adm, of je h' t] je assms(4,5) by auto
  then obtain r where m': "a' = a" "je_heap m' = h'" "mm_ok S m'" "live (je_heap m) a = None"
      "live h' = (live (je_heap m))(a \<mapsto> r)" "n \<le> r" "usage m' = (usage m)(p := usage m p + unat r)"
      "managed m' = managed m" "quota (abs_policy (pm_stats m')) = quota (abs_policy (pm_stats m))"
    using assms(4) by (rule_tac allocMem_block [OF assms(1-3) adm je, where t = t]) (auto simp del: fun_upd_apply)
  have "1 \<le> unat n" using adm assms(2) by (cases p) auto
  then have r: "r \<noteq> 0" "unat r \<le> usage m' p" using m'(6,7) by (auto simp: nat_simps)
  have block: "live (je_heap m') a = Some r" using m' by simp
  obtain m'' where m'': "freeMem je u p a m' = Inr m''"
      "live (je_heap m'') = (live (je_heap m'))(a := None)"
      "usage m'' = (usage m')(p := usage m' p - unat r)" "managed m'' = managed m'"
      "quota (abs_policy (pm_stats m'')) = quota (abs_policy (pm_stats m'))"
    by (rule freeMem_block [OF m'(3) assms(2,3) block r, where t = u]) (rule that)
  then have "abs_policy (pm_stats m'') = abs_policy (pm_stats m)"
    using m' m'' by (intro policy.equality) (auto simp: fun_eq_iff)
  with m' m'' show ?thesis by (auto simp: fun_eq_iff)
qed

theorem alloc_free_roundtrip_witness:
  "\<exists>a m' m''. allocMem bump_je 1 POLICY_MGR_EXEC_POOL 13 mm_128Mi = Inr (a, m') \<and>
    freeMem bump_je 2 POLICY_MGR_EXEC_POOL a m' = Inr m'' \<and>
    abs_policy (pm_stats m'') = abs_policy (pm_stats mm_128Mi)"
proof -
  have adm: "admits POLICY_MGR_EXEC_POOL (unat (13 :: size_t)) (abs_policy (pm_stats mm_128Mi))"
    by (simp add: mm_128Mi_def)
  have "je_malloc bump_je 13 (je_heap mm_128Mi) = (4096, snd (je_malloc bump_je 13 (je_heap mm_128Mi)))"
    by (simp add: bump_je_def bump_malloc_def mm_128Mi_def bump_empty_def)
  from allocMem_block [OF mm_128Mi_ok _ bump_contract adm this]
  obtain m' where m': "allocMem bump_je 1 POLICY_MGR_EXEC_POOL 13 mm_128Mi = Inr (4096, m')" by auto
  show ?thesis
    using alloc_free_roundtrip [OF mm_128Mi_ok _ bump_contract m', of 2] m' by auto
qed

text \<open>
  Requests outside a pool's size limits (zero bytes, one byte too many, or a negative count
  converted to \<^verbatim>\<open>size_t\<close>) return NULL and change nothing: jemalloc is not even called.
\<close>
theorem size_limits_enforced:
  assumes "mm_ok S m"
  shows "(n < PM_EXEC_POOL_MIN_REQ_SIZE \<or> PM_EXEC_POOL_MAX_REQ_SIZE < n \<longrightarrow>
      allocExecMemory je t n m = Inr (NULL, m)) \<and>
    (n < PM_STORAGE_POOL_MIN_REQ_SIZE \<or> PM_STORAGE_POOL_MAX_REQ_SIZE < n \<longrightarrow>
      allocStorageMemory je t n m = Inr (NULL, m))"
  using assms
  by (auto simp: allocExecMemory_def allocStorageMemory_def nat_simps
      intro!: allocMem_denied [OF assms])

theorem size_limits_enforced_witness:
  "allocExecMemory bump_je 1 (- 1) mm_128Mi = Inr (NULL, mm_128Mi) \<and>
    allocStorageMemory bump_je 1 4095 mm_128Mi = Inr (NULL, mm_128Mi)"
  using size_limits_enforced [OF mm_128Mi_ok, of "- 1" bump_je 1]
    size_limits_enforced [OF mm_128Mi_ok, of 4095 bump_je 1]
  by (simp add: size_consts)

text \<open>
  C17: the policy bounds what is asked for, not what is used: the difference between the real size of
  a block and the request is added after the check. A request that just fits the system memory and
  gets a larger block leaves the accounted memory above the limit, by exactly that difference.
\<close>
theorem rounding_exceeds_system_memory:
  assumes "mm_ok S m" and "je_contract je live S" and "p \<noteq> POLICY_MGR_POOL_MAX"
    and "admits p (unat n) (abs_policy (pm_stats m))" and "pm_load (pm_stats m) + unat n = managed m"
    and "je_malloc je n (je_heap m) = (a, h')" and "a \<noteq> NULL" and "n < je_sallocx je a h'"
  shows "\<exists>m'. allocMem je t p n m = Inr (a, m') \<and>
    pm_load (pm_stats m') = managed m' + (unat (je_sallocx je a h') - unat n) \<and>
    managed m' < pm_load (pm_stats m')"
proof -
  have lt: "unat n < unat (je_sallocx je a h')" using assms(8) by (simp add: nat_simps)
  show ?thesis
  proof (rule allocMem_block [OF assms(1,3,2,4,6,7), where t = t])
    fix m' r
    assume "allocMem je t p n m = Inr (a, m')" "live h' = (live (je_heap m))(a \<mapsto> r)"
      "managed m' = managed m" "pm_load (pm_stats m') = pm_load (pm_stats m) + unat r"
    then show ?thesis
      using assms(5) lt je_sallocx_live [OF assms(2), of h' a r] by auto
  qed
qed

theorem rounding_exceeds_system_memory_witness:
  "\<exists>m'. allocMem bump_je 1 POLICY_MGR_EXEC_POOL 13
      \<lparr>pm_stats = stats_128Mi 134217715 0, je_heap = bump_empty\<rparr> = Inr (4096, m') \<and>
    pm_load (pm_stats m') = managed m' + 3"
proof -
  let ?m = "\<lparr>pm_stats = stats_128Mi 134217715 0, je_heap = bump_empty\<rparr>"
  have ok: "mm_ok 7 ?m" by (simp add: mm_ok_def stats_128Mi_ready)
  have adm: "admits POLICY_MGR_EXEC_POOL (unat (13 :: size_t)) (abs_policy (pm_stats ?m))" by simp
  have je: "je_malloc bump_je 13 (je_heap ?m)
      = (4096, snd (je_malloc bump_je 13 (je_heap ?m)))"
    by (simp add: bump_je_def bump_malloc_def bump_empty_def)
  have size: "je_sallocx bump_je 4096 (snd (je_malloc bump_je 13 (je_heap ?m))) = 16"
    by (simp add: bump_je_def bump_malloc_def bump_empty_def bump_sallocx_def Let_def round8_def)
  show ?thesis
    using rounding_exceeds_system_memory [OF ok bump_contract _ adm _ je, of 1] size
    by (auto simp: pm_load_def)
qed

text \<open>
  \<^verbatim>\<open>freeMem\<close> subtracts whatever \<^verbatim>\<open>je_sallocx\<close> says. If that is more than the pool holds, the
  counter wraps, and the pool refuses every later request.
\<close>

lemma free_underflow:
  assumes "mm_ok S m" and "p \<noteq> POLICY_MGR_POOL_MAX" and size: "je_sallocx je a (je_heap m) = r"
    and "usage m p < unat r" and "unat r < 2 ^ 63"
  obtains m' where "freeMem je t p a m = Inr m'" and "je_heap m' = je_free je a (je_heap m)"
    and "usage m' = (usage m)(p := 2 ^ 64 - (unat r - usage m p))"
    and "\<And>n u. allocMem je u p n m' = Inr (NULL, m')"
proof -
  have ready: "pm_config (pm_stats m)" "mutex_policyMgrStats (pm_stats m) = Mutex_unlocked"
      "managed m < 2 ^ 63"
    using assms(1) by (auto simp: mm_ok_def pm_ready_def)
  have "unat (used (pm_stats m) p) < unat r" using assms(2,4) by simp
  note under = underflow_blocks_pool [OF ready(1,2) assms(2) ready(3) this assms(5)]
  let ?s = "set_used p (used (pm_stats m) p - r) (pm_stats m)"
  let ?m = "m\<lparr>pm_stats := ?s, je_heap := je_free je a (je_heap m)\<rparr>"
  have "r \<noteq> 0" using assms(4) by auto
  then have "freeMem je t p a m = Inr ?m" using under(1) size by (simp add: freeMem_def Let_def)
  moreover have "allocMem je u p n ?m = Inr (NULL, ?m)" for u n
    using under(2) by (simp add: allocMem_def)
  moreover have "usage ?m = (usage m)(p := 2 ^ 64 - (unat r - usage m p))"
    using ready(1) assms(2) under(3) by (auto simp: load_abs_upd)
  ultimately show thesis by (intro that [of ?m]) (simp_all add: fun_upd_def)
qed

text \<open>
  C16: freeing a block to a pool that holds less than its size (a block of the other pool) is not
  detected. The block is given back to jemalloc, but the pool's counter wraps and every later request
  of that pool is refused (NULL), while the pool the block came from keeps being charged for it.
\<close>
theorem cross_pool_free_blocks_pool:
  assumes "mm_ok S m" and "je_contract je live S" and "p \<noteq> POLICY_MGR_POOL_MAX"
    and "live (je_heap m) a = Some r" and "usage m p < unat r" and "unat r < 2 ^ 63"
  shows "\<exists>m'. freeMem je t p a m = Inr m' \<and> live (je_heap m') = (live (je_heap m))(a := None) \<and>
    usage m' p = 2 ^ 64 - (unat r - usage m p) \<and> (\<forall>q. q \<noteq> p \<longrightarrow> usage m' q = usage m q) \<and>
    (\<forall>n u. allocMem je u p n m' = Inr (NULL, m'))"
proof (rule free_underflow [OF assms(1,3) je_sallocx_live [OF assms(2,4)] assms(5,6), of t])
  fix m'
  assume "freeMem je t p a m = Inr m'" "je_heap m' = je_free je a (je_heap m)"
    "usage m' = (usage m)(p := 2 ^ 64 - (unat r - usage m p))" "\<And>n u. allocMem je u p n m' = Inr (NULL, m')"
  then show ?thesis using je_free_live [OF assms(2,4)] by auto
qed

theorem cross_pool_free_blocks_pool_witness:
  "\<exists>m'. freeMem bump_je 1 POLICY_MGR_STORAGE_POOL 4096 \<lparr>pm_stats = stats_128Mi 16 0,
      je_heap = \<lparr>next_addr = 4112, blocks = [(4096, 16)]\<rparr>\<rparr> = Inr m' \<and>
    usage m' POLICY_MGR_STORAGE_POOL = 2 ^ 64 - 16 \<and>
    allocMem bump_je 1 POLICY_MGR_STORAGE_POOL 4096 m' = Inr (NULL, m')"
proof -
  let ?m = "\<lparr>pm_stats = stats_128Mi 16 0, je_heap = \<lparr>next_addr = 4112, blocks = [(4096, 16)]\<rparr>\<rparr>"
  have ok: "mm_ok 7 ?m" by (simp add: mm_ok_def stats_128Mi_ready)
  have "bump_live (je_heap ?m) 4096 = Some 16" by (simp add: bump_live_def)
  from cross_pool_free_blocks_pool [OF ok bump_contract _ this, of POLICY_MGR_STORAGE_POOL 1]
  show ?thesis by auto
qed

end
