(* ===== verification/Mem_Client.thy ===== *)
theory Mem_Client
  imports Mem_Mgr
begin

text \<open>
  Sessions of a client: any sequence of calls of the public functions, each \<^verbatim>\<open>free\<close> of a block
  the client holds, to the pool it came from. A ghost map records which blocks the client holds. The
  invariant ties the policy manager's counters to the real sizes of those blocks; it is an instance
  of the locale of the prelude.
\<close>

section \<open>Calls and sessions\<close>

datatype call =
    Alloc_storage size_t
  | Alloc_exec size_t
  | Free_storage addr
  | Free_exec addr

fun do_call :: "'h jemalloc \<Rightarrow> tid \<Rightarrow> call \<Rightarrow> 'h mem_mgr \<Rightarrow> (addr \<times> 'h mem_mgr) res" where
  "do_call je t (Alloc_storage n) m = allocStorageMemory je t n m"
| "do_call je t (Alloc_exec n) m = allocExecMemory je t n m"
| "do_call je t (Free_storage a) m = rbind (freeStorageMemory je t a m) (\<lambda>m. Inr (NULL, m))"
| "do_call je t (Free_exec a) m = rbind (freeExecMemory je t a m) (\<lambda>m. Inr (NULL, m))"

type_synonym holdings = "addr \<rightharpoonup> policyMgrPool"

fun allowed :: "call \<Rightarrow> holdings \<Rightarrow> bool" where
  "allowed (Alloc_storage n) h \<longleftrightarrow> True"
| "allowed (Alloc_exec n) h \<longleftrightarrow> True"
| "allowed (Free_storage a) h \<longleftrightarrow> h a = Some POLICY_MGR_STORAGE_POOL"
| "allowed (Free_exec a) h \<longleftrightarrow> h a = Some POLICY_MGR_EXEC_POOL"

fun holds_after :: "call \<Rightarrow> addr \<Rightarrow> holdings \<Rightarrow> holdings" where
  "holds_after (Alloc_storage n) a h = (if a = NULL then h else h(a \<mapsto> POLICY_MGR_STORAGE_POOL))"
| "holds_after (Alloc_exec n) a h = (if a = NULL then h else h(a \<mapsto> POLICY_MGR_EXEC_POOL))"
| "holds_after (Free_storage b) a h = h(b := None)"
| "holds_after (Free_exec b) a h = h(b := None)"

record 'h client =
  mgr :: "'h mem_mgr"
  holds :: holdings

lemma client_collapse [simp]: "\<lparr>mgr = mgr s, holds = holds s\<rparr> = s"
  by (cases s) simp

inductive client_step :: "'h jemalloc \<Rightarrow> 'h client \<Rightarrow> 'h client \<Rightarrow> bool" for je where
  client_step: "allowed c (holds s) \<Longrightarrow> do_call je t c (mgr s) = Inr (a, m') \<Longrightarrow>
    client_step je s \<lparr>mgr = m', holds = holds_after c a (holds s)\<rparr>"

inductive_cases client_stepE: "client_step je s s'"

section \<open>The invariant\<close>

definition held :: "'h heap_view \<Rightarrow> 'h client \<Rightarrow> policyMgrPool \<Rightarrow> nat" where
  "held live s p =
     (\<Sum>a | holds s a = Some p. unat (the (live (je_heap (mgr s)) a)))"

definition client_inv :: "'h jemalloc \<Rightarrow> 'h heap_view \<Rightarrow> nat \<Rightarrow> nat \<Rightarrow> 'h client \<Rightarrow> bool" where
  "client_inv je live S b s \<longleftrightarrow>
     je_contract je live S \<and> mm_ok S (mgr s) \<and> finite (dom (holds s)) \<and>
     (\<forall>a p. holds s a = Some p \<longrightarrow>
        p \<noteq> POLICY_MGR_POOL_MAX \<and> (\<exists>r. live (je_heap (mgr s)) a = Some r \<and> r \<noteq> 0)) \<and>
     (\<forall>p. p \<noteq> POLICY_MGR_POOL_MAX \<longrightarrow> usage (mgr s) p = held live s p) \<and>
     managed (mgr s) = b \<and> quota (abs_policy (pm_stats (mgr s))) = b - b div 2 \<and>
     pm_load (pm_stats (mgr s)) \<le> b + S \<and>
     usage (mgr s) POLICY_MGR_STORAGE_POOL \<le> b - b div 2 + S"

lemma holds_live:
  "client_inv je live S b s \<Longrightarrow> holds s a = Some p \<Longrightarrow>
   \<exists>r. live (je_heap (mgr s)) a = Some r \<and> r \<noteq> 0"
  unfolding client_inv_def by blast

lemma finite_holds: "finite (dom h) \<Longrightarrow> finite {a. h a = Some p}"
  by (rule finite_subset [of _ "dom h"]) auto

text \<open>Taking and giving back a block, on the sum of the held sizes.\<close>

lemma held_take:
  assumes "finite (dom h)" and "h a = None"
  shows "(\<Sum>b | (h(a \<mapsto> q)) b = Some p. f ((l(a \<mapsto> r)) b)) =
    (\<Sum>b | h b = Some p. f (l b)) + (if p = q then f (Some r) else (0 :: nat))"
proof -
  have same: "(\<Sum>b | h b = Some p. f ((l(a \<mapsto> r)) b)) = (\<Sum>b | h b = Some p. f (l b))"
    using assms(2) by (intro sum.cong) auto
  show ?thesis
  proof (cases "p = q")
    case True
    then have "{b. (h(a \<mapsto> q)) b = Some p} = insert a {b. h b = Some p}" by auto
    with True assms same show ?thesis by (simp add: finite_holds)
  next
    case False
    then have "{b. (h(a \<mapsto> q)) b = Some p} = {b. h b = Some p}" using assms(2) by auto
    with False same show ?thesis by simp
  qed
qed

lemma held_give:
  assumes "finite (dom h)" and "h a = Some q"
  shows "(\<Sum>b | (h(a := None)) b = Some p. f ((l(a := None)) b)) =
    (\<Sum>b | h b = Some p. f (l b)) - (if p = q then f (l a) else (0 :: nat))"
proof (cases "p = q")
  case True
  then have "{b. (h(a := None)) b = Some p} = {b. h b = Some p} - {a}" by auto
  moreover have "(\<Sum>b \<in> {b. h b = Some p} - {a}. f ((l(a := None)) b)) =
      (\<Sum>b \<in> {b. h b = Some p} - {a}. f (l b))" by (intro sum.cong) auto
  ultimately show ?thesis
    using True assms by (simp add: sum_diff1_nat finite_holds)
next
  case False
  then have "{b. (h(a := None)) b = Some p} = {b. h b = Some p}" using assms(2) by auto
  moreover have "(\<Sum>b | h b = Some p. f ((l(a := None)) b)) = (\<Sum>b | h b = Some p. f (l b))"
    using assms(2) False by (intro sum.cong) auto
  ultimately show ?thesis using False by simp
qed

lemma held_ge:
  assumes "finite (dom (holds s))" and "holds s a = Some p" and "live (je_heap (mgr s)) a = Some r"
  shows "unat r \<le> held live s p"
  using member_le_sum [of a "{a. holds s a = Some p}" "\<lambda>a. unat (the (live (je_heap (mgr s)) a))"]
    assms finite_holds by (simp add: held_def)

section \<open>Preservation\<close>

lemma alloc_step:
  assumes inv: "client_inv je live S b s" and p: "p \<noteq> POLICY_MGR_POOL_MAX"
  obtains a m' where "allocMem je t p n (mgr s) = Inr (a, m')"
    and "client_inv je live S b
      \<lparr>mgr = m', holds = if a = NULL then holds s else (holds s)(a \<mapsto> p)\<rparr>"
proof -
  have je: "je_contract je live S" and ok: "mm_ok S (mgr s)" and fin: "finite (dom (holds s))"
    using inv by (auto simp: client_inv_def)
  show thesis
  proof (cases "admits p (unat n) (abs_policy (pm_stats (mgr s)))")
    case False
    from allocMem_denied [OF ok p this] show thesis using inv by (intro that [of NULL "mgr s"]) auto
  next
    case adm: True
    obtain a h' where mal: "je_malloc je n (je_heap (mgr s)) = (a, h')" by fastforce
    show thesis
    proof (cases "a = NULL")
      case True
      with mal have null: "je_malloc je n (je_heap (mgr s)) = (NULL, h')" by simp
      show thesis
      proof (rule that)
        show "allocMem je t p n (mgr s) = Inr (NULL, (mgr s)\<lparr>je_heap := h'\<rparr>)"
          by (rule allocMem_null [OF ok p adm null])
        show "client_inv je live S b \<lparr>mgr = (mgr s)\<lparr>je_heap := h'\<rparr>,
            holds = if NULL = NULL then holds s else (holds s)(NULL \<mapsto> p)\<rparr>"
          using inv je_malloc_null [OF je null] unfolding client_inv_def
          by (auto simp: held_def mm_ok_def)
      qed
    next
      case False
      obtain m' r where m': "allocMem je t p n (mgr s) = Inr (a, m')" "je_heap m' = h'" "mm_ok S m'"
          "live (je_heap (mgr s)) a = None" "live h' = (live (je_heap (mgr s)))(a \<mapsto> r)" "n \<le> r"
          "usage m' = (usage (mgr s))(p := usage (mgr s) p + unat r)" "managed m' = managed (mgr s)"
          "pm_load (pm_stats m') \<le> managed (mgr s) + (unat r - unat n)" "unat r \<le> unat n + S"
          "quota (abs_policy (pm_stats m')) = quota (abs_policy (pm_stats (mgr s)))"
        by (rule allocMem_block [OF ok p je adm mal False, where t = t]) (rule that)
      have free: "holds s a = None" using holds_live [OF inv, of a] m'(4) by (cases "holds s a") auto
      have "1 \<le> unat n" using adm p by (cases p) auto
      then have r: "r \<noteq> 0" using m'(6) by (auto simp: nat_simps)
      let ?s = "\<lparr>mgr = m', holds = (holds s)(a \<mapsto> p)\<rparr>"
      have sum: "held live ?s q = held live s q + (if q = p then unat r else 0)" for q
        using held_take [OF fin free, where f = "\<lambda>x. unat (the x)" and l = "live (je_heap (mgr s))"
          and r = r and p = q and q = p]
        by (simp add: held_def m'(2,5) del: fun_upd_apply)
      have cap: "managed (mgr s) = b" "quota (abs_policy (pm_stats (mgr s))) = b - b div 2"
        using inv by (auto simp: client_inv_def)
      then have load: "pm_load (pm_stats m') \<le> b + S" using m'(9,10) by linarith
      have stor: "usage m' POLICY_MGR_STORAGE_POOL \<le> b - b div 2 + S"
        using adm m'(7,10) inv cap p by (cases p) (auto simp: client_inv_def)
      have "client_inv je live S b ?s"
        using inv sum m'(3,7,8,11) load stor r p
        by (auto simp: client_inv_def m'(2,5))
      with False m'(1) show thesis by (intro that) auto
    qed
  qed
qed

lemma free_step:
  assumes inv: "client_inv je live S b s" and own: "holds s a = Some p"
  obtains m' where "freeMem je t p a (mgr s) = Inr m'"
    and "client_inv je live S b \<lparr>mgr = m', holds = (holds s)(a := None)\<rparr>"
proof -
  have je: "je_contract je live S" and ok: "mm_ok S (mgr s)" and fin: "finite (dom (holds s))"
    and p: "p \<noteq> POLICY_MGR_POOL_MAX"
    using inv own by (auto simp: client_inv_def)
  obtain r where r: "live (je_heap (mgr s)) a = Some r" "r \<noteq> 0"
    using inv own unfolding client_inv_def by blast
  have le: "unat r \<le> usage (mgr s) p"
    using held_ge [of s a p live r] fin own r(1) inv p by (simp add: client_inv_def)
  obtain m' where m': "freeMem je t p a (mgr s) = Inr m'" "mm_ok S m'"
      "live (je_heap m') = (live (je_heap (mgr s)))(a := None)"
      "usage m' = (usage (mgr s))(p := usage (mgr s) p - unat r)" "managed m' = managed (mgr s)"
      "pm_load (pm_stats m') = pm_load (pm_stats (mgr s)) - unat r"
      "quota (abs_policy (pm_stats m')) = quota (abs_policy (pm_stats (mgr s)))"
    by (rule freeMem_block [OF ok p je r le, where t = t]) (rule that)
  let ?s = "\<lparr>mgr = m', holds = (holds s)(a := None)\<rparr>"
  have sum: "held live ?s q = held live s q - (if q = p then unat r else 0)" for q
    using held_give [OF fin own, where f = "\<lambda>x. unat (the x)" and l = "live (je_heap (mgr s))"
        and p = q] r(1)
    by (simp add: held_def m'(3) del: fun_upd_apply)
  have "client_inv je live S b ?s"
    using inv sum m' by (auto simp: client_inv_def intro: order_trans [OF diff_le_self])
  with m'(1) show thesis by (rule that)
qed

lemma call_progress:
  assumes "client_inv je live S b s" and "allowed c (holds s)"
  shows "\<exists>a m'. do_call je t c (mgr s) = Inr (a, m') \<and>
    client_inv je live S b \<lparr>mgr = m', holds = holds_after c a (holds s)\<rparr>"
proof -
  have alloc: "\<exists>a m'. allocMem je t p n (mgr s) = Inr (a, m') \<and> client_inv je live S b
      \<lparr>mgr = m', holds = if a = NULL then holds s else (holds s)(a \<mapsto> p)\<rparr>"
    if "p \<noteq> POLICY_MGR_POOL_MAX" for p n
    by (rule alloc_step [OF assms(1) that]) blast
  have free: "\<exists>m'. freeMem je t p a (mgr s) = Inr m' \<and>
      client_inv je live S b \<lparr>mgr = m', holds = (holds s)(a := None)\<rparr>" if "holds s a = Some p" for p a
    by (rule free_step [OF assms(1) that]) blast
  show ?thesis
  proof (cases c)
    case (Alloc_storage n)
    with alloc [of POLICY_MGR_STORAGE_POOL n] show ?thesis by (simp add: allocStorageMemory_def)
  next
    case (Alloc_exec n)
    with alloc [of POLICY_MGR_EXEC_POOL n] show ?thesis by (simp add: allocExecMemory_def)
  next
    case (Free_storage a)
    with free [of a POLICY_MGR_STORAGE_POOL] assms(2) show ?thesis
      by (auto simp: freeStorageMemory_def)
  next
    case (Free_exec a)
    with free [of a POLICY_MGR_EXEC_POOL] assms(2) show ?thesis
      by (auto simp: freeExecMemory_def)
  qed
qed

interpretation client: invariant "client_step je" "client_inv je live S b" for je live S b
proof (unfold_locales, erule client_stepE)
  fix s s' c t a m'
  assume "client_inv je live S b s" "allowed c (holds s)" "do_call je t c (mgr s) = Inr (a, m')"
    and "s' = \<lparr>mgr = m', holds = holds_after c a (holds s)\<rparr>"
  with call_progress [of je live S b s c t] show "client_inv je live S b s'" by auto
qed

section \<open>Sessions from initialisation\<close>

definition client_start :: "'h mem_mgr \<Rightarrow> 'h client" where
  "client_start m = \<lparr>mgr = m, holds = (\<lambda>_. None)\<rparr>"

lemma initMemoryManager_ok:
  assumes "mutex_policyMgrStats (pm_stats m) = Mutex_uninit"
    and "length (poolStats_policyMgrStats (pm_stats m)) = 2"
    and "unat b < 2 ^ 58" and "S < 2 ^ 62" and "je_contract je live S"
  obtains m' where "initMemoryManager b m = Inr (True, m')" and "je_heap m' = je_heap m"
    and "client_inv je live S (unat b) (client_start m')" and "abs_policy (pm_stats m') = spec_init (unat b)"
proof -
  obtain m' where m': "initMemoryManager b m = Inr (True, m')" "je_heap m' = je_heap m"
      "mm_ok S m'" "abs_policy (pm_stats m') = spec_init (unat b)"
    using assms(1-4) by (rule initMemoryManager_spec) (rule that)
  then have zero: "usage m' p = 0" "unat (total_memory_policyMgrStats (pm_stats m')) = unat b" for p
    by (simp_all add: spec_init_def flip: abs_policy_simps(1))
  then have "unat (used (pm_stats m') p) = 0" if "p \<noteq> POLICY_MGR_POOL_MAX" for p
    using that by (metis abs_policy_simps(3))
  moreover have "quota (abs_policy (pm_stats m')) = unat b - unat b div 2"
    unfolding m'(4) by (simp add: spec_init_def)
  ultimately show thesis
    using m' zero assms
    by (intro that [of m']) (auto simp: client_inv_def client_start_def held_def pm_load_def)
qed

section \<open>Properties of client sessions\<close>

text \<open>
  C5: accounting: after any session of a client that frees only blocks it holds, to the pool they
  came from, each pool's counter is exactly the sum of the real sizes of the blocks held from that
  pool, every block held is live in jemalloc, and the memory in use exceeds the configured
  total (and the storage pool its half of it) by at most one block's rounding S.
\<close>
theorem session_accounting:
  assumes "mutex_policyMgrStats (pm_stats m) = Mutex_uninit"
    and "length (poolStats_policyMgrStats (pm_stats m)) = 2"
    and "unat b < 2 ^ 58" and "S < 2 ^ 62" and "je_contract je live S"
    and "initMemoryManager b m = Inr (r, m')"
    and "steps (client_step je) (client_start m') s"
  shows "(\<forall>p. p \<noteq> POLICY_MGR_POOL_MAX \<longrightarrow>
      usage (mgr s) p = (\<Sum>a | holds s a = Some p. unat (the (live (je_heap (mgr s)) a)))) \<and>
    (\<forall>a p. holds s a = Some p \<longrightarrow> live (je_heap (mgr s)) a \<noteq> None) \<and>
    usage (mgr s) POLICY_MGR_EXEC_POOL + usage (mgr s) POLICY_MGR_STORAGE_POOL \<le> unat b + S \<and>
    usage (mgr s) POLICY_MGR_STORAGE_POOL \<le> unat b - unat b div 2 + S"
proof -
  have "client_inv je live S (unat b) (client_start m')"
    by (rule initMemoryManager_ok [OF assms(1-5)]) (use assms(6) in simp)
  then have "client_inv je live S (unat b) s"
    by (rule client.steps_inv [OF assms(7)])
  note inv = this
  show ?thesis
  proof (intro conjI allI impI)
    fix a p assume "holds s a = Some p"
    then show "live (je_heap (mgr s)) a \<noteq> None" using holds_live [OF inv] by fastforce
  qed (use inv in \<open>auto simp: client_inv_def held_def pm_load_def\<close>)
qed

definition mm_zero :: "bump_heap mem_mgr" where
  "mm_zero = \<lparr>pm_stats = pm_stats_zero, je_heap = bump_empty\<rparr>"

lemma mm_zero_start:
  "mutex_policyMgrStats (pm_stats mm_zero) = Mutex_uninit"
  "length (poolStats_policyMgrStats (pm_stats mm_zero)) = 2"
  by (simp_all add: mm_zero_def pm_stats_zero_def)

text \<open>A session on it: one block is allocated, and freed again.\<close>

lemma mm_zero_session:
  obtains m' s1 s2 where "initMemoryManager 134217728 mm_zero = Inr (True, m')"
    and "steps (client_step bump_je) (client_start m') s1" and "holds s1 = [4096 \<mapsto> POLICY_MGR_EXEC_POOL]"
    and "steps (client_step bump_je) (client_start m') s2" and "s2 \<noteq> client_start m'"
    and "holds s2 = (\<lambda>_. None)"
proof -
  obtain m' where m': "initMemoryManager 134217728 mm_zero = Inr (True, m')"
      "client_inv bump_je bump_live 7 134217728 (client_start m')" "je_heap m' = bump_empty"
      "abs_policy (pm_stats m') = spec_init 134217728"
    by (rule initMemoryManager_ok [OF mm_zero_start _ _ bump_contract, of 134217728])
       (simp_all add: mm_zero_def)
  have ok: "mm_ok 7 m'" using m'(2) by (simp add: client_inv_def client_start_def)
  have adm: "admits POLICY_MGR_EXEC_POOL (unat (100 :: size_t)) (abs_policy (pm_stats m'))"
    by (simp add: m'(4)) (simp add: spec_init_def)
  let ?h = "\<lparr>next_addr = 4200, blocks = [(4096, 104)]\<rparr>"
  have je: "je_malloc bump_je 100 (je_heap m') = (4096, ?h)"
    by (simp add: m'(3) bump_je_def bump_malloc_def bump_empty_def round8_def)
  obtain m1 where m1: "allocMem bump_je 1 POLICY_MGR_EXEC_POOL 100 m' = Inr (4096, m1)" "je_heap m1 = ?h"
    by (rule allocMem_block [OF ok _ bump_contract adm je, of 1]) auto
  let ?s1 = "\<lparr>mgr = m1, holds = [4096 \<mapsto> POLICY_MGR_EXEC_POOL]\<rparr>"
  have "client_step bump_je (client_start m') ?s1"
    using client_step [of "Alloc_exec 100" "client_start m'" bump_je 1 4096 m1] m1(1)
    by (simp add: client_start_def allocExecMemory_def)
  then have s1: "steps (client_step bump_je) (client_start m') ?s1" by (rule steps_one)
  then have "client_inv bump_je bump_live 7 134217728 ?s1"
    by (rule client.steps_inv) (rule m'(2))
  from call_progress [OF this, of "Free_exec 4096" 1] obtain m2 where
    free: "freeExecMemory bump_je 1 4096 m1 = Inr m2" by (auto simp: rbind_eq_Inr)
  let ?s2 = "\<lparr>mgr = m2, holds = (\<lambda>_. None)\<rparr>"
  have "client_step bump_je ?s1 ?s2"
    using client_step [of "Free_exec 4096" ?s1 bump_je 1 NULL m2] free by simp
  with s1 have s2: "steps (client_step bump_je) (client_start m') ?s2" by (rule steps_step)
  have "next_addr (je_heap m2) = 4200"
    using free m1(2) by (auto simp: freeExecMemory_def freeMem_def Let_def rbind_eq_Inr bump_je_def
        bump_free_def bump_sallocx_def)
  then have "?s2 \<noteq> client_start m'" by (auto simp: client_start_def m'(3) bump_empty_def)
  with m'(1) s1 s2 that show thesis by (metis client.select_convs(2))
qed

theorem session_accounting_witness:
  "\<exists>m' s. initMemoryManager 134217728 mm_zero = Inr (True, m') \<and>
    steps (client_step bump_je) (client_start m') s \<and> holds s = [4096 \<mapsto> POLICY_MGR_EXEC_POOL] \<and>
    usage (mgr s) POLICY_MGR_EXEC_POOL = unat (the (bump_live (je_heap (mgr s)) 4096))"
proof -
  obtain m' s where s: "initMemoryManager 134217728 mm_zero = Inr (True, m')"
      "steps (client_step bump_je) (client_start m') s" "holds s = [4096 \<mapsto> POLICY_MGR_EXEC_POOL]"
    by (rule mm_zero_session)
  have "unat (134217728 :: size_t) < 2 ^ 58" by simp
  moreover have "{a. holds s a = Some POLICY_MGR_EXEC_POOL} = {4096}" using s(3) by auto
  ultimately show ?thesis
    using session_accounting [OF mm_zero_start _ _ bump_contract s(1,2)] s by auto
qed

text \<open>
  C10: no session goes wrong: in every state a disciplined client can reach, every call it may make
  (any allocation, of any size, and any free of a block it holds) returns; no assertion fails, no
  counter overflows, no mutex is misused.
\<close>
theorem session_fault_free:
  assumes "mutex_policyMgrStats (pm_stats m) = Mutex_uninit"
    and "length (poolStats_policyMgrStats (pm_stats m)) = 2"
    and "unat b < 2 ^ 58" and "S < 2 ^ 62" and "je_contract je live S"
    and "initMemoryManager b m = Inr (r, m')"
    and "steps (client_step je) (client_start m') s" and "allowed c (holds s)"
  shows "\<exists>a m''. do_call je t c (mgr s) = Inr (a, m'')"
proof -
  have "client_inv je live S (unat b) (client_start m')"
    by (rule initMemoryManager_ok [OF assms(1-5)]) (use assms(6) in simp)
  then have "client_inv je live S (unat b) s"
    by (rule client.steps_inv [OF assms(7)])
  with call_progress assms(8) show ?thesis by blast
qed

theorem session_fault_free_witness:
  "\<exists>m' s a m''. initMemoryManager 134217728 mm_zero = Inr (True, m') \<and>
    steps (client_step bump_je) (client_start m') s \<and> s \<noteq> client_start m' \<and>
    do_call bump_je 1 (Alloc_storage 5000) (mgr s) = Inr (a, m'')"
proof -
  obtain m' s where s: "initMemoryManager 134217728 mm_zero = Inr (True, m')"
      "steps (client_step bump_je) (client_start m') s" "s \<noteq> client_start m'"
    by (rule mm_zero_session)
  have "unat (134217728 :: size_t) < 2 ^ 58" by simp
  from session_fault_free [OF mm_zero_start this _ bump_contract s(1,2), of "Alloc_storage 5000" 1] s
  show ?thesis by auto
qed

text \<open>
  C11: no drift: when the client holds nothing any more, both counters are zero again and the policy is
  the one initialisation built, so every request that was admitted at the start is admitted now.
\<close>
theorem session_drained:
  assumes "mutex_policyMgrStats (pm_stats m) = Mutex_uninit"
    and "length (poolStats_policyMgrStats (pm_stats m)) = 2"
    and "unat b < 2 ^ 58" and "S < 2 ^ 62" and "je_contract je live S"
    and "initMemoryManager b m = Inr (r, m')"
    and "steps (client_step je) (client_start m') s" and "holds s = (\<lambda>_. None)"
  shows "abs_policy (pm_stats (mgr s)) = spec_init (unat b)"
proof -
  have "client_inv je live S (unat b) (client_start m')"
    by (rule initMemoryManager_ok [OF assms(1-5)]) (use assms(6) in simp)
  then have inv: "client_inv je live S (unat b) s"
    by (rule client.steps_inv [OF assms(7)])
  then have "usage (mgr s) p = 0" for p
    using assms(8) by (cases "p = POLICY_MGR_POOL_MAX") (auto simp: client_inv_def held_def abs_policy_def)
  with inv show ?thesis
    by (intro policy.equality) (auto simp: client_inv_def spec_init_def)
qed

theorem session_drained_witness:
  "\<exists>m' s. initMemoryManager 134217728 mm_zero = Inr (True, m') \<and>
    steps (client_step bump_je) (client_start m') s \<and> s \<noteq> client_start m' \<and>
    abs_policy (pm_stats (mgr s)) = spec_init 134217728"
proof -
  obtain m' s where s: "initMemoryManager 134217728 mm_zero = Inr (True, m')"
      "steps (client_step bump_je) (client_start m') s" "s \<noteq> client_start m'"
      "holds s = (\<lambda>_. None)"
    by (rule mm_zero_session)
  have "unat (134217728 :: size_t) < 2 ^ 58" by simp
  from session_drained [OF mm_zero_start this _ bump_contract s(1,2,4)] s show ?thesis by auto
qed

end
