(* ===== verification/Mem_Threads.thy ===== *)
theory Mem_Threads
  imports Mem_Mgr
begin

text \<open>
  One call of a public function as a thread executes it, step by step: a program counter names the
  point inside \<^verbatim>\<open>allocMem\<close>, \<^verbatim>\<open>freeMem\<close>, \<^verbatim>\<open>policyMgrAlloc\<close> or
  \<^verbatim>\<open>policyMgrAdjustAlloc\<close> the thread has reached, with the values of its local variables.
  Locking, reading the statistics, updating them, unlocking and each jemalloc call are separate
  steps, so that other threads can run in between. Run alone, the steps are the sequential functions.
\<close>

datatype pc =
    Idle
  | A_lock policyMgrPool size_t                      \<comment> \<open>policyMgrAlloc: about to lock\<close>
  | A_read policyMgrPool size_t                      \<comment> \<open>about to read the statistics\<close>
  | A_decide policyMgrPool size_t alloc_locals       \<comment> \<open>about to decide and update\<close>
  | A_unlock policyMgrPool size_t bool               \<comment> \<open>at \<^verbatim>\<open>done\<close>, with \<^verbatim>\<open>ret\<close>\<close>
  | A_malloc policyMgrPool size_t                    \<comment> \<open>allocMem: about to call je_malloc\<close>
  | A_sallocx policyMgrPool size_t addr              \<comment> \<open>about to ask for the real size\<close>
  | J_lock policyMgrPool slong addr                  \<comment> \<open>policyMgrAdjustAlloc: about to lock\<close>
  | J_read policyMgrPool slong addr                  \<comment> \<open>about to read the counter\<close>
  | J_write policyMgrPool slong size_t addr          \<comment> \<open>about to write it\<close>
  | J_unlock policyMgrPool addr
  | F_sallocx policyMgrPool addr                     \<comment> \<open>freeMem: about to ask for the size\<close>
  | F_free policyMgrPool addr size_t                 \<comment> \<open>about to call je_free\<close>
  | Returned policyMgrPool addr                      \<comment> \<open>the call is over, with its result\<close>

fun thread_step :: "'h jemalloc \<Rightarrow> tid \<Rightarrow> pc \<Rightarrow> 'h mem_mgr \<Rightarrow> (pc \<times> 'h mem_mgr) res" where
  "thread_step je t Idle m = Inr (Idle, m)"
| "thread_step je t (A_lock p n) m =
     rbind (lock_stats t (pm_stats m)) (\<lambda>s. Inr (A_read p n, m\<lparr>pm_stats := s\<rparr>))"
| "thread_step je t (A_read p n) m = Inr (A_decide p n (policyMgrAlloc_read (pm_stats m)), m)"
| "thread_step je t (A_decide p n l) m =
     rbind (policyMgrAlloc_decide p n l (pm_stats m)) (\<lambda>(ok, s).
     Inr (A_unlock p n ok, m\<lparr>pm_stats := s\<rparr>))"
| "thread_step je t (A_unlock p n ok) m =
     rbind (unlock_stats t (pm_stats m)) (\<lambda>s.
     Inr (if ok then A_malloc p n else Returned p NULL, m\<lparr>pm_stats := s\<rparr>))"
| "thread_step je t (A_malloc p n) m =
     (let (a, h) = je_malloc je n (je_heap m) in
      Inr (if a \<noteq> NULL then A_sallocx p n a else J_lock p (- n) NULL, m\<lparr>je_heap := h\<rparr>))"
| "thread_step je t (A_sallocx p n a) m =
     (let r = je_sallocx je a (je_heap m) in
      if \<not> r \<ge> n then Inl Assertion_failed
      else Inr (if r > n then J_lock p (r - n) a else Returned p a, m))"
| "thread_step je t (J_lock p d a) m =
     rbind (lock_stats t (pm_stats m)) (\<lambda>s. Inr (J_read p d a, m\<lparr>pm_stats := s\<rparr>))"
| "thread_step je t (J_read p d a) m =
     rbind (policyMgrAdjustAlloc_read p (pm_stats m)) (\<lambda>u. Inr (J_write p d u a, m))"
| "thread_step je t (J_write p d u a) m =
     rbind (policyMgrAdjustAlloc_write p d u (pm_stats m)) (\<lambda>s.
     Inr (J_unlock p a, m\<lparr>pm_stats := s\<rparr>))"
| "thread_step je t (J_unlock p a) m =
     rbind (unlock_stats t (pm_stats m)) (\<lambda>s. Inr (Returned p a, m\<lparr>pm_stats := s\<rparr>))"
| "thread_step je t (F_sallocx p a) m =
     (let n = je_sallocx je a (je_heap m) in
      Inr (if n \<le> 0 then Returned p NULL else F_free p a n, m))"
| "thread_step je t (F_free p a n) m =
     Inr (J_lock p (- n) NULL, m\<lparr>je_heap := je_free je a (je_heap m)\<rparr>)"
| "thread_step je t (Returned p a) m = Inr (Returned p a, m)"

text \<open>The steps left until the call is over, if it is not blocked.\<close>

fun rank :: "pc \<Rightarrow> nat" where
  "rank Idle = 0"
| "rank (A_lock p n) = 10"
| "rank (A_read p n) = 9"
| "rank (A_decide p n l) = 8"
| "rank (A_unlock p n ok) = 7"
| "rank (A_malloc p n) = 6"
| "rank (A_sallocx p n a) = 5"
| "rank (J_lock p d a) = 4"
| "rank (J_read p d a) = 3"
| "rank (J_write p d u a) = 2"
| "rank (J_unlock p a) = 1"
| "rank (F_sallocx p a) = 6"
| "rank (F_free p a n) = 5"
| "rank (Returned p a) = 0"

lemma thread_step_rank:
  "thread_step je t pc m = Inr (pc', m') \<Longrightarrow> 0 < rank pc \<Longrightarrow> rank pc' < rank pc"
  by (cases pc) (auto simp: rbind_eq_Inr Let_def split: prod.splits if_splits)

text \<open>A thread on its own, for a number of steps.\<close>

fun run_thread :: "nat \<Rightarrow> 'h jemalloc \<Rightarrow> tid \<Rightarrow> pc \<Rightarrow> 'h mem_mgr \<Rightarrow> (pc \<times> 'h mem_mgr) res" where
  "run_thread 0 je t pc m = Inr (pc, m)"
| "run_thread (Suc k) je t pc m =
     rbind (thread_step je t pc m) (\<lambda>(pc, m). run_thread k je t pc m)"

lemma run_thread_returned [simp]: "run_thread k je t (Returned p a) m = Inr (Returned p a, m)"
  by (induction k) auto

lemma run_thread_add: "run_thread (j + k) je t pc m =
    rbind (run_thread j je t pc m) (\<lambda>(pc, m). run_thread k je t pc m)"
proof (induction j arbitrary: pc m)
  case (Suc j)
  then show ?case by (cases "thread_step je t pc m") auto
qed simp

lemma run_adjust:
  "run_thread (4 + k) je t (J_lock p d a) m =
     rbind (policyMgrAdjustAlloc t p d (pm_stats m)) (\<lambda>s. Inr (Returned p a, m\<lparr>pm_stats := s\<rparr>))"
proof -
  have "run_thread 4 je t (J_lock p d a) m =
     rbind (policyMgrAdjustAlloc t p d (pm_stats m)) (\<lambda>s. Inr (Returned p a, m\<lparr>pm_stats := s\<rparr>))"
    by (simp add: numeral_eq_Suc policyMgrAdjustAlloc_def rbind_assoc)
  then show ?thesis
    by (cases "policyMgrAdjustAlloc t p d (pm_stats m)") (simp_all add: run_thread_add)
qed

lemma rbind_prod: "rbind (rbind m k) l = rbind m (\<lambda>(x, y). rbind (k (x, y)) l)"
  by (cases m) auto

lemma run_reserve:
  "run_thread (4 + k) je t (A_lock p n) m =
     rbind (policyMgrAlloc t p n (pm_stats m)) (\<lambda>(ok, s).
       run_thread k je t (if ok then A_malloc p n else Returned p NULL) (m\<lparr>pm_stats := s\<rparr>))"
proof -
  have "run_thread 4 je t (A_lock p n) m =
     rbind (policyMgrAlloc t p n (pm_stats m)) (\<lambda>(ok, s).
       Inr (if ok then A_malloc p n else Returned p NULL, m\<lparr>pm_stats := s\<rparr>))"
  proof (cases "lock_stats t (pm_stats m)")
    case (Inr s)
    then show ?thesis
      by (cases "policyMgrAlloc_decide p n (policyMgrAlloc_read s) s")
         (auto simp: numeral_eq_Suc policyMgrAlloc_def rbind_assoc)
  qed (simp add: numeral_eq_Suc policyMgrAlloc_def)
  then show ?thesis
    by (cases "policyMgrAlloc t p n (pm_stats m)") (auto simp: run_thread_add)
qed

lemma run_malloc:
  "run_thread 6 je t (A_malloc p n) m =
     (let (a, h) = je_malloc je n (je_heap m); m = m\<lparr>je_heap := h\<rparr> in
      if a \<noteq> NULL then
        (let r = je_sallocx je a h in
         if \<not> r \<ge> n then Inl Assertion_failed
         else if r > n then
           rbind (policyMgrAdjustAlloc t p (r - n) (pm_stats m)) (\<lambda>s.
           Inr (Returned p a, m\<lparr>pm_stats := s\<rparr>))
         else Inr (Returned p a, m))
      else
        rbind (policyMgrAdjustAlloc t p (- n) (pm_stats m)) (\<lambda>s.
        Inr (Returned p NULL, m\<lparr>pm_stats := s\<rparr>)))"
proof -
  have six: "run_thread 6 je t pc m = rbind (thread_step je t pc m) (\<lambda>(pc, m).
      run_thread 5 je t pc m)" for pc and m :: "'a mem_mgr"
    using run_thread.simps(2) [of 5 je t pc m] by simp
  have five: "run_thread 5 je t (A_sallocx p n a) m = rbind (thread_step je t (A_sallocx p n a) m)
      (\<lambda>(pc, m). run_thread 4 je t pc m)" for a and m :: "'a mem_mgr"
    using run_thread.simps(2) [of 4 je t "A_sallocx p n a" m] by simp
  have adj: "run_thread 5 je t (J_lock p d a) m = rbind (policyMgrAdjustAlloc t p d (pm_stats m))
      (\<lambda>s. Inr (Returned p a, m\<lparr>pm_stats := s\<rparr>))" for d a and m :: "'a mem_mgr"
    using run_adjust [of 1 je t p d a m] by (simp del: run_thread.simps thread_step.simps)
  show ?thesis
    using run_adjust [of 0 je t p]
    by (simp add: six five adj Let_def split: prod.split)
qed

lemma thread_runs:
  "run_thread 10 je t (A_lock p n) m =
     rbind (allocMem je t p n m) (\<lambda>(a, m'). Inr (Returned p a, m')) \<and>
   run_thread 6 je t (F_sallocx p a) m =
     rbind (freeMem je t p a m) (\<lambda>m'. Inr (Returned p NULL, m'))"
proof
  show "run_thread 10 je t (A_lock p n) m =
      rbind (allocMem je t p n m) (\<lambda>(a, m'). Inr (Returned p a, m'))"
    using run_reserve [of 6 je t p n m]
    by (cases "policyMgrAlloc t p n (pm_stats m)")
       (auto simp: allocMem_def run_malloc Let_def rbind_assoc split: prod.split)
next
  have "run_thread 6 je t pc m = rbind (thread_step je t pc m) (\<lambda>(pc, m).
      rbind (thread_step je t pc m) (\<lambda>(pc, m). run_thread 4 je t pc m))" for pc
    using run_thread_add [of 2 4 je t pc m] by (simp add: numeral_2_eq_2 rbind_assoc split_def)
  then show "run_thread 6 je t (F_sallocx p a) m =
      rbind (freeMem je t p a m) (\<lambda>m'. Inr (Returned p NULL, m'))"
    using run_adjust [of 0 je t p]
    by (auto simp: freeMem_def Let_def rbind_assoc)
qed

text \<open>
  C9: the steps of a thread that is not interrupted meet the policy, for both pools. Ten steps of an
  allocation end with NULL and an unchanged state if the policy refuses the request; with NULL and
  unchanged statistics and live blocks if jemalloc has no memory; and otherwise with jemalloc's fresh
  block, whose real size is charged to the pool, and only to it. Six steps of a deallocation of a
  non-empty block that is charged to the pool take it off the live blocks and its size off the pool.
\<close>
theorem lone_thread_meets_policy:
  assumes "mm_ok S m" and "p \<noteq> POLICY_MGR_POOL_MAX" and "je_contract je live S"
  shows "(\<exists>a m'. run_thread 10 je t (A_lock p n) m = Inr (Returned p a, m') \<and> mm_ok S m' \<and>
      managed m' = managed m \<and>
      (if \<not> admits p (unat n) (abs_policy (pm_stats m)) then a = NULL \<and> m' = m
       else a = fst (je_malloc je n (je_heap m)) \<and>
         (if a = NULL then pm_stats m' = pm_stats m \<and> live (je_heap m') = live (je_heap m)
          else live (je_heap m) a = None \<and>
            (\<exists>r. n \<le> r \<and> live (je_heap m') = (live (je_heap m))(a \<mapsto> r) \<and>
               usage m' = (usage m)(p := usage m p + unat r))))) \<and>
    (\<forall>b r. live (je_heap m) b = Some r \<and> r \<noteq> 0 \<and> unat r \<le> usage m p \<longrightarrow>
      (\<exists>m'. run_thread 6 je t (F_sallocx p b) m = Inr (Returned p NULL, m') \<and> mm_ok S m' \<and>
        managed m' = managed m \<and> live (je_heap m') = (live (je_heap m))(b := None) \<and>
        usage m' = (usage m)(p := usage m p - unat r)))"
proof (intro conjI allI impI)
  obtain a m' where "allocMem je t p n m = Inr (a, m')" "mm_ok S m'" "managed m' = managed m"
    "if \<not> admits p (unat n) (abs_policy (pm_stats m)) then a = NULL \<and> m' = m
     else je_heap m' = snd (je_malloc je n (je_heap m)) \<and> a = fst (je_malloc je n (je_heap m)) \<and>
       (if a = NULL then pm_stats m' = pm_stats m \<and> live (je_heap m') = live (je_heap m)
        else live (je_heap m) a = None \<and>
          (\<exists>r. n \<le> r \<and> live (je_heap m') = (live (je_heap m))(a \<mapsto> r) \<and>
             usage m' = (usage m)(p := usage m p + unat r)))"
    using allocMem_spec [OF assms, of t n] by blast
  with thread_runs [of je t p n m NULL]
  show "\<exists>a m'. run_thread 10 je t (A_lock p n) m = Inr (Returned p a, m') \<and> mm_ok S m' \<and>
      managed m' = managed m \<and>
      (if \<not> admits p (unat n) (abs_policy (pm_stats m)) then a = NULL \<and> m' = m
       else a = fst (je_malloc je n (je_heap m)) \<and>
         (if a = NULL then pm_stats m' = pm_stats m \<and> live (je_heap m') = live (je_heap m)
          else live (je_heap m) a = None \<and>
            (\<exists>r. n \<le> r \<and> live (je_heap m') = (live (je_heap m))(a \<mapsto> r) \<and>
               usage m' = (usage m)(p := usage m p + unat r))))"
    by (intro exI [of _ a] exI [of _ m']) (auto split: if_splits)
next
  fix b r assume "live (je_heap m) b = Some r \<and> r \<noteq> 0 \<and> unat r \<le> usage m p"
  then have block: "live (je_heap m) b = Some r" "r \<noteq> 0" "unat r \<le> usage m p" by simp_all
  obtain m' where "freeMem je t p b m = Inr m'" "mm_ok S m'" "managed m' = managed m"
    "live (je_heap m') = (live (je_heap m))(b := None)" "usage m' = (usage m)(p := usage m p - unat r)"
    by (rule freeMem_block [OF assms block, where t = t]) (rule that)
  with thread_runs [of je t p n m b]
  show "\<exists>m'. run_thread 6 je t (F_sallocx p b) m = Inr (Returned p NULL, m') \<and> mm_ok S m' \<and>
        managed m' = managed m \<and> live (je_heap m') = (live (je_heap m))(b := None) \<and>
        usage m' = (usage m)(p := usage m p - unat r)" by auto
qed

text \<open>An allocation of 13 bytes gets the block at 4096; one of 0 bytes is refused.\<close>

theorem lone_thread_meets_policy_witness:
  "(\<exists>m'. run_thread 10 bump_je 1 (A_lock POLICY_MGR_EXEC_POOL 13) mm_128Mi =
     Inr (Returned POLICY_MGR_EXEC_POOL 4096, m') \<and> 13 \<le> usage m' POLICY_MGR_EXEC_POOL) \<and>
   run_thread 10 bump_je 1 (A_lock POLICY_MGR_EXEC_POOL 0) mm_128Mi =
     Inr (Returned POLICY_MGR_EXEC_POOL NULL, mm_128Mi)"
proof
  note lone = conjunct1 [OF lone_thread_meets_policy [OF mm_128Mi_ok policyMgrPool.distinct(3) bump_contract]]
  have "fst (je_malloc bump_je 13 (je_heap mm_128Mi)) = 4096"
    by (simp add: bump_je_def bump_malloc_def mm_128Mi_def bump_empty_def)
  moreover have "admits POLICY_MGR_EXEC_POOL (unat (13 :: size_t)) (abs_policy (pm_stats mm_128Mi))"
    by (simp add: mm_128Mi_def)
  ultimately obtain m' r where run: "run_thread 10 bump_je 1 (A_lock POLICY_MGR_EXEC_POOL 13) mm_128Mi =
      Inr (Returned POLICY_MGR_EXEC_POOL 4096, m')" and "13 \<le> (r :: size_t)"
      "usage m' = (usage mm_128Mi)(POLICY_MGR_EXEC_POOL := usage mm_128Mi POLICY_MGR_EXEC_POOL + unat r)"
    using lone [of 1 13] by (auto simp del: run_thread.simps)
  then have "13 \<le> usage m' POLICY_MGR_EXEC_POOL" by (simp only: fun_upd_same) (simp add: word_le_nat_alt)
  with run show "\<exists>m'. run_thread 10 bump_je 1 (A_lock POLICY_MGR_EXEC_POOL 13) mm_128Mi =
     Inr (Returned POLICY_MGR_EXEC_POOL 4096, m') \<and> 13 \<le> usage m' POLICY_MGR_EXEC_POOL" by blast
  have "\<not> admits POLICY_MGR_EXEC_POOL (unat (0 :: size_t)) (abs_policy (pm_stats mm_128Mi))"
    by (simp add: mm_128Mi_def)
  then show "run_thread 10 bump_je 1 (A_lock POLICY_MGR_EXEC_POOL 0) mm_128Mi =
     Inr (Returned POLICY_MGR_EXEC_POOL NULL, mm_128Mi)"
    using lone [of 1 0] by auto
qed

end
