(* ===== verification/Mem_Concurrent.thy ===== *)
theory Mem_Concurrent
  imports Mem_Threads
begin

text \<open>
  Threads that share the memory manager: any number of threads, each inside a call or idle, take
  their steps in any order. A ghost table records, for every block handed out, its pool, the thread
  that is working on it (none: a client holds it) and the bytes charged for it so far. The invariant
  gives mutual exclusion, the accounting equation at every instant, and the bound on the memory in
  use that keeps every counter from overflowing.
\<close>

section \<open>The system\<close>

record block =
  bpool :: policyMgrPool
  worker :: "tid option"
  charged :: nat

type_synonym block_table = "addr \<rightharpoonup> block"

record 'h csys =
  shr :: "'h mem_mgr"
  pcs :: "tid \<Rightarrow> pc"
  table :: block_table

fun table_step :: "tid \<Rightarrow> pc \<Rightarrow> pc \<Rightarrow> block_table \<Rightarrow> block_table" where
  "table_step t (A_malloc p n) pc' B =
     (case pc' of
        A_sallocx q k a \<Rightarrow> B(a \<mapsto> \<lparr>bpool = p, worker = Some t, charged = unat n\<rparr>)
      | _ \<Rightarrow> B)"
| "table_step t (J_write p d u a) pc' B =
     (if a = NULL then B else B(a := map_option (\<lambda>b. b\<lparr>charged := charged b + unat d\<rparr>) (B a)))"
| "table_step t (F_free p a n) pc' B = B(a := None)"
| "table_step t pc pc' B = B"

inductive sys_step :: "'h jemalloc \<Rightarrow> nat \<Rightarrow> 'h csys \<Rightarrow> 'h csys \<Rightarrow> bool" for je N where
  call_alloc: "t < N \<Longrightarrow> pcs s t = Idle \<Longrightarrow> p \<noteq> POLICY_MGR_POOL_MAX \<Longrightarrow>
    sys_step je N s (s\<lparr>pcs := (pcs s)(t := A_lock p n)\<rparr>)"
| call_free: "t < N \<Longrightarrow> pcs s t = Idle \<Longrightarrow> table s a = Some b \<Longrightarrow> worker b = None \<Longrightarrow>
    sys_step je N s (s\<lparr>pcs := (pcs s)(t := F_sallocx (bpool b) a),
      table := (table s)(a \<mapsto> b\<lparr>worker := Some t\<rparr>)\<rparr>)"
| run: "t < N \<Longrightarrow> thread_step je t (pcs s t) (shr s) = Inr (pc', m') \<Longrightarrow>
    sys_step je N s
      \<lparr>shr = m', pcs = (pcs s)(t := pc'), table = table_step t (pcs s t) pc' (table s)\<rparr>"
| return: "t < N \<Longrightarrow> pcs s t = Returned p a \<Longrightarrow>
    sys_step je N s (s\<lparr>pcs := (pcs s)(t := Idle),
      table := (if a = NULL then table s
                else (table s)(a := map_option (\<lambda>b. b\<lparr>worker := None\<rparr>) (table s a)))\<rparr>)"

inductive_cases sys_stepE: "sys_step je N s s'"

section \<open>The invariant\<close>

text \<open>Between lock and unlock; bytes reserved for no block yet; a top-up still to come.\<close>

fun critical :: "pc \<Rightarrow> bool" where
  "critical (A_read p n) = True"
| "critical (A_decide p n l) = True"
| "critical (A_unlock p n ok) = True"
| "critical (J_read p d a) = True"
| "critical (J_write p d u a) = True"
| "critical (J_unlock p a) = True"
| "critical pc = False"

fun in_flight :: "policyMgrPool \<Rightarrow> pc \<Rightarrow> nat" where
  "in_flight p (A_unlock q n ok) = (if ok \<and> p = q then unat n else 0)"
| "in_flight p (A_malloc q n) = (if p = q then unat n else 0)"
| "in_flight p (J_lock q d a) = (if a = NULL \<and> p = q then unat (- d) else 0)"
| "in_flight p (J_read q d a) = (if a = NULL \<and> p = q then unat (- d) else 0)"
| "in_flight p (J_write q d u a) = (if a = NULL \<and> p = q then unat (- d) else 0)"
| "in_flight p pc = 0"

fun pending :: "pc \<Rightarrow> nat" where
  "pending (A_unlock p n ok) = of_bool ok"
| "pending (A_malloc p n) = 1"
| "pending (A_sallocx p n a) = 1"
| "pending (J_lock p d a) = of_bool (a \<noteq> NULL)"
| "pending (J_read p d a) = of_bool (a \<noteq> NULL)"
| "pending (J_write p d u a) = of_bool (a \<noteq> NULL)"
| "pending pc = 0"

text \<open>The block a thread is working on.\<close>

fun works_on :: "pc \<Rightarrow> addr option" where
  "works_on (A_sallocx p n a) = Some a"
| "works_on (J_lock p d a) = (if a = NULL then None else Some a)"
| "works_on (J_read p d a) = (if a = NULL then None else Some a)"
| "works_on (J_write p d u a) = (if a = NULL then None else Some a)"
| "works_on (J_unlock p a) = (if a = NULL then None else Some a)"
| "works_on (F_sallocx p a) = Some a"
| "works_on (F_free p a n) = Some a"
| "works_on (Returned p a) = (if a = NULL then None else Some a)"
| "works_on pc = None"

text \<open>What thread \<open>t\<close> knows at each point of its call.\<close>

definition req_ok :: "policyMgrPool \<Rightarrow> size_t \<Rightarrow> bool" where
  "req_ok p n \<longleftrightarrow> p \<noteq> POLICY_MGR_POOL_MAX \<and> 1 \<le> unat n \<and> unat n \<le> 64 * 1024 * 1024"

definition holding ::
  "(addr \<rightharpoonup> size_t) \<Rightarrow> block_table \<Rightarrow> tid \<Rightarrow> policyMgrPool \<Rightarrow> addr \<Rightarrow> nat \<Rightarrow> size_t \<Rightarrow> bool" where
  "holding L B t p a c r \<longleftrightarrow>
     B a = Some \<lparr>bpool = p, worker = Some t, charged = c\<rparr> \<and> L a = Some r"

definition adjust_ok ::
  "nat \<Rightarrow> (addr \<rightharpoonup> size_t) \<Rightarrow> block_table \<Rightarrow> tid \<Rightarrow> policyMgrPool \<Rightarrow> slong \<Rightarrow> addr \<Rightarrow> bool" where
  "adjust_ok S L B t p d a \<longleftrightarrow> p \<noteq> POLICY_MGR_POOL_MAX \<and>
     (a \<noteq> NULL \<longrightarrow>
        (\<exists>r. holding L B t p a (unat r - unat d) r \<and> unat d \<le> unat r \<and> unat d \<le> S))"

fun thread_ok :: "nat \<Rightarrow> policyMgrStats \<Rightarrow> (addr \<rightharpoonup> size_t) \<Rightarrow> block_table \<Rightarrow> tid \<Rightarrow> pc \<Rightarrow> bool" where
  "thread_ok S st L B t Idle \<longleftrightarrow> True"
| "thread_ok S st L B t (A_lock p n) \<longleftrightarrow> p \<noteq> POLICY_MGR_POOL_MAX"
| "thread_ok S st L B t (A_read p n) \<longleftrightarrow> p \<noteq> POLICY_MGR_POOL_MAX"
| "thread_ok S st L B t (A_decide p n l) \<longleftrightarrow>
     p \<noteq> POLICY_MGR_POOL_MAX \<and> l = policyMgrAlloc_read st"
| "thread_ok S st L B t (A_unlock p n ok) \<longleftrightarrow> p \<noteq> POLICY_MGR_POOL_MAX \<and> (ok \<longrightarrow> req_ok p n)"
| "thread_ok S st L B t (A_malloc p n) \<longleftrightarrow> req_ok p n"
| "thread_ok S st L B t (A_sallocx p n a) \<longleftrightarrow>
     req_ok p n \<and> a \<noteq> NULL \<and>
     (\<exists>r. holding L B t p a (unat n) r \<and> n \<le> r \<and> unat r \<le> unat n + S)"
| "thread_ok S st L B t (J_lock p d a) \<longleftrightarrow> adjust_ok S L B t p d a"
| "thread_ok S st L B t (J_read p d a) \<longleftrightarrow> adjust_ok S L B t p d a"
| "thread_ok S st L B t (J_write p d u a) \<longleftrightarrow> adjust_ok S L B t p d a \<and> u = used st p"
| "thread_ok S st L B t (J_unlock p a) \<longleftrightarrow> p \<noteq> POLICY_MGR_POOL_MAX \<and>
     (a \<noteq> NULL \<longrightarrow> (\<exists>r. holding L B t p a (unat r) r))"
| "thread_ok S st L B t (F_sallocx p a) \<longleftrightarrow> p \<noteq> POLICY_MGR_POOL_MAX \<and>
     (\<exists>r. holding L B t p a (unat r) r)"
| "thread_ok S st L B t (F_free p a n) \<longleftrightarrow> p \<noteq> POLICY_MGR_POOL_MAX \<and> holding L B t p a (unat n) n"
| "thread_ok S st L B t (Returned p a) \<longleftrightarrow> p \<noteq> POLICY_MGR_POOL_MAX \<and>
     (a \<noteq> NULL \<longrightarrow> (\<exists>r. holding L B t p a (unat r) r))"

definition block_ok :: "(addr \<rightharpoonup> size_t) \<Rightarrow> addr \<Rightarrow> block \<Rightarrow> bool" where
  "block_ok L a b \<longleftrightarrow> bpool b \<noteq> POLICY_MGR_POOL_MAX \<and>
     (\<exists>r. L a = Some r \<and> r \<noteq> 0 \<and> (worker b = None \<longrightarrow> charged b = unat r))"

fun mutex_ok :: "pthread_mutex_t \<Rightarrow> (tid \<Rightarrow> pc) \<Rightarrow> bool" where
  "mutex_ok Mutex_uninit f \<longleftrightarrow> False"
| "mutex_ok Mutex_unlocked f \<longleftrightarrow> (\<forall>t. \<not> critical (f t))"
| "mutex_ok (Mutex_locked t) f \<longleftrightarrow> (\<forall>u. critical (f u) \<longleftrightarrow> u = t)"

fun charge_of :: "policyMgrPool \<Rightarrow> block option \<Rightarrow> nat" where
  "charge_of p None = 0"
| "charge_of p (Some b) = (if bpool b = p then charged b else 0)"

definition table_charge :: "policyMgrPool \<Rightarrow> block_table \<Rightarrow> nat" where
  "table_charge p B = (\<Sum>a \<in> dom B. charge_of p (B a))"

definition conc_inv :: "'h jemalloc \<Rightarrow> 'h heap_view \<Rightarrow> nat \<Rightarrow> nat \<Rightarrow> nat \<Rightarrow> 'h csys \<Rightarrow> bool" where
  "conc_inv je live S b N s \<longleftrightarrow>
     je_contract je live S \<and> pm_config (pm_stats (shr s)) \<and> managed (shr s) = b \<and>
     b + S * N < 2 ^ 62 \<and> (\<forall>t. N \<le> t \<longrightarrow> pcs s t = Idle) \<and>
     mutex_ok (mutex_policyMgrStats (pm_stats (shr s))) (pcs s) \<and>
     (\<forall>t. thread_ok S (pm_stats (shr s)) (live (je_heap (shr s))) (table s) t (pcs s t)) \<and>
     finite (dom (table s)) \<and>
     (\<forall>a x. table s a = Some x \<longrightarrow> block_ok (live (je_heap (shr s))) a x) \<and>
     (\<forall>a x t. table s a = Some x \<longrightarrow> worker x = Some t \<longrightarrow> works_on (pcs s t) = Some a) \<and>
     (\<forall>p. p \<noteq> POLICY_MGR_POOL_MAX \<longrightarrow>
        usage (shr s) p = table_charge p (table s) + (\<Sum>t<N. in_flight p (pcs s t))) \<and>
     pm_load (pm_stats (shr s)) + S * (\<Sum>t<N. pending (pcs s t)) \<le> b + S * N"

section \<open>Sums over threads and blocks\<close>

lemma sum_pcs_upd:
  assumes "t < (N :: nat)"
  shows "(\<Sum>u<N. f ((g(t := x)) u)) + f (g t) = (\<Sum>u<N. f (g u)) + (f x :: nat)"
proof -
  have fin: "finite {..<N}" "t \<in> {..<N}" using assms by auto
  have "(\<Sum>u \<in> {..<N} - {t}. f ((g(t := x)) u)) = (\<Sum>u \<in> {..<N} - {t}. f (g u))"
    by (intro sum.cong) auto
  then show ?thesis
    using sum.remove [OF fin, of "\<lambda>u. f ((g(t := x)) u)"] sum.remove [OF fin, of "\<lambda>u. f (g u)"]
    by simp
qed

lemma table_charge_upd:
  assumes "finite (dom B)"
  shows "table_charge p (B(a := x)) + charge_of p (B a) = table_charge p B + charge_of p x"
proof -
  let ?A = "insert a (dom B)"
  have fin: "finite ?A" "a \<in> ?A" using assms by auto
  have ext: "table_charge p C = (\<Sum>c \<in> ?A. charge_of p (C c))" if "dom C \<subseteq> ?A" for C
    unfolding table_charge_def using that fin by (intro sum.mono_neutral_left) (auto simp: domIff)
  have "dom (B(a := x)) \<subseteq> ?A" by auto
  note e = ext [OF this] ext [of B]
  have "(\<Sum>c \<in> ?A - {a}. charge_of p ((B(a := x)) c)) = (\<Sum>c \<in> ?A - {a}. charge_of p (B c))"
    by (intro sum.cong) auto
  then show ?thesis
    using e sum.remove [OF fin, of "\<lambda>c. charge_of p ((B(a := x)) c)"]
      sum.remove [OF fin, of "\<lambda>c. charge_of p (B c)"]
    by (simp add: subset_insertI)
qed

lemma in_flight_le: "t < (N :: nat) \<Longrightarrow> in_flight p (f t) \<le> (\<Sum>u<N. in_flight p (f u))"
  using member_le_sum [of t "{..<N}" "\<lambda>u. in_flight p (f u)"] by simp

section \<open>Assembling a step\<close>

text \<open>
  A thread's step keeps the invariant if it keeps its own knowledge, leaves the blocks of others
  alone, changes the counters only inside its critical section, and balances its accounts.
\<close>

lemma thread_ok_frame:
  assumes "thread_ok S st L B u pc"
    and "\<And>a b. B a = Some b \<Longrightarrow> worker b = Some u \<Longrightarrow> B' a = Some b \<and> L' a = L a"
    and "critical pc \<Longrightarrow> policyMgrAlloc_read st' = policyMgrAlloc_read st \<and> (\<forall>q. used st' q = used st q)"
  shows "thread_ok S st' L' B' u pc"
proof -
  have hold: "holding L' B' u p a c r" if "holding L B u p a c r" for p a c r
    using assms(2) that by (simp add: holding_def)
  then have "adjust_ok S L' B' u p d a" if "adjust_ok S L B u p d a" for p d a
    using that hold unfolding adjust_ok_def by blast
  with hold assms(1,3) show ?thesis by (cases pc) (auto, blast+)
qed

lemma conc_inv_run:
  assumes inv: "conc_inv je live S b N s" and t: "t < N"
    and st: "st = pm_stats (shr s)" and L: "L = live (je_heap (shr s))" and st': "st' = pm_stats m'"
    and L': "L' = live (je_heap m')" and B: "B = table s"
    and conf: "pm_config st'" "total_memory_policyMgrStats st' = total_memory_policyMgrStats st"
    and mtx: "mutex_ok (mutex_policyMgrStats st') ((pcs s)(t := pc'))"
    and me: "thread_ok S st' L' B' t pc'"
    and frame: "\<And>a x u. B a = Some x \<Longrightarrow> worker x = Some u \<Longrightarrow> u \<noteq> t \<Longrightarrow> B' a = Some x \<and> L' a = L a"
    and stats: "(\<forall>q. pool_ctx st' q = pool_ctx st q) \<or> critical (pcs s t)"
    and fin: "finite (dom B')"
    and blocks: "\<And>a x. B' a = Some x \<Longrightarrow> worker x = Some t \<or> B a \<noteq> Some x \<or> L' a \<noteq> L a \<Longrightarrow> block_ok L' a x"
    and works: "\<And>a x u. B' a = Some x \<Longrightarrow> worker x = Some u \<Longrightarrow>
      (if u = t then works_on pc' = Some a else B a = Some x)"
    and acct: "\<And>p. p \<noteq> POLICY_MGR_POOL_MAX \<Longrightarrow>
      unat (used st' p) + table_charge p B + in_flight p (pcs s t) =
      unat (used st p) + table_charge p B' + in_flight p pc'"
    and bound: "pm_load st' + S * pending pc' \<le> pm_load st + S * pending (pcs s t) \<or>
      pm_load st' \<le> b \<and> pending pc' \<le> 1"
  shows "conc_inv je live S b N \<lparr>shr = m', pcs = (pcs s)(t := pc'), table = B'\<rparr>"
proof -
  have je: "je_contract je live S" and cap: "managed (shr s) = b" "b + S * N < 2 ^ 62"
    and idle: "\<And>u. N \<le> u \<Longrightarrow> pcs s u = Idle"
    and mtx0: "mutex_ok (mutex_policyMgrStats st) (pcs s)"
    and ok: "\<And>u. thread_ok S st L B u (pcs s u)"
    and bok: "\<And>a x. B a = Some x \<Longrightarrow> block_ok L a x"
    and work: "\<And>a x u. B a = Some x \<Longrightarrow> worker x = Some u \<Longrightarrow> works_on (pcs s u) = Some a"
    and use: "\<And>p. p \<noteq> POLICY_MGR_POOL_MAX \<Longrightarrow>
      unat (used st p) = table_charge p B + (\<Sum>u<N. in_flight p (pcs s u))"
    and bnd: "pm_load st + S * (\<Sum>u<N. pending (pcs s u)) \<le> b + S * N"
    using inv unfolding conc_inv_def st L B by auto
  have others: "thread_ok S st' L' B' u (pcs s u)" if "u \<noteq> t" for u
  proof (rule thread_ok_frame [OF ok])
    fix a x assume "B a = Some x" "worker x = Some u"
    with frame that show "B' a = Some x \<and> L' a = L a" by auto
  next
    assume "critical (pcs s u)"
    then have "\<not> critical (pcs s t)"
      using mtx0 that by (cases "mutex_policyMgrStats st") auto
    with stats conf(2) show "policyMgrAlloc_read st' = policyMgrAlloc_read st \<and>
        (\<forall>q. used st' q = used st q)"
      by (simp add: policyMgrAlloc_read_def)
  qed
  have threads: "thread_ok S st' L' B' u (((pcs s)(t := pc')) u)" for u
    using me others by simp
  have blk: "block_ok L' a x" if "B' a = Some x" for a x
  proof (cases "worker x = Some t \<or> B a \<noteq> Some x \<or> L' a \<noteq> L a")
    case True
    with blocks that show ?thesis by blast
  next
    case False
    with bok [of a x] show ?thesis by (simp add: block_ok_def)
  qed
  have work': "works_on (((pcs s)(t := pc')) u) = Some a" if "B' a = Some x" "worker x = Some u" for a x u
    using works [OF that] work [of a x u] that(2) by (auto split: if_splits)
  have acc: "unat (used st' p) = table_charge p B' + (\<Sum>u<N. in_flight p (((pcs s)(t := pc')) u))"
    if "p \<noteq> POLICY_MGR_POOL_MAX" for p
    using acct [OF that] use [OF that] sum_pcs_upd [OF t, of "in_flight p" "pcs s" pc'] by linarith
  have pend: "(\<Sum>u<N. pending (((pcs s)(t := pc')) u)) + pending (pcs s t)
      = (\<Sum>u<N. pending (pcs s u)) + pending pc'"
    by (rule sum_pcs_upd [OF t])
  have bound': "pm_load st' + S * (\<Sum>u<N. pending (((pcs s)(t := pc')) u)) \<le> b + S * N"
    using bound
  proof
    assume le: "pm_load st' + S * pending pc' \<le> pm_load st + S * pending (pcs s t)"
    have "S * (\<Sum>u<N. pending (((pcs s)(t := pc')) u)) + S * pending (pcs s t)
        = S * (\<Sum>u<N. pending (pcs s u)) + S * pending pc'"
      using pend by (simp only: flip: distrib_left)
    with le bnd show ?thesis by linarith
  next
    assume le: "pm_load st' \<le> b \<and> pending pc' \<le> 1"
    have "pending (((pcs s)(t := pc')) u) \<le> 1" for u
      using le by (cases "pcs s u") auto
    then have "(\<Sum>u<N. pending (((pcs s)(t := pc')) u)) \<le> (\<Sum>u<N. 1)"
      by (intro sum_mono) auto
    then have "S * (\<Sum>u<N. pending (((pcs s)(t := pc')) u)) \<le> S * N" by simp
    with le show ?thesis by linarith
  qed
  have idle': "((pcs s)(t := pc')) u = Idle" if "N \<le> u" for u
    using idle [OF that] that t by auto
  show ?thesis
    unfolding conc_inv_def
    using je conf cap mtx fin idle' threads blk work' acc bound' by (auto simp: st st' L')
qed

section \<open>Preservation\<close>

lemma mutex_ok_lock: "mutex_ok Mutex_unlocked f \<Longrightarrow> critical pc \<Longrightarrow> mutex_ok (Mutex_locked t) (f(t := pc))"
  by auto

lemma mutex_ok_unlock: "mutex_ok (Mutex_locked t) f \<Longrightarrow> \<not> critical pc \<Longrightarrow> mutex_ok Mutex_unlocked (f(t := pc))"
  by auto

lemma mutex_ok_same: "mutex_ok m f \<Longrightarrow> critical pc \<longleftrightarrow> critical (f t) \<Longrightarrow> mutex_ok m (f(t := pc))"
  by (cases m) auto

lemma critical_rank: "critical pc \<Longrightarrow> 0 < rank pc"
  by (cases pc) auto

lemma conc_invD:
  assumes "conc_inv je live S b N s"
  shows "je_contract je live S" and "pm_config (pm_stats (shr s))" and "managed (shr s) = b"
    and "b + S * N < 2 ^ 62" and "mutex_ok (mutex_policyMgrStats (pm_stats (shr s))) (pcs s)"
    and "thread_ok S (pm_stats (shr s)) (live (je_heap (shr s))) (table s) t (pcs s t)"
    and "finite (dom (table s))"
    and "table s a = Some x \<Longrightarrow> block_ok (live (je_heap (shr s))) a x"
    and "p \<noteq> POLICY_MGR_POOL_MAX \<Longrightarrow>
      usage (shr s) p = table_charge p (table s) + (\<Sum>t<N. in_flight p (pcs s t))"
    and "pm_load (pm_stats (shr s)) + S * (\<Sum>t<N. pending (pcs s t)) \<le> b + S * N"
    and "table s a = Some x \<Longrightarrow> worker x = Some u \<Longrightarrow> works_on (pcs s u) = Some a"
  using assms by (auto simp: conc_inv_def)

lemma conc_own:
  assumes "conc_inv je live S b N s"
  shows "\<forall>a x. table s a = Some x \<longrightarrow> worker x = Some t \<longrightarrow> works_on (pcs s t) = Some a"
  using conc_invD(11) [OF assms] by blast

lemma works_upd:
  assumes "conc_inv je live S b N s" and "((table s)(a := y)) c = Some x" and "worker x = Some u"
    and "works_on (pcs s t) = Some a \<or> works_on (pcs s t) = None"
    and "\<And>z. y = Some z \<Longrightarrow> worker z = None \<or> worker z = Some t \<and> works_on pc' = Some a"
  shows "if u = t then works_on pc' = Some c else table s c = Some x"
proof (cases "c = a")
  case True
  with assms(2) have "y = Some x" by simp
  with assms(3,5) True show ?thesis by auto
next
  case False
  with assms(2) have "table s c = Some x" by simp
  with conc_own [OF assms(1), of t] assms(3,4) False show ?thesis by fastforce
qed

lemma conc_load: "conc_inv je live S b N s \<Longrightarrow> pm_load (pm_stats (shr s)) < 2 ^ 62"
  using conc_invD(4,10) [of je live S b N s] by linarith

lemma conc_mutex_critical:
  assumes "conc_inv je live S b N s" and "critical (pcs s t)"
  shows "mutex_policyMgrStats (pm_stats (shr s)) = Mutex_locked t"
  using conc_invD(5) [OF assms(1)] assms(2)
  by (cases "mutex_policyMgrStats (pm_stats (shr s))") auto

lemma run_lock:
  assumes inv: "conc_inv je live S b N s" and t: "t < N"
    and lock: "lock_stats t (pm_stats (shr s)) = Inr st'"
    and pc: "critical pc'" "pending pc' = pending (pcs s t)"
      "\<And>p. in_flight p pc' = in_flight p (pcs s t)" "works_on pc' = works_on (pcs s t)"
    and me: "\<And>st L B. thread_ok S st L B t (pcs s t) \<Longrightarrow> thread_ok S st L B t pc'"
  shows "conc_inv je live S b N
    \<lparr>shr = (shr s)\<lparr>pm_stats := st'\<rparr>, pcs = (pcs s)(t := pc'), table = table s\<rparr>"
proof -
  have free: "mutex_policyMgrStats (pm_stats (shr s)) = Mutex_unlocked"
    and st': "st' = (pm_stats (shr s))\<lparr>mutex_policyMgrStats := Mutex_locked t\<rparr>"
    using lock by (auto simp: lock_stats_def rbind_eq_Inr lock_Inr_iff)
  have frame: "thread_ok S st' L B t pc' = thread_ok S (pm_stats (shr s)) L B t pc'" for L B
    unfolding st' by (cases pc') simp_all
  show ?thesis
    by (rule conc_inv_run [OF inv t refl refl refl refl refl])
       (use conc_invD [OF inv] free pc frame me in \<open>auto simp: st'\<close>)
qed

lemma run_unlock:
  assumes inv: "conc_inv je live S b N s" and t: "t < N"
    and unlock: "unlock_stats t (pm_stats (shr s)) = Inr st'"
    and pc: "\<not> critical pc'" "pending pc' = pending (pcs s t)"
      "\<And>p. in_flight p pc' = in_flight p (pcs s t)" "works_on pc' = works_on (pcs s t)"
    and me: "\<And>st L B. thread_ok S st L B t (pcs s t) \<Longrightarrow> thread_ok S st L B t pc'"
  shows "conc_inv je live S b N
    \<lparr>shr = (shr s)\<lparr>pm_stats := st'\<rparr>, pcs = (pcs s)(t := pc'), table = table s\<rparr>"
proof -
  have held: "mutex_policyMgrStats (pm_stats (shr s)) = Mutex_locked t"
    and st': "st' = (pm_stats (shr s))\<lparr>mutex_policyMgrStats := Mutex_unlocked\<rparr>"
    using unlock by (auto simp: unlock_stats_def rbind_eq_Inr unlock_Inr_iff)
  have frame: "thread_ok S st' L B t pc' = thread_ok S (pm_stats (shr s)) L B t pc'" for L B
    unfolding st' by (cases pc') simp_all
  show ?thesis
    by (rule conc_inv_run [OF inv t refl refl refl refl refl])
       (use conc_invD [OF inv] held pc frame me in \<open>auto simp: st'\<close>)
qed

text \<open>Steps that change only the thread's program counter.\<close>

lemma run_local:
  assumes inv: "conc_inv je live S b N s" and t: "t < N"
    and pc: "critical pc' = critical (pcs s t)" "pending pc' \<le> pending (pcs s t)"
      "\<And>p. in_flight p pc' = in_flight p (pcs s t)" "works_on pc' = works_on (pcs s t)"
    and me: "thread_ok S (pm_stats (shr s)) (live (je_heap (shr s))) (table s) t pc'"
  shows "conc_inv je live S b N \<lparr>shr = shr s, pcs = (pcs s)(t := pc'), table = table s\<rparr>"
  by (rule conc_inv_run [OF inv t refl refl refl refl refl])
     (use conc_invD [OF inv] pc me mutex_ok_same in \<open>auto simp del: fun_upd_apply\<close>)

text \<open>The two steps that change a counter.\<close>

lemma run_decide:
  assumes inv: "conc_inv je live S b N s" and t: "t < N" and pc: "pcs s t = A_decide p n l"
  obtains ok st' where "policyMgrAlloc_decide p n l (pm_stats (shr s)) = Inr (ok, st')"
    and "conc_inv je live S b N
      \<lparr>shr = (shr s)\<lparr>pm_stats := st'\<rparr>, pcs = (pcs s)(t := A_unlock p n ok), table = table s\<rparr>"
proof -
  let ?st = "pm_stats (shr s)"
  have me: "p \<noteq> POLICY_MGR_POOL_MAX" "l = policyMgrAlloc_read ?st"
    using conc_invD(6) [OF inv, of t] pc by auto
  have conf: "pm_config ?st" and load: "pm_load ?st < 2 ^ 63"
    using conc_invD(2) [OF inv] conc_load [OF inv] by auto
  note dec = decide_admits [OF conf load me(1), of n]
  show thesis
  proof (cases "admits p (unat n) (abs_policy ?st)")
    case False
    have "conc_inv je live S b N \<lparr>shr = shr s, pcs = (pcs s)(t := A_unlock p n False), table = table s\<rparr>"
      using pc me by (intro run_local [OF inv t]) auto
    with False dec me show thesis by (intro that [of False ?st]) auto
  next
    case True
    let ?st' = "set_used p (used ?st p + n) ?st"
    have req: "req_ok p n" using True me(1) by (cases p) (auto simp: req_ok_def)
    have le: "pm_load ?st + unat n \<le> b"
      using admits_fits [OF True] conc_invD(3) [OF inv] by simp
    have b: "b < 2 ^ 62" using conc_invD(4) [OF inv] by linarith
    have "unat (used ?st p) + unat n < 2 ^ 62"
      using le b used_le_pm_load [OF me(1), of ?st] by linarith
    then have "unat (used ?st p) + unat n < 2 ^ 64" by simp
    then have sum: "unat (used ?st p + n) = unat (used ?st p) + unat n" by (intro unat_add_le) simp
    then have load': "pm_load ?st' = pm_load ?st + unat n"
      using pm_load_upd [OF conf me(1), of "used ?st p + n"] by simp
    have use: "used ?st' q = (if q = p then used ?st p + n else used ?st q)" for q
      using conf me(1) by (simp add: pool_ctx_set_used)
    have "conc_inv je live S b N \<lparr>shr = (shr s)\<lparr>pm_stats := ?st'\<rparr>,
        pcs = (pcs s)(t := A_unlock p n True), table = table s\<rparr>"
    proof (rule conc_inv_run [OF inv t refl refl refl refl refl])
      show "mutex_ok (mutex_policyMgrStats (pm_stats ((shr s)\<lparr>pm_stats := ?st'\<rparr>)))
          ((pcs s)(t := A_unlock p n True))"
        using conc_invD(5) [OF inv] pc by (auto intro: mutex_ok_same)
    qed (use conc_invD(2,7,8) [OF inv] conc_own [OF inv, of t] conf me pc req load' le use sum in \<open>auto split: if_splits\<close>)
    with True dec me show thesis by (intro that [of True ?st']) auto
  qed
qed

text \<open>An adjustment, with the bytes it adds or gives back and the table it leaves.\<close>

lemma run_write_grow:
  assumes inv: "conc_inv je live S b N s" and t: "t < N" and pc: "pcs s t = J_write p d u a"
    and a: "a \<noteq> NULL"
  obtains st' where "policyMgrAdjustAlloc_write p d u (pm_stats (shr s)) = Inr st'"
    and "conc_inv je live S b N \<lparr>shr = (shr s)\<lparr>pm_stats := st'\<rparr>,
      pcs = (pcs s)(t := J_unlock p a), table = table_step t (J_write p d u a) (J_unlock p a) (table s)\<rparr>"
proof -
  let ?st = "pm_stats (shr s)" let ?L = "live (je_heap (shr s))" let ?B = "table s"
  have me: "p \<noteq> POLICY_MGR_POOL_MAX" "u = used ?st p"
    using conc_invD(6) [OF inv, of t] pc by (auto simp: adjust_ok_def)
  obtain r where r: "holding ?L ?B t p a (unat r - unat d) r" "unat d \<le> unat r" "unat d \<le> S"
    using conc_invD(6) [OF inv, of t] pc a by (auto simp: adjust_ok_def)
  have conf: "pm_config ?st" using conc_invD(2) [OF inv] .
  have "pending (pcs s t) \<le> (\<Sum>t<N. pending (pcs s t))"
    using member_le_sum [of t "{..<N}" "\<lambda>u. pending (pcs s u)"] t by simp
  then have "S \<le> S * (\<Sum>t<N. pending (pcs s t))" using pc a by simp
  then have le: "pm_load ?st + unat d < 2 ^ 62"
    using conc_invD(4,10) [OF inv] r(3) by linarith
  then have "unat (used ?st p) + unat d < 2 ^ 62"
    using used_le_pm_load [OF me(1), of ?st] by linarith
  then have lt: "unat (used ?st p) + unat d < 2 ^ 63" by simp
  let ?st' = "set_used p (used ?st p + d) ?st"
  have sum: "unat (used ?st p + d) = unat (used ?st p) + unat d"
    using lt by (intro unat_add_le) simp
  have load': "pm_load ?st' = pm_load ?st + unat d"
    using pm_load_upd [OF conf me(1), of "used ?st p + d"] sum by simp
  have use: "used ?st' q = (if q = p then used ?st p + d else used ?st q)" for q
    using conf me(1) by (simp add: pool_ctx_set_used)
  have call: "policyMgrAdjustAlloc_write p d u ?st = Inr ?st'"
    using slong_add_grow [OF lt] me(2) by (simp add: policyMgrAdjustAlloc_write_def)
  let ?B' = "?B(a \<mapsto> \<lparr>bpool = p, worker = Some t, charged = unat r\<rparr>)"
  have B': "table_step t (J_write p d u a) (J_unlock p a) ?B = ?B'"
    using r a by (auto simp: holding_def)
  have Ba: "?B a = Some \<lparr>bpool = p, worker = Some t, charged = unat r - unat d\<rparr>"
    using r(1) by (simp add: holding_def)
  have chg: "table_charge q ?B' = table_charge q ?B + (if q = p then unat d else 0)" for q
    using table_charge_upd [OF conc_invD(7) [OF inv], of q a
        "Some \<lparr>bpool = p, worker = Some t, charged = unat r\<rparr>"] r(2)
    by (auto simp: Ba split: if_splits)
  have "conc_inv je live S b N \<lparr>shr = (shr s)\<lparr>pm_stats := ?st'\<rparr>,
      pcs = (pcs s)(t := J_unlock p a), table = ?B'\<rparr>"
  proof (rule conc_inv_run [OF inv t refl refl refl refl refl])
    show "mutex_ok (mutex_policyMgrStats (pm_stats ((shr s)\<lparr>pm_stats := ?st'\<rparr>)))
        ((pcs s)(t := J_unlock p a))"
      using conc_invD(5) [OF inv] pc by (auto intro: mutex_ok_same)
    fix c x assume "?B' c = Some x"
    then show "block_ok (live (je_heap ((shr s)\<lparr>pm_stats := ?st'\<rparr>))) c x"
      using conc_invD(8) [OF inv, of a] conc_invD(8) [OF inv, of c x] Ba r(1)
      by (auto simp: block_ok_def split: if_splits)
  next
    fix c x u assume "?B' c = Some x" "worker x = Some u"
    then show "if u = t then works_on (J_unlock p a) = Some c else table s c = Some x"
      by (rule works_upd [OF inv]) (use pc a Ba in auto)
  qed (use conc_invD(2,7) [OF inv] conf me pc a r(1,3) load' use sum chg Ba in
      \<open>auto simp: holding_def\<close>)
  with call B' show thesis by (intro that [of ?st']) auto
qed

lemma run_write_shrink:
  assumes inv: "conc_inv je live S b N s" and t: "t < N" and pc: "pcs s t = J_write p d u NULL"
  obtains st' where "policyMgrAdjustAlloc_write p d u (pm_stats (shr s)) = Inr st'"
    and "conc_inv je live S b N \<lparr>shr = (shr s)\<lparr>pm_stats := st'\<rparr>,
      pcs = (pcs s)(t := J_unlock p NULL), table = table s\<rparr>"
proof -
  let ?st = "pm_stats (shr s)"
  have me: "p \<noteq> POLICY_MGR_POOL_MAX" "u = used ?st p"
    using conc_invD(6) [OF inv, of t] pc by (auto simp: adjust_ok_def)
  have conf: "pm_config ?st" using conc_invD(2) [OF inv] .
  have "unat (- d) \<le> (\<Sum>u<N. in_flight p (pcs s u))"
    using in_flight_le [OF t, of p "pcs s"] pc by simp
  then have le: "unat (- d) \<le> unat (used ?st p)"
    using conc_invD(9) [OF inv me(1)] me(1) by simp
  have lt: "unat (used ?st p) < 2 ^ 63"
    using used_le_pm_load [OF me(1), of ?st] conc_load [OF inv] by simp
  let ?st' = "set_used p (used ?st p - - d) ?st"
  have diff: "unat (used ?st p - - d) = unat (used ?st p) - unat (- d)"
    using le by (rule unat_diff_le)
  have load': "pm_load ?st' + unat (- d) = pm_load ?st"
    using pm_load_upd [OF conf me(1), of "used ?st p - - d"] diff le by simp
  have use: "used ?st' q = (if q = p then used ?st p - - d else used ?st q)" for q
    using conf me(1) by (simp add: pool_ctx_set_used)
  have call: "policyMgrAdjustAlloc_write p d u ?st = Inr ?st'"
    using slong_add_shrink [OF le lt] me(2) by (simp add: policyMgrAdjustAlloc_write_def)
  have "conc_inv je live S b N \<lparr>shr = (shr s)\<lparr>pm_stats := ?st'\<rparr>,
      pcs = (pcs s)(t := J_unlock p NULL), table = table s\<rparr>"
  proof (rule conc_inv_run [OF inv t refl refl refl refl refl])
    show "mutex_ok (mutex_policyMgrStats (pm_stats ((shr s)\<lparr>pm_stats := ?st'\<rparr>)))
        ((pcs s)(t := J_unlock p NULL))"
      using conc_invD(5) [OF inv] pc by (auto intro: mutex_ok_same)
  qed (use conc_invD(2,7,8) [OF inv] conc_own [OF inv, of t] conf me pc load' use diff le in \<open>auto split: if_splits\<close>)
  with call show thesis by (intro that [of ?st']) auto
qed

text \<open>The steps that call jemalloc.\<close>

lemma run_malloc_null:
  assumes inv: "conc_inv je live S b N s" and t: "t < N" and pc: "pcs s t = A_malloc p n"
    and je: "je_malloc je n (je_heap (shr s)) = (NULL, h')"
  shows "conc_inv je live S b N \<lparr>shr = (shr s)\<lparr>je_heap := h'\<rparr>,
      pcs = (pcs s)(t := J_lock p (- n) NULL), table = table s\<rparr>"
proof (rule conc_inv_run [OF inv t refl refl refl refl refl])
  have "p \<noteq> POLICY_MGR_POOL_MAX" using conc_invD(6) [OF inv, of t] pc by (auto simp: req_ok_def)
  then show "thread_ok S (pm_stats ((shr s)\<lparr>je_heap := h'\<rparr>)) (live (je_heap ((shr s)\<lparr>je_heap := h'\<rparr>)))
      (table s) t (J_lock p (- n) NULL)"
    by (simp add: adjust_ok_def)
  show "mutex_ok (mutex_policyMgrStats (pm_stats ((shr s)\<lparr>je_heap := h'\<rparr>)))
      ((pcs s)(t := J_lock p (- n) NULL))"
    using conc_invD(5) [OF inv] pc by (auto intro: mutex_ok_same)
qed (use conc_invD(2,7,8) [OF inv] conc_own [OF inv, of t] pc je_malloc_null [OF conc_invD(1) [OF inv] je] in \<open>auto split: if_splits\<close>)

lemma run_malloc_block:
  assumes inv: "conc_inv je live S b N s" and t: "t < N" and pc: "pcs s t = A_malloc p n"
    and je: "je_malloc je n (je_heap (shr s)) = (a, h')" and a: "a \<noteq> NULL"
  shows "conc_inv je live S b N \<lparr>shr = (shr s)\<lparr>je_heap := h'\<rparr>,
      pcs = (pcs s)(t := A_sallocx p n a),
      table = (table s)(a \<mapsto> \<lparr>bpool = p, worker = Some t, charged = unat n\<rparr>)\<rparr>"
    (is "conc_inv je live S b N \<lparr>shr = ?m, pcs = _, table = ?B'\<rparr>")
proof -
  have req: "req_ok p n" using conc_invD(6) [OF inv, of t] pc by auto
  then have p: "p \<noteq> POLICY_MGR_POOL_MAX" "1 \<le> unat n" by (auto simp: req_ok_def)
  obtain r where r: "live (je_heap (shr s)) a = None" "live h' = (live (je_heap (shr s)))(a \<mapsto> r)" "n \<le> r"
      "unat r \<le> unat n + S"
    using conc_invD(1) [OF inv] je a by (rule je_malloc_block)
  have r0: "r \<noteq> 0" using p(2) r(3) by (auto simp: nat_simps)
  have fresh: "table s a = None"
    using conc_invD(8) [OF inv, of a] r(1) by (cases "table s a") (auto simp: block_ok_def)
  have chg: "table_charge q ?B' = table_charge q (table s) + (if p = q then unat n else 0)" for q
    using table_charge_upd [OF conc_invD(7) [OF inv], of q a
        "Some \<lparr>bpool = p, worker = Some t, charged = unat n\<rparr>"]
    by (simp add: fresh)
  show ?thesis
  proof (rule conc_inv_run [OF inv t refl refl refl refl refl])
    show "mutex_ok (mutex_policyMgrStats (pm_stats ?m)) ((pcs s)(t := A_sallocx p n a))"
      using conc_invD(5) [OF inv] pc by (auto intro: mutex_ok_same)
    fix c x assume "?B' c = Some x"
    then show "block_ok (live (je_heap ?m)) c x"
      using conc_invD(8) [OF inv, of c x] p(1) r(2) r0 by (auto simp: block_ok_def split: if_splits)
  qed (use conc_invD(2,7) [OF inv] conc_own [OF inv, of t] pc a r(2,3,4) req fresh chg in \<open>auto simp: holding_def split: if_splits\<close>)
qed

lemma run_free:
  assumes inv: "conc_inv je live S b N s" and t: "t < N" and pc: "pcs s t = F_free p a n"
  shows "conc_inv je live S b N \<lparr>shr = (shr s)\<lparr>je_heap := je_free je a (je_heap (shr s))\<rparr>,
      pcs = (pcs s)(t := J_lock p (- n) NULL), table = (table s)(a := None)\<rparr>"
    (is "conc_inv je live S b N \<lparr>shr = ?m, pcs = _, table = ?B'\<rparr>")
proof -
  have me: "p \<noteq> POLICY_MGR_POOL_MAX" "table s a = Some \<lparr>bpool = p, worker = Some t, charged = unat n\<rparr>"
      "live (je_heap (shr s)) a = Some n"
    using conc_invD(6) [OF inv, of t] pc by (auto simp: holding_def)
  have live': "live (je_free je a (je_heap (shr s))) = (live (je_heap (shr s)))(a := None)"
    using conc_invD(1) [OF inv] me(3) by (rule je_free_live)
  have chg: "table_charge q ?B' + (if p = q then unat n else 0) = table_charge q (table s)" for q
    using table_charge_upd [OF conc_invD(7) [OF inv], of q a None]
    by (auto simp: me(2) split: if_splits)
  show ?thesis
  proof (rule conc_inv_run [OF inv t refl refl refl refl refl])
    show "mutex_ok (mutex_policyMgrStats (pm_stats ?m)) ((pcs s)(t := J_lock p (- n) NULL))"
      using conc_invD(5) [OF inv] pc by (auto intro: mutex_ok_same)
    show "thread_ok S (pm_stats ?m) (live (je_heap ?m)) ?B' t (J_lock p (- n) NULL)"
      using me(1) by (simp add: adjust_ok_def)
    fix q assume "q \<noteq> POLICY_MGR_POOL_MAX"
    show "unat (used (pm_stats ?m) q) + table_charge q (table s) + in_flight q (pcs s t)
        = unat (used (pm_stats (shr s)) q) + table_charge q ?B' + in_flight q (J_lock p (- n) NULL)"
      using chg [of q] pc by (auto split: if_splits)
  next
    fix c x assume "?B' c = Some x"
    then show "block_ok (live (je_heap ?m)) c x"
      using conc_invD(8) [OF inv, of c x] by (auto simp: block_ok_def live' split: if_splits)
  next
    fix c x u assume "?B' c = Some x" "worker x = Some u"
    then show "if u = t then works_on (J_lock p (- n) NULL) = Some c else table s c = Some x"
      by (rule works_upd [OF inv]) (use pc me(2) in auto)
  qed (use conc_invD(2,7) [OF inv] pc me live' in auto)
qed

text \<open>Every step a thread can take succeeds and keeps the invariant; a lock may make it wait.\<close>

definition waits :: "'h csys \<Rightarrow> tid \<Rightarrow> bool" where
  "waits s t \<longleftrightarrow> \<not> critical (pcs s t) \<and> (\<exists>u. critical (pcs s u) \<and>
     mutex_policyMgrStats (pm_stats (shr s)) = Mutex_locked u)"

lemma lock_cases:
  assumes "conc_inv je live S b N s" and "\<not> critical (pcs s t)"
  shows "(\<exists>st'. lock_stats t (pm_stats (shr s)) = Inr st') \<or>
    lock_stats t (pm_stats (shr s)) = Inl Deadlock \<and> waits s t"
  using conc_invD(5) [OF assms(1)] assms(2)
  by (cases "mutex_policyMgrStats (pm_stats (shr s))") (auto simp: lock_stats_def waits_def)

lemma unlock_critical:
  assumes "conc_inv je live S b N s" and "critical (pcs s t)"
  shows "\<exists>st'. unlock_stats t (pm_stats (shr s)) = Inr st'"
  using conc_mutex_critical [OF assms] by (simp add: unlock_stats_def)

lemma conc_run:
  assumes inv: "conc_inv je live S b N s" and t: "t < N"
  shows "(\<exists>pc' m'. thread_step je t (pcs s t) (shr s) = Inr (pc', m') \<and>
      conc_inv je live S b N
        \<lparr>shr = m', pcs = (pcs s)(t := pc'), table = table_step t (pcs s t) pc' (table s)\<rparr>) \<or>
    thread_step je t (pcs s t) (shr s) = Inl Deadlock \<and> waits s t"
proof (cases "pcs s t")
  case Idle
  with run_local [OF inv t, of Idle] show ?thesis by simp
next
  case (A_lock p n)
  with conc_invD(6) [OF inv, of t] lock_cases [OF inv, of t] run_lock [OF inv t, where pc' = "A_read p n"]
  show ?thesis by fastforce
next
  case (A_read p n)
  with conc_invD(6) [OF inv, of t]
    run_local [OF inv t, of "A_decide p n (policyMgrAlloc_read (pm_stats (shr s)))"]
  show ?thesis by simp
next
  case (A_decide p n l)
  from run_decide [OF inv t this] A_decide show ?thesis by fastforce
next
  case (A_unlock p n ok)
  with unlock_critical [OF inv, of t] obtain st' where
    "unlock_stats t (pm_stats (shr s)) = Inr st'" by auto
  with A_unlock run_unlock [OF inv t this, of "if ok then A_malloc p n else Returned p NULL"]
  show ?thesis by simp
next
  case (A_malloc p n)
  then show ?thesis
    using run_malloc_null [OF inv t A_malloc] run_malloc_block [OF inv t A_malloc]
    by (cases "je_malloc je n (je_heap (shr s))") auto
next
  case (A_sallocx p n a)
  then obtain r where r: "req_ok p n" "a \<noteq> NULL" "holding (live (je_heap (shr s))) (table s) t p a (unat n) r"
      "n \<le> r" "unat r \<le> unat n + S"
    using conc_invD(6) [OF inv, of t] by auto
  then have size: "je_sallocx je a (je_heap (shr s)) = r"
    using je_sallocx_live [OF conc_invD(1) [OF inv]] by (simp add: holding_def)
  have diff: "unat (r - n) = unat r - unat n" "unat n \<le> unat r" using r(4) by (simp_all add: nat_simps)
  have p: "p \<noteq> POLICY_MGR_POOL_MAX" using r(1) by (simp add: req_ok_def)
  let ?pc = "if r > n then J_lock p (r - n) a else Returned p a"
  have same: "\<not> r > n \<Longrightarrow> r = n" using r(4) by simp
  have "thread_ok S (pm_stats (shr s)) (live (je_heap (shr s))) (table s) t ?pc"
  proof (cases "r > n")
    case True
    have "unat r - (unat r - unat n) = unat n" using diff(2) by simp
    with True show ?thesis using r p diff by (auto simp: adjust_ok_def intro!: exI [of _ r])
  next
    case False
    with same r(3) p show ?thesis by auto
  qed
  then have "conc_inv je live S b N \<lparr>shr = shr s, pcs = (pcs s)(t := ?pc), table = table s\<rparr>"
    using A_sallocx r(2) by (intro run_local [OF inv t]) auto
  with A_sallocx size r(4) show ?thesis by (simp add: Let_def)
next
  case (J_lock p d a)
  with conc_invD(6) [OF inv, of t] lock_cases [OF inv, of t] run_lock [OF inv t, where pc' = "J_read p d a"]
  show ?thesis by fastforce
next
  case (J_read p d a)
  then have "adjust_ok S (live (je_heap (shr s))) (table s) t p d a" using conc_invD(6) [OF inv, of t] by auto
  with J_read conc_invD(2) [OF inv] run_local [OF inv t, of "J_write p d (used (pm_stats (shr s)) p) a"]
  show ?thesis by (simp add: policyMgrAdjustAlloc_read_def adjust_ok_def pool_index_lt2)
next
  case (J_write p d u a)
  show ?thesis
  proof (cases "a = NULL")
    case True
    with J_write have "pcs s t = J_write p d u NULL" by simp
    from run_write_shrink [OF inv t this] True J_write show ?thesis by fastforce
  next
    case False
    from run_write_grow [OF inv t J_write False] J_write show ?thesis by fastforce
  qed
next
  case (J_unlock p a)
  with unlock_critical [OF inv, of t] obtain st' where
    "unlock_stats t (pm_stats (shr s)) = Inr st'" by auto
  with J_unlock run_unlock [OF inv t this, of "Returned p a"] show ?thesis by simp
next
  case (F_sallocx p a)
  then obtain r where r: "p \<noteq> POLICY_MGR_POOL_MAX"
      "holding (live (je_heap (shr s))) (table s) t p a (unat r) r"
    using conc_invD(6) [OF inv, of t] by auto
  then have size: "je_sallocx je a (je_heap (shr s)) = r"
    using je_sallocx_live [OF conc_invD(1) [OF inv]] by (simp add: holding_def)
  have "r \<noteq> 0" using r(2) conc_invD(8) [OF inv, of a] by (auto simp: holding_def block_ok_def)
  with F_sallocx size r run_local [OF inv t, of "F_free p a r"] show ?thesis
    by (simp add: Let_def)
next
  case (F_free p a n)
  with run_free [OF inv t F_free] show ?thesis by simp
next
  case (Returned p a)
  with conc_invD(6) [OF inv, of t] run_local [OF inv t, of "Returned p a"] show ?thesis by simp
qed

subsection \<open>Calls begin and end\<close>

lemma run_call_free:
  assumes inv: "conc_inv je live S b N s" and t: "t < N" and pc: "pcs s t = Idle"
    and x: "table s a = Some x" "worker x = None"
  shows "conc_inv je live S b N \<lparr>shr = shr s, pcs = (pcs s)(t := F_sallocx (bpool x) a),
      table = (table s)(a \<mapsto> x\<lparr>worker := Some t\<rparr>)\<rparr>"
    (is "conc_inv je live S b N \<lparr>shr = _, pcs = _, table = ?B'\<rparr>")
proof -
  obtain r where r: "live (je_heap (shr s)) a = Some r" "r \<noteq> 0" "charged x = unat r"
      "bpool x \<noteq> POLICY_MGR_POOL_MAX"
    using conc_invD(8) [OF inv x(1)] x(2) by (auto simp: block_ok_def)
  have chg: "table_charge q ?B' = table_charge q (table s)" for q
    using table_charge_upd [OF conc_invD(7) [OF inv], of q a "Some (x\<lparr>worker := Some t\<rparr>)"]
    by (auto simp: x(1) split: if_splits)
  show ?thesis
  proof (rule conc_inv_run [OF inv t refl refl refl refl refl])
    show "mutex_ok (mutex_policyMgrStats (pm_stats (shr s))) ((pcs s)(t := F_sallocx (bpool x) a))"
      using conc_invD(5) [OF inv] pc by (auto intro: mutex_ok_same)
    show "thread_ok S (pm_stats (shr s)) (live (je_heap (shr s))) ?B' t (F_sallocx (bpool x) a)"
      using r by (cases x) (auto simp: holding_def)
    fix c y assume "?B' c = Some y"
    then show "block_ok (live (je_heap (shr s))) c y"
      using conc_invD(8) [OF inv, of c y] r by (auto simp: block_ok_def split: if_splits)
  next
    fix c y u assume "?B' c = Some y" "worker y = Some u"
    then show "if u = t then works_on (F_sallocx (bpool x) a) = Some c else table s c = Some y"
      by (rule works_upd [OF inv]) (use pc x in auto)
  qed (use conc_invD(2,7) [OF inv] pc x chg in auto)
qed

lemma run_return:
  assumes inv: "conc_inv je live S b N s" and t: "t < N" and pc: "pcs s t = Returned p a"
    and a: "a \<noteq> NULL"
  shows "conc_inv je live S b N \<lparr>shr = shr s, pcs = (pcs s)(t := Idle),
      table = (table s)(a := map_option (\<lambda>b. b\<lparr>worker := None\<rparr>) (table s a))\<rparr>"
    (is "conc_inv je live S b N \<lparr>shr = _, pcs = _, table = ?B'\<rparr>")
proof -
  obtain r where r: "p \<noteq> POLICY_MGR_POOL_MAX" "live (je_heap (shr s)) a = Some r"
      "table s a = Some \<lparr>bpool = p, worker = Some t, charged = unat r\<rparr>"
    using conc_invD(6) [OF inv, of t] pc a by (auto simp: holding_def)
  have r0: "r \<noteq> 0" using conc_invD(8) [OF inv r(3)] r(2) by (simp add: block_ok_def)
  have chg: "table_charge q ?B' = table_charge q (table s)" for q
    using table_charge_upd [OF conc_invD(7) [OF inv], of q a "?B' a"]
    by (auto simp: r(3) split: if_splits)
  show ?thesis
  proof (rule conc_inv_run [OF inv t refl refl refl refl refl])
    show "mutex_ok (mutex_policyMgrStats (pm_stats (shr s))) ((pcs s)(t := Idle))"
      using conc_invD(5) [OF inv] pc by (auto intro: mutex_ok_same)
    fix c y assume "?B' c = Some y"
    then show "block_ok (live (je_heap (shr s))) c y"
      using conc_invD(8) [OF inv, of c y] r r0 by (auto simp: block_ok_def split: if_splits)
  next
    fix c x u assume "?B' c = Some x" "worker x = Some u"
    then show "if u = t then works_on (Idle) = Some c else table s c = Some x"
      by (rule works_upd [OF inv]) (use pc r(3) in auto)
  qed (use conc_invD(2,7) [OF inv] pc chg r in auto)
qed

lemma csys_upd:
  "s\<lparr>pcs := f\<rparr> = \<lparr>shr = shr s, pcs = f, table = table s\<rparr>"
  "s\<lparr>pcs := f, table := B\<rparr> = \<lparr>shr = shr s, pcs = f, table = B\<rparr>" for s :: "'h csys"
  by simp_all

lemma sys_step_inv:
  assumes inv: "conc_inv je live S b N s" and step: "sys_step je N s s'"
  shows "conc_inv je live S b N s'"
  using step
proof (cases rule: sys_step.cases)
  case (call_alloc t p n)
  then show ?thesis
    using run_local [OF inv call_alloc(2), of "A_lock p n"] by (simp add: csys_upd)
next
  case (call_free t a x)
  then show ?thesis
    using run_call_free [OF inv call_free(2,3,4,5)] by (simp add: csys_upd)
next
  case (run t pc' m')
  then show ?thesis using conc_run [OF inv run(2)] by auto
next
  case (return t p a)
  then show ?thesis
    using run_return [OF inv return(2,3)] run_local [OF inv return(2), of Idle]
    by (auto simp: csys_upd)
qed

interpretation threads: invariant "sys_step je N" "conc_inv je live S b N" for je live S b N
  by unfold_locales (rule sys_step_inv)

section \<open>Properties of concurrent use\<close>

definition sys_start :: "'h mem_mgr \<Rightarrow> 'h csys" where
  "sys_start m = \<lparr>shr = m, pcs = (\<lambda>_. Idle), table = (\<lambda>_. None)\<rparr>"

lemma sys_start_inv:
  assumes "je_contract je live S" and "pm_ready (pm_stats m)" and "pm_load (pm_stats m) = 0"
    and "managed m + S * N < 2 ^ 62"
  shows "conc_inv je live S (managed m) N (sys_start m)"
  using assms
  by (auto simp: conc_inv_def sys_start_def pm_ready_def table_charge_def abs_policy_def pm_load_def)
     (metis policyMgrPool.exhaust unat_0)

text \<open>A thread running alone is one way to interleave.\<close>

lemma run_thread_steps:
  "run_thread k je t pc m = Inr (pc', m') \<Longrightarrow> t < N \<Longrightarrow>
   \<exists>B'. steps (sys_step je N) \<lparr>shr = m, pcs = f(t := pc), table = B\<rparr>
     \<lparr>shr = m', pcs = f(t := pc'), table = B'\<rparr>"
proof (induction k arbitrary: pc m B)
  case 0
  then show ?case by (auto intro: steps_refl)
next
  case (Suc k)
  then obtain pc1 m1 where one: "thread_step je t pc m = Inr (pc1, m1)"
      "run_thread k je t pc1 m1 = Inr (pc', m')"
    by (auto simp: rbind_eq_Inr)
  have "sys_step je N \<lparr>shr = m, pcs = f(t := pc), table = B\<rparr>
      \<lparr>shr = m1, pcs = f(t := pc1), table = table_step t pc pc1 B\<rparr>"
    using sys_step.run [OF Suc.prems(2), of je "\<lparr>shr = m, pcs = f(t := pc), table = B\<rparr>" pc1 m1] one(1)
    by simp
  moreover obtain B' where "steps (sys_step je N)
      \<lparr>shr = m1, pcs = f(t := pc1), table = table_step t pc pc1 B\<rparr>
      \<lparr>shr = m', pcs = f(t := pc'), table = B'\<rparr>"
    using Suc.IH [OF one(2) Suc.prems(2)] by blast
  ultimately show ?case by (blast intro: steps_first)
qed

text \<open>
  The inputs of the witnesses: three threads on 128 MiB. In one reachable state a thread is in its
  critical section and another one waits for the mutex; in another every thread is idle again and
  one block is allocated.
\<close>

lemma mm_128Mi_start:
  "pm_ready (pm_stats mm_128Mi)" "pm_load (pm_stats mm_128Mi) = 0"
  "managed mm_128Mi + 7 * 3 < 2 ^ 62"
  by (simp_all add: mm_128Mi_def stats_128Mi_ready pm_load_def)

lemma contended_state:
  obtains s where "steps (sys_step bump_je 3) (sys_start mm_128Mi) s"
    and "pcs s 0 = A_read POLICY_MGR_EXEC_POOL 100" and "pcs s 1 = A_lock POLICY_MGR_STORAGE_POOL 4096"
proof -
  let ?s0 = "sys_start mm_128Mi"
  let ?s1 = "?s0\<lparr>pcs := (pcs ?s0)(0 := A_lock POLICY_MGR_EXEC_POOL 100)\<rparr>"
  let ?s2 = "?s1\<lparr>pcs := (pcs ?s1)(1 := A_lock POLICY_MGR_STORAGE_POOL 4096)\<rparr>"
  have "sys_step bump_je 3 ?s0 ?s1" "sys_step bump_je 3 ?s1 ?s2"
    by (rule call_alloc; simp add: sys_start_def)+
  then have s2: "steps (sys_step bump_je 3) ?s0 ?s2" by (blast intro: steps.intros)
  obtain st where "lock_stats 0 (pm_stats mm_128Mi) = Inr st"
    using mm_128Mi_start(1) by (auto simp: pm_ready_def lock_stats_def)
  then have "thread_step bump_je 0 (pcs ?s2 0) (shr ?s2)
      = Inr (A_read POLICY_MGR_EXEC_POOL 100, mm_128Mi\<lparr>pm_stats := st\<rparr>)"
    by (simp add: sys_start_def)
  from sys_step.run [OF _ this, of 3] s2 show thesis
    by (intro that [OF steps_step]) auto
qed

lemma drained_state:
  obtains s where "steps (sys_step bump_je 3) (sys_start mm_128Mi) s" and "\<forall>t. pcs s t = Idle"
    and "table s \<noteq> Map.empty"
proof -
  let ?s0 = "sys_start mm_128Mi"
  let ?s1 = "?s0\<lparr>pcs := (pcs ?s0)(0 := A_lock POLICY_MGR_EXEC_POOL 100)\<rparr>"
  have adm: "admits POLICY_MGR_EXEC_POOL (unat (100 :: size_t)) (abs_policy (pm_stats mm_128Mi))"
    by (simp add: mm_128Mi_def)
  have je: "je_malloc bump_je 100 (je_heap mm_128Mi) = (4096, snd (je_malloc bump_je 100 (je_heap mm_128Mi)))"
    by (simp add: bump_je_def bump_malloc_def mm_128Mi_def bump_empty_def)
  obtain m' where "allocMem bump_je 0 POLICY_MGR_EXEC_POOL 100 mm_128Mi = Inr (4096, m')"
    by (rule allocMem_block [OF mm_128Mi_ok _ bump_contract adm je, of 0]) auto
  then have "run_thread 10 bump_je 0 (A_lock POLICY_MGR_EXEC_POOL 100) mm_128Mi
      = Inr (Returned POLICY_MGR_EXEC_POOL 4096, m')"
    using thread_runs [of bump_je 0 POLICY_MGR_EXEC_POOL 100 mm_128Mi] by simp
  from run_thread_steps [OF this, of 3 "\<lambda>_. Idle" "\<lambda>_. None"] obtain B where
    "steps (sys_step bump_je 3) ?s1
      \<lparr>shr = m', pcs = (\<lambda>_. Idle)(0 := Returned POLICY_MGR_EXEC_POOL 4096), table = B\<rparr>"
      (is "steps _ _ ?s2")
    by (auto simp: sys_start_def)
  moreover have "sys_step bump_je 3 ?s0 ?s1"
    by (rule call_alloc) (simp_all add: sys_start_def)
  ultimately have s2: "steps (sys_step bump_je 3) ?s0 ?s2" by (blast intro: steps_first)
  then have "conc_inv bump_je bump_live 7 (managed mm_128Mi) 3 ?s2"
    using threads.steps_inv sys_start_inv [OF bump_contract mm_128Mi_start] by blast
  from conc_invD(6) [OF this, of 0] have B: "B 4096 \<noteq> None" by (auto simp: holding_def)
  let ?s3 = "?s2\<lparr>pcs := (pcs ?s2)(0 := Idle), table := (if (4096 :: addr) = NULL then table ?s2
      else (table ?s2)(4096 := map_option (\<lambda>b. b\<lparr>worker := None\<rparr>) (table ?s2 4096)))\<rparr>"
  have "sys_step bump_je 3 ?s2 ?s3"
    by (rule return [where p = POLICY_MGR_EXEC_POOL]) simp_all
  with s2 have "steps (sys_step bump_je 3) ?s0 ?s3" by (rule steps_step)
  then show thesis
    by (rule that) (use B in \<open>auto simp: fun_eq_iff\<close>)
qed

text \<open>
  C7: threads: however the steps of N threads interleave, at most one thread is inside a critical
  section of the policy manager, and it is the one that holds the mutex; so the values it read are
  still the current ones when it writes.
\<close>
theorem mutual_exclusion:
  assumes "je_contract je live S" and "pm_ready (pm_stats m)" and "pm_load (pm_stats m) = 0"
    and "managed m + S * N < 2 ^ 62" and "steps (sys_step je N) (sys_start m) s"
  shows "(\<forall>t u. critical (pcs s t) \<longrightarrow> critical (pcs s u) \<longrightarrow> t = u) \<and>
    (\<forall>t. critical (pcs s t) \<longrightarrow> mutex_policyMgrStats (pm_stats (shr s)) = Mutex_locked t) \<and>
    (\<forall>t p n l. pcs s t = A_decide p n l \<longrightarrow> l = policyMgrAlloc_read (pm_stats (shr s))) \<and>
    (\<forall>t p d v a. pcs s t = J_write p d v a \<longrightarrow> v = used (pm_stats (shr s)) p)"
proof -
  have inv: "conc_inv je live S (managed m) N s"
    using threads.steps_inv [OF assms(5)] sys_start_inv [OF assms(1-4)] by blast
  have "thread_ok S (pm_stats (shr s)) (live (je_heap (shr s))) (table s) t (pcs s t)" for t
    using conc_invD(6) [OF inv] .
  then show ?thesis
    using conc_mutex_critical [OF inv]
    by (metis pthread_mutex_t.inject thread_ok.simps(4) thread_ok.simps(10))
qed

theorem mutual_exclusion_witness:
  "\<exists>s. steps (sys_step bump_je 3) (sys_start mm_128Mi) s \<and> critical (pcs s 0) \<and>
    mutex_policyMgrStats (pm_stats (shr s)) = Mutex_locked 0 \<and> \<not> critical (pcs s 1)"
proof -
  obtain s where s: "steps (sys_step bump_je 3) (sys_start mm_128Mi) s"
      "pcs s 0 = A_read POLICY_MGR_EXEC_POOL 100"
    by (rule contended_state)
  then have "critical (pcs s 0)" by simp
  with mutual_exclusion [OF bump_contract mm_128Mi_start s(1)] s(1) show ?thesis
    by (metis zero_neq_one)
qed

text \<open>
  C3: threads, the accounting at every instant: a pool's counter is what has been charged for the
  blocks handed out from it plus what calls under way have reserved without a block; the two
  counters together exceed the managed memory by at most S bytes (one block's rounding) per thread.
\<close>
theorem concurrent_accounting:
  assumes "je_contract je live S" and "pm_ready (pm_stats m)" and "pm_load (pm_stats m) = 0"
    and "managed m + S * N < 2 ^ 62" and "steps (sys_step je N) (sys_start m) s"
    and "p \<noteq> POLICY_MGR_POOL_MAX"
  shows "usage (shr s) p = table_charge p (table s) + (\<Sum>t<N. in_flight p (pcs s t)) \<and>
    usage (shr s) POLICY_MGR_EXEC_POOL + usage (shr s) POLICY_MGR_STORAGE_POOL \<le> managed m + S * N"
proof -
  have inv: "conc_inv je live S (managed m) N s"
    using threads.steps_inv [OF assms(5)] sys_start_inv [OF assms(1-4)] by blast
  have "pm_load (pm_stats (shr s)) \<le> managed m + S * N"
    using conc_invD(10) [OF inv] by linarith
  then show ?thesis using conc_invD(9) [OF inv assms(6)] by (simp add: pm_load_def)
qed

theorem concurrent_accounting_witness:
  "\<exists>s. steps (sys_step bump_je 3) (sys_start mm_128Mi) s \<and> critical (pcs s 0) \<and>
    usage (shr s) POLICY_MGR_EXEC_POOL + usage (shr s) POLICY_MGR_STORAGE_POOL \<le> 134217728 + 7 * 3"
proof -
  obtain s where s: "steps (sys_step bump_je 3) (sys_start mm_128Mi) s"
      "pcs s 0 = A_read POLICY_MGR_EXEC_POOL 100"
    by (rule contended_state)
  have "managed mm_128Mi = 134217728" by (simp add: mm_128Mi_def)
  with concurrent_accounting [OF bump_contract mm_128Mi_start s(1), of POLICY_MGR_EXEC_POOL] s
  show ?thesis by (intro exI [of _ s]) auto
qed

text \<open>
  C8: threads, at rest: when no call is under way, each pool's counter is exactly the sum of the real
  sizes of the blocks clients hold from it: concurrent use loses no update and leaks no bytes.
\<close>
theorem quiescent_accounting:
  assumes "je_contract je live S" and "pm_ready (pm_stats m)" and "pm_load (pm_stats m) = 0"
    and "managed m + S * N < 2 ^ 62" and "steps (sys_step je N) (sys_start m) s"
    and "p \<noteq> POLICY_MGR_POOL_MAX" and "\<forall>t. pcs s t = Idle"
  shows "usage (shr s) p =
    (\<Sum>a | \<exists>x. table s a = Some x \<and> bpool x = p. unat (the (live (je_heap (shr s)) a)))"
proof -
  have inv: "conc_inv je live S (managed m) N s"
    using threads.steps_inv [OF assms(5)] sys_start_inv [OF assms(1-4)] by blast
  have "charge_of p (table s a) = unat (the (live (je_heap (shr s)) a))"
    if "table s a = Some x" "bpool x = p" for a x
    using conc_invD(8) [OF inv that(1)] conc_invD(11) [OF inv that(1)] assms(7) that
    by (cases "worker x") (auto simp: block_ok_def)
  moreover have "table_charge p (table s) =
      (\<Sum>a | \<exists>x. table s a = Some x \<and> bpool x = p. charge_of p (table s a))"
    unfolding table_charge_def using conc_invD(7) [OF inv]
    by (intro sum.mono_neutral_right) (auto split: if_splits)
  moreover have "usage (shr s) p = table_charge p (table s)"
    using conc_invD(9) [OF inv assms(6)] assms(7) by simp
  ultimately show ?thesis by (auto intro: sum.cong)
qed

theorem quiescent_accounting_witness:
  "\<exists>s. steps (sys_step bump_je 3) (sys_start mm_128Mi) s \<and> table s \<noteq> Map.empty \<and>
    usage (shr s) POLICY_MGR_EXEC_POOL = (\<Sum>a | \<exists>x. table s a = Some x \<and>
      bpool x = POLICY_MGR_EXEC_POOL. unat (the (bump_live (je_heap (shr s)) a)))"
proof -
  obtain s where s: "steps (sys_step bump_je 3) (sys_start mm_128Mi) s" "\<forall>t. pcs s t = Idle"
      "table s \<noteq> Map.empty"
    by (rule drained_state)
  from quiescent_accounting [OF bump_contract mm_128Mi_start s(1), of POLICY_MGR_EXEC_POOL] s
  show ?thesis by blast
qed

text \<open>
  C6: threads never fail and never deadlock: in every reachable state the next step of every thread
  succeeds (no assertion fails, no counter overflows, no mutex is misused) or waits for the mutex
  while another thread is in its critical section, whose own next step succeeds; and each successful
  step of a call brings it closer to its end.
\<close>
theorem threads_make_progress:
  assumes "je_contract je live S" and "pm_ready (pm_stats m)" and "pm_load (pm_stats m) = 0"
    and "managed m + S * N < 2 ^ 62" and "steps (sys_step je N) (sys_start m) s" and "t < N"
  shows "(\<exists>pc' m'. thread_step je t (pcs s t) (shr s) = Inr (pc', m') \<and>
      (0 < rank (pcs s t) \<longrightarrow> rank pc' < rank (pcs s t))) \<or>
    (thread_step je t (pcs s t) (shr s) = Inl Deadlock \<and>
      (\<exists>u pc' m'. u < N \<and> u \<noteq> t \<and> mutex_policyMgrStats (pm_stats (shr s)) = Mutex_locked u \<and>
        thread_step je u (pcs s u) (shr s) = Inr (pc', m') \<and> rank pc' < rank (pcs s u)))"
proof -
  have inv: "conc_inv je live S (managed m) N s"
    using threads.steps_inv [OF assms(5)] sys_start_inv [OF assms(1-4)] by blast
  from conc_run [OF inv assms(6)] show ?thesis
  proof
    assume "\<exists>pc' m'. thread_step je t (pcs s t) (shr s) = Inr (pc', m') \<and>
      conc_inv je live S (managed m) N
        \<lparr>shr = m', pcs = (pcs s)(t := pc'), table = table_step t (pcs s t) pc' (table s)\<rparr>"
    then show ?thesis using thread_step_rank by blast
  next
    assume w: "thread_step je t (pcs s t) (shr s) = Inl Deadlock \<and> waits s t"
    then obtain u where u: "critical (pcs s u)" "u \<noteq> t"
        "mutex_policyMgrStats (pm_stats (shr s)) = Mutex_locked u"
      by (auto simp: waits_def)
    have "u < N" using u(1) inv unfolding conc_inv_def by (metis critical.simps(7) leI)
    from conc_run [OF inv this] u obtain pc' m' where
      "thread_step je u (pcs s u) (shr s) = Inr (pc', m')" by (auto simp: waits_def)
    moreover from this have "rank pc' < rank (pcs s u)"
      using u(1) by (intro thread_step_rank) (auto intro: critical_rank)
    ultimately show ?thesis using w u \<open>u < N\<close> by blast
  qed
qed

theorem threads_make_progress_witness:
  "\<exists>s u pc' m'. steps (sys_step bump_je 3) (sys_start mm_128Mi) s \<and>
    thread_step bump_je 1 (pcs s 1) (shr s) = Inl Deadlock \<and> u \<noteq> 1 \<and>
    thread_step bump_je u (pcs s u) (shr s) = Inr (pc', m')"
proof -
  obtain s where s: "steps (sys_step bump_je 3) (sys_start mm_128Mi) s"
      "pcs s 0 = A_read POLICY_MGR_EXEC_POOL 100" "pcs s 1 = A_lock POLICY_MGR_STORAGE_POOL 4096"
    by (rule contended_state)
  have inv: "conc_inv bump_je bump_live 7 (managed mm_128Mi) 3 s"
    using threads.steps_inv [OF s(1)] sys_start_inv [OF bump_contract mm_128Mi_start] by blast
  have "mutex_policyMgrStats (pm_stats (shr s)) = Mutex_locked 0"
    using s(2) by (intro conc_mutex_critical [OF inv]) simp
  then have "thread_step bump_je 1 (pcs s 1) (shr s) = Inl Deadlock"
    using s(3) by (simp add: lock_stats_def)
  with threads_make_progress [OF bump_contract mm_128Mi_start s(1), of 1] s(1)
  show ?thesis by fastforce
qed

end
