(* ===== verification/Mem_Linear.thy ===== *)
theory Mem_Linear
  imports Mem_Concurrent
begin

text \<open>
  The threads refine the abstract policy. Each pass of a thread through a critical section has one
  step at which it takes effect, the update of a counter or the refusal; the history of a run is the
  sequence of these effects, in the order in which they happened. Replayed on the abstract policy,
  one after the other, every request gets the answer the thread got, and the loads at the end
  are those of the counters: concurrent use is some sequential use.
\<close>

section \<open>Effects and histories\<close>

datatype effect = Reserve policyMgrPool size_t bool | Adjust policyMgrPool slong

fun replay :: "effect list \<Rightarrow> policy \<Rightarrow> policy option" where
  "replay [] a = Some a"
| "replay (Reserve p n granted # es) a =
     (case spec_alloc p (unat n) a of (r, a) \<Rightarrow> if r = granted then replay es a else None)"
| "replay (Adjust p d # es) a = replay es (add_load p (sint d) a)"

lemma replay_append: "replay (es @ fs) a = Option.bind (replay es a) (replay fs)"
  by (induction es a rule: replay.induct) (simp_all split: prod.split)

text \<open>What the step of one thread, and a step of the system, adds to the history.\<close>

fun effect_of :: "pc \<Rightarrow> pc \<Rightarrow> effect list" where
  "effect_of (A_decide p n l) (A_unlock q k granted) = [Reserve p n granted]"
| "effect_of (J_write p d u a) (J_unlock q b) = [Adjust p d]"
| "effect_of pc pc' = []"

definition effects :: "nat \<Rightarrow> 'h csys \<Rightarrow> 'h csys \<Rightarrow> (tid \<times> effect) list" where
  "effects N s s' = concat (map (\<lambda>t. map (Pair t) (effect_of (pcs s t) (pcs s' t))) [0..<N])"

inductive history :: "'h jemalloc \<Rightarrow> nat \<Rightarrow> 'h csys \<Rightarrow> (tid \<times> effect) list \<Rightarrow> 'h csys \<Rightarrow> bool" for je N s where
  history_start: "history je N s [] s"
| history_step: "history je N s es s' \<Longrightarrow> sys_step je N s' s'' \<Longrightarrow> history je N s (es @ effects N s' s'') s''"

lemma history_steps: "history je N s es s' \<Longrightarrow> steps (sys_step je N) s s'"
  by (induction rule: history.induct) (auto intro: steps.intros)

lemma steps_history: "steps (sys_step je N) s s' \<Longrightarrow> \<exists>es. history je N s es s'"
  by (induction rule: steps.induct) (blast intro: history.intros)+

text \<open>Only the thread that moves adds to it.\<close>

lemma effect_of_same [simp]: "effect_of pc pc = []"
  by (cases pc) auto

lemma concat_map_single:
  assumes "t < N" and "\<And>u. u \<noteq> t \<Longrightarrow> f u = []"
  shows "concat (map f [0..<N]) = f t"
proof -
  have "[0..<N] = [0..<t] @ t # [Suc t..<N]"
    using assms(1) by (metis less_imp_le_nat upt_conv_Cons upt_add_eq_append le_add_diff_inverse zero_le)
  moreover have "concat (map f us) = []" if "t \<notin> set us" for us
    using that assms(2) by (induction us) auto
  ultimately show ?thesis by (simp del: concat_eq_Nil_conv)
qed

lemma effects_moved:
  "t < N \<Longrightarrow> pcs s' = (pcs s)(t := pc') \<Longrightarrow> map snd (effects N s s') = effect_of (pcs s t) pc'"
  unfolding effects_def by (subst concat_map_single [of t]) (auto simp: comp_def)

section \<open>Every step replays\<close>

lemma effect_of_quiet:
  assumes "thread_step je t pc m = Inr (pc', m')"
    and "\<And>p n l. pc \<noteq> A_decide p n l" and "\<And>p d u a. pc \<noteq> J_write p d u a"
  shows "effect_of pc pc' = []" and "abs_policy (pm_stats m') = abs_policy (pm_stats m)"
  using assms
  by (cases pc; auto simp: rbind_eq_Inr Let_def lock_stats_def unlock_stats_def split: prod.splits if_splits)+

lemma step_replays:
  assumes inv: "conc_inv je live S b N s" and "sys_step je N s s'"
  shows "replay (map snd (effects N s s')) (abs_policy (pm_stats (shr s))) = Some (abs_policy (pm_stats (shr s')))"
  using assms(2)
proof cases
  case (call_alloc t p n)
  with effects_moved [of t N s' s "A_lock p n"] show ?thesis by simp
next
  case (call_free t a x)
  with effects_moved [of t N s' s "F_sallocx (bpool x) a"] show ?thesis by simp
next
  case (return t p a)
  with effects_moved [of t N s' s Idle] show ?thesis by simp
next
  case (run t pc' m')
  let ?st = "pm_stats (shr s)"
  have s': "map snd (effects N s s') = effect_of (pcs s t) pc'" "shr s' = m'"
    using run effects_moved [of t N s' s pc'] by simp_all
  have inv': "conc_inv je live S b N s'" using sys_step_inv [OF inv assms(2)] .
  have conf: "pm_config ?st" and load: "pm_load ?st < 2 ^ 63"
    using conc_invD(2) [OF inv] conc_load [OF inv] by auto
  have me: "thread_ok S ?st (live (je_heap (shr s))) (table s) t (pcs s t)"
    using conc_invD(6) [OF inv] .
  show ?thesis
  proof (cases "(\<exists>p n l. pcs s t = A_decide p n l) \<or> (\<exists>p d u a. pcs s t = J_write p d u a)")
    case False
    with effect_of_quiet [OF run(3)] show ?thesis by (simp add: s')
  next
    case True
    then show ?thesis
    proof (elim disjE exE)
      fix p n l assume pc: "pcs s t = A_decide p n l"
      with run(3) obtain r st where r: "policyMgrAlloc_decide p n l ?st = Inr (r, st)"
          "pc' = A_unlock p n r" "pm_stats m' = st"
        by (auto simp: rbind_eq_Inr)
      from pc me have "p \<noteq> POLICY_MGR_POOL_MAX" "l = policyMgrAlloc_read ?st" by simp_all
      with decide_refines [OF conf load _ r(1) [unfolded this(2)]] show ?thesis
        by (simp add: s' pc r(2,3))
    next
      fix p d u a assume pc: "pcs s t = J_write p d u a"
      with run(3) obtain st where st: "policyMgrAdjustAlloc_write p d u ?st = Inr st"
          "pc' = J_unlock p a" "pm_stats m' = st"
        by (auto simp: rbind_eq_Inr)
      from pc me have p: "p \<noteq> POLICY_MGR_POOL_MAX" and u: "u = used ?st p" by (simp_all add: adjust_ok_def)
      have small: "unat (used ?st p) < 2 ^ 63" "unat (used st p) < 2 ^ 63"
        using used_le_pm_load [OF p, of ?st] load used_le_pm_load [OF p, of st] conc_load [OF inv']
        by (simp_all add: s'(2) st(3))
      from write_refines [OF conf p small(1) st(1) [unfolded u] small(2)] show ?thesis
        by (simp add: s' pc st(2,3))
    qed
  qed
qed

lemma history_replays:
  assumes "history je N s es s'" and "conc_inv je live S b N s"
  shows "replay (map snd es) (abs_policy (pm_stats (shr s))) = Some (abs_policy (pm_stats (shr s')))"
  using assms(1)
proof (induction rule: history.induct)
  case (history_step es s' s'')
  have "conc_inv je live S b N s'"
    using threads.steps_inv [OF history_steps [OF history_step.hyps(1)] assms(2)] .
  from step_replays [OF this history_step.hyps(2)] history_step.IH show ?case
    by (simp add: replay_append)
qed simp

section \<open>Concurrent use is sequential use\<close>

text \<open>
  C4: threads refine the abstract policy: take the effects of any run of N threads in the order in which
  they happened, whatever the interleaving. Replayed one by one on the abstract policy that was
  initialised, each request is granted or refused exactly as it was to the thread, and the policy at
  the end is the one the counters stand for.
\<close>
theorem threads_refine_policy:
  assumes "je_contract je live S" and "pm_ready (pm_stats m)" and "pm_load (pm_stats m) = 0"
    and "managed m + S * N < 2 ^ 62" and "history je N (sys_start m) es s"
  shows "replay (map snd es) (abs_policy (pm_stats m)) = Some (abs_policy (pm_stats (shr s)))"
  using history_replays [OF assms(5) sys_start_inv [OF assms(1-4)]] by (simp add: sys_start_def)

theorem threads_refine_policy_witness:
  "\<exists>es s. history bump_je 3 (sys_start mm_128Mi) es s \<and> table s \<noteq> Map.empty \<and>
    replay (map snd es) (abs_policy (pm_stats mm_128Mi)) = Some (abs_policy (pm_stats (shr s)))"
proof -
  obtain s where s: "steps (sys_step bump_je 3) (sys_start mm_128Mi) s" "table s \<noteq> Map.empty"
    by (rule drained_state)
  from steps_history [OF s(1)] obtain es where "history bump_je 3 (sys_start mm_128Mi) es s" by blast
  with threads_refine_policy [OF bump_contract mm_128Mi_start this] s(2) show ?thesis by blast
qed

end
