(* ===== verification/Unity_Types.thy ===== *)
theory Unity_Types
  imports Prelude
begin

text \<open>
  The types of the Unity test framework, \<^verbatim>\<open>unity/src/unity_internals.h\<close>, in the configuration
  of the Makefile (no \<^verbatim>\<open>UNITY_\<close> macro defined) on the LP64 target: 64-bit \<^verbatim>\<open>UNITY_INT\<close>, 32-bit
  \<^verbatim>\<open>int\<close>, \<^verbatim>\<open>longjmp\<close> available, output by \<^verbatim>\<open>putchar\<close>. A C string is a list of
  characters, \<open>None\<close> for a null pointer. Characters written to the output are collected in the state.
\<close>

unbundle bit_operations_syntax

section \<open>Integers and characters\<close>

type_synonym UNITY_UINT = "64 word"
type_synonym UNITY_INT = "64 word"          \<comment> \<open>read with \<open>sint\<close>\<close>
type_synonym UNITY_UINT32 = "32 word"
type_synonym UNITY_LINE_TYPE = "64 word"
type_synonym UNITY_COUNTER_TYPE = "64 word"
type_synonym c_string = "string option"

definition UNITY_INT_WIDTH :: nat where "UNITY_INT_WIDTH = 32"

definition UNITY_MAX_NIBBLES :: nat where "UNITY_MAX_NIBBLES = 16"

text \<open>The value of a (signed) \<^verbatim>\<open>char\<close>, and its conversion to \<^verbatim>\<open>UNITY_INT\<close>.\<close>

definition char_val :: "char \<Rightarrow> int" where
  "char_val c =
     (if (of_char c :: nat) < 128 then int (of_char c :: nat) else int (of_char c :: nat) - 256)"

definition char_int :: "char \<Rightarrow> UNITY_INT" where
  "char_int c = word_of_int (char_val c)"

text \<open>Reading a string by index: its terminator can be read, nothing behind it.\<close>

definition char_at :: "string \<Rightarrow> nat \<Rightarrow> char res" where
  "char_at s i =
     (if i < length s then Inr (s ! i) else if i = length s then Inr (CHR 0x00) else Inl Out_of_bounds)"

lemma char_at_content: "char_at s i = Inr c \<Longrightarrow> c \<noteq> CHR 0x00 \<Longrightarrow> i < length s"
  by (auto simp: char_at_def split: if_splits)

text \<open>A walk by index sees the characters that are left.\<close>

lemma char_at_drop:
  "p \<le> length s \<Longrightarrow> char_at s p = Inr (case drop p s of [] \<Rightarrow> CHR 0x00 | c # cs \<Rightarrow> c)"
  by (auto simp: char_at_def Cons_nth_drop_Suc [symmetric])

lemma drop_next: "drop p s = c # cs \<Longrightarrow> p < length s \<and> drop (Suc p) s = cs"
  by (metis drop_Suc_Cons drop_all drop_eq_Nil drop_tl leI list.distinct(1) list.sel(3) tl_drop drop_Suc)

section \<open>Enumerations\<close>

type_synonym UNITY_DISPLAY_STYLE_T = "32 word"

definition UNITY_DISPLAY_RANGE_INT :: "32 word" where "UNITY_DISPLAY_RANGE_INT = 0x10"
definition UNITY_DISPLAY_RANGE_UINT :: "32 word" where "UNITY_DISPLAY_RANGE_UINT = 0x20"
definition UNITY_DISPLAY_RANGE_HEX :: "32 word" where "UNITY_DISPLAY_RANGE_HEX = 0x40"
definition UNITY_DISPLAY_RANGE_CHAR :: "32 word" where "UNITY_DISPLAY_RANGE_CHAR = 0x80"

definition UNITY_DISPLAY_STYLE_INT :: UNITY_DISPLAY_STYLE_T where
  "UNITY_DISPLAY_STYLE_INT = of_nat (UNITY_INT_WIDTH div 8) + UNITY_DISPLAY_RANGE_INT"
definition UNITY_DISPLAY_STYLE_INT8 :: UNITY_DISPLAY_STYLE_T where
  "UNITY_DISPLAY_STYLE_INT8 = 1 + UNITY_DISPLAY_RANGE_INT"
definition UNITY_DISPLAY_STYLE_INT16 :: UNITY_DISPLAY_STYLE_T where
  "UNITY_DISPLAY_STYLE_INT16 = 2 + UNITY_DISPLAY_RANGE_INT"
definition UNITY_DISPLAY_STYLE_INT32 :: UNITY_DISPLAY_STYLE_T where
  "UNITY_DISPLAY_STYLE_INT32 = 4 + UNITY_DISPLAY_RANGE_INT"
definition UNITY_DISPLAY_STYLE_INT64 :: UNITY_DISPLAY_STYLE_T where
  "UNITY_DISPLAY_STYLE_INT64 = 8 + UNITY_DISPLAY_RANGE_INT"
definition UNITY_DISPLAY_STYLE_UINT :: UNITY_DISPLAY_STYLE_T where
  "UNITY_DISPLAY_STYLE_UINT = of_nat (UNITY_INT_WIDTH div 8) + UNITY_DISPLAY_RANGE_UINT"
definition UNITY_DISPLAY_STYLE_UINT8 :: UNITY_DISPLAY_STYLE_T where
  "UNITY_DISPLAY_STYLE_UINT8 = 1 + UNITY_DISPLAY_RANGE_UINT"
definition UNITY_DISPLAY_STYLE_UINT16 :: UNITY_DISPLAY_STYLE_T where
  "UNITY_DISPLAY_STYLE_UINT16 = 2 + UNITY_DISPLAY_RANGE_UINT"
definition UNITY_DISPLAY_STYLE_UINT32 :: UNITY_DISPLAY_STYLE_T where
  "UNITY_DISPLAY_STYLE_UINT32 = 4 + UNITY_DISPLAY_RANGE_UINT"
definition UNITY_DISPLAY_STYLE_UINT64 :: UNITY_DISPLAY_STYLE_T where
  "UNITY_DISPLAY_STYLE_UINT64 = 8 + UNITY_DISPLAY_RANGE_UINT"
definition UNITY_DISPLAY_STYLE_HEX8 :: UNITY_DISPLAY_STYLE_T where
  "UNITY_DISPLAY_STYLE_HEX8 = 1 + UNITY_DISPLAY_RANGE_HEX"
definition UNITY_DISPLAY_STYLE_HEX16 :: UNITY_DISPLAY_STYLE_T where
  "UNITY_DISPLAY_STYLE_HEX16 = 2 + UNITY_DISPLAY_RANGE_HEX"
definition UNITY_DISPLAY_STYLE_HEX32 :: UNITY_DISPLAY_STYLE_T where
  "UNITY_DISPLAY_STYLE_HEX32 = 4 + UNITY_DISPLAY_RANGE_HEX"
definition UNITY_DISPLAY_STYLE_HEX64 :: UNITY_DISPLAY_STYLE_T where
  "UNITY_DISPLAY_STYLE_HEX64 = 8 + UNITY_DISPLAY_RANGE_HEX"
definition UNITY_DISPLAY_STYLE_CHAR :: UNITY_DISPLAY_STYLE_T where
  "UNITY_DISPLAY_STYLE_CHAR = 1 + UNITY_DISPLAY_RANGE_CHAR + UNITY_DISPLAY_RANGE_INT"
definition UNITY_DISPLAY_STYLE_UNKNOWN :: UNITY_DISPLAY_STYLE_T where
  "UNITY_DISPLAY_STYLE_UNKNOWN = UNITY_DISPLAY_STYLE_CHAR + 1"

lemmas style_defs =
  UNITY_DISPLAY_RANGE_INT_def UNITY_DISPLAY_RANGE_UINT_def UNITY_DISPLAY_RANGE_HEX_def
  UNITY_DISPLAY_RANGE_CHAR_def UNITY_INT_WIDTH_def
  UNITY_DISPLAY_STYLE_INT_def UNITY_DISPLAY_STYLE_INT8_def UNITY_DISPLAY_STYLE_INT16_def
  UNITY_DISPLAY_STYLE_INT32_def UNITY_DISPLAY_STYLE_INT64_def
  UNITY_DISPLAY_STYLE_UINT_def UNITY_DISPLAY_STYLE_UINT8_def UNITY_DISPLAY_STYLE_UINT16_def
  UNITY_DISPLAY_STYLE_UINT32_def UNITY_DISPLAY_STYLE_UINT64_def
  UNITY_DISPLAY_STYLE_HEX8_def UNITY_DISPLAY_STYLE_HEX16_def
  UNITY_DISPLAY_STYLE_HEX32_def UNITY_DISPLAY_STYLE_HEX64_def
  UNITY_DISPLAY_STYLE_CHAR_def UNITY_DISPLAY_STYLE_UNKNOWN_def

text \<open>The tests on a style: \<^verbatim>\<open>(style & RANGE) == RANGE\<close> and \<^verbatim>\<open>style & RANGE\<close>.\<close>

definition style_is :: "UNITY_DISPLAY_STYLE_T \<Rightarrow> 32 word \<Rightarrow> bool" where
  "style_is style rng \<longleftrightarrow> style AND rng = rng"

definition style_has :: "UNITY_DISPLAY_STYLE_T \<Rightarrow> 32 word \<Rightarrow> bool" where
  "style_has style rng \<longleftrightarrow> style AND rng \<noteq> 0"

definition style_length :: "UNITY_DISPLAY_STYLE_T \<Rightarrow> nat" where
  "style_length style = unat (style AND 0xF)"

type_synonym UNITY_COMPARISON_T = "32 word"

definition UNITY_WITHIN :: UNITY_COMPARISON_T where "UNITY_WITHIN = 0x0"
definition UNITY_EQUAL_TO :: UNITY_COMPARISON_T where "UNITY_EQUAL_TO = 0x1"
definition UNITY_GREATER_THAN :: UNITY_COMPARISON_T where "UNITY_GREATER_THAN = 0x2"
definition UNITY_GREATER_OR_EQUAL :: UNITY_COMPARISON_T where
  "UNITY_GREATER_OR_EQUAL = 0x2 + UNITY_EQUAL_TO"
definition UNITY_SMALLER_THAN :: UNITY_COMPARISON_T where "UNITY_SMALLER_THAN = 0x4"
definition UNITY_SMALLER_OR_EQUAL :: UNITY_COMPARISON_T where
  "UNITY_SMALLER_OR_EQUAL = 0x4 + UNITY_EQUAL_TO"
definition UNITY_NOT_EQUAL :: UNITY_COMPARISON_T where "UNITY_NOT_EQUAL = 0x0"

lemmas comparison_defs =
  UNITY_WITHIN_def UNITY_EQUAL_TO_def UNITY_GREATER_THAN_def UNITY_GREATER_OR_EQUAL_def
  UNITY_SMALLER_THAN_def UNITY_SMALLER_OR_EQUAL_def UNITY_NOT_EQUAL_def

definition compare_has :: "UNITY_COMPARISON_T \<Rightarrow> UNITY_COMPARISON_T \<Rightarrow> bool" where
  "compare_has compare flag \<longleftrightarrow> compare AND flag \<noteq> 0"

datatype UNITY_FLAGS_T = UNITY_ARRAY_TO_VAL | UNITY_ARRAY_TO_ARRAY | UNITY_ARRAY_UNKNOWN

section \<open>The framework's state\<close>

record UNITY_STORAGE_T =
  TestFile :: c_string
  CurrentTestName :: c_string
  CurrentDetail1 :: c_string
  CurrentDetail2 :: c_string
  CurrentTestLineNumber :: UNITY_LINE_TYPE
  NumberOfTests :: UNITY_COUNTER_TYPE
  TestFailures :: UNITY_COUNTER_TYPE
  TestIgnores :: UNITY_COUNTER_TYPE
  CurrentTestFailed :: UNITY_COUNTER_TYPE
  CurrentTestIgnored :: UNITY_COUNTER_TYPE

text \<open>The file-scope variable \<^verbatim>\<open>Unity\<close> starts as zero bytes.\<close>

definition Unity_zero :: UNITY_STORAGE_T where
  "Unity_zero =
     \<lparr>TestFile = None, CurrentTestName = None, CurrentDetail1 = None, CurrentDetail2 = None,
      CurrentTestLineNumber = 0, NumberOfTests = 0, TestFailures = 0, TestIgnores = 0,
      CurrentTestFailed = 0, CurrentTestIgnored = 0\<rparr>"

text \<open>The framework and what it has printed so far.\<close>

record unity =
  Unity :: UNITY_STORAGE_T
  printed :: string

text \<open>
  How a call ends: it returns, or it jumps (\<^verbatim>\<open>TEST_ABORT\<close>, \<^verbatim>\<open>longjmp\<close>) to the enclosing
  \<^verbatim>\<open>TEST_PROTECT\<close>.
\<close>

datatype 'a outcome = Returns 'a | Jumps 'a

fun final :: "'a outcome \<Rightarrow> 'a" where
  "final (Returns x) = x"
| "final (Jumps x) = x"

fun obind :: "'a outcome \<Rightarrow> ('a \<Rightarrow> 'a outcome) \<Rightarrow> 'a outcome" where
  "obind (Returns x) k = k x"
| "obind (Jumps x) k = Jumps x"

section \<open>Messages (unity.c)\<close>

definition UnityStrOk :: c_string where "UnityStrOk = Some ''OK''"
definition UnityStrPass :: c_string where "UnityStrPass = Some ''PASS''"
definition UnityStrFail :: c_string where "UnityStrFail = Some ''FAIL''"
definition UnityStrIgnore :: c_string where "UnityStrIgnore = Some ''IGNORE''"
definition UnityStrNull :: c_string where "UnityStrNull = Some ''NULL''"
definition UnityStrSpacer :: c_string where "UnityStrSpacer = Some ''. ''"
definition UnityStrExpected :: c_string where "UnityStrExpected = Some '' Expected ''"
definition UnityStrWas :: c_string where "UnityStrWas = Some '' Was ''"
definition UnityStrGt :: c_string where "UnityStrGt = Some '' to be greater than ''"
definition UnityStrLt :: c_string where "UnityStrLt = Some '' to be less than ''"
definition UnityStrOrEqual :: c_string where "UnityStrOrEqual = Some ''or equal to ''"
definition UnityStrNotEqual :: c_string where "UnityStrNotEqual = Some '' to be not equal to ''"
definition UnityStrElement :: c_string where "UnityStrElement = Some '' Element ''"
definition UnityStrByte :: c_string where "UnityStrByte = Some '' Byte ''"
definition UnityStrMemory :: c_string where "UnityStrMemory = Some '' Memory Mismatch.''"
definition UnityStrDelta :: c_string where "UnityStrDelta = Some '' Values Not Within Delta ''"
definition UnityStrPointless :: c_string where
  "UnityStrPointless = Some '' You Asked Me To Compare Nothing, Which Was Pointless.''"
definition UnityStrNullPointerForExpected :: c_string where
  "UnityStrNullPointerForExpected = Some '' Expected pointer to be NULL''"
definition UnityStrNullPointerForActual :: c_string where
  "UnityStrNullPointerForActual = Some '' Actual pointer was NULL''"
definition UnityStrNot :: c_string where "UnityStrNot = Some ''Not ''"
definition UnityStrInf :: c_string where "UnityStrInf = Some ''Infinity''"
definition UnityStrNegInf :: c_string where "UnityStrNegInf = Some ''Negative Infinity''"
definition UnityStrNaN :: c_string where "UnityStrNaN = Some ''NaN''"
definition UnityStrDet :: c_string where "UnityStrDet = Some ''Determinate''"
definition UnityStrInvalidFloatTrait :: c_string where
  "UnityStrInvalidFloatTrait = Some ''Invalid Float Trait''"
definition UnityStrErrShorthand :: c_string where
  "UnityStrErrShorthand = Some ''Unity Shorthand Support Disabled''"
definition UnityStrErrFloat :: c_string where
  "UnityStrErrFloat = Some ''Unity Floating Point Disabled''"
definition UnityStrErrDouble :: c_string where
  "UnityStrErrDouble = Some ''Unity Double Precision Disabled''"
definition UnityStrErr64 :: c_string where
  "UnityStrErr64 = Some ''Unity 64-bit Support Disabled''"
definition UnityStrBreaker :: c_string where
  "UnityStrBreaker = Some ''-----------------------''"
definition UnityStrResultsTests :: c_string where "UnityStrResultsTests = Some '' Tests ''"
definition UnityStrResultsFailures :: c_string where "UnityStrResultsFailures = Some '' Failures ''"
definition UnityStrResultsIgnored :: c_string where "UnityStrResultsIgnored = Some '' Ignored ''"
definition UnityStrDetail1Name :: c_string where "UnityStrDetail1Name = Some ''Function ''"
definition UnityStrDetail2Name :: c_string where "UnityStrDetail2Name = Some '' Argument ''"

end
