(* ===== verification/Unity_Print.thy ===== *)
theory Unity_Print
  imports Unity_Types
begin

text \<open>
  Unity's printers (\<^verbatim>\<open>unity/src/unity.c\<close>): each gives the characters it hands to
  \<^verbatim>\<open>UNITY_OUTPUT_CHAR\<close>. The decimal and hexadecimal printers are shown to print the number they
  are given: reading the digits gives it back.
\<close>

section \<open>Numbers\<close>

text \<open>The loop of \<^verbatim>\<open>UnityPrintNumberHex\<close>, with \<open>nibbles\<close> digits to go.\<close>

fun hex_digits :: "nat \<Rightarrow> UNITY_UINT \<Rightarrow> string" where
  "hex_digits 0 number = []"
| "hex_digits (Suc nibbles) number =
     (let nibble = unat ((ucast (drop_bit (nibbles * 4) number) :: 32 word) AND 0x0F)
      in (if nibble \<le> 9 then char_of (48 + nibble) else char_of (65 - 10 + nibble))
         # hex_digits nibbles number)"

definition UnityPrintNumberHex :: "UNITY_UINT \<Rightarrow> 8 word \<Rightarrow> string" where
  "UnityPrintNumberHex number nibbles_to_print =
     (let nibbles = (if unat (scast nibbles_to_print :: 32 word) > UNITY_MAX_NIBBLES
                     then UNITY_MAX_NIBBLES else unat nibbles_to_print)
      in hex_digits nibbles number)"

text \<open>The two loops of \<^verbatim>\<open>UnityPrintNumberUnsigned\<close>: find the divisor, print the digits.\<close>

function find_divisor :: "UNITY_UINT \<Rightarrow> UNITY_UINT \<Rightarrow> UNITY_UINT" where
  "find_divisor number divisor =
     (if number div divisor > 9 then find_divisor number (divisor * 10) else divisor)"
  by auto

lemma divisor_grows:
  assumes "number div divisor > (9 :: 64 word)"
  shows "unat (divisor * 10) = unat divisor * 10 \<and> 0 < unat divisor \<and> unat divisor * 10 \<le> unat number"
proof -
  have q: "9 < unat number div unat divisor"
    using assms by (simp add: word_less_nat_alt unat_div)
  then have pos: "0 < unat divisor" by (cases "unat divisor = 0") auto
  have "10 \<le> unat number div unat divisor" using q by simp
  then have "unat divisor * 10 \<le> unat divisor * (unat number div unat divisor)" by simp
  then have le: "unat divisor * 10 \<le> unat number"
    using times_div_less_eq_dividend order_trans by blast
  also have "\<dots> < 2 ^ 64" by simp
  finally have "unat (divisor * 10) = unat divisor * 10" by (simp add: unat_word_ariths)
  with pos le show ?thesis by simp
qed

termination find_divisor
  by (relation "measure (\<lambda>(number, divisor). unat number - unat divisor)")
     (auto dest: divisor_grows)

function print_digits :: "UNITY_UINT \<Rightarrow> UNITY_UINT \<Rightarrow> string" where
  "print_digits number divisor =
     char_of (48 + unat (number div divisor mod 10))
     # (if divisor div 10 > 0 then print_digits number (divisor div 10) else [])"
  by auto
termination
  by (relation "measure (\<lambda>(number, divisor). unat divisor)") (auto simp: word_less_nat_alt unat_div)

definition UnityPrintNumberUnsigned :: "UNITY_UINT \<Rightarrow> string" where
  "UnityPrintNumberUnsigned number = print_digits number (find_divisor number 1)"

definition UnityPrintNumber :: "UNITY_INT \<Rightarrow> string" where
  "UnityPrintNumber number_to_print =
     (if sint number_to_print < 0 then CHR ''-'' # UnityPrintNumberUnsigned (NOT number_to_print + 1)
      else UnityPrintNumberUnsigned number_to_print)"

text \<open>
  The same loops, with no value if one of them divides by zero or a product wraps. HOL's division by
  zero is zero, so the functions above would not show it.
\<close>

function find_divisor_checked :: "UNITY_UINT \<Rightarrow> UNITY_UINT \<Rightarrow> UNITY_UINT option" where
  "find_divisor_checked number divisor =
     (if divisor = 0 then None
      else if number div divisor > 9 then
        (if unat divisor * 10 < 2 ^ 64 then find_divisor_checked number (divisor * 10) else None)
      else Some divisor)"
  by auto
termination
  by (relation "measure (\<lambda>(number, divisor). unat number - unat divisor)")
     (auto dest: divisor_grows)

function print_digits_checked :: "UNITY_UINT \<Rightarrow> UNITY_UINT \<Rightarrow> string option" where
  "print_digits_checked number divisor =
     (if divisor = 0 then None
      else map_option ((#) (char_of (48 + unat (number div divisor mod 10))))
        (if divisor div 10 > 0 then print_digits_checked number (divisor div 10) else Some []))"
  by auto
termination
  by (relation "measure (\<lambda>(number, divisor). unat divisor)") (auto simp: word_less_nat_alt unat_div)

definition UnityPrintNumberUnsigned_checked :: "UNITY_UINT \<Rightarrow> string option" where
  "UnityPrintNumberUnsigned_checked number =
     Option.bind (find_divisor_checked number 1) (print_digits_checked number)"

definition UnityPrintNumber_checked :: "UNITY_INT \<Rightarrow> string option" where
  "UnityPrintNumber_checked number_to_print =
     (if sint number_to_print < 0
      then map_option ((#) (CHR ''-'')) (UnityPrintNumberUnsigned_checked (NOT number_to_print + 1))
      else UnityPrintNumberUnsigned_checked number_to_print)"

text \<open>\<^verbatim>\<open>UnityPrintMask\<close>: \<open>i\<close> turns of its loop are left.\<close>

fun mask_digits :: "nat \<Rightarrow> UNITY_UINT \<Rightarrow> UNITY_UINT \<Rightarrow> UNITY_UINT \<Rightarrow> string" where
  "mask_digits 0 current_bit msk number = []"
| "mask_digits (Suc i) current_bit msk number =
     (if current_bit AND msk \<noteq> 0
      then (if current_bit AND number \<noteq> 0 then CHR ''1'' else CHR ''0'')
      else CHR ''X'')
     # mask_digits i (drop_bit 1 current_bit) msk number"

definition UnityPrintMask :: "UNITY_UINT \<Rightarrow> UNITY_UINT \<Rightarrow> string" where
  "UnityPrintMask msk number =
     mask_digits UNITY_INT_WIDTH (push_bit (UNITY_INT_WIDTH - 1) 1) msk number"

section \<open>Characters and strings\<close>

definition backslash :: char where "backslash = CHR 0x5C"

definition UnityPrintChar :: "char \<Rightarrow> string" where
  "UnityPrintChar c =
     (if char_val c \<le> 126 \<and> char_val c \<ge> 32 then [c]
      else if char_val c = 13 then [backslash, CHR ''r'']
      else if char_val c = 10 then [backslash, CHR ''n'']
      else [backslash, CHR ''x''] @ UnityPrintNumberHex (char_int c) 2)"

fun print_chars :: "string \<Rightarrow> string" where
  "print_chars [] = []"
| "print_chars (c # cs) = (if c = CHR 0x00 then [] else UnityPrintChar c @ print_chars cs)"

fun UnityPrint :: "c_string \<Rightarrow> string" where
  "UnityPrint None = []"
| "UnityPrint (Some s) = print_chars s"

fun print_chars_len :: "string \<Rightarrow> nat \<Rightarrow> string" where
  "print_chars_len [] n = []"
| "print_chars_len (c # cs) n =
     (if c \<noteq> CHR 0x00 \<and> n > 0 then
        (if char_val c \<le> 126 \<and> char_val c \<ge> 32 then [c]
         else if char_val c = 13 then [backslash, CHR ''r'']
         else if char_val c = 10 then [backslash, CHR ''n'']
         else [backslash, CHR ''x''] @ UnityPrintNumberHex (char_int c) 2)
        @ print_chars_len cs (n - 1)
      else [])"

fun UnityPrintLen :: "c_string \<Rightarrow> UNITY_UINT32 \<Rightarrow> string" where
  "UnityPrintLen None len = []"
| "UnityPrintLen (Some s) len = print_chars_len s (unat len)"

definition UnityPrintNumberByStyle :: "UNITY_INT \<Rightarrow> UNITY_DISPLAY_STYLE_T \<Rightarrow> string" where
  "UnityPrintNumberByStyle number style =
     (if style_is style UNITY_DISPLAY_RANGE_INT then
        (if style = UNITY_DISPLAY_STYLE_CHAR then
           [CHR 0x27] @
           (if sint number \<le> 126 \<and> sint number \<ge> 32 then [char_of (unat number)]
            else if sint number = 13 then [backslash, CHR ''r'']
            else if sint number = 10 then [backslash, CHR ''n'']
            else [backslash, CHR ''x''] @ UnityPrintNumberHex number 2) @
           [CHR 0x27]
         else UnityPrintNumber number)
      else if style_is style UNITY_DISPLAY_RANGE_UINT then UnityPrintNumberUnsigned number
      else ''0x'' @ UnityPrintNumberHex number (ucast ((style AND 0xF) * 2)))"

definition UnityPrintExpectedAndActualStrings :: "c_string \<Rightarrow> c_string \<Rightarrow> string" where
  "UnityPrintExpectedAndActualStrings expected actual =
     UnityPrint UnityStrExpected @
     (if expected \<noteq> None then [CHR 0x27] @ UnityPrint expected @ [CHR 0x27]
      else UnityPrint UnityStrNull) @
     UnityPrint UnityStrWas @
     (if actual \<noteq> None then [CHR 0x27] @ UnityPrint actual @ [CHR 0x27]
      else UnityPrint UnityStrNull)"

definition UnityPrintExpectedAndActualStringsLen ::
  "c_string \<Rightarrow> c_string \<Rightarrow> UNITY_UINT32 \<Rightarrow> string" where
  "UnityPrintExpectedAndActualStringsLen expected actual len =
     UnityPrint UnityStrExpected @
     (if expected \<noteq> None then [CHR 0x27] @ UnityPrintLen expected len @ [CHR 0x27]
      else UnityPrint UnityStrNull) @
     UnityPrint UnityStrWas @
     (if actual \<noteq> None then [CHR 0x27] @ UnityPrintLen actual len @ [CHR 0x27]
      else UnityPrint UnityStrNull)"

declare find_divisor.simps [simp del] print_digits.simps [simp del]
  find_divisor_checked.simps [simp del] print_digits_checked.simps [simp del]

section \<open>What is printed\<close>

text \<open>Reading a string of digits, in a base.\<close>

definition digit_val :: "char \<Rightarrow> nat" where
  "digit_val c = (if of_char c < (58 :: nat) then of_char c - 48 else of_char c - 55)"

definition read_from :: "nat \<Rightarrow> nat \<Rightarrow> string \<Rightarrow> nat" where
  "read_from base = foldl (\<lambda>n c. base * n + digit_val c)"

definition read_decimal :: "string \<Rightarrow> int" where
  "read_decimal s =
     (case s of [] \<Rightarrow> 0
      | c # cs \<Rightarrow> if c = CHR ''-'' then - int (read_from 10 0 cs) else int (read_from 10 0 s))"

lemma read_from_simps [simp]:
  "read_from b n [] = n"
  "read_from b n (c # cs) = read_from b (b * n + digit_val c) cs"
  by (simp_all add: read_from_def)

lemma digit_val_decimal [simp]: "d \<le> 9 \<Longrightarrow> digit_val (char_of (48 + d :: nat)) = d"
  by (simp add: digit_val_def)

lemma digit_val_hex [simp]: "9 < d \<Longrightarrow> d < 16 \<Longrightarrow> digit_val (char_of (55 + d :: nat)) = d"
  by (simp add: digit_val_def)

subsection \<open>Decimal\<close>

text \<open>The divisor found is the largest power of ten not above the number (one for zero).\<close>

lemma find_divisor_power:
  assumes "unat divisor = 10 ^ j" and "j = 0 \<or> 10 ^ j \<le> unat number"
  shows "\<exists>k. unat (find_divisor number divisor) = 10 ^ k \<and> (k = 0 \<or> 10 ^ k \<le> unat number) \<and>
    unat number < 10 ^ (k + 1)"
  using assms
proof (induction number divisor arbitrary: j rule: find_divisor.induct)
  case (1 number divisor)
  show ?case
  proof (cases "number div divisor > 9")
    case True
    from divisor_grows [OF True] 1(2) have "unat (divisor * 10) = 10 ^ Suc j" "10 ^ Suc j \<le> unat number"
      by simp_all
    with 1(1) [OF True, of "Suc j"] True show ?thesis by (simp add: find_divisor.simps [of number divisor])
  next
    case False
    then have "unat number div 10 ^ j \<le> 9"
      using 1(2) by (simp add: word_less_nat_alt unat_div not_less)
    then have "unat number div 10 ^ j < 10" by simp
    then have "unat number < 10 * 10 ^ j" by (simp add: div_less_iff_less_mult)
    with 1 False show ?thesis
      by (simp add: find_divisor.simps [of number divisor])
  qed
qed

lemma print_digits_read:
  assumes "unat divisor = 10 ^ k"
  shows "read_from 10 m (print_digits number divisor) = m * 10 ^ (k + 1) + unat number mod 10 ^ (k + 1)"
  using assms
proof (induction k arbitrary: divisor m)
  case 0
  then have "divisor = 1" by (simp add: word_unat_eq_iff)
  moreover have "unat number mod 10 \<le> 9" using mod_less_divisor [of 10 "unat number"] by simp
  ultimately show ?case by (simp add: print_digits.simps [of number 1] unat_mod)
next
  case (Suc k)
  have ten: "unat (divisor div 10) = 10 ^ k" using Suc.prems by (simp add: unat_div)
  then have pos: "divisor div 10 > 0" by (simp add: word_less_nat_alt)
  let ?d = "unat number div 10 ^ Suc k mod 10"
  have dig: "unat (number div divisor mod 10) = ?d"
    using Suc.prems by (simp add: unat_div unat_mod)
  have "?d < 10" by simp
  then have "digit_val (char_of (48 + ?d)) = ?d" by (intro digit_val_decimal) simp
  then have "read_from 10 m (print_digits number divisor)
      = (10 * m + ?d) * 10 ^ (k + 1) + unat number mod 10 ^ (k + 1)"
    using pos Suc.IH [OF ten, of "10 * m + ?d"]
    by (simp add: print_digits.simps [of number divisor] dig del: power_Suc)
  also have "\<dots> = m * 10 ^ (Suc k + 1) + (?d * 10 ^ (k + 1) + unat number mod 10 ^ (k + 1))"
    by (simp add: algebra_simps)
  also have "?d * 10 ^ (k + 1) + unat number mod 10 ^ (k + 1) = unat number mod 10 ^ (Suc k + 1)"
    using mod_mult2_eq [of "unat number" "10 ^ (k + 1)" 10] by (simp add: algebra_simps)
  finally show ?case .
qed

lemma unsigned_read: "read_from 10 0 (UnityPrintNumberUnsigned number) = unat number"
proof -
  obtain k where k: "unat (find_divisor number 1) = 10 ^ k" "unat number < 10 ^ (k + 1)"
    using find_divisor_power [of 1 0 number] by auto
  from print_digits_read [OF k(1), of 0 number] k(2) show ?thesis
    by (simp add: UnityPrintNumberUnsigned_def)
qed

lemma print_digits_chars:
  "\<exists>d ds. print_digits number divisor = d # ds \<and>
    (\<forall>c \<in> set (d # ds). 48 \<le> (of_char c :: nat) \<and> of_char c \<le> (57 :: nat))"
proof (induction number divisor rule: print_digits.induct)
  case (1 number divisor)
  have "unat (number div divisor mod 10) < 10"
    by (simp add: unat_mod)
  then have "48 + unat (number div divisor mod 10) < 256"
    "48 \<le> 48 + unat (number div divisor mod 10)" "48 + unat (number div divisor mod 10) \<le> 57"
    by simp_all
  then have "48 \<le> (of_char (char_of (48 + unat (number div divisor mod 10)) :: char) :: nat) \<and>
      (of_char (char_of (48 + unat (number div divisor mod 10)) :: char) :: nat) \<le> 57"
    by simp
  with 1 show ?case
    by (cases "divisor div 10 > 0")
       (auto simp: print_digits.simps [of number divisor] simp del: of_char_of)
qed

lemma sint_uint64: "sint (n :: 64 word) < 0 \<Longrightarrow> int (unat (NOT n + 1)) = - sint n"
proof -
  assume neg: "sint n < 0"
  have "0 \<le> uint n" by simp
  with neg have big: "\<not> uint n < 2 ^ 63" "sint n = uint n - 2 ^ 64"
    by (auto simp: sint64_cases split: if_splits)
  then have "n \<noteq> 0" by auto
  moreover have "NOT n + 1 = - n" by (simp add: not_eq_complement)
  ultimately have "uint (NOT n + 1) = 2 ^ 64 - uint n" by (simp add: uint64_minus)
  with big(2) show ?thesis by simp
qed

text \<open>No division by zero and no wrap: the checked loops have a value, and it is that of the others.\<close>

lemma find_divisor_safe:
  "divisor \<noteq> 0 \<Longrightarrow> find_divisor_checked number divisor = Some (find_divisor number divisor)"
proof (induction number divisor rule: find_divisor.induct)
  case (1 number divisor)
  show ?case
  proof (cases "number div divisor > 9")
    case True
    have grows: "unat (divisor * 10) = unat divisor * 10" "0 < unat divisor"
      using divisor_grows [OF True] by simp_all
    then have "unat divisor * 10 < 2 ^ 64" using unat_lt64 [of "divisor * 10"] by simp
    moreover have "divisor * 10 \<noteq> 0" using grows by (metis mult_is_0 neq0_conv unat_0 zero_neq_numeral)
    ultimately show ?thesis
      using True 1
      by (simp add: find_divisor_checked.simps [of number divisor] find_divisor.simps [of number divisor])
  qed (use 1 in \<open>simp add: find_divisor_checked.simps [of number divisor] find_divisor.simps [of number divisor]\<close>)
qed

lemma print_digits_safe:
  "divisor \<noteq> 0 \<Longrightarrow> print_digits_checked number divisor = Some (print_digits number divisor)"
proof (induction number divisor rule: print_digits.induct)
  case (1 number divisor)
  then show ?case
    by (cases "divisor div 10 > 0")
       (auto simp: print_digits_checked.simps [of number divisor] print_digits.simps [of number divisor]
         word_neq_0_conv)
qed

lemma unsigned_safe: "UnityPrintNumberUnsigned_checked n = Some (UnityPrintNumberUnsigned n)"
proof -
  have "\<exists>k. unat (find_divisor n 1) = 10 ^ k" using find_divisor_power [of 1 0 n] by auto
  then have "find_divisor n 1 \<noteq> 0" by (metis power_not_zero unat_0 zero_neq_numeral)
  then show ?thesis
    by (simp add: UnityPrintNumberUnsigned_checked_def UnityPrintNumberUnsigned_def find_divisor_safe
        print_digits_safe)
qed

lemma unsigned_decimal: "read_decimal (UnityPrintNumberUnsigned n) = int (unat n)"
proof -
  obtain d ds where ds: "UnityPrintNumberUnsigned n = d # ds" "48 \<le> (of_char d :: nat)"
    using print_digits_chars [of n "find_divisor n 1"] by (auto simp: UnityPrintNumberUnsigned_def)
  then have "d \<noteq> CHR ''-''" by auto
  with ds unsigned_read [of n] show ?thesis by (simp add: read_decimal_def)
qed

lemma signed_decimal: "read_decimal (UnityPrintNumber n) = sint n"
proof (cases "sint n < 0")
  case True
  then show ?thesis
    using unsigned_read [of "NOT n + 1"] sint_uint64 [OF True]
    by (simp add: read_decimal_def UnityPrintNumber_def)
next
  case False
  then have "int (unat n) = sint n"
    using sint64_cases [of n] unsigned_less [of n, where 'a = int] by (auto split: if_splits)
  with False show ?thesis by (simp only: UnityPrintNumber_def if_False unsigned_decimal)
qed

text \<open>
  C28: decimal output: for every 64-bit value, the characters \<^verbatim>\<open>UnityPrintNumber\<close> prints read back as
  that signed value (the minimum included), and printing them neither divides by zero nor lets the
  divisor wrap.
\<close>
theorem UnityPrintNumber_roundtrip:
  "read_decimal (UnityPrintNumber n) = sint n \<and> UnityPrintNumber_checked n = Some (UnityPrintNumber n)"
  by (intro conjI signed_decimal) (simp add: UnityPrintNumber_checked_def UnityPrintNumber_def unsigned_safe)

text \<open>
  Unsigned decimal output is the canonical numeral: only digits, at least one, no leading zero
  except for zero itself, and it reads back as the number.
\<close>
theorem UnityPrintNumberUnsigned_numeral:
  "read_from 10 0 (UnityPrintNumberUnsigned n) = unat n \<and>
   (\<forall>c \<in> set (UnityPrintNumberUnsigned n). 48 \<le> char_val c \<and> char_val c \<le> 57) \<and>
   UnityPrintNumberUnsigned n \<noteq> [] \<and>
   (hd (UnityPrintNumberUnsigned n) = CHR ''0'' \<longleftrightarrow> n = 0)"
proof -
  obtain d ds where ds: "UnityPrintNumberUnsigned n = d # ds"
      "\<forall>c \<in> set (d # ds). 48 \<le> (of_char c :: nat) \<and> of_char c \<le> (57 :: nat)"
    using print_digits_chars [of n "find_divisor n 1"] by (auto simp: UnityPrintNumberUnsigned_def)
  have "48 \<le> char_val c \<and> char_val c \<le> 57"
    if "48 \<le> (of_char c :: nat)" "of_char c \<le> (57 :: nat)" for c
    using that by (simp add: char_val_def)
  with ds have chars: "\<forall>c \<in> set (UnityPrintNumberUnsigned n). 48 \<le> char_val c \<and> char_val c \<le> 57"
    by simp
  obtain k where k: "unat (find_divisor n 1) = 10 ^ k" "k = 0 \<or> 10 ^ k \<le> unat n" "unat n < 10 ^ (k + 1)"
    using find_divisor_power [of 1 0 n] by auto
  have lt: "unat n div 10 ^ k < 10" using k(3) by (simp add: div_less_iff_less_mult)
  have hd: "hd (UnityPrintNumberUnsigned n) = char_of (48 + unat n div 10 ^ k)"
    using k(1) lt by (simp add: UnityPrintNumberUnsigned_def print_digits.simps [of n "find_divisor n 1"]
        unat_div unat_mod)
  have "char_of (48 + unat n div 10 ^ k) = CHR ''0'' \<longleftrightarrow> unat n div 10 ^ k = 0"
    using lt by (simp add: char_of_eq_iff take_bit_eq_mod)
  also have "\<dots> \<longleftrightarrow> n = 0"
    using k(2) by (auto simp: div_eq_0_iff unat_eq_0)
  finally have zero: "hd (UnityPrintNumberUnsigned n) = CHR ''0'' \<longleftrightarrow> n = 0"
    by (simp only: hd)
  show ?thesis
    by (intro conjI) (rule unsigned_read, rule chars, simp add: ds(1), rule zero)
qed

theorem UnityPrintNumberUnsigned_numeral_witness:
  "read_from 10 0 (UnityPrintNumberUnsigned 18446744073709551615) = 18446744073709551615 \<and>
   hd (UnityPrintNumberUnsigned 18446744073709551615) \<noteq> CHR ''0''"
  using UnityPrintNumberUnsigned_numeral [of 18446744073709551615] by simp

subsection \<open>Hexadecimal and masks\<close>

lemma unat_and_15: "unat (w AND 0xF :: 'a::len word) = unat w mod 16" if "4 \<le> LENGTH('a)"
proof -
  have "w AND 0xF = take_bit 4 w" by (simp add: take_bit_eq_mask mask_eq_exp_minus_1)
  then have "unat (w AND 0xF) = take_bit 4 (unat w)" by (simp only: unsigned_take_bit_eq)
  then show ?thesis by (simp add: take_bit_eq_mod)
qed

lemma nibble_val:
  "unat ((ucast (drop_bit (k * 4) number) :: 32 word) AND 0x0F) = unat (number :: 64 word) div 16 ^ k mod 16"
proof -
  let ?w = "ucast (drop_bit (k * 4) number) :: 32 word"
  have "unat ?w = unat (drop_bit (k * 4) number) mod 2 ^ 32"
    by (simp only: unsigned_ucast_eq take_bit_eq_mod) simp
  moreover have "drop_bit (k * 4) (unat number) = unat number div 16 ^ k"
    by (simp add: drop_bit_eq_div mult.commute [of k 4] power_mult)
  then have "unat (drop_bit (k * 4) number) = unat number div 16 ^ k" by (simp only: unat_drop_bit_eq)
  ultimately have "unat ?w mod 16 = unat number div 16 ^ k mod 16" by (simp add: mod_mod_cancel)
  then show ?thesis using unat_and_15 [of ?w] by simp
qed

lemma hex_digits_read:
  "read_from 16 m (hex_digits k number) = m * 16 ^ k + unat number mod 16 ^ k"
proof (induction k arbitrary: m)
  case (Suc k)
  let ?d = "unat number div 16 ^ k mod 16"
  have dig: "digit_val (if ?d \<le> 9 then char_of (48 + ?d) else char_of (65 - 10 + ?d)) = ?d"
    using digit_val_decimal [of ?d] digit_val_hex [of ?d] by (simp add: not_le)
  have "read_from 16 m (hex_digits (Suc k) number) = (16 * m + ?d) * 16 ^ k + unat number mod 16 ^ k"
    using dig by (simp add: nibble_val Suc.IH Let_def)
  also have "\<dots> = m * 16 ^ Suc k + (?d * 16 ^ k + unat number mod 16 ^ k)"
    by (simp add: algebra_simps)
  also have "?d * 16 ^ k + unat number mod 16 ^ k = unat number mod 16 ^ Suc k"
    using mod_mult2_eq [of "unat number" "16 ^ k" 16] by (simp add: algebra_simps)
  finally show ?case .
qed simp

lemma hex_digits_length: "length (hex_digits k number) = k"
  by (induction k) (simp_all add: Let_def)

text \<open>
  Hexadecimal output: with k nibbles (at most 16), \<^verbatim>\<open>UnityPrintNumberHex\<close> prints exactly k
  characters, which read back as the number modulo 16^k: with all 16 nibbles, the number.
\<close>
theorem UnityPrintNumberHex_roundtrip:
  assumes "unat k \<le> 16"
  shows "length (UnityPrintNumberHex number k) = unat k \<and>
    read_from 16 0 (UnityPrintNumberHex number k) = unat number mod 16 ^ unat k"
proof -
  have "int (unat k) \<le> int 16" using assms by (simp only: of_nat_le_iff)
  then have le: "uint k \<le> 16" by simp
  have "- (2 ^ 7) \<le> (0 :: int)" by simp
  also have "0 \<le> uint k" by simp
  finally have "sint k = uint k"
    using le signed_take_bit_int_eq_self [of 7 "uint k"] by (simp add: sint_uint)
  then have "scast k = (ucast k :: 32 word)" by (simp only: scast_eq ucast_eq)
  moreover have "unat (ucast k :: 32 word) = unat k mod 2 ^ 32"
    by (simp only: unsigned_ucast_eq take_bit_eq_mod) simp
  ultimately have "unat (scast k :: 32 word) = unat k" using assms by simp
  with assms show ?thesis
    by (simp add: UnityPrintNumberHex_def UNITY_MAX_NIBBLES_def hex_digits_length hex_digits_read)
qed

theorem UnityPrintNumberHex_roundtrip_witness:
  "read_from 16 0 (UnityPrintNumberHex 0xDEADBEEF 8) = 0xDEADBEEF"
  using UnityPrintNumberHex_roundtrip [of 8 "0xDEADBEEF"] by simp

lemma drop_push: "m < 63 \<Longrightarrow> drop_bit 1 (push_bit (Suc m) (1 :: 64 word)) = push_bit m 1"
  by (rule bit_word_eqI) (auto simp: bit_simps)

lemma mask_digits_bits:
  "n \<le> 64 \<Longrightarrow> mask_digits n (push_bit (n - 1) 1) msk number =
     map (\<lambda>i. if bit msk i then if bit number i then CHR ''1'' else CHR ''0'' else CHR ''X'')
       (rev [0..<n])"
proof (induction n)
  case (Suc n)
  have bit: "push_bit n 1 AND w \<noteq> 0 \<longleftrightarrow> bit w n" for w :: "64 word"
    using and_exp_eq_0_iff_not_bit [of w n] by (simp add: push_bit_eq_mult and.commute)
  have "drop_bit 1 (push_bit n (1 :: 64 word)) = push_bit (n - 1) 1" if "0 < n"
    using that Suc.prems drop_push [of "n - 1"] by simp
  then have "mask_digits n (drop_bit 1 (push_bit n 1)) msk number
      = mask_digits n (push_bit (n - 1) 1) msk number"
    by (cases "n = 0") auto
  with Suc bit show ?case by simp
qed simp

text \<open>
  C29: \<^verbatim>\<open>UnityPrintMask\<close> prints 32 characters, although the operands have 64 bits
  (\<^verbatim>\<open>UNITY_INT_WIDTH\<close> is the width of \<^verbatim>\<open>int\<close>): bit 31 first, X where the mask is clear, the bit
  of the number otherwise. Bits 32 to 63 never show, so a mismatch there prints equal patterns.
\<close>
theorem UnityPrintMask_low_bits:
  "UnityPrintMask msk number =
     map (\<lambda>i. if bit msk i then if bit number i then CHR ''1'' else CHR ''0'' else CHR ''X'')
       (rev [0..<32])"
  using mask_digits_bits [of 32 msk number] by (simp add: UnityPrintMask_def UNITY_INT_WIDTH_def)

subsection \<open>Strings\<close>

definition printable :: "char \<Rightarrow> bool" where
  "printable c \<longleftrightarrow> 32 \<le> char_val c \<and> char_val c \<le> 126"

lemma hex_digits_printable: "\<forall>c \<in> set (hex_digits k number). printable c"
proof (induction k)
  case (Suc k)
  have "unat number div 16 ^ k mod 16 < 16" by (rule mod_less_divisor) simp
  then have "printable (if unat number div 16 ^ k mod 16 \<le> 9 then char_of (48 + unat number div 16 ^ k mod 16)
      else char_of (65 - 10 + unat number div 16 ^ k mod 16))"
    by (simp add: printable_def char_val_def) linarith
  with Suc show ?case by (simp add: nibble_val Let_def)
qed simp

lemma UnityPrintChar_printable: "\<forall>d \<in> set (UnityPrintChar c). printable d"
  using hex_digits_printable
  by (auto simp: UnityPrintChar_def UnityPrintNumberHex_def printable_def backslash_def char_val_def)

lemma print_chars_printable: "\<forall>d \<in> set (print_chars s). printable d"
  using UnityPrintChar_printable by (induction s) auto

lemma print_chars_same: "\<forall>c \<in> set s. printable c \<Longrightarrow> print_chars s = s"
  by (induction s) (auto simp: UnityPrintChar_def printable_def char_val_def)

text \<open>
  Whatever bytes a string holds, \<^verbatim>\<open>UnityPrint\<close> writes only printable ASCII characters (other
  bytes are escaped), and a string of printable characters is written as it is.
\<close>
theorem UnityPrint_printable:
  "(\<forall>c \<in> set (UnityPrint (Some s)). 32 \<le> char_val c \<and> char_val c \<le> 126) \<and>
   (UnityPrint (Some s) = s \<or> (\<exists>c \<in> set s. \<not> (32 \<le> char_val c \<and> char_val c \<le> 126)))"
  using print_chars_printable [of s] print_chars_same [of s] by (auto simp: printable_def)

theorem UnityPrint_printable_witness:
  "32 \<le> char_val (hd (UnityPrint (Some [CHR 0x0A, CHR 0x07])))"
proof -
  have "UnityPrint (Some [CHR 0x0A, CHR 0x07]) \<noteq> []"
    by (simp add: UnityPrintChar_def)
  then show ?thesis
    using UnityPrint_printable [of "[CHR 0x0A, CHR 0x07]"] hd_in_set by blast
qed

end
