(* ===== verification/Unity_Core.thy ===== *)
theory Unity_Core
  imports Unity_Print
begin

text \<open>
  Unity's state machine (\<^verbatim>\<open>unity/src/unity.c\<close>): reporting, failing, ignoring and concluding a
  test, the default runner, and the frame of a test program (\<^verbatim>\<open>UnityBegin\<close>, \<^verbatim>\<open>UnityEnd\<close>). The
  functions work on any extension of the record of the framework, so a test program can add its own
  state. A test function returns or jumps (\<^verbatim>\<open>longjmp\<close>), or the program goes wrong (\<open>fault\<close>).
\<close>

section \<open>Output and control\<close>

definition emit :: "string \<Rightarrow> 'a unity_scheme \<Rightarrow> 'a unity_scheme" where
  "emit s u = u\<lparr>printed := printed u @ s\<rparr>"

definition UNITY_PRINT_EOL :: "'a unity_scheme \<Rightarrow> 'a unity_scheme" where
  "UNITY_PRINT_EOL u = emit [CHR 0x0A] u"

definition UNITY_FAIL_AND_BAIL :: "'a unity_scheme \<Rightarrow> 'a unity_scheme outcome" where
  "UNITY_FAIL_AND_BAIL u = Jumps (u\<lparr>Unity := (Unity u)\<lparr>CurrentTestFailed := 1\<rparr>\<rparr>)"

definition UNITY_IGNORE_AND_BAIL :: "'a unity_scheme \<Rightarrow> 'a unity_scheme outcome" where
  "UNITY_IGNORE_AND_BAIL u = Jumps (u\<lparr>Unity := (Unity u)\<lparr>CurrentTestIgnored := 1\<rparr>\<rparr>)"

definition fail_or_ignore :: "'a unity_scheme \<Rightarrow> bool" where
  "fail_or_ignore u \<longleftrightarrow> CurrentTestFailed (Unity u) \<noteq> 0 \<or> CurrentTestIgnored (Unity u) \<noteq> 0"

definition RETURN_IF_FAIL_OR_IGNORE ::
  "'a unity_scheme \<Rightarrow> 'a unity_scheme outcome \<Rightarrow> 'a unity_scheme outcome" where
  "RETURN_IF_FAIL_OR_IGNORE u k = (if fail_or_ignore u then Jumps u else k)"

definition UNITY_CLR_DETAILS :: "'a unity_scheme \<Rightarrow> 'a unity_scheme" where
  "UNITY_CLR_DETAILS u = u\<lparr>Unity := (Unity u)\<lparr>CurrentDetail1 := None, CurrentDetail2 := None\<rparr>\<rparr>"

definition UNITY_SET_DETAIL :: "c_string \<Rightarrow> 'a unity_scheme \<Rightarrow> 'a unity_scheme" where
  "UNITY_SET_DETAIL d1 u = u\<lparr>Unity := (Unity u)\<lparr>CurrentDetail1 := d1, CurrentDetail2 := None\<rparr>\<rparr>"

definition UNITY_SET_DETAILS :: "c_string \<Rightarrow> c_string \<Rightarrow> 'a unity_scheme \<Rightarrow> 'a unity_scheme" where
  "UNITY_SET_DETAILS d1 d2 u = u\<lparr>Unity := (Unity u)\<lparr>CurrentDetail1 := d1, CurrentDetail2 := d2\<rparr>\<rparr>"

section \<open>Reporting\<close>

definition UnityTestResultsBegin ::
  "c_string \<Rightarrow> UNITY_LINE_TYPE \<Rightarrow> 'a unity_scheme \<Rightarrow> 'a unity_scheme" where
  "UnityTestResultsBegin file line u =
     emit (UnityPrint file @ '':'' @ UnityPrintNumber line @ '':'' @
           UnityPrint (CurrentTestName (Unity u)) @ '':'') u"

definition UnityTestResultsFailBegin :: "UNITY_LINE_TYPE \<Rightarrow> 'a unity_scheme \<Rightarrow> 'a unity_scheme" where
  "UnityTestResultsFailBegin line u =
     emit (UnityPrint UnityStrFail @ '':'') (UnityTestResultsBegin (TestFile (Unity u)) line u)"

definition UnityConcludeTest :: "'a unity_scheme \<Rightarrow> 'a unity_scheme" where
  "UnityConcludeTest u =
     (let u = (if CurrentTestIgnored (Unity u) \<noteq> 0
               then u\<lparr>Unity := (Unity u)\<lparr>TestIgnores := TestIgnores (Unity u) + 1\<rparr>\<rparr>
               else if CurrentTestFailed (Unity u) = 0
               then emit (UnityPrint UnityStrPass)
                      (UnityTestResultsBegin (TestFile (Unity u)) (CurrentTestLineNumber (Unity u)) u)
               else u\<lparr>Unity := (Unity u)\<lparr>TestFailures := TestFailures (Unity u) + 1\<rparr>\<rparr>);
          u = u\<lparr>Unity := (Unity u)\<lparr>CurrentTestFailed := 0, CurrentTestIgnored := 0\<rparr>\<rparr>
      in UNITY_PRINT_EOL u)"

definition UnityAddMsgIfSpecified :: "c_string \<Rightarrow> 'a unity_scheme \<Rightarrow> 'a unity_scheme" where
  "UnityAddMsgIfSpecified msg u =
     (let u = (if CurrentDetail1 (Unity u) \<noteq> None
               then (let u = emit (UnityPrint UnityStrSpacer @ UnityPrint UnityStrDetail1Name @
                                   UnityPrint (CurrentDetail1 (Unity u))) u
                     in if CurrentDetail2 (Unity u) \<noteq> None
                        then emit (UnityPrint UnityStrDetail2Name @
                                   UnityPrint (CurrentDetail2 (Unity u))) u
                        else u)
               else u)
      in if msg \<noteq> None then emit (UnityPrint UnityStrSpacer @ UnityPrint msg) u else u)"

section \<open>Control functions\<close>

definition first_char :: "string \<Rightarrow> char" where
  "first_char s = (case s of [] \<Rightarrow> CHR 0x00 | c # cs \<Rightarrow> c)"

text \<open>The characters of a C string, up to its terminator.\<close>

definition c_content :: "string \<Rightarrow> string" where
  "c_content s = takeWhile (\<lambda>c. c \<noteq> CHR 0x00) s"

definition UnityFail ::
  "c_string \<Rightarrow> UNITY_LINE_TYPE \<Rightarrow> 'a unity_scheme \<Rightarrow> 'a unity_scheme outcome" where
  "UnityFail msg line u = RETURN_IF_FAIL_OR_IGNORE u
     (let u = emit (UnityPrint UnityStrFail) (UnityTestResultsBegin (TestFile (Unity u)) line u);
          u = (case msg of
                 None \<Rightarrow> u
               | Some m \<Rightarrow>
                   (let u = emit '':'' u;
                        u = (if CurrentDetail1 (Unity u) \<noteq> None
                             then (let u = emit (UnityPrint UnityStrDetail1Name @
                                                 UnityPrint (CurrentDetail1 (Unity u))) u;
                                       u = (if CurrentDetail2 (Unity u) \<noteq> None
                                            then emit (UnityPrint UnityStrDetail2Name @
                                                       UnityPrint (CurrentDetail2 (Unity u))) u
                                            else u)
                                   in emit (UnityPrint UnityStrSpacer) u)
                             else u);
                        u = (if first_char m \<noteq> CHR '' '' then emit '' '' u else u)
                    in emit (UnityPrint msg) u))
      in UNITY_FAIL_AND_BAIL u)"

definition UnityIgnore ::
  "c_string \<Rightarrow> UNITY_LINE_TYPE \<Rightarrow> 'a unity_scheme \<Rightarrow> 'a unity_scheme outcome" where
  "UnityIgnore msg line u = RETURN_IF_FAIL_OR_IGNORE u
     (let u = emit (UnityPrint UnityStrIgnore) (UnityTestResultsBegin (TestFile (Unity u)) line u);
          u = (if msg \<noteq> None then emit ('': '' @ UnityPrint msg) u else u)
      in UNITY_IGNORE_AND_BAIL u)"

definition UnityMessage ::
  "c_string \<Rightarrow> UNITY_LINE_TYPE \<Rightarrow> 'a unity_scheme \<Rightarrow> 'a unity_scheme" where
  "UnityMessage msg line u =
     (let u = emit (UnityPrint (Some ''INFO'')) (UnityTestResultsBegin (TestFile (Unity u)) line u);
          u = (if msg \<noteq> None then emit ('': '' @ UnityPrint msg) u else u)
      in UNITY_PRINT_EOL u)"

section \<open>Running tests\<close>

text \<open>Sequencing of test code: a jump skips what follows, up to the enclosing \<^verbatim>\<open>TEST_PROTECT\<close>.\<close>

fun tbind :: "'w outcome res \<Rightarrow> ('w \<Rightarrow> 'w outcome res) \<Rightarrow> 'w outcome res" where
  "tbind (Inl e) k = Inl e"
| "tbind (Inr (Returns w)) k = k w"
| "tbind (Inr (Jumps w)) k = Inr (Jumps w)"

text \<open>\<^verbatim>\<open>if (TEST_PROTECT()) { body }\<close>: after a jump, execution continues behind it.\<close>

definition TEST_PROTECT :: "('w \<Rightarrow> 'w outcome res) \<Rightarrow> 'w \<Rightarrow> 'w res" where
  "TEST_PROTECT body w = rbind (body w) (\<lambda>r. Inr (final r))"

definition UnityDefaultTestRun ::
  "('a unity_scheme \<Rightarrow> 'a unity_scheme outcome res) \<Rightarrow> ('a unity_scheme \<Rightarrow> 'a unity_scheme outcome res) \<Rightarrow>
   ('a unity_scheme \<Rightarrow> 'a unity_scheme outcome res) \<Rightarrow> c_string \<Rightarrow> 32 word \<Rightarrow> 'a unity_scheme \<Rightarrow>
   'a unity_scheme res" where
  "UnityDefaultTestRun setUp tearDown func FuncName FuncLineNum u =
     (let u = u\<lparr>Unity := (Unity u)\<lparr>CurrentTestName := FuncName,
                CurrentTestLineNumber := scast FuncLineNum,
                NumberOfTests := NumberOfTests (Unity u) + 1\<rparr>\<rparr>;
          u = UNITY_CLR_DETAILS u
      in rbind (TEST_PROTECT (\<lambda>u. tbind (setUp u) func) u) (\<lambda>u.
         rbind (TEST_PROTECT tearDown u) (\<lambda>u.
         Inr (UnityConcludeTest u))))"

definition UnitySetTestFile :: "c_string \<Rightarrow> 'a unity_scheme \<Rightarrow> 'a unity_scheme" where
  "UnitySetTestFile filename u = u\<lparr>Unity := (Unity u)\<lparr>TestFile := filename\<rparr>\<rparr>"

definition UnityBegin :: "c_string \<Rightarrow> 'a unity_scheme \<Rightarrow> 'a unity_scheme" where
  "UnityBegin filename u =
     UNITY_CLR_DETAILS (u\<lparr>Unity := (Unity u)\<lparr>TestFile := filename, CurrentTestName := None,
       CurrentTestLineNumber := 0, NumberOfTests := 0, TestFailures := 0, TestIgnores := 0,
       CurrentTestFailed := 0, CurrentTestIgnored := 0\<rparr>\<rparr>)"

definition UnityEnd :: "'a unity_scheme \<Rightarrow> 32 word \<times> 'a unity_scheme" where
  "UnityEnd u =
     (let u = UNITY_PRINT_EOL u;
          u = UNITY_PRINT_EOL (emit (UnityPrint UnityStrBreaker) u);
          u = emit (UnityPrintNumber (NumberOfTests (Unity u)) @ UnityPrint UnityStrResultsTests @
                    UnityPrintNumber (TestFailures (Unity u)) @ UnityPrint UnityStrResultsFailures @
                    UnityPrintNumber (TestIgnores (Unity u)) @ UnityPrint UnityStrResultsIgnored) u;
          u = UNITY_PRINT_EOL u;
          u = (if TestFailures (Unity u) = 0 then emit (UnityPrint UnityStrOk) u
               else emit (UnityPrint UnityStrFail) u);
          u = UNITY_PRINT_EOL u
      in (ucast (TestFailures (Unity u)), u))"

section \<open>What the runner counts\<close>

lemma emit_simps [simp]:
  "Unity (emit s u) = Unity u" "printed (emit s u) = printed u @ s"
  "unity.more (emit s u) = unity.more u"
  by (simp_all add: emit_def)

lemma emit_emit [simp]: "emit s (emit r u) = emit (r @ s) u"
  by (simp add: emit_def)

lemma report_simps [simp]:
  "Unity (UNITY_PRINT_EOL u) = Unity u" "unity.more (UNITY_PRINT_EOL u) = unity.more u"
  "Unity (UnityTestResultsBegin f l u) = Unity u"
  "unity.more (UnityTestResultsBegin f l u) = unity.more u"
  "Unity (UnityTestResultsFailBegin l u) = Unity u"
  "unity.more (UnityTestResultsFailBegin l u) = unity.more u"
  "Unity (UnityAddMsgIfSpecified m u) = Unity u"
  "unity.more (UnityAddMsgIfSpecified m u) = unity.more u"
  by (simp_all add: UNITY_PRINT_EOL_def UnityTestResultsBegin_def UnityTestResultsFailBegin_def
      UnityAddMsgIfSpecified_def Let_def)

lemma tbind_assoc: "tbind (tbind m k) l = tbind m (\<lambda>w. tbind (k w) l)"
  by (cases "(m, k)" rule: tbind.cases) auto

lemma conclude_counts:
  "NumberOfTests (Unity (UnityConcludeTest u)) = NumberOfTests (Unity u)"
  "TestIgnores (Unity (UnityConcludeTest u)) =
     TestIgnores (Unity u) + (if CurrentTestIgnored (Unity u) \<noteq> 0 then 1 else 0)"
  "TestFailures (Unity (UnityConcludeTest u)) = TestFailures (Unity u) +
     (if CurrentTestIgnored (Unity u) = 0 \<and> CurrentTestFailed (Unity u) \<noteq> 0 then 1 else 0)"
  "\<not> fail_or_ignore (UnityConcludeTest u)"
  "unity.more (UnityConcludeTest u) = unity.more u"
  by (simp_all add: UnityConcludeTest_def Let_def fail_or_ignore_def)

text \<open>The counters belong to the framework: the code of a test leaves them alone.\<close>

definition keeps_counters :: "('a unity_scheme \<Rightarrow> 'a unity_scheme outcome res) \<Rightarrow> bool" where
  "keeps_counters f \<longleftrightarrow> (\<forall>u r. f u = Inr r \<longrightarrow>
     NumberOfTests (Unity (final r)) = NumberOfTests (Unity u) \<and>
     TestFailures (Unity (final r)) = TestFailures (Unity u) \<and>
     TestIgnores (Unity (final r)) = TestIgnores (Unity u))"

lemma keeps_countersD:
  assumes "keeps_counters f" and "f u = Inr r"
  shows "NumberOfTests (Unity (final r)) = NumberOfTests (Unity u)"
    and "TestFailures (Unity (final r)) = TestFailures (Unity u)"
    and "TestIgnores (Unity (final r)) = TestIgnores (Unity u)"
  using assms by (simp_all add: keeps_counters_def)

lemma keeps_counters_tbind:
  assumes f: "keeps_counters f" and g: "keeps_counters g"
  shows "keeps_counters (\<lambda>u. tbind (f u) g)"
  unfolding keeps_counters_def
proof (intro allI impI)
  fix u r
  assume run: "tbind (f u) g = Inr r"
  then show "NumberOfTests (Unity (final r)) = NumberOfTests (Unity u) \<and>
     TestFailures (Unity (final r)) = TestFailures (Unity u) \<and>
     TestIgnores (Unity (final r)) = TestIgnores (Unity u)"
    using keeps_countersD [OF f] keeps_countersD [OF g]
    by (cases "(f u, g)" rule: tbind.cases) fastforce+
qed

lemma protect_counters:
  assumes "keeps_counters f" and "TEST_PROTECT f u = Inr v"
  shows "NumberOfTests (Unity v) = NumberOfTests (Unity u)"
    and "TestFailures (Unity v) = TestFailures (Unity u)"
    and "TestIgnores (Unity v) = TestIgnores (Unity u)"
  using assms keeps_countersD [OF assms(1), of u] by (auto simp: TEST_PROTECT_def rbind_eq_Inr)

text \<open>The state in which the runner draws its conclusion: after the test and \<^verbatim>\<open>tearDown\<close>.\<close>

definition test_end ::
  "('a unity_scheme \<Rightarrow> 'a unity_scheme outcome res) \<Rightarrow> ('a unity_scheme \<Rightarrow> 'a unity_scheme outcome res) \<Rightarrow>
   ('a unity_scheme \<Rightarrow> 'a unity_scheme outcome res) \<Rightarrow> c_string \<Rightarrow> 32 word \<Rightarrow> 'a unity_scheme \<Rightarrow>
   'a unity_scheme res" where
  "test_end setUp tearDown func name line u =
     rbind (TEST_PROTECT (\<lambda>u. tbind (setUp u) func)
             (UNITY_CLR_DETAILS (u\<lparr>Unity := (Unity u)\<lparr>CurrentTestName := name,
                CurrentTestLineNumber := scast line, NumberOfTests := NumberOfTests (Unity u) + 1\<rparr>\<rparr>)))
       (TEST_PROTECT tearDown)"

lemma UnityDefaultTestRun_end:
  "UnityDefaultTestRun setUp tearDown func name line u =
     rbind (test_end setUp tearDown func name line u) (\<lambda>w. Inr (UnityConcludeTest w))"
  by (simp add: UnityDefaultTestRun_def test_end_def Let_def rbind_assoc)

text \<open>
  C23: \<^verbatim>\<open>UnityDefaultTestRun\<close> counts every test once: it adds one to the number of tests, and one to
  the ignored tests if the test was ignored, else one to the failed tests if it failed, and leaves
  no failure behind for the next test, whether the test, its set-up or its tear-down returned or
  jumped.
\<close>
theorem UnityDefaultTestRun_counts:
  assumes "keeps_counters setUp" and "keeps_counters tearDown" and "keeps_counters func"
    and "test_end setUp tearDown func name line u = Inr w"
  shows "\<exists>v. UnityDefaultTestRun setUp tearDown func name line u = Inr v \<and>
    NumberOfTests (Unity v) = NumberOfTests (Unity u) + 1 \<and>
    TestIgnores (Unity v) =
      TestIgnores (Unity u) + (if CurrentTestIgnored (Unity w) \<noteq> 0 then 1 else 0) \<and>
    TestFailures (Unity v) = TestFailures (Unity u) +
      (if CurrentTestIgnored (Unity w) = 0 \<and> CurrentTestFailed (Unity w) \<noteq> 0 then 1 else 0) \<and>
    \<not> fail_or_ignore v"
proof -
  obtain m where first: "TEST_PROTECT (\<lambda>u. tbind (setUp u) func)
      (UNITY_CLR_DETAILS (u\<lparr>Unity := (Unity u)\<lparr>CurrentTestName := name,
         CurrentTestLineNumber := scast line, NumberOfTests := NumberOfTests (Unity u) + 1\<rparr>\<rparr>)) = Inr m"
    and second: "TEST_PROTECT tearDown m = Inr w"
    using assms(4) by (auto simp: test_end_def rbind_eq_Inr)
  note protect_counters [OF keeps_counters_tbind [OF assms(1,3)] first]
    protect_counters [OF assms(2) second]
  then show ?thesis
    using assms(4) by (simp add: UnityDefaultTestRun_end conclude_counts UNITY_CLR_DETAILS_def)
qed

text \<open>A test that does nothing but fail, and one that is empty.\<close>

definition failing_test :: "unity \<Rightarrow> unity outcome res" where
  "failing_test u = Inr (UnityFail None 7 u)"

definition empty_test :: "unity \<Rightarrow> unity outcome res" where
  "empty_test u = Inr (Returns u)"

theorem UnityDefaultTestRun_counts_witness:
  "\<exists>v. UnityDefaultTestRun empty_test empty_test failing_test None 7
      (UnityBegin None \<lparr>Unity = Unity_zero, printed = []\<rparr>) = Inr v \<and>
    NumberOfTests (Unity v) = 1 \<and> TestFailures (Unity v) = 1 \<and> TestIgnores (Unity v) = 0"
proof -
  have keep: "keeps_counters empty_test" "keeps_counters failing_test"
    by (auto simp: keeps_counters_def empty_test_def failing_test_def UnityFail_def
        RETURN_IF_FAIL_OR_IGNORE_def UNITY_FAIL_AND_BAIL_def Let_def)
  define u where "u = UnityBegin None \<lparr>Unity = Unity_zero, printed = []\<rparr>"
  have "\<exists>w. test_end empty_test empty_test failing_test None 7 u = Inr w \<and>
      CurrentTestIgnored (Unity w) = 0 \<and> CurrentTestFailed (Unity w) = 1"
    by (simp add: test_end_def TEST_PROTECT_def empty_test_def failing_test_def UnityFail_def
        RETURN_IF_FAIL_OR_IGNORE_def UNITY_FAIL_AND_BAIL_def fail_or_ignore_def UNITY_CLR_DETAILS_def
        u_def UnityBegin_def Unity_zero_def Let_def)
  moreover have "NumberOfTests (Unity u) = 0" "TestFailures (Unity u) = 0" "TestIgnores (Unity u) = 0"
    by (simp_all add: u_def UnityBegin_def UNITY_CLR_DETAILS_def)
  ultimately show ?thesis
    using UnityDefaultTestRun_counts [OF keep(1) keep(1) keep(2), of None 7 u]
    unfolding u_def [symmetric] by auto
qed

end
