(* ===== verification/Unity_Assert.thy ===== *)
theory Unity_Assert
  imports Unity_Core
begin

text \<open>
  Unity's assertions on numbers (\<^verbatim>\<open>unity/src/unity.c\<close>): equality, bits, order and distance, each
  with its report. What each accepts is stated on the mathematical integers.
\<close>

section \<open>Assertions on numbers\<close>

definition UnityAssertBits ::
  "UNITY_INT \<Rightarrow> UNITY_INT \<Rightarrow> UNITY_INT \<Rightarrow> c_string \<Rightarrow> UNITY_LINE_TYPE \<Rightarrow> 'a unity_scheme \<Rightarrow>
   'a unity_scheme outcome" where
  "UnityAssertBits msk expected actual msg lineNumber u = RETURN_IF_FAIL_OR_IGNORE u
     (if (msk AND expected) \<noteq> (msk AND actual) then
        (let u = UnityTestResultsFailBegin lineNumber u;
             u = emit (UnityPrint UnityStrExpected @ UnityPrintMask msk expected @
                       UnityPrint UnityStrWas @ UnityPrintMask msk actual) u;
             u = UnityAddMsgIfSpecified msg u
         in UNITY_FAIL_AND_BAIL u)
      else Returns u)"

definition UnityAssertEqualNumber ::
  "UNITY_INT \<Rightarrow> UNITY_INT \<Rightarrow> c_string \<Rightarrow> UNITY_LINE_TYPE \<Rightarrow> UNITY_DISPLAY_STYLE_T \<Rightarrow>
   'a unity_scheme \<Rightarrow> 'a unity_scheme outcome" where
  "UnityAssertEqualNumber expected actual msg lineNumber style u = RETURN_IF_FAIL_OR_IGNORE u
     (if expected \<noteq> actual then
        (let u = UnityTestResultsFailBegin lineNumber u;
             u = emit (UnityPrint UnityStrExpected @ UnityPrintNumberByStyle expected style @
                       UnityPrint UnityStrWas @ UnityPrintNumberByStyle actual style) u;
             u = UnityAddMsgIfSpecified msg u
         in UNITY_FAIL_AND_BAIL u)
      else Returns u)"

definition UnityAssertGreaterOrLessOrEqualNumber ::
  "UNITY_INT \<Rightarrow> UNITY_INT \<Rightarrow> UNITY_COMPARISON_T \<Rightarrow> c_string \<Rightarrow> UNITY_LINE_TYPE \<Rightarrow>
   UNITY_DISPLAY_STYLE_T \<Rightarrow> 'a unity_scheme \<Rightarrow> 'a unity_scheme outcome" where
  "UnityAssertGreaterOrLessOrEqualNumber threshold actual compare msg lineNumber style u =
     RETURN_IF_FAIL_OR_IGNORE u
     (if threshold = actual \<and> compare_has compare UNITY_EQUAL_TO then Returns u
      else
        (let failed = (threshold = actual);
             failed =
               (if style_is style UNITY_DISPLAY_RANGE_INT then
                  (let failed = (if sint actual > sint threshold \<and> compare_has compare UNITY_SMALLER_THAN
                                 then True else failed)
                   in if sint actual < sint threshold \<and> compare_has compare UNITY_GREATER_THAN
                      then True else failed)
                else
                  (let failed = (if actual > threshold \<and> compare_has compare UNITY_SMALLER_THAN
                                 then True else failed)
                   in if actual < threshold \<and> compare_has compare UNITY_GREATER_THAN
                      then True else failed))
         in if failed then
              (let u = UnityTestResultsFailBegin lineNumber u;
                   u = emit (UnityPrint UnityStrExpected @ UnityPrintNumberByStyle actual style) u;
                   u = (if compare_has compare UNITY_GREATER_THAN then emit (UnityPrint UnityStrGt) u else u);
                   u = (if compare_has compare UNITY_SMALLER_THAN then emit (UnityPrint UnityStrLt) u else u);
                   u = (if compare_has compare UNITY_EQUAL_TO then emit (UnityPrint UnityStrOrEqual) u else u);
                   u = (if compare = UNITY_NOT_EQUAL then emit (UnityPrint UnityStrNotEqual) u else u);
                   u = emit (UnityPrintNumberByStyle threshold style) u;
                   u = UnityAddMsgIfSpecified msg u
               in UNITY_FAIL_AND_BAIL u)
            else Returns u))"

text \<open>The distance test of the \<^verbatim>\<open>Within\<close> assertions, as the C code computes it.\<close>

definition outside_delta :: "UNITY_UINT \<Rightarrow> UNITY_INT \<Rightarrow> UNITY_INT \<Rightarrow> UNITY_DISPLAY_STYLE_T \<Rightarrow> bool" where
  "outside_delta delta expected actual style =
     (if style_is style UNITY_DISPLAY_RANGE_INT then
        (if sint actual > sint expected then actual - expected > delta else expected - actual > delta)
      else
        (if actual > expected then actual - expected > delta else expected - actual > delta))"

definition UnityAssertNumbersWithin ::
  "UNITY_UINT \<Rightarrow> UNITY_INT \<Rightarrow> UNITY_INT \<Rightarrow> c_string \<Rightarrow> UNITY_LINE_TYPE \<Rightarrow> UNITY_DISPLAY_STYLE_T \<Rightarrow>
   'a unity_scheme \<Rightarrow> 'a unity_scheme outcome" where
  "UnityAssertNumbersWithin delta expected actual msg lineNumber style u = RETURN_IF_FAIL_OR_IGNORE u
     (let u = u\<lparr>Unity := (Unity u)\<lparr>CurrentTestFailed :=
                if outside_delta delta expected actual style then 1 else 0\<rparr>\<rparr>
      in if CurrentTestFailed (Unity u) \<noteq> 0 then
           (let u = UnityTestResultsFailBegin lineNumber u;
                u = emit (UnityPrint UnityStrDelta @ UnityPrintNumberByStyle delta style @
                          UnityPrint UnityStrExpected @ UnityPrintNumberByStyle expected style @
                          UnityPrint UnityStrWas @ UnityPrintNumberByStyle actual style) u;
                u = UnityAddMsgIfSpecified msg u
            in UNITY_FAIL_AND_BAIL u)
         else Returns u)"

section \<open>What the assertions accept\<close>

text \<open>
  An assertion behaves well on a test that has not failed yet if it returns with the state as it was
  when its condition holds, and jumps with the failure recorded, and only output added, when not.
\<close>

definition asserts :: "bool \<Rightarrow> 'a unity_scheme \<Rightarrow> 'a unity_scheme outcome \<Rightarrow> bool" where
  "asserts P u r \<longleftrightarrow>
     (if P then r = Returns u
      else \<exists>s. r = Jumps (u\<lparr>Unity := (Unity u)\<lparr>CurrentTestFailed := 1\<rparr>, printed := printed u @ s\<rparr>))"

definition extends :: "'a unity_scheme \<Rightarrow> 'a unity_scheme \<Rightarrow> bool" where
  "extends u v \<longleftrightarrow> (\<exists>s. v = u\<lparr>printed := printed u @ s\<rparr>)"

lemma extends_refl [simp]: "extends u u"
  unfolding extends_def by (rule exI [of _ "[]"]) simp

lemma extends_emit [simp]: "extends u v \<Longrightarrow> extends u (emit s v)"
  unfolding extends_def emit_def by (metis append_assoc unity.select_convs(2) unity.update_convs(2)
      unity.fold_congs(2) unity.surjective)

lemma extends_report [simp]:
  "extends u v \<Longrightarrow> extends u (UnityTestResultsBegin f l v)"
  "extends u v \<Longrightarrow> extends u (UnityTestResultsFailBegin l v)"
  "extends u v \<Longrightarrow> extends u (UnityAddMsgIfSpecified m v)"
  "extends u v \<Longrightarrow> extends u (UNITY_PRINT_EOL v)"
  unfolding UnityTestResultsBegin_def UnityTestResultsFailBegin_def UnityAddMsgIfSpecified_def
    UNITY_PRINT_EOL_def Let_def
  by auto

lemma asserts_fail: "extends u v \<Longrightarrow> \<not> P \<Longrightarrow> asserts P u (UNITY_FAIL_AND_BAIL v)"
  by (cases u) (auto simp: asserts_def extends_def UNITY_FAIL_AND_BAIL_def)

lemma asserts_return: "P \<Longrightarrow> asserts P u (Returns u)"
  by (simp add: asserts_def)

lemma guard_passes: "\<not> fail_or_ignore u \<Longrightarrow> RETURN_IF_FAIL_OR_IGNORE u k = k"
  by (simp add: RETURN_IF_FAIL_OR_IGNORE_def)

lemma guard_jumps: "fail_or_ignore u \<Longrightarrow> RETURN_IF_FAIL_OR_IGNORE u k = Jumps u"
  by (simp add: RETURN_IF_FAIL_OR_IGNORE_def)

lemma UnityFail_asserts: "\<not> fail_or_ignore u \<Longrightarrow> asserts False u (UnityFail msg line u)"
  unfolding UnityFail_def guard_passes Let_def
  by (rule asserts_fail) (auto split: option.split)

text \<open>The value of a number under a display style, and the order an assertion asks for.\<close>

definition style_val :: "UNITY_DISPLAY_STYLE_T \<Rightarrow> UNITY_INT \<Rightarrow> int" where
  "style_val style x = (if style_is style UNITY_DISPLAY_RANGE_INT then sint x else uint x)"

lemma style_val_inject: "style_val style x = style_val style y \<longleftrightarrow> x = y"
  by (auto simp: style_val_def dest: signed_word_eqI unsigned_word_eqI)

definition order_holds :: "UNITY_COMPARISON_T \<Rightarrow> int \<Rightarrow> int \<Rightarrow> bool" where
  "order_holds compare actual threshold \<longleftrightarrow>
     (if compare = UNITY_GREATER_THAN then actual > threshold
      else if compare = UNITY_GREATER_OR_EQUAL then actual \<ge> threshold
      else if compare = UNITY_SMALLER_THAN then actual < threshold
      else if compare = UNITY_SMALLER_OR_EQUAL then actual \<le> threshold
      else actual \<noteq> threshold)"

text \<open>
  \<^verbatim>\<open>UnityAssertEqualNumber\<close>: in a test that has not failed, it returns and changes nothing
  exactly if the numbers are equal; otherwise it records the failure, prints a report and jumps.
\<close>
theorem UnityAssertEqualNumber_asserts:
  assumes "\<not> fail_or_ignore u"
  shows "asserts (expected = actual) u (UnityAssertEqualNumber expected actual msg line style u)"
  using assms unfolding UnityAssertEqualNumber_def guard_passes [OF assms]
  by (auto simp: Let_def asserts_return intro!: asserts_fail)

definition unity_fresh :: unity where
  "unity_fresh = \<lparr>Unity = Unity_zero, printed = []\<rparr>"

lemma unity_fresh_ok [simp]: "\<not> fail_or_ignore unity_fresh"
  by (simp add: fail_or_ignore_def unity_fresh_def Unity_zero_def)

theorem UnityAssertEqualNumber_asserts_witness:
  "asserts False unity_fresh
     (UnityAssertEqualNumber 0 4096 None 63 UNITY_DISPLAY_STYLE_INT unity_fresh)"
  using UnityAssertEqualNumber_asserts [OF unity_fresh_ok, of 0 4096] by simp

text \<open>
  \<^verbatim>\<open>UnityAssertBits\<close> accepts exactly the values that agree with the expected one on every
  bit set in the mask.
\<close>
theorem UnityAssertBits_asserts:
  assumes "\<not> fail_or_ignore u"
  shows "asserts (\<forall>i. bit msk i \<longrightarrow> bit expected i = bit actual i) u
    (UnityAssertBits msk expected actual msg line u)"
proof -
  have "(msk AND expected) = (msk AND actual) \<longleftrightarrow> (\<forall>i. bit msk i \<longrightarrow> bit expected i = bit actual i)"
  proof
    assume "(msk AND expected) = (msk AND actual)"
    then have "bit (msk AND expected) i = bit (msk AND actual) i" for i by simp
    then show "\<forall>i. bit msk i \<longrightarrow> bit expected i = bit actual i" by (simp add: bit_and_iff) blast
  qed (auto intro!: bit_word_eqI simp: bit_and_iff)
  then show ?thesis
    using assms unfolding UnityAssertBits_def guard_passes [OF assms]
    by (auto simp: Let_def asserts_return intro!: asserts_fail)
qed

theorem UnityAssertBits_asserts_witness:
  "asserts (\<forall>i. bit (6 :: UNITY_INT) i \<longrightarrow> bit (7 :: UNITY_INT) i = bit (14 :: UNITY_INT) i) unity_fresh
     (UnityAssertBits 6 7 14 None 1 unity_fresh)"
  by (rule UnityAssertBits_asserts [OF unity_fresh_ok])

lemma compare_has_simps [simp]:
  "compare_has UNITY_GREATER_THAN UNITY_EQUAL_TO = False"
  "compare_has UNITY_GREATER_THAN UNITY_GREATER_THAN = True"
  "compare_has UNITY_GREATER_THAN UNITY_SMALLER_THAN = False"
  "compare_has UNITY_GREATER_OR_EQUAL UNITY_EQUAL_TO = True"
  "compare_has UNITY_GREATER_OR_EQUAL UNITY_GREATER_THAN = True"
  "compare_has UNITY_GREATER_OR_EQUAL UNITY_SMALLER_THAN = False"
  "compare_has UNITY_SMALLER_THAN UNITY_EQUAL_TO = False"
  "compare_has UNITY_SMALLER_THAN UNITY_GREATER_THAN = False"
  "compare_has UNITY_SMALLER_THAN UNITY_SMALLER_THAN = True"
  "compare_has UNITY_SMALLER_OR_EQUAL UNITY_EQUAL_TO = True"
  "compare_has UNITY_SMALLER_OR_EQUAL UNITY_GREATER_THAN = False"
  "compare_has UNITY_SMALLER_OR_EQUAL UNITY_SMALLER_THAN = True"
  "compare_has UNITY_NOT_EQUAL flag = False"
  by (simp_all add: compare_has_def comparison_defs)

lemma order_holds_simps:
  "order_holds UNITY_GREATER_THAN a t \<longleftrightarrow> a > t"
  "order_holds UNITY_GREATER_OR_EQUAL a t \<longleftrightarrow> a \<ge> t"
  "order_holds UNITY_SMALLER_THAN a t \<longleftrightarrow> a < t"
  "order_holds UNITY_SMALLER_OR_EQUAL a t \<longleftrightarrow> a \<le> t"
  "order_holds UNITY_NOT_EQUAL a t \<longleftrightarrow> a \<noteq> t"
  by (simp_all add: order_holds_def comparison_defs)

text \<open>The C code's flags, as one condition.\<close>

definition order_fails :: "UNITY_COMPARISON_T \<Rightarrow> int \<Rightarrow> int \<Rightarrow> bool" where
  "order_fails compare actual threshold \<longleftrightarrow>
     (threshold = actual \<and> \<not> compare_has compare UNITY_EQUAL_TO) \<or>
     (actual > threshold \<and> compare_has compare UNITY_SMALLER_THAN) \<or>
     (actual < threshold \<and> compare_has compare UNITY_GREATER_THAN)"

lemma order_fails_iff:
  "compare \<in> {UNITY_GREATER_THAN, UNITY_GREATER_OR_EQUAL, UNITY_SMALLER_THAN, UNITY_SMALLER_OR_EQUAL,
     UNITY_NOT_EQUAL} \<Longrightarrow>
   order_fails compare a t \<longleftrightarrow> \<not> order_holds compare a t"
  by (auto simp: order_fails_def order_holds_simps)

lemma GreaterOrLess_core:
  assumes "\<not> fail_or_ignore u"
  shows "asserts (\<not> order_fails compare (style_val style actual) (style_val style threshold)) u
    (UnityAssertGreaterOrLessOrEqualNumber threshold actual compare msg line style u)"
proof -
  have eq: "style_val style threshold = style_val style actual \<longleftrightarrow> threshold = actual"
    by (rule style_val_inject)
  have fails: "order_fails compare (style_val style actual) (style_val style threshold) \<longleftrightarrow>
      (threshold = actual \<and> \<not> compare_has compare UNITY_EQUAL_TO) \<or>
      (if style_is style UNITY_DISPLAY_RANGE_INT
       then (sint actual > sint threshold \<and> compare_has compare UNITY_SMALLER_THAN) \<or>
            (sint actual < sint threshold \<and> compare_has compare UNITY_GREATER_THAN)
       else (actual > threshold \<and> compare_has compare UNITY_SMALLER_THAN) \<or>
            (actual < threshold \<and> compare_has compare UNITY_GREATER_THAN))"
    unfolding order_fails_def eq by (auto simp: style_val_def word_less_def)
  show ?thesis
  proof (cases "order_fails compare (style_val style actual) (style_val style threshold)")
    case True
    then have "extends u v \<Longrightarrow> asserts (\<not> order_fails compare (style_val style actual)
        (style_val style threshold)) u (UNITY_FAIL_AND_BAIL v)" for v
      by (intro asserts_fail) auto
    with True show ?thesis
      unfolding UnityAssertGreaterOrLessOrEqualNumber_def guard_passes [OF assms] fails
      by (auto simp: Let_def split: if_splits)
  next
    case False
    then show ?thesis
      unfolding UnityAssertGreaterOrLessOrEqualNumber_def guard_passes [OF assms] fails
      by (auto simp: Let_def asserts_def split: if_splits)
  qed
qed

text \<open>
  \<^verbatim>\<open>UnityAssertGreaterOrLessOrEqualNumber\<close>, for the five comparisons of the macros: it accepts
  exactly the values in the asked relation to the threshold, compared as signed numbers for the INT
  styles and as unsigned ones for the UINT and HEX styles.
\<close>
theorem UnityAssertGreaterOrLess_asserts:
  assumes "\<not> fail_or_ignore u"
    and "compare \<in> {UNITY_GREATER_THAN, UNITY_GREATER_OR_EQUAL, UNITY_SMALLER_THAN,
      UNITY_SMALLER_OR_EQUAL, UNITY_NOT_EQUAL}"
  shows "asserts (order_holds compare (style_val style actual) (style_val style threshold)) u
    (UnityAssertGreaterOrLessOrEqualNumber threshold actual compare msg line style u)"
  using GreaterOrLess_core [OF assms(1), of compare style actual threshold msg line]
  by (simp add: order_fails_iff [OF assms(2)])

theorem UnityAssertGreaterOrLess_asserts_witness:
  "asserts (style_val UNITY_DISPLAY_STYLE_INT (- 1) > style_val UNITY_DISPLAY_STYLE_INT 5) unity_fresh
     (UnityAssertGreaterOrLessOrEqualNumber 5 (- 1) UNITY_GREATER_THAN None 1
        UNITY_DISPLAY_STYLE_INT unity_fresh)"
  using UnityAssertGreaterOrLess_asserts [OF unity_fresh_ok, of UNITY_GREATER_THAN]
  by (simp add: order_holds_simps)

lemma distance_signed:
  assumes "sint b \<le> sint a"
  shows "uint (a - b :: 64 word) = sint a - sint b"
proof -
  have bounds: "- (2 ^ 63) \<le> sint x \<and> sint x < 2 ^ 63" for x :: "64 word"
    using sint_range_size [of x] by (simp add: word_size)
  have "a - b = word_of_int (sint a - sint b)" by simp
  then have "uint (a - b) = (sint a - sint b) mod 2 ^ 64" by (simp only: uint_word_of_int) simp
  also have "\<dots> = sint a - sint b"
    using assms bounds [of a] bounds [of b] by (intro mod_pos_pos_trivial) auto
  finally show ?thesis .
qed

lemma distance_unsigned:
  assumes "b \<le> a"
  shows "uint (a - b :: 64 word) = uint a - uint b"
  using assms by (simp add: uint_minus_simple_alt)

lemma outside_delta_iff:
  "outside_delta delta expected actual style \<longleftrightarrow>
   \<not> \<bar>style_val style actual - style_val style expected\<bar> \<le> uint delta"
  by (auto simp: outside_delta_def style_val_def word_less_def not_le distance_signed
      distance_unsigned word_le_def split: if_splits)

text \<open>
  C25: \<^verbatim>\<open>UnityAssertNumbersWithin\<close> accepts exactly the values whose distance from the expected one,
  as mathematical integers, is at most delta: the subtraction of the C code never overflows into a
  wrong answer, for signed and for unsigned styles.
\<close>
theorem UnityAssertNumbersWithin_asserts:
  assumes "\<not> fail_or_ignore u"
  shows "asserts (\<bar>style_val style actual - style_val style expected\<bar> \<le> uint delta) u
    (UnityAssertNumbersWithin delta expected actual msg line style u)"
proof -
  have same: "u\<lparr>Unity := (Unity u)\<lparr>CurrentTestFailed := 0\<rparr>\<rparr> = u"
    using assms by (cases u) (simp add: fail_or_ignore_def)
  show ?thesis
  proof (cases "outside_delta delta expected actual style")
    case True
    then have no: "\<not> \<bar>style_val style actual - style_val style expected\<bar> \<le> uint delta"
      by (simp add: outside_delta_iff)
    let ?u = "u\<lparr>Unity := (Unity u)\<lparr>CurrentTestFailed := 1\<rparr>\<rparr>"
    have "asserts False u (UNITY_FAIL_AND_BAIL v)" if "extends ?u v" for v
      using that by (cases u) (auto simp: asserts_def extends_def UNITY_FAIL_AND_BAIL_def)
    with no True show ?thesis
      unfolding UnityAssertNumbersWithin_def guard_passes [OF assms] by (simp add: Let_def)
  next
    case False
    moreover have "CurrentTestFailed (Unity u) = 0" using assms by (simp add: fail_or_ignore_def)
    ultimately show ?thesis
      unfolding UnityAssertNumbersWithin_def guard_passes [OF assms]
      by (simp add: Let_def same outside_delta_iff asserts_return)
  qed
qed

theorem UnityAssertNumbersWithin_asserts_witness:
  "asserts False unity_fresh (UnityAssertNumbersWithin 10 (- 9223372036854775808) 9223372036854775807
     None 1 UNITY_DISPLAY_STYLE_INT64 unity_fresh)"
  using UnityAssertNumbersWithin_asserts [OF unity_fresh_ok, of UNITY_DISPLAY_STYLE_INT64
      9223372036854775807 "- 9223372036854775808" 10 None 1]
  by (simp add: style_val_def style_is_def style_defs)

end
