(* ===== verification/Unity_Arrays.thy ===== *)
theory Unity_Arrays
  imports Unity_Assert
begin

text \<open>
  Unity's assertions on arrays, strings and memory (\<^verbatim>\<open>unity/src/unity.c\<close>). They read through
  pointers, so the model has a memory: bytes, cells that hold pointers, and C strings by their
  address. Reading outside an object is the fault \<open>Out_of_bounds\<close>; integers are little endian.
\<close>

section \<open>Memory\<close>

record c_mem =
  bytes :: "addr \<rightharpoonup> 8 word"
  cells :: "addr \<rightharpoonup> addr"
  strs :: "addr \<rightharpoonup> string"

fun load_unsigned :: "c_mem \<Rightarrow> addr \<Rightarrow> nat \<Rightarrow> 64 word res" where
  "load_unsigned mem p 0 = Inr 0"
| "load_unsigned mem p (Suc n) =
     (case bytes mem p of
        None \<Rightarrow> Inl Out_of_bounds
      | Some b \<Rightarrow> rbind (load_unsigned mem (p + 1) n) (\<lambda>w. Inr (ucast b OR push_bit 8 w)))"

definition load_signed :: "c_mem \<Rightarrow> addr \<Rightarrow> nat \<Rightarrow> 64 word res" where
  "load_signed mem p n =
     rbind (load_unsigned mem p n) (\<lambda>w. Inr (signed_take_bit (8 * n - 1) w))"

fun store_bytes :: "c_mem \<Rightarrow> addr \<Rightarrow> nat \<Rightarrow> 64 word \<Rightarrow> c_mem" where
  "store_bytes mem p 0 w = mem"
| "store_bytes mem p (Suc n) w =
     store_bytes (mem\<lparr>bytes := (bytes mem)(p \<mapsto> ucast w)\<rparr>) (p + 1) n (drop_bit 8 w)"

definition load_string :: "c_mem \<Rightarrow> addr \<Rightarrow> c_string res" where
  "load_string mem p =
     (if p = NULL then Inr None
      else case strs mem p of None \<Rightarrow> Inl Out_of_bounds | Some s \<Rightarrow> Inr (Some s))"

definition load_cell :: "c_mem \<Rightarrow> addr \<Rightarrow> addr res" where
  "load_cell mem p = (case cells mem p of None \<Rightarrow> Inl Out_of_bounds | Some q \<Rightarrow> Inr q)"

section \<open>Helpers\<close>

definition UnityIsOneArrayNull ::
  "addr \<Rightarrow> addr \<Rightarrow> UNITY_LINE_TYPE \<Rightarrow> c_string \<Rightarrow> 'a unity_scheme \<Rightarrow> bool \<times> 'a unity_scheme" where
  "UnityIsOneArrayNull expected actual lineNumber msg u =
     (if expected = actual then (False, u)
      else if expected = NULL then
        (True, UnityAddMsgIfSpecified msg (emit (UnityPrint UnityStrNullPointerForExpected)
           (UnityTestResultsFailBegin lineNumber u)))
      else if actual = NULL then
        (True, UnityAddMsgIfSpecified msg (emit (UnityPrint UnityStrNullPointerForActual)
           (UnityTestResultsFailBegin lineNumber u)))
      else (False, u))"

definition UnityPrintPointlessAndBail ::
  "UNITY_LINE_TYPE \<Rightarrow> c_string \<Rightarrow> 'a unity_scheme \<Rightarrow> 'a unity_scheme outcome" where
  "UnityPrintPointlessAndBail lineNumber msg u =
     UNITY_FAIL_AND_BAIL (UnityAddMsgIfSpecified msg (emit (UnityPrint UnityStrPointless)
       (UnityTestResultsFailBegin lineNumber u)))"

text \<open>
  What every array assertion does before its loop: the checks for an earlier failure, for an empty
  array, for the same pointer twice, and for one null pointer.
\<close>

definition array_prologue ::
  "bool \<Rightarrow> addr \<Rightarrow> addr \<Rightarrow> UNITY_LINE_TYPE \<Rightarrow> c_string \<Rightarrow> 'a unity_scheme \<Rightarrow>
   'a unity_scheme outcome res \<Rightarrow> 'a unity_scheme outcome res" where
  "array_prologue pointless expected actual lineNumber msg u loop =
     (if fail_or_ignore u then Inr (Jumps u)
      else if pointless then Inr (UnityPrintPointlessAndBail lineNumber msg u)
      else if expected = actual then Inr (Returns u)
      else case UnityIsOneArrayNull expected actual lineNumber msg u of
             (True, u) \<Rightarrow> Inr (UNITY_FAIL_AND_BAIL u)
           | (False, u) \<Rightarrow> loop)"

text \<open>The \<^verbatim>\<open>switch (length)\<close>: the number of bytes of an element.\<close>

definition element_length :: "UNITY_DISPLAY_STYLE_T \<Rightarrow> nat" where
  "element_length style =
     (if style_length style = 1 then 1 else if style_length style = 2 then 2
      else if style_length style = 8 then 8 else 4)"

definition step_ptr :: "UNITY_FLAGS_T \<Rightarrow> addr \<Rightarrow> nat \<Rightarrow> addr" where
  "step_ptr flags p n = (if flags = UNITY_ARRAY_TO_ARRAY then p + of_nat n else p)"

text \<open>For UINT, remove the sign extension before printing.\<close>

definition unsigned_report :: "UNITY_DISPLAY_STYLE_T \<Rightarrow> UNITY_INT \<Rightarrow> UNITY_INT" where
  "unsigned_report style v =
     (if style_has style UNITY_DISPLAY_RANGE_UINT \<and> element_length style < UNITY_INT_WIDTH div 8
      then v AND (push_bit (8 * element_length style) 1 - 1) else v)"

section \<open>Arrays of integers\<close>

definition equal_element :: "c_mem \<Rightarrow> addr \<Rightarrow> UNITY_DISPLAY_STYLE_T \<Rightarrow> UNITY_INT res" where
  "equal_element mem p style =
     rbind (load_signed mem p (element_length style)) (\<lambda>v.
       Inr (if element_length style \<noteq> 8 \<and>
               style_has style (UNITY_DISPLAY_RANGE_UINT OR UNITY_DISPLAY_RANGE_HEX)
            then v AND (push_bit (8 * element_length style) 1 - 1) else v))"

fun int_array_loop ::
  "c_mem \<Rightarrow> UNITY_UINT32 \<Rightarrow> c_string \<Rightarrow> UNITY_LINE_TYPE \<Rightarrow> UNITY_DISPLAY_STYLE_T \<Rightarrow> UNITY_FLAGS_T \<Rightarrow>
   nat \<Rightarrow> addr \<Rightarrow> addr \<Rightarrow> 'a unity_scheme \<Rightarrow> 'a unity_scheme outcome res" where
  "int_array_loop mem num_elements msg lineNumber style flags 0 expected actual u = Inr (Returns u)"
| "int_array_loop mem num_elements msg lineNumber style flags (Suc elements) expected actual u =
     rbind (equal_element mem expected style) (\<lambda>expect_val.
     rbind (equal_element mem actual style) (\<lambda>actual_val.
       if expect_val \<noteq> actual_val then
         (let expect_val = unsigned_report style expect_val;
              actual_val = unsigned_report style actual_val;
              u = UnityTestResultsFailBegin lineNumber u;
              u = emit (UnityPrint UnityStrElement @
                        UnityPrintNumberUnsigned (ucast (num_elements - of_nat elements - 1)) @
                        UnityPrint UnityStrExpected @ UnityPrintNumberByStyle expect_val style @
                        UnityPrint UnityStrWas @ UnityPrintNumberByStyle actual_val style) u;
              u = UnityAddMsgIfSpecified msg u
          in Inr (UNITY_FAIL_AND_BAIL u))
       else int_array_loop mem num_elements msg lineNumber style flags elements
              (step_ptr flags expected (element_length style))
              (actual + of_nat (element_length style)) u))"

definition UnityAssertEqualIntArray ::
  "c_mem \<Rightarrow> addr \<Rightarrow> addr \<Rightarrow> UNITY_UINT32 \<Rightarrow> c_string \<Rightarrow> UNITY_LINE_TYPE \<Rightarrow> UNITY_DISPLAY_STYLE_T \<Rightarrow>
   UNITY_FLAGS_T \<Rightarrow> 'a unity_scheme \<Rightarrow> 'a unity_scheme outcome res" where
  "UnityAssertEqualIntArray mem expected actual num_elements msg lineNumber style flags u =
     array_prologue (num_elements = 0) expected actual lineNumber msg u
       (int_array_loop mem num_elements msg lineNumber style flags (unat num_elements) expected actual u)"

definition within_element :: "c_mem \<Rightarrow> addr \<Rightarrow> UNITY_DISPLAY_STYLE_T \<Rightarrow> UNITY_INT res" where
  "within_element mem p style =
     (if style_is style UNITY_DISPLAY_RANGE_INT then load_signed mem p (element_length style)
      else load_unsigned mem p (element_length style))"

fun within_array_loop ::
  "UNITY_UINT \<Rightarrow> c_mem \<Rightarrow> UNITY_UINT32 \<Rightarrow> c_string \<Rightarrow> UNITY_LINE_TYPE \<Rightarrow> UNITY_DISPLAY_STYLE_T \<Rightarrow>
   UNITY_FLAGS_T \<Rightarrow> nat \<Rightarrow> addr \<Rightarrow> addr \<Rightarrow> 'a unity_scheme \<Rightarrow> 'a unity_scheme outcome res" where
  "within_array_loop delta mem num_elements msg lineNumber style flags 0 expected actual u =
     Inr (Returns u)"
| "within_array_loop delta mem num_elements msg lineNumber style flags (Suc elements) expected actual u =
     rbind (within_element mem expected style) (\<lambda>expect_val.
     rbind (within_element mem actual style) (\<lambda>actual_val.
       let u = u\<lparr>Unity := (Unity u)\<lparr>CurrentTestFailed :=
                   if outside_delta delta expect_val actual_val style then 1 else 0\<rparr>\<rparr>
       in if CurrentTestFailed (Unity u) \<noteq> 0 then
            (let expect_val = unsigned_report style expect_val;
                 actual_val = unsigned_report style actual_val;
                 u = UnityTestResultsFailBegin lineNumber u;
                 u = emit (UnityPrint UnityStrDelta @ UnityPrintNumberByStyle delta style @
                           UnityPrint UnityStrElement @
                           UnityPrintNumberUnsigned (ucast (num_elements - of_nat elements - 1)) @
                           UnityPrint UnityStrExpected @ UnityPrintNumberByStyle expect_val style @
                           UnityPrint UnityStrWas @ UnityPrintNumberByStyle actual_val style) u;
                 u = UnityAddMsgIfSpecified msg u
             in Inr (UNITY_FAIL_AND_BAIL u))
          else within_array_loop delta mem num_elements msg lineNumber style flags elements
                 (step_ptr flags expected (element_length style))
                 (actual + of_nat (element_length style)) u))"

definition UnityAssertNumbersArrayWithin ::
  "UNITY_UINT \<Rightarrow> c_mem \<Rightarrow> addr \<Rightarrow> addr \<Rightarrow> UNITY_UINT32 \<Rightarrow> c_string \<Rightarrow> UNITY_LINE_TYPE \<Rightarrow>
   UNITY_DISPLAY_STYLE_T \<Rightarrow> UNITY_FLAGS_T \<Rightarrow> 'a unity_scheme \<Rightarrow> 'a unity_scheme outcome res" where
  "UnityAssertNumbersArrayWithin delta mem expected actual num_elements msg lineNumber style flags u =
     array_prologue (num_elements = 0) expected actual lineNumber msg u
       (within_array_loop delta mem num_elements msg lineNumber style flags (unat num_elements)
          expected actual u)"

section \<open>Strings\<close>

text \<open>
  The loop \<^verbatim>\<open>for (i = 0; expected[i] || actual[i]; i++)\<close> from index \<open>i\<close> on: does it find a
  difference? The index is a \<^verbatim>\<open>UNITY_UINT32\<close> and wraps, so that the loop may not end. With a
  bound, \<^verbatim>\<open>i < length\<close> is checked first, and the index stays below it.
\<close>

partial_function (option) strings_differ_from :: "string \<Rightarrow> string \<Rightarrow> UNITY_UINT32 \<Rightarrow> bool res option" where
  "strings_differ_from es as i =
     (case rbind (char_at es (unat i)) (\<lambda>e. rbind (char_at as (unat i)) (\<lambda>a. Inr (e, a))) of
        Inl f \<Rightarrow> Some (Inl f)
      | Inr (e, a) \<Rightarrow>
          if e = CHR 0x00 \<and> a = CHR 0x00 then Some (Inr False)
          else if e \<noteq> a then Some (Inr True)
          else strings_differ_from es as (i + 1))"

definition strings_differ :: "string \<Rightarrow> string \<Rightarrow> bool res" where
  "strings_differ es as =
     (case strings_differ_from es as 0 of None \<Rightarrow> Inl No_return | Some r \<Rightarrow> r)"

fun strings_differ_len :: "nat \<Rightarrow> string \<Rightarrow> string \<Rightarrow> bool" where
  "strings_differ_len 0 es as = False"
| "strings_differ_len (Suc n) es as =
     (if first_char es = CHR 0x00 \<and> first_char as = CHR 0x00 then False
      else if first_char es \<noteq> first_char as then True
      else strings_differ_len n (tl es) (tl as))"

definition set_failed :: "'a unity_scheme \<Rightarrow> 'a unity_scheme" where
  "set_failed u = u\<lparr>Unity := (Unity u)\<lparr>CurrentTestFailed := 1\<rparr>\<rparr>"

text \<open>Compare two string pointers, either of which may be null.\<close>

fun string_check ::
  "(string \<Rightarrow> string \<Rightarrow> bool res) \<Rightarrow> c_string \<Rightarrow> c_string \<Rightarrow> 'a unity_scheme \<Rightarrow> 'a unity_scheme res" where
  "string_check differ (Some e) (Some a) u =
     rbind (differ e a) (\<lambda>d. Inr (if d then set_failed u else u))"
| "string_check differ expected actual u = Inr (if expected \<noteq> actual then set_failed u else u)"

definition UnityAssertEqualString ::
  "c_string \<Rightarrow> c_string \<Rightarrow> c_string \<Rightarrow> UNITY_LINE_TYPE \<Rightarrow> 'a unity_scheme \<Rightarrow>
   'a unity_scheme outcome res" where
  "UnityAssertEqualString expected actual msg lineNumber u =
     (if fail_or_ignore u then Inr (Jumps u)
      else rbind (string_check strings_differ expected actual u) (\<lambda>u.
        Inr (if CurrentTestFailed (Unity u) \<noteq> 0 then
               (let u = UnityTestResultsFailBegin lineNumber u;
                    u = emit (UnityPrintExpectedAndActualStrings expected actual) u;
                    u = UnityAddMsgIfSpecified msg u
                in UNITY_FAIL_AND_BAIL u)
             else Returns u)))"

definition UnityAssertEqualStringLen ::
  "c_string \<Rightarrow> c_string \<Rightarrow> UNITY_UINT32 \<Rightarrow> c_string \<Rightarrow> UNITY_LINE_TYPE \<Rightarrow> 'a unity_scheme \<Rightarrow>
   'a unity_scheme outcome res" where
  "UnityAssertEqualStringLen expected actual len msg lineNumber u =
     (if fail_or_ignore u then Inr (Jumps u)
      else rbind (string_check (\<lambda>e a. Inr (strings_differ_len (unat len) e a)) expected actual u) (\<lambda>u.
        Inr (if CurrentTestFailed (Unity u) \<noteq> 0 then
               (let u = UnityTestResultsFailBegin lineNumber u;
                    u = emit (UnityPrintExpectedAndActualStringsLen expected actual len) u;
                    u = UnityAddMsgIfSpecified msg u
                in UNITY_FAIL_AND_BAIL u)
             else Returns u)))"

text \<open>
  \<^verbatim>\<open>do { ... } while (++j < num_elements)\<close>: \<open>n\<close> more turns after this one. \<open>expected\<close> is an array
  of string pointers, or (\<open>UNITY_ARRAY_TO_VAL\<close>) one string.
\<close>

fun string_array_loop ::
  "c_mem \<Rightarrow> addr \<Rightarrow> addr \<Rightarrow> UNITY_UINT32 \<Rightarrow> c_string \<Rightarrow> UNITY_LINE_TYPE \<Rightarrow> UNITY_FLAGS_T \<Rightarrow>
   nat \<Rightarrow> UNITY_UINT32 \<Rightarrow> 'a unity_scheme \<Rightarrow> 'a unity_scheme outcome res" where
  "string_array_loop mem expected actual num_elements msg lineNumber flags n j u =
     rbind (rbind (load_cell mem (actual + 8 * ucast j)) (load_string mem)) (\<lambda>act.
     rbind (if flags = UNITY_ARRAY_TO_ARRAY
            then rbind (load_cell mem (expected + 8 * ucast j)) (load_string mem)
            else load_string mem expected) (\<lambda>expd.
     rbind (string_check strings_differ expd act u) (\<lambda>u.
       if CurrentTestFailed (Unity u) \<noteq> 0 then
            (let u = UnityTestResultsFailBegin lineNumber u;
                 u = (if num_elements > 1
                      then emit (UnityPrint UnityStrElement @ UnityPrintNumberUnsigned (ucast j)) u
                      else u);
                 u = emit (UnityPrintExpectedAndActualStrings expd act) u;
                 u = UnityAddMsgIfSpecified msg u
             in Inr (UNITY_FAIL_AND_BAIL u))
          else (case n of
                  0 \<Rightarrow> Inr (Returns u)
                | Suc n \<Rightarrow> string_array_loop mem expected actual num_elements msg lineNumber flags
                             n (j + 1) u))))"

definition UnityAssertEqualStringArray ::
  "c_mem \<Rightarrow> addr \<Rightarrow> addr \<Rightarrow> UNITY_UINT32 \<Rightarrow> c_string \<Rightarrow> UNITY_LINE_TYPE \<Rightarrow> UNITY_FLAGS_T \<Rightarrow>
   'a unity_scheme \<Rightarrow> 'a unity_scheme outcome res" where
  "UnityAssertEqualStringArray mem expected actual num_elements msg lineNumber flags u =
     array_prologue (num_elements = 0) expected actual lineNumber msg u
       (string_array_loop mem expected actual num_elements msg lineNumber flags
          (unat num_elements - 1) 0 u)"

section \<open>Memory comparison and temporaries\<close>

text \<open>The inner loop over the bytes of one element, \<open>n\<close> bytes left; \<open>elements\<close> is the outer counter.\<close>

fun memory_bytes_loop ::
  "c_mem \<Rightarrow> UNITY_UINT32 \<Rightarrow> UNITY_UINT32 \<Rightarrow> UNITY_UINT32 \<Rightarrow> c_string \<Rightarrow> UNITY_LINE_TYPE \<Rightarrow>
   nat \<Rightarrow> addr \<Rightarrow> addr \<Rightarrow> 'a unity_scheme \<Rightarrow> 'a unity_scheme outcome res" where
  "memory_bytes_loop mem len num_elements elements msg lineNumber 0 ptr_exp ptr_act u = Inr (Returns u)"
| "memory_bytes_loop mem len num_elements elements msg lineNumber (Suc n) ptr_exp ptr_act u =
     (case (bytes mem ptr_exp, bytes mem ptr_act) of
        (Some e, Some a) \<Rightarrow>
          if e \<noteq> a then
            (let u = emit (UnityPrint UnityStrMemory) (UnityTestResultsFailBegin lineNumber u);
                 u = (if num_elements > 1
                      then emit (UnityPrint UnityStrElement @
                                 UnityPrintNumberUnsigned (ucast (num_elements - elements - 1))) u
                      else u);
                 u = emit (UnityPrint UnityStrByte @
                           UnityPrintNumberUnsigned (ucast (len - of_nat n - 1)) @
                           UnityPrint UnityStrExpected @
                           UnityPrintNumberByStyle (ucast e) UNITY_DISPLAY_STYLE_HEX8 @
                           UnityPrint UnityStrWas @
                           UnityPrintNumberByStyle (ucast a) UNITY_DISPLAY_STYLE_HEX8) u;
                 u = UnityAddMsgIfSpecified msg u
             in Inr (UNITY_FAIL_AND_BAIL u))
          else memory_bytes_loop mem len num_elements elements msg lineNumber n
                 (ptr_exp + 1) (ptr_act + 1) u
      | _ \<Rightarrow> Inl Out_of_bounds)"

fun memory_loop ::
  "c_mem \<Rightarrow> UNITY_UINT32 \<Rightarrow> UNITY_UINT32 \<Rightarrow> c_string \<Rightarrow> UNITY_LINE_TYPE \<Rightarrow> UNITY_FLAGS_T \<Rightarrow> addr \<Rightarrow>
   nat \<Rightarrow> addr \<Rightarrow> addr \<Rightarrow> 'a unity_scheme \<Rightarrow> 'a unity_scheme outcome res" where
  "memory_loop mem len num_elements msg lineNumber flags expected 0 ptr_exp ptr_act u = Inr (Returns u)"
| "memory_loop mem len num_elements msg lineNumber flags expected (Suc elements) ptr_exp ptr_act u =
     tbind (memory_bytes_loop mem len num_elements (of_nat elements) msg lineNumber (unat len)
              ptr_exp ptr_act u) (\<lambda>u.
       memory_loop mem len num_elements msg lineNumber flags expected elements
         (if flags = UNITY_ARRAY_TO_VAL then expected else ptr_exp + ucast len)
         (ptr_act + ucast len) u)"

definition UnityAssertEqualMemory ::
  "c_mem \<Rightarrow> addr \<Rightarrow> addr \<Rightarrow> UNITY_UINT32 \<Rightarrow> UNITY_UINT32 \<Rightarrow> c_string \<Rightarrow> UNITY_LINE_TYPE \<Rightarrow>
   UNITY_FLAGS_T \<Rightarrow> 'a unity_scheme \<Rightarrow> 'a unity_scheme outcome res" where
  "UnityAssertEqualMemory mem expected actual len num_elements msg lineNumber flags u =
     array_prologue (num_elements = 0 \<or> len = 0) expected actual lineNumber msg u
       (memory_loop mem len num_elements msg lineNumber flags expected (unat num_elements)
          expected actual u)"

text \<open>
  \<^verbatim>\<open>UnityNumToPtr\<close> stores its argument in the static union \<^verbatim>\<open>UnityQuickCompare\<close> (at address
  \<open>quick\<close>) and gives the address of the member it wrote.
\<close>

definition UnityNumToPtr :: "addr \<Rightarrow> UNITY_INT \<Rightarrow> 8 word \<Rightarrow> c_mem \<Rightarrow> addr \<times> c_mem" where
  "UnityNumToPtr quick num sz mem =
     (if sz = 1 then (quick, store_bytes mem quick 1 num)
      else if sz = 2 then (quick, store_bytes mem quick 2 num)
      else if sz = 8 then (quick, store_bytes mem quick 8 num)
      else (quick, store_bytes mem quick 4 num))"

section \<open>What the array assertions accept\<close>

definition asserts_res :: "bool \<Rightarrow> 'a unity_scheme \<Rightarrow> 'a unity_scheme outcome res \<Rightarrow> bool" where
  "asserts_res P u r \<longleftrightarrow> (\<exists>x. r = Inr x \<and> asserts P u x)"

lemma asserts_res_fail: "extends u v \<Longrightarrow> \<not> P \<Longrightarrow> asserts_res P u (Inr (UNITY_FAIL_AND_BAIL v))"
  by (simp add: asserts_res_def asserts_fail)

lemma asserts_res_return: "P \<Longrightarrow> asserts_res P u (Inr (Returns u))"
  by (simp add: asserts_res_def asserts_return)

lemma asserts_res_tbind:
  "asserts_res P u r \<Longrightarrow> (P \<Longrightarrow> asserts_res Q u (k u)) \<Longrightarrow> asserts_res (P \<and> Q) u (tbind r k)"
  by (cases P) (auto simp: asserts_res_def asserts_def)

lemma prologue_loop:
  "\<not> fail_or_ignore u \<Longrightarrow> expected \<noteq> actual \<Longrightarrow> expected \<noteq> NULL \<Longrightarrow> actual \<noteq> NULL \<Longrightarrow>
   array_prologue False expected actual line msg u loop = loop"
  by (simp add: array_prologue_def UnityIsOneArrayNull_def)

lemma int_array_loop_asserts:
  assumes "\<And>i. i < n \<Longrightarrow> equal_element mem (step_ptr flags expected (i * element_length style)) style = Inr (es i)"
    and "\<And>i. i < n \<Longrightarrow> equal_element mem (actual + of_nat (i * element_length style)) style = Inr (as i)"
  shows "asserts_res (\<forall>i<n. es i = as i) u
    (int_array_loop mem num_elements msg line style flags n expected actual u)"
  using assms
proof (induction n arbitrary: expected actual es as)
  case 0
  then show ?case by (simp add: asserts_res_return)
next
  case (Suc n)
  have e0: "equal_element mem expected style = Inr (es 0)"
    using Suc.prems(1) [of 0] by (simp add: step_ptr_def split: if_splits)
  have a0: "equal_element mem actual style = Inr (as 0)"
    using Suc.prems(2) [of 0] by simp
  have all: "(\<forall>i<Suc n. es i = as i) \<longleftrightarrow> es 0 = as 0 \<and> (\<forall>i<n. es (Suc i) = as (Suc i))"
    by (simp add: All_less_Suc2)
  show ?case
  proof (cases "es 0 = as 0")
    case False
    with e0 a0 all show ?thesis
      by (auto simp: Let_def intro!: asserts_res_fail)
  next
    case True
    let ?l = "element_length style"
    have "asserts_res (\<forall>i<n. es (Suc i) = as (Suc i)) u (int_array_loop mem num_elements msg line style
        flags n (step_ptr flags expected ?l) (actual + of_nat ?l) u)"
    proof (rule Suc.IH)
      fix i assume "i < n"
      then show "equal_element mem (step_ptr flags (step_ptr flags expected ?l) (i * ?l)) style = Inr (es (Suc i))"
        using Suc.prems(1) [of "Suc i"] by (simp add: step_ptr_def add.assoc split: if_splits)
      show "equal_element mem (actual + of_nat ?l + of_nat (i * ?l)) style = Inr (as (Suc i))"
        using Suc.prems(2) [of "Suc i"] \<open>i < n\<close> by (simp add: add.assoc)
    qed
    with e0 a0 True all show ?thesis by simp
  qed
qed

lemma all_below_two: "(\<forall>i < 2. P i) \<longleftrightarrow> P 0 \<and> P (1 :: nat)"
  by (auto simp: less_2_cases_iff)

lemma not_all_positive: "\<not> All ((<) (0 :: nat))"
  by auto

definition two_arrays :: c_mem where
  "two_arrays = \<lparr>bytes = [16 \<mapsto> 1, 17 \<mapsto> 2, 32 \<mapsto> 1, 33 \<mapsto> 3], cells = Map.empty, strs = Map.empty\<rparr>"

text \<open>
  An array assertion on no elements, or with one null pointer, always fails; with the same
  pointer twice it always passes, without reading anything.
\<close>
theorem array_assertions_degenerate:
  assumes "\<not> fail_or_ignore u"
  shows "asserts_res False u (UnityAssertEqualIntArray mem expected actual 0 msg line style flags u) \<and>
    (num_elements \<noteq> 0 \<and> expected = actual \<longrightarrow>
      asserts_res True u (UnityAssertEqualIntArray mem expected actual num_elements msg line style flags u)) \<and>
    (num_elements \<noteq> 0 \<and> expected \<noteq> actual \<and> (expected = NULL \<or> actual = NULL) \<longrightarrow>
      asserts_res False u (UnityAssertEqualIntArray mem expected actual num_elements msg line style flags u))"
  using assms
  by (auto simp: UnityAssertEqualIntArray_def array_prologue_def UnityPrintPointlessAndBail_def
      UnityIsOneArrayNull_def intro!: asserts_res_fail asserts_res_return)

theorem array_assertions_degenerate_witness:
  "asserts_res False unity_fresh
     (UnityAssertEqualIntArray (\<lparr>bytes = Map.empty, cells = Map.empty, strs = Map.empty\<rparr>) 16 32 0 None 1
        UNITY_DISPLAY_STYLE_INT UNITY_ARRAY_TO_ARRAY unity_fresh)"
  using array_assertions_degenerate [OF unity_fresh_ok,
      of "\<lparr>bytes = Map.empty, cells = Map.empty, strs = Map.empty\<rparr>" 16 32 None 1
        UNITY_DISPLAY_STYLE_INT UNITY_ARRAY_TO_ARRAY 1] by simp

subsection \<open>Strings\<close>

lemma first_char_content:
  "first_char s = CHR 0x00 \<longleftrightarrow> c_content s = []"
  "first_char s \<noteq> CHR 0x00 \<Longrightarrow> c_content s = first_char s # c_content (tl s)"
  by (auto simp: first_char_def c_content_def split: list.splits)

lemma char_at_nonzero: "c \<in> set (c_content s) \<Longrightarrow> c \<noteq> CHR 0x00"
  by (auto simp: c_content_def dest: set_takeWhileD)

lemma char_at_c_content:
  "i \<le> length (c_content s) \<Longrightarrow>
   char_at s i = Inr (if i < length (c_content s) then c_content s ! i else CHR 0x00)"
  using length_takeWhile_le [of "\<lambda>c. c \<noteq> CHR 0x00" s]
    nth_length_takeWhile [of "\<lambda>c. c \<noteq> CHR 0x00" s]
  by (auto simp: char_at_def c_content_def takeWhile_nth)

text \<open>Two strings that have at least \<open>n\<close> characters, and the same first \<open>n\<close>.\<close>

definition same_first :: "nat \<Rightarrow> string \<Rightarrow> string \<Rightarrow> bool" where
  "same_first n es as \<longleftrightarrow> n \<le> length (c_content es) \<and> n \<le> length (c_content as) \<and>
     take n (c_content es) = take n (c_content as)"

lemma c_content_nth: "i < length (c_content s) \<Longrightarrow> c_content s ! i \<noteq> CHR 0x00"
  by (rule char_at_nonzero [of _ s]) simp

lemma same_first_nth:
  assumes "same_first n es as" and "i < n"
  shows "char_at es i = Inr (c_content es ! i)" and "char_at as i = Inr (c_content es ! i)"
    and "c_content es ! i \<noteq> CHR 0x00"
proof -
  have len: "i < length (c_content es)" "i < length (c_content as)"
    using assms by (auto simp: same_first_def)
  have "take n (c_content es) ! i = take n (c_content as) ! i" using assms(1) by (simp add: same_first_def)
  then have "c_content as ! i = c_content es ! i" using assms(2) by simp
  with len show "char_at es i = Inr (c_content es ! i)" "char_at as i = Inr (c_content es ! i)"
    "c_content es ! i \<noteq> CHR 0x00" by (simp_all add: char_at_c_content c_content_nth)
qed

lemma same_first_step:
  assumes "same_first n es as" and "char_at es n = Inr c" "char_at as n = Inr c" "c \<noteq> CHR 0x00"
  shows "same_first (Suc n) es as"
proof -
  have le: "n \<le> length (c_content es)" "n \<le> length (c_content as)"
    "take n (c_content es) = take n (c_content as)" using assms(1) by (simp_all add: same_first_def)
  have "n < length (c_content es)" "n < length (c_content as)"
    "c_content es ! n = c" "c_content as ! n = c"
    using assms(2-4) le by (auto simp: char_at_c_content split: if_splits)
  with le show ?thesis by (simp add: same_first_def take_Suc_conv_app_nth)
qed

lemma same_first_end:
  assumes "same_first n es as" and "char_at es n = Inr c" "char_at as n = Inr d"
    and "c \<noteq> d \<or> c = CHR 0x00"
  shows "c_content es \<noteq> c_content as \<longleftrightarrow> c \<noteq> d"
proof
  have le: "n \<le> length (c_content es)" "n \<le> length (c_content as)"
    "take n (c_content es) = take n (c_content as)" using assms(1) by (simp_all add: same_first_def)
  have c: "c = (if n < length (c_content es) then c_content es ! n else CHR 0x00)"
    and d: "d = (if n < length (c_content as) then c_content as ! n else CHR 0x00)"
    using assms(2,3) le by (simp_all add: char_at_c_content)
  show "c_content es \<noteq> c_content as" if "c \<noteq> d" using c d that by metis
  show "c \<noteq> d" if "c_content es \<noteq> c_content as"
  proof
    assume "c = d"
    with assms(4) have "c = CHR 0x00" "d = CHR 0x00" by simp_all
    then have "\<not> n < length (c_content es)" "\<not> n < length (c_content as)"
      using c d c_content_nth by metis+
    with le that show False by simp
  qed
qed

text \<open>The loop ends with the answer unless the strings agree on their first 2^32 characters.\<close>

lemma unat_lt32: "unat (i :: 32 word) < 2 ^ 32"
  using unsigned_less [of i, where 'a = nat] by simp

lemma strings_differ_from_ends:
  assumes "\<not> same_first (2 ^ 32) es as"
  shows "same_first (unat i) es as \<Longrightarrow>
    strings_differ_from es as i = Some (Inr (c_content es \<noteq> c_content as))"
proof (induction "2 ^ 32 - unat i" arbitrary: i rule: less_induct)
  case less
  obtain c d where at: "char_at es (unat i) = Inr c" "char_at as (unat i) = Inr d"
    using less.prems by (auto simp: same_first_def char_at_c_content)
  have turn: "strings_differ_from es as i =
      (if c = CHR 0x00 \<and> d = CHR 0x00 then Some (Inr False) else if c \<noteq> d then Some (Inr True)
       else strings_differ_from es as (i + 1))"
    by (subst strings_differ_from.simps) (simp only: at rbind.simps sum.case prod.case)
  show ?case
  proof (cases "c = d \<and> c \<noteq> CHR 0x00")
    case False
    then have "c \<noteq> d \<or> c = CHR 0x00" by blast
    from same_first_end [OF less.prems at this] False show ?thesis
      unfolding turn by (cases "c = d") auto
  next
    case True
    then have next_same: "same_first (Suc (unat i)) es as"
      using same_first_step [OF less.prems at(1)] at(2) True by auto
    have "Suc (unat i) \<noteq> 2 ^ 32" using next_same assms by metis
    moreover have "unat i < 2 ^ 32" by (rule unat_lt32)
    ultimately have "Suc (unat i) < 2 ^ 32" by linarith
    then have "unat (i + 1) = Suc (unat i)" by (simp add: unat_word_ariths)
    with next_same have "strings_differ_from es as (i + 1) = Some (Inr (c_content es \<noteq> c_content as))"
      using \<open>unat i < 2 ^ 32\<close> \<open>unat (i + 1) = Suc (unat i)\<close> by (intro less.hyps) simp_all
    with True show ?thesis unfolding turn by auto
  qed
qed

lemma strings_differ_from_endless:
  assumes "same_first (2 ^ 32) es as"
  shows "strings_differ_from es as i = None"
proof (rule ccontr)
  assume "strings_differ_from es as i \<noteq> None"
  then obtain r where ret: "strings_differ_from es as i = Some r" by blast
  have "\<not> same_first (2 ^ 32) es as"
  proof (rule strings_differ_from.raw_induct [where P = "\<lambda>es as i r. \<not> same_first (2 ^ 32) es as", OF _ ret])
    fix f es as and i :: "32 word" and r
    assume IH: "\<And>es as i r. f es as i = Some r \<Longrightarrow> \<not> same_first (2 ^ 32) es as"
      and eq: "(case rbind (char_at es (unat i)) (\<lambda>e. rbind (char_at as (unat i)) (\<lambda>a. Inr (e, a))) of
          Inl f \<Rightarrow> Some (Inl f)
        | Inr (e, a) \<Rightarrow> if e = CHR 0x00 \<and> a = CHR 0x00 then Some (Inr False)
            else if e \<noteq> a then Some (Inr True) else f es as (i + 1)) = Some r"
    show "\<not> same_first (2 ^ 32) es as"
    proof
      assume same: "same_first (2 ^ 32) es as"
      have "unat i < 2 ^ 32" by (rule unat_lt32)
      note at = same_first_nth [OF same this]
      from eq have "f es as (i + 1) = Some r" by (simp only: at) (simp add: at(3))
      from IH [OF this] same show False by contradiction
    qed
  qed
  with assms show False by simp
qed

lemma strings_differ_cases:
  "strings_differ es as =
     (if same_first (2 ^ 32) es as then Inl No_return else Inr (c_content es \<noteq> c_content as))"
proof -
  have "same_first (unat (0 :: 32 word)) es as" by (simp add: same_first_def)
  from strings_differ_from_ends [OF _ this] show ?thesis
    by (cases "same_first (2 ^ 32) es as") (simp_all only: strings_differ_def
        strings_differ_from_endless if_True if_False option.case simp_thms)
qed

lemma strings_differ_len_iff:
  "strings_differ_len n es as \<longleftrightarrow> take n (c_content es) \<noteq> take n (c_content as)"
proof (induction n arbitrary: es as)
  case (Suc n)
  then show ?case
    using first_char_content [of es] first_char_content [of as]
    by (cases "first_char es = CHR 0x00"; cases "first_char as = CHR 0x00") auto
qed simp

lemma failed_flag:
  "\<not> fail_or_ignore u \<Longrightarrow> CurrentTestFailed (Unity u) = 0" "CurrentTestFailed (Unity (set_failed u)) = 1"
  by (auto simp: fail_or_ignore_def set_failed_def)

lemma asserts_fail_set:
  "extends (set_failed u) v \<Longrightarrow> \<not> P \<Longrightarrow> asserts P u (UNITY_FAIL_AND_BAIL v)"
  by (cases u) (auto simp: asserts_def extends_def set_failed_def UNITY_FAIL_AND_BAIL_def)

text \<open>
  C27: \<^verbatim>\<open>UnityAssertEqualString\<close> never ends if both strings go on for at least 2^32 characters
  and agree on the first 2^32 of them, since its index has 32 bits and wraps. On all other arguments
  it accepts exactly if both pointers are null, or neither is and the strings up to their terminators
  are equal.
\<close>
theorem UnityAssertEqualString_asserts:
  assumes "\<not> fail_or_ignore u"
  shows "if \<exists>e a. expected = Some e \<and> actual = Some a \<and> same_first (2 ^ 32) e a
    then UnityAssertEqualString expected actual msg line u = Inl No_return
    else asserts_res (map_option c_content expected = map_option c_content actual) u
      (UnityAssertEqualString expected actual msg line u)"
proof (cases "\<exists>e a. expected = Some e \<and> actual = Some a \<and> same_first (2 ^ 32) e a")
  case True
  with assms show ?thesis by (auto simp: UnityAssertEqualString_def strings_differ_cases)
next
  case False
  have check: "string_check strings_differ expected actual u =
      Inr (if map_option c_content expected \<noteq> map_option c_content actual then set_failed u else u)"
    using False by (cases expected; cases actual) (auto simp: strings_differ_cases)
  with assms check show ?thesis
    unfolding if_not_P [OF False] UnityAssertEqualString_def
    by (auto simp: failed_flag asserts_res_def asserts_return Let_def intro!: asserts_fail_set)
qed

lemma replicate_same: "c \<noteq> CHR 0x00 \<Longrightarrow> same_first n (replicate n c) (replicate n c)"
  by (simp add: same_first_def c_content_def)

theorem UnityAssertEqualString_asserts_witness:
  "asserts_res False unity_fresh (UnityAssertEqualString (Some ''abc'') (Some ''abd'') None 1 unity_fresh) \<and>
   asserts_res False unity_fresh (UnityAssertEqualString None (Some []) None 1 unity_fresh) \<and>
   UnityAssertEqualString (Some (replicate (2 ^ 32) (CHR ''a''))) (Some (replicate (2 ^ 32) (CHR ''a'')))
     None 1 unity_fresh = Inl No_return"
proof (intro conjI)
  show "asserts_res False unity_fresh (UnityAssertEqualString (Some ''abc'') (Some ''abd'') None 1 unity_fresh)"
    "asserts_res False unity_fresh (UnityAssertEqualString None (Some []) None 1 unity_fresh)"
    using UnityAssertEqualString_asserts [OF unity_fresh_ok, of "Some ''abc''" "Some ''abd''" None 1]
      UnityAssertEqualString_asserts [OF unity_fresh_ok, of None "Some []" None 1]
    by (simp_all add: c_content_def same_first_def)
  have "\<exists>e a. Some (replicate (2 ^ 32) (CHR ''a'')) = Some e \<and> Some (replicate (2 ^ 32) (CHR ''a'')) = Some a \<and>
      same_first (2 ^ 32) e a"
    using replicate_same [of "CHR ''a''" "2 ^ 32"] by blast
  from if_P [OF this] show "UnityAssertEqualString (Some (replicate (2 ^ 32) (CHR ''a'')))
      (Some (replicate (2 ^ 32) (CHR ''a''))) None 1 unity_fresh = Inl No_return"
    using UnityAssertEqualString_asserts [OF unity_fresh_ok] by metis
qed

text \<open>
  \<^verbatim>\<open>UnityAssertEqualStringLen\<close> accepts exactly if both pointers are null, or neither is and the
  strings agree on their first characters, as many as asked for.
\<close>
theorem UnityAssertEqualStringLen_asserts:
  assumes "\<not> fail_or_ignore u"
  shows "asserts_res (map_option (take (unat n) \<circ> c_content) expected =
      map_option (take (unat n) \<circ> c_content) actual) u
    (UnityAssertEqualStringLen expected actual n msg line u)"
proof -
  let ?same = "map_option (take (unat n) \<circ> c_content) expected = map_option (take (unat n) \<circ> c_content) actual"
  have "string_check (\<lambda>e a. Inr (strings_differ_len (unat n) e a)) expected actual u =
      Inr (if \<not> ?same then set_failed u else u)"
    by (cases expected; cases actual) (auto simp: strings_differ_len_iff)
  then show ?thesis
    using assms unfolding UnityAssertEqualStringLen_def
    by (auto simp: failed_flag asserts_res_def asserts_return Let_def intro!: asserts_fail_set)
qed

theorem UnityAssertEqualStringLen_asserts_witness:
  "asserts_res True unity_fresh (UnityAssertEqualStringLen (Some ''abc'') (Some ''abd'') 2 None 1 unity_fresh)"
  using UnityAssertEqualStringLen_asserts [OF unity_fresh_ok, of 2 "Some ''abc''" "Some ''abd''" None 1]
  by (simp add: c_content_def)

subsection \<open>Memory and temporaries\<close>

lemma memory_bytes_loop_asserts:
  assumes "\<And>i. i < n \<Longrightarrow> bytes mem (pe + of_nat i) = Some (es i)"
    and "\<And>i. i < n \<Longrightarrow> bytes mem (pa + of_nat i) = Some (as i)"
  shows "asserts_res (\<forall>i<n. es i = as i) u
    (memory_bytes_loop mem len num_elements elements msg line n pe pa u)"
  using assms
proof (induction n arbitrary: pe pa es as)
  case 0
  then show ?case by (simp add: asserts_res_return)
next
  case (Suc n)
  have e0: "bytes mem pe = Some (es 0)" and a0: "bytes mem pa = Some (as 0)"
    using Suc.prems(1,2) [of 0] by simp_all
  have all: "(\<forall>i<Suc n. es i = as i) \<longleftrightarrow> es 0 = as 0 \<and> (\<forall>i<n. es (Suc i) = as (Suc i))"
    by (simp add: All_less_Suc2)
  show ?case
  proof (cases "es 0 = as 0")
    case False
    with e0 a0 all show ?thesis
      by (auto simp: Let_def intro!: asserts_res_fail)
  next
    case True
    have "asserts_res (\<forall>i<n. es (Suc i) = as (Suc i)) u
        (memory_bytes_loop mem len num_elements elements msg line n (pe + 1) (pa + 1) u)"
      using Suc.prems(1,2) [of "Suc _"] by (intro Suc.IH) (simp_all add: add.assoc)
    with e0 a0 True all show ?thesis by simp
  qed
qed

definition expected_block :: "UNITY_FLAGS_T \<Rightarrow> addr \<Rightarrow> UNITY_UINT32 \<Rightarrow> nat \<Rightarrow> addr" where
  "expected_block flags p len k = (if flags = UNITY_ARRAY_TO_VAL then p else p + of_nat k * ucast len)"

lemma memory_loop_asserts:
  assumes "\<And>k i. k < n \<Longrightarrow> i < unat len \<Longrightarrow>
      bytes mem (expected_block flags pe len k + of_nat i) = Some (es k i)"
    and "\<And>k i. k < n \<Longrightarrow> i < unat len \<Longrightarrow> bytes mem (pa + of_nat k * ucast len + of_nat i) = Some (as k i)"
    and "flags = UNITY_ARRAY_TO_VAL \<Longrightarrow> pe = expected"
  shows "asserts_res (\<forall>k<n. \<forall>i<unat len. es k i = as k i) u
    (memory_loop mem len num_elements msg line flags expected n pe pa u)"
  using assms
proof (induction n arbitrary: pe pa es as)
  case 0
  then show ?case by (simp add: asserts_res_return)
next
  case (Suc n)
  let ?pe = "if flags = UNITY_ARRAY_TO_VAL then expected else pe + ucast len"
  have all: "(\<forall>k<Suc n. \<forall>i<unat len. es k i = as k i) \<longleftrightarrow>
      (\<forall>i<unat len. es 0 i = as 0 i) \<and> (\<forall>k<n. \<forall>i<unat len. es (Suc k) i = as (Suc k) i)"
    by (rule All_less_Suc2)
  have pe0: "expected_block flags pe len 0 = pe" by (simp add: expected_block_def)
  have "asserts_res (\<forall>i<unat len. es 0 i = as 0 i) u
      (memory_bytes_loop mem len num_elements (of_nat n) msg line (unat len) pe pa u)"
    using Suc.prems(1) [of 0, unfolded pe0] Suc.prems(2) [of 0]
    by (intro memory_bytes_loop_asserts) simp_all
  moreover have "asserts_res (\<forall>k<n. \<forall>i<unat len. es (Suc k) i = as (Suc k) i) u
      (memory_loop mem len num_elements msg line flags expected n ?pe (pa + ucast len) u)"
    using Suc.prems(1) [of "Suc _"] Suc.prems(2) [of "Suc _"] Suc.prems(3)
    by (intro Suc.IH) (auto simp: expected_block_def algebra_simps split: if_splits)
  ultimately show ?case
    unfolding all memory_loop.simps by (rule asserts_res_tbind)
qed

text \<open>
  \<^verbatim>\<open>UnityAssertEqualMemory\<close> on readable blocks accepts exactly if every byte of every element
  is the same; with \<^verbatim>\<open>UNITY_ARRAY_TO_VAL\<close> every element is compared with the one expected block.
\<close>
theorem UnityAssertEqualMemory_asserts:
  assumes "\<not> fail_or_ignore u" and "num_elements \<noteq> 0" and "len \<noteq> 0"
    and "expected \<noteq> actual" and "expected \<noteq> NULL" and "actual \<noteq> NULL"
    and "\<forall>k < unat num_elements. \<forall>i < unat len.
      bytes mem (expected_block flags expected len k + of_nat i) = Some (es k i)"
    and "\<forall>k < unat num_elements. \<forall>i < unat len.
      bytes mem (actual + of_nat k * ucast len + of_nat i) = Some (as k i)"
  shows "asserts_res (\<forall>k < unat num_elements. \<forall>i < unat len. es k i = as k i) u
    (UnityAssertEqualMemory mem expected actual len num_elements msg line flags u)"
  unfolding UnityAssertEqualMemory_def
  using assms by (simp add: prologue_loop memory_loop_asserts)

theorem UnityAssertEqualMemory_asserts_witness:
  "asserts_res False unity_fresh (UnityAssertEqualMemory two_arrays 16 32 2 1 None 1
     UNITY_ARRAY_TO_ARRAY unity_fresh)"
  using UnityAssertEqualMemory_asserts [OF unity_fresh_ok, of 1 2 16 32 two_arrays UNITY_ARRAY_TO_ARRAY
      "\<lambda>_. (!) [1, 2]" "\<lambda>_. (!) [1, 3]" None 1]
  by (simp add: not_all_positive all_below_two two_arrays_def expected_block_def)

lemma store_bytes_other:
  "(\<And>i. i < n \<Longrightarrow> q \<noteq> p + of_nat i) \<Longrightarrow> bytes (store_bytes mem p n w) q = bytes mem q"
proof (induction n arbitrary: mem p w)
  case (Suc n)
  have "q \<noteq> p" using Suc.prems [of 0] by simp
  moreover have "q \<noteq> p + 1 + of_nat i" if "i < n" for i
    using Suc.prems [of "Suc i"] that by (simp add: add.assoc)
  ultimately show ?case using Suc.IH by simp
qed simp

lemma take_bit_bytes:
  "ucast (ucast w :: 8 word) OR push_bit 8 (take_bit (8 * n) (drop_bit 8 w)) = take_bit (8 * Suc n) w"
  for w :: "64 word"
  by (rule bit_word_eqI) (auto simp: bit_simps)

lemma load_store:
  "n \<le> 8 \<Longrightarrow> load_unsigned (store_bytes mem p n w) p n = Inr (take_bit (8 * n) w)"
proof (induction n arbitrary: mem p w)
  case (Suc n)
  have "p \<noteq> p + 1 + of_nat i" if "i < n" for i
  proof
    assume "p = p + 1 + of_nat i"
    then have "of_nat (Suc i) = (0 :: 64 word)" by (simp add: add.assoc)
    then have "2 ^ 64 dvd Suc i" by (simp only: word_of_nat_eq_0_iff) simp
    then show False using that Suc.prems by (auto dest: dvd_imp_le)
  qed
  then have "bytes (store_bytes mem p (Suc n) w) p = Some (ucast w)"
    by (simp add: store_bytes_other)
  then show ?case
    using Suc.IH [of "mem\<lparr>bytes := (bytes mem)(p \<mapsto> ucast w)\<rparr>" "p + 1" "drop_bit 8 w"] Suc.prems
    by (simp add: take_bit_bytes)
qed simp

text \<open>
  Round trip through \<^verbatim>\<open>UnityNumToPtr\<close>: the element read back through the pointer, with the
  width of the style it was stored for, is the number truncated to that width and sign-extended.
\<close>
theorem UnityNumToPtr_roundtrip:
  assumes "sz \<in> {1, 2, 4, 8}" and "UnityNumToPtr quick num sz mem = (p, mem')"
  shows "p = quick \<and> load_signed mem' p (unat sz) = Inr (signed_take_bit (8 * unat sz - 1) num)"
proof -
  have "load_signed (store_bytes mem quick n num) quick n = Inr (signed_take_bit (8 * n - 1) num)"
    if "0 < n" "n \<le> 8" for n
  proof -
    have "signed_take_bit (8 * n - 1) (take_bit (8 * n) num) = signed_take_bit (8 * n - 1) num"
      by (rule bit_eqI) (use that in \<open>auto simp: bit_simps min_def\<close>)
    with that show ?thesis by (simp add: load_signed_def load_store)
  qed
  from this [of 1] this [of 2] this [of 4] this [of 8] assms show ?thesis
    by (auto simp: UnityNumToPtr_def simp del: store_bytes.simps split: if_splits)
qed

theorem UnityNumToPtr_roundtrip_witness:
  "\<exists>mem'. UnityNumToPtr 64 300 1 \<lparr>bytes = Map.empty, cells = Map.empty, strs = Map.empty\<rparr> = (64, mem') \<and>
    load_signed mem' 64 1 = Inr 44"
  using UnityNumToPtr_roundtrip [of 1 64 300 "\<lparr>bytes = Map.empty, cells = Map.empty, strs = Map.empty\<rparr>"]
  by (simp add: UnityNumToPtr_def)

end
