(* ===== verification/Unity_Elements.thy ===== *)
theory Unity_Elements
  imports Unity_Arrays
begin

text \<open>
  What \<^verbatim>\<open>UnityAssertEqualIntArray\<close> (\<^verbatim>\<open>unity/src/unity.c\<close>) promises, in terms of the bytes of
  the two arrays: which bytes it compares, which element it reports, and the numbers it prints. The
  value of an element is defined from its bytes alone, without the way the function reads it.
\<close>

section \<open>Little-endian numbers\<close>

definition le_nat :: "nat \<Rightarrow> (nat \<Rightarrow> 8 word) \<Rightarrow> nat" where
  "le_nat w b = (\<Sum>j<w. unat (b j) * 256 ^ j)"

definition le_int :: "nat \<Rightarrow> (nat \<Rightarrow> 8 word) \<Rightarrow> int" where
  "le_int w b = (if le_nat w b < 2 ^ (8 * w - 1) then int (le_nat w b) else int (le_nat w b) - 2 ^ (8 * w))"

lemma le_nat_Suc: "le_nat (Suc w) b = le_nat w b + unat (b w) * 256 ^ w"
  by (simp add: le_nat_def)

lemma le_nat_first: "le_nat (Suc w) b = unat (b 0) + 256 * le_nat w (\<lambda>j. b (Suc j))"
  unfolding le_nat_def sum.lessThan_Suc_shift by (simp add: sum_distrib_left algebra_simps)

lemma unat_byte: "unat (c :: 8 word) < 256"
  using unsigned_less [of c, where 'a = nat] by simp

lemma le_nat_less: "le_nat w b < 256 ^ w"
proof (induction w)
  case (Suc w)
  have "unat (b w) * 256 ^ w \<le> 255 * 256 ^ w"
    using unat_byte [of "b w"] by (intro mult_le_mono1) linarith
  with Suc show ?case unfolding le_nat_Suc power_Suc by linarith
qed (simp add: le_nat_def)

lemma le_nat_eq_iff: "le_nat w a = le_nat w b \<longleftrightarrow> (\<forall>j<w. a j = b j)"
proof (induction w)
  case (Suc w)
  have digits: "le_nat (Suc w) c mod 256 ^ w = le_nat w c" "le_nat (Suc w) c div 256 ^ w = unat (c w)" for c
    using le_nat_less [of w c] by (simp_all add: le_nat_Suc)
  have "le_nat (Suc w) a = le_nat (Suc w) b \<longleftrightarrow> le_nat w a = le_nat w b \<and> unat (a w) = unat (b w)"
    using digits [of a] digits [of b] by (metis le_nat_Suc)
  with Suc show ?case by (auto simp: less_Suc_eq word_unat_eq_iff)
qed (simp add: le_nat_def)

lemma le_int_signed: "0 < w \<Longrightarrow> le_int w b = signed_take_bit (8 * w - 1) (int (le_nat w b))"
proof -
  assume w: "0 < w"
  let ?n = "8 * w - 1" and ?N = "int (le_nat w b)"
  have two: "(2 :: int) ^ (8 * w) = 2 * 2 ^ ?n" using w by (simp flip: power_Suc)
  have "le_nat w b < 2 ^ (8 * w)" using le_nat_less [of w b] by (simp add: power_mult)
  then have N: "?N < 2 ^ (8 * w)" by (metis of_nat_less_iff of_nat_numeral of_nat_power)
  have iff: "le_nat w b < 2 ^ ?n \<longleftrightarrow> ?N < 2 ^ ?n" by (metis of_nat_less_iff of_nat_numeral of_nat_power)
  show "le_int w b = signed_take_bit ?n ?N"
  proof (cases "?N < 2 ^ ?n")
    case True
    then have "signed_take_bit ?n ?N = ?N" by (intro signed_take_bit_int_eq_self) (simp_all add: order_trans [of _ 0])
    with True iff show ?thesis by (simp add: le_int_def)
  next
    case False
    have "signed_take_bit ?n ?N = signed_take_bit ?n (?N - 2 ^ (8 * w))"
      using w by (simp add: signed_take_bit_eq_iff_take_bit_eq take_bit_eq_mod)
    also have "\<dots> = ?N - 2 ^ (8 * w)"
      using False N two by (intro signed_take_bit_int_eq_self) linarith+
    finally show ?thesis using False iff by (simp add: le_int_def)
  qed
qed

section \<open>Elements\<close>

lemma load_bytes:
  "\<forall>j<w. bytes mem (p + of_nat j) = Some (b j) \<Longrightarrow> load_unsigned mem p w = Inr (of_nat (le_nat w b))"
proof (induction w arbitrary: p b)
  case (Suc w)
  let ?m = "of_nat (le_nat w (\<lambda>j. b (Suc j))) :: 64 word"
  have "bytes mem p = Some (b 0)" using Suc.prems by force
  moreover have "load_unsigned mem (p + 1) w = Inr ?m"
    using Suc.prems by (intro Suc.IH) (auto simp: add.assoc)
  moreover have "ucast (b 0) OR push_bit 8 ?m = ucast (b 0) + push_bit 8 ?m"
    by (intro disjunctive_add [symmetric]) (auto simp: bit_simps dest: bit_imp_le_length)
  moreover have "ucast (b 0) + push_bit 8 ?m = of_nat (le_nat (Suc w) b)"
    by (simp add: le_nat_first push_bit_eq_mult mult.commute)
  ultimately show ?case by simp
qed (simp add: le_nat_def)

text \<open>The width of an element, and its value, from the bits of the style.\<close>

definition element_width :: "UNITY_DISPLAY_STYLE_T \<Rightarrow> nat" where
  "element_width style = (if style AND 0xF \<in> {1, 2, 8} then unat (style AND 0xF) else 4)"

definition element_value :: "UNITY_DISPLAY_STYLE_T \<Rightarrow> (nat \<Rightarrow> 8 word) \<Rightarrow> int" where
  "element_value style b =
     (if style AND 0x60 \<noteq> 0 then int (le_nat (element_width style) b) else le_int (element_width style) b)"

lemma element_width_cases: "element_width style \<in> {1, 2, 4, 8}"
  by (auto simp: element_width_def)

lemma element_length_width: "element_length style = element_width style"
proof -
  have "unat v = 1 \<longleftrightarrow> v = 1" "unat v = 2 \<longleftrightarrow> v = 2" "unat v = 8 \<longleftrightarrow> v = 8" for v :: "32 word"
    by (simp_all add: word_unat_eq_iff)
  then show ?thesis by (simp add: element_length_def element_width_def style_length_def)
qed

lemma mask_value: "v AND (push_bit n 1 - 1) = take_bit n v" for v :: "64 word"
  by (simp add: push_bit_eq_mult take_bit_eq_mask mask_eq_exp_minus_1)

lemma le_nat_word:
  assumes "w \<le> 8"
  shows "unat (of_nat (le_nat w b) :: 64 word) = le_nat w b"
    and "take_bit (8 * w) (of_nat (le_nat w b)) = (of_nat (le_nat w b) :: 64 word)"
proof -
  have less: "le_nat w b < 2 ^ (8 * w)" using le_nat_less [of w b] by (simp add: power_mult)
  also have "(2 :: nat) ^ (8 * w) \<le> 2 ^ 64" using assms by (intro power_increasing) simp_all
  finally show unat: "unat (of_nat (le_nat w b) :: 64 word) = le_nat w b"
    by (simp add: unsigned_of_nat take_bit_nat_eq_self)
  show "take_bit (8 * w) (of_nat (le_nat w b)) = (of_nat (le_nat w b) :: 64 word)"
    using less by (simp only: word_unat_eq_iff unat unsigned_take_bit_eq take_bit_nat_eq_self)
qed

lemma signed_word:
  assumes "w \<in> {1, 2, 4, 8}"
  shows "signed_take_bit (8 * w - 1) (of_nat (le_nat w b)) = (of_int (le_int w b) :: 64 word)"
proof -
  have "(of_nat (le_nat w b) :: 64 word) = of_int (int (le_nat w b))" by simp
  then show ?thesis
    using assms le_int_signed [of w b]
    by (intro bit_word_eqI) (auto simp: bit_simps bit_word_of_int_iff simp del: of_int_of_nat_eq)
qed

lemma low_bytes:
  assumes "w \<in> {1, 2, 4, 8}"
  shows "take_bit (8 * w) (of_int (le_int w b)) = (of_nat (le_nat w b) :: 64 word)"
proof -
  have w: "8 * w \<le> Suc (8 * w - 1)" "w \<le> 8" using assms by auto
  show ?thesis
    unfolding signed_word [OF assms, symmetric] take_bit_signed_take_bit [OF w(1)]
    by (rule le_nat_word(2) [OF w(2)])
qed

lemma eight_bytes: "(of_int (le_int 8 b) :: 64 word) = of_nat (le_nat 8 b)"
  using low_bytes [of 8 b] by (simp add: take_bit_word_eq_self)

lemma equal_element_value:
  assumes "\<forall>j<element_width style. bytes mem (p + of_nat j) = Some (b j)"
  shows "equal_element mem p style = Inr (of_int (element_value style b))"
proof -
  let ?w = "element_width style"
  have loaded: "load_signed mem p ?w = Inr (of_int (le_int ?w b))"
    by (simp only: load_signed_def load_bytes [OF assms] rbind.simps signed_word [OF element_width_cases])
  have has: "style_has style (UNITY_DISPLAY_RANGE_UINT OR UNITY_DISPLAY_RANGE_HEX) \<longleftrightarrow> style AND 0x60 \<noteq> 0"
    by (simp add: style_has_def style_defs)
  show ?thesis
    unfolding equal_element_def element_length_width loaded has mask_value element_value_def rbind.simps
      low_bytes [OF element_width_cases]
    using eight_bytes [of b] by (cases "?w = 8") simp_all
qed

text \<open>Elements are equal as words exactly if their bytes are.\<close>

lemma element_value_eq_iff:
  "(of_int (element_value style a) :: 64 word) = of_int (element_value style b) \<longleftrightarrow>
   (\<forall>j<element_width style. a j = b j)"
proof -
  let ?w = "element_width style"
  have le: "?w \<le> 8" using element_width_cases [of style] by auto
  have cut: "take_bit (8 * ?w) (of_int (element_value style c)) = (of_nat (le_nat ?w c) :: 64 word)" for c
    using le_nat_word(2) [OF le, of c] low_bytes [OF element_width_cases, of style c]
    by (simp add: element_value_def)
  have "le_nat ?w a = le_nat ?w b" if "(of_int (element_value style a) :: 64 word) = of_int (element_value style b)"
    using cut [of a] cut [of b] le_nat_word(1) [OF le] that by metis
  moreover have "element_value style a = element_value style b" if "le_nat ?w a = le_nat ?w b"
    using that by (simp add: element_value_def le_int_def)
  ultimately show ?thesis using le_nat_eq_iff [of ?w a b] by metis
qed

section \<open>What is reported\<close>

text \<open>
  A printed element reads back as its value: signed for a style of signed numbers, unsigned for the
  others, in hexadecimal with two digits for each byte. (Characters are printed as such.)
\<close>

definition shows_element :: "UNITY_DISPLAY_STYLE_T \<Rightarrow> (nat \<Rightarrow> 8 word) \<Rightarrow> string \<Rightarrow> bool" where
  "shows_element style b x \<longleftrightarrow>
     (style AND 0x70 = 0x10 \<and> style \<noteq> UNITY_DISPLAY_STYLE_CHAR \<longrightarrow>
        read_decimal x = le_int (element_width style) b) \<and>
     (style AND 0x70 = 0x20 \<longrightarrow> read_decimal x = int (le_nat (element_width style) b)) \<and>
     (style AND 0x70 = 0x40 \<and> style AND 0xF \<in> {1, 2, 4, 8} \<longrightarrow>
        (\<exists>h. x = ''0x'' @ h \<and> length h = 2 * element_width style \<and>
           read_from 16 0 h = le_nat (element_width style) b))"

lemma range_bits:
  fixes style :: "32 word"
  assumes "style AND 0x70 = r"
  shows "style AND 0x10 = r AND 0x10" and "style AND 0x20 = r AND 0x20" and "style AND 0x60 = r AND 0x60"
  unfolding assms [symmetric] by (simp_all add: and.assoc)

lemma sint_le_int:
  assumes "w \<in> {1, 2, 4, 8}"
  shows "sint (of_int (le_int w b) :: 64 word) = le_int w b"
proof -
  have w: "0 < w" "min 63 (8 * w - 1) = 8 * w - 1" using assms by auto
  have "sint (of_int (le_int w b) :: 64 word) = signed_take_bit 63 (le_int w b)"
    by (simp add: signed_of_int)
  also have "\<dots> = le_int w b"
    by (simp only: le_int_signed [OF w(1)] signed_take_bit_signed_take_bit w(2))
  finally show ?thesis .
qed

lemma report_signed:
  assumes "style AND 0x70 = 0x10" and "style \<noteq> UNITY_DISPLAY_STYLE_CHAR"
  shows "read_decimal (UnityPrintNumberByStyle (unsigned_report style (of_int (element_value style b))) style) =
    le_int (element_width style) b"
proof -
  have "element_value style b = le_int (element_width style) b"
    using range_bits [OF assms(1)] by (simp add: element_value_def)
  then show ?thesis
    using assms(2) range_bits [OF assms(1)] sint_le_int [OF element_width_cases, of style b]
    by (simp add: UnityPrintNumberByStyle_def unsigned_report_def style_has_def style_is_def
        signed_decimal UNITY_DISPLAY_RANGE_INT_def UNITY_DISPLAY_RANGE_UINT_def)
qed

lemma report_unsigned:
  assumes "style AND 0x70 = 0x20 \<or> style AND 0x70 = 0x40"
  shows "unsigned_report style (of_int (element_value style b)) = of_nat (le_nat (element_width style) b)"
proof -
  have "style AND 0x60 \<noteq> 0" using assms range_bits(3) [of style "0x20"] range_bits(3) [of style "0x40"] by auto
  then have "element_value style b = int (le_nat (element_width style) b)"
    by (simp add: element_value_def)
  moreover have "element_width style \<le> 8" using element_width_cases [of style] by auto
  ultimately show ?thesis
    unfolding unsigned_report_def element_length_width mask_value by (simp add: le_nat_word(2))
qed

lemma report_shows:
  "shows_element style b
     (UnityPrintNumberByStyle (unsigned_report style (of_int (element_value style b))) style)"
  unfolding shows_element_def
proof (intro conjI impI)
  let ?w = "element_width style"
  have le: "?w \<le> 8" using element_width_cases [of style] by auto
  note N = le_nat_word(1) [OF le, of b]
  show "read_decimal (UnityPrintNumberByStyle (unsigned_report style (of_int (element_value style b))) style) =
      le_int ?w b" if "style AND 0x70 = 0x10 \<and> style \<noteq> UNITY_DISPLAY_STYLE_CHAR"
    using that by (intro report_signed) simp_all
  show "read_decimal (UnityPrintNumberByStyle (unsigned_report style (of_int (element_value style b))) style) =
      int (le_nat ?w b)" if "style AND 0x70 = 0x20"
    using that N range_bits [OF that]
    by (simp add: report_unsigned UnityPrintNumberByStyle_def style_is_def
        unsigned_decimal UNITY_DISPLAY_RANGE_INT_def UNITY_DISPLAY_RANGE_UINT_def)
  show "\<exists>h. UnityPrintNumberByStyle (unsigned_report style (of_int (element_value style b))) style = ''0x'' @ h \<and>
      length h = 2 * ?w \<and> read_from 16 0 h = le_nat ?w b"
    if "style AND 0x70 = 0x40 \<and> style AND 0xF \<in> {1, 2, 4, 8}"
  proof -
    let ?k = "ucast ((style AND 0xF) * 2) :: 8 word"
    have bits: "style AND 0x70 = 0x40" using that by simp
    have k: "unat ?k = 2 * ?w" using that by (auto simp: element_width_def)
    have "UnityPrintNumberByStyle (unsigned_report style (of_int (element_value style b))) style =
        ''0x'' @ UnityPrintNumberHex (of_nat (le_nat ?w b)) ?k"
      using bits range_bits [OF bits]
      by (simp add: report_unsigned UnityPrintNumberByStyle_def style_is_def UNITY_DISPLAY_RANGE_INT_def UNITY_DISPLAY_RANGE_UINT_def)
    moreover have "le_nat ?w b < 16 ^ (2 * ?w)" using le_nat_less [of ?w b] by (simp add: power_mult)
    ultimately show ?thesis
      using UnityPrintNumberHex_roundtrip [of ?k "of_nat (le_nat ?w b)"] k N le by simp
  qed
qed

text \<open>The loop stops at the first difference, with the index of that element.\<close>

definition int_array_report ::
  "nat \<Rightarrow> string \<Rightarrow> string \<Rightarrow> c_string \<Rightarrow> UNITY_LINE_TYPE \<Rightarrow> 'a unity_scheme \<Rightarrow> 'a unity_scheme" where
  "int_array_report k x y msg line u = UnityAddMsgIfSpecified msg
     (emit ('' Element '' @ UnityPrintNumberUnsigned (of_nat k) @ '' Expected '' @ x @ '' Was '' @ y)
       (UnityTestResultsFailBegin line u))"

lemma report_words:
  "UnityPrint UnityStrElement = '' Element ''" "UnityPrint UnityStrExpected = '' Expected ''"
  "UnityPrint UnityStrWas = '' Was ''"
  by code_simp+

lemma int_array_loop_first:
  assumes "\<And>i. i < n \<Longrightarrow> equal_element mem (step_ptr flags expected (i * element_length style)) style = Inr (es i)"
    and "\<And>i. i < n \<Longrightarrow> equal_element mem (actual + of_nat (i * element_length style)) style = Inr (as i)"
    and "k < n" and "\<And>i. i < k \<Longrightarrow> es i = as i" and "es k \<noteq> as k"
    and "num_elements = of_nat (m + n)" and "m + n < 2 ^ 32"
  shows "int_array_loop mem num_elements msg line style flags n expected actual u =
    Inr (UNITY_FAIL_AND_BAIL (int_array_report (m + k)
      (UnityPrintNumberByStyle (unsigned_report style (es k)) style)
      (UnityPrintNumberByStyle (unsigned_report style (as k)) style) msg line u))"
  using assms
proof (induction k arbitrary: n expected actual es as m)
  case 0
  then obtain n' where n: "n = Suc n'" by (cases n) auto
  have e0: "equal_element mem expected style = Inr (es 0)"
    using 0(1) [of 0] n by (simp add: step_ptr_def split: if_splits)
  have a0: "equal_element mem actual style = Inr (as 0)" using 0(2) [of 0] n by simp
  have "num_elements - of_nat n' - 1 = of_nat m" using 0(6) n by simp
  moreover have "ucast (of_nat m :: 32 word) = (of_nat m :: 64 word)"
    using 0(7) by (simp add: unsigned_ucast_eq unsigned_of_nat take_bit_nat_eq_self)
  ultimately show ?case
    using e0 a0 0(5) n by (simp add: Let_def int_array_report_def report_words)
next
  case (Suc k)
  then obtain n' where n: "n = Suc n'" by (cases n) auto
  let ?l = "element_length style"
  have e0: "equal_element mem expected style = Inr (es 0)"
    using Suc.prems(1) [of 0] n by (simp add: step_ptr_def split: if_splits)
  have a0: "equal_element mem actual style = Inr (as 0)" using Suc.prems(2) [of 0] n by simp
  have same: "es 0 = as 0" using Suc.prems(4) [of 0] by simp
  have "int_array_loop mem num_elements msg line style flags n' (step_ptr flags expected ?l)
      (actual + of_nat ?l) u =
    Inr (UNITY_FAIL_AND_BAIL (int_array_report (Suc m + k)
      (UnityPrintNumberByStyle (unsigned_report style (es (Suc k))) style)
      (UnityPrintNumberByStyle (unsigned_report style (as (Suc k))) style) msg line u))"
  proof (rule Suc.IH)
    fix i assume "i < n'"
    then show "equal_element mem (step_ptr flags (step_ptr flags expected ?l) (i * ?l)) style = Inr (es (Suc i))"
      using Suc.prems(1) [of "Suc i"] n by (simp add: step_ptr_def add.assoc split: if_splits)
    show "equal_element mem (actual + of_nat ?l + of_nat (i * ?l)) style = Inr (as (Suc i))"
      using Suc.prems(2) [of "Suc i"] \<open>i < n'\<close> n by (simp add: add.assoc)
  qed (use Suc.prems n in simp_all)
  with e0 a0 same n show ?case by simp
qed

text \<open>
  C26: \<^verbatim>\<open>UnityAssertEqualIntArray\<close> on two readable arrays, whose elements have 1, 2, 4 or 8 bytes
  by their style (4 if it names no width): it returns without a trace exactly if all bytes of all
  elements agree; in \<^verbatim>\<open>UNITY_ARRAY_TO_VAL\<close> mode every element of the actual array is compared with the
  one expected value. Otherwise it fails with the index of the first element that differs; in the
  signed, unsigned and hexadecimal styles (not that of characters) it prints the two elements as the
  numbers their bytes stand for, with a sign in the first, in two digits a byte in the last.
\<close>
theorem UnityAssertEqualIntArray_asserts:
  assumes "\<not> fail_or_ignore u" and "num_elements \<noteq> 0"
    and "expected \<noteq> actual" and "expected \<noteq> NULL" and "actual \<noteq> NULL"
    and "\<forall>i < unat num_elements. \<forall>j < element_width style. bytes mem
      ((if flags = UNITY_ARRAY_TO_ARRAY then expected + of_nat (i * element_width style) else expected) +
        of_nat j) = Some (eb i j)"
    and "\<forall>i < unat num_elements. \<forall>j < element_width style. bytes mem
      (actual + of_nat (i * element_width style) + of_nat j) = Some (ab i j)"
  shows "if \<forall>i < unat num_elements. \<forall>j < element_width style. eb i j = ab i j
    then UnityAssertEqualIntArray mem expected actual num_elements msg line style flags u = Inr (Returns u)
    else \<exists>k x y. k < unat num_elements \<and> (\<forall>i<k. \<forall>j < element_width style. eb i j = ab i j) \<and>
      (\<exists>j < element_width style. eb k j \<noteq> ab k j) \<and>
      shows_element style (eb k) x \<and> shows_element style (ab k) y \<and>
      UnityAssertEqualIntArray mem expected actual num_elements msg line style flags u =
        Inr (UNITY_FAIL_AND_BAIL (int_array_report k x y msg line u))"
proof -
  let ?w = "element_width style" and ?n = "unat num_elements"
  let ?same = "\<lambda>i. \<forall>j < ?w. eb i j = ab i j"
  have elements: "equal_element mem (step_ptr flags expected (i * element_length style)) style =
      Inr (of_int (element_value style (eb i)))"
    "equal_element mem (actual + of_nat (i * element_length style)) style =
      Inr (of_int (element_value style (ab i)))" if "i < ?n" for i
    using assms(6,7) that
    by (intro equal_element_value, simp add: element_length_width step_ptr_def split: if_splits)+
  have start: "UnityAssertEqualIntArray mem expected actual num_elements msg line style flags u =
      int_array_loop mem num_elements msg line style flags ?n expected actual u"
    using assms(1-5) by (simp add: UnityAssertEqualIntArray_def prologue_loop)
  show ?thesis
  proof (cases "\<forall>i < ?n. ?same i")
    case True
    then have "\<forall>i < ?n. (of_int (element_value style (eb i)) :: 64 word) = of_int (element_value style (ab i))"
      by (simp add: element_value_eq_iff)
    with int_array_loop_asserts [OF elements, where u = u] True show ?thesis
      by (simp add: start asserts_res_def asserts_def)
  next
    case False
    then obtain k where k: "k < ?n" "\<not> ?same k" "\<forall>i<k. ?same i"
      using exists_least_iff [of "\<lambda>i. i < ?n \<and> \<not> ?same i"] by (meson order_less_trans)
    have "int_array_loop mem num_elements msg line style flags ?n expected actual u =
      Inr (UNITY_FAIL_AND_BAIL (int_array_report (0 + k)
        (UnityPrintNumberByStyle (unsigned_report style (of_int (element_value style (eb k)))) style)
        (UnityPrintNumberByStyle (unsigned_report style (of_int (element_value style (ab k)))) style) msg line u))"
      by (rule int_array_loop_first [OF elements k(1)])
         (use k unat_lt32 in \<open>simp_all add: element_value_eq_iff\<close>)
    then show ?thesis
      unfolding if_not_P [OF False] start using k report_shows by (metis add_0)
  qed
qed

lemma le_nat_upt: "le_nat w b = sum_list (map (\<lambda>j. unat (b j) * 256 ^ j) [0..<w])"
  by (induction w) (simp_all add: le_nat_def)

definition two_elements :: "(nat \<Rightarrow> 8 word) \<Rightarrow> (nat \<Rightarrow> 8 word) \<Rightarrow> c_mem" where
  "two_elements e a = \<lparr>bytes = (\<lambda>p. if 16 \<le> p \<and> p < 24 then Some (e (unat p - 16))
     else if 32 \<le> p \<and> p < 40 then Some (a (unat p - 32)) else None), cells = Map.empty, strs = Map.empty\<rparr>"

lemma two_elements_bytes:
  "j < 8 \<Longrightarrow> bytes (two_elements e a) (16 + of_nat j) = Some (e j)"
  "j < 8 \<Longrightarrow> bytes (two_elements e a) (32 + of_nat j) = Some (a j)"
proof -
  have "j < 8 \<Longrightarrow> unat (16 + of_nat j :: 64 word) = 16 + j \<and> unat (32 + of_nat j :: 64 word) = 32 + j"
    by (simp add: unat_word_ariths unsigned_of_nat take_bit_nat_eq_self)
  then show "j < 8 \<Longrightarrow> bytes (two_elements e a) (16 + of_nat j) = Some (e j)"
    "j < 8 \<Longrightarrow> bytes (two_elements e a) (32 + of_nat j) = Some (a j)"
    by (simp_all add: two_elements_def word_le_nat_alt word_less_nat_alt)
qed

text \<open>
  The \<^verbatim>\<open>uint32_t\<close> values 4294967295 and 4294967294 are told apart and printed so; so are two
  \<^verbatim>\<open>int64_t\<close> values that differ in their last byte only, 0 and the minimum.
\<close>

theorem UnityAssertEqualIntArray_asserts_witness:
  "(\<exists>x y. read_decimal x = 4294967295 \<and> read_decimal y = 4294967294 \<and>
     UnityAssertEqualIntArray (two_elements (\<lambda>_. 0xFF) (\<lambda>j. if j = 0 then 0xFE else 0xFF)) 16 32 1 None 1
       UNITY_DISPLAY_STYLE_UINT32 UNITY_ARRAY_TO_ARRAY unity_fresh =
       Inr (UNITY_FAIL_AND_BAIL (int_array_report 0 x y None 1 unity_fresh))) \<and>
   (\<exists>x y. read_decimal x = 0 \<and> read_decimal y = - 9223372036854775808 \<and>
     UnityAssertEqualIntArray (two_elements (\<lambda>_. 0) (\<lambda>j. if j = 7 then 0x80 else 0)) 16 32 1 None 1
       UNITY_DISPLAY_STYLE_INT64 UNITY_ARRAY_TO_ARRAY unity_fresh =
       Inr (UNITY_FAIL_AND_BAIL (int_array_report 0 x y None 1 unity_fresh)))"
proof
  have fails: "\<exists>x y. shows_element style e x \<and> shows_element style a y \<and>
      UnityAssertEqualIntArray (two_elements e a) 16 32 1 None 1 style UNITY_ARRAY_TO_ARRAY unity_fresh =
        Inr (UNITY_FAIL_AND_BAIL (int_array_report 0 x y None 1 unity_fresh))"
    if "j < element_width style" "e j \<noteq> a j" for style e a j
  proof -
    have width: "j < 8" if "j < element_width style" for j
      using that element_width_cases [of style] by auto
    have differ: "\<not> (\<forall>i < unat (1 :: 32 word). \<forall>j < element_width style. e j = a j)"
      using that by auto
    have "\<forall>i < unat (1 :: 32 word). \<forall>j < element_width style. bytes (two_elements e a)
        ((if UNITY_ARRAY_TO_ARRAY = UNITY_ARRAY_TO_ARRAY then 16 + of_nat (i * element_width style) else 16) +
          of_nat j) = Some (e j)"
      "\<forall>i < unat (1 :: 32 word). \<forall>j < element_width style. bytes (two_elements e a)
        (32 + of_nat (i * element_width style) + of_nat j) = Some (a j)"
      using width by (simp_all add: two_elements_bytes)
    from UnityAssertEqualIntArray_asserts [OF unity_fresh_ok _ _ _ _ this, of None 1, unfolded if_not_P [OF differ]]
    show ?thesis by auto
  qed
  have width: "element_width UNITY_DISPLAY_STYLE_UINT32 = 4" "element_width UNITY_DISPLAY_STYLE_INT64 = 8"
    by (simp_all add: element_width_def style_defs)
  have numbers: "le_nat 4 (\<lambda>_. 0xFF) = 4294967295" "le_nat 4 (\<lambda>j. if j = 0 then 0xFE else 0xFF) = 4294967294"
    "le_int 8 (\<lambda>_. 0) = 0" "le_int 8 (\<lambda>j. if j = 7 then 0x80 else 0) = - 9223372036854775808"
    by (simp_all add: le_int_def le_nat_upt upt_conv_Cons)
  have bits: "UNITY_DISPLAY_STYLE_UINT32 AND 0x70 = 0x20" "UNITY_DISPLAY_STYLE_INT64 AND 0x70 = 0x10"
    "UNITY_DISPLAY_STYLE_INT64 \<noteq> UNITY_DISPLAY_STYLE_CHAR" by (simp_all add: style_defs)
  have reads: "shows_element UNITY_DISPLAY_STYLE_UINT32 b x \<Longrightarrow> read_decimal x = int (le_nat 4 b)"
    "shows_element UNITY_DISPLAY_STYLE_INT64 b x \<Longrightarrow> read_decimal x = le_int 8 b" for b x
    using bits by (simp_all add: shows_element_def width)
  obtain x y where "read_decimal x = 4294967295" "read_decimal y = 4294967294"
     "UnityAssertEqualIntArray (two_elements (\<lambda>_. 0xFF) (\<lambda>j. if j = 0 then 0xFE else 0xFF)) 16 32 1 None 1
       UNITY_DISPLAY_STYLE_UINT32 UNITY_ARRAY_TO_ARRAY unity_fresh =
       Inr (UNITY_FAIL_AND_BAIL (int_array_report 0 x y None 1 unity_fresh))"
    using fails [of 0 UNITY_DISPLAY_STYLE_UINT32 "\<lambda>_. 0xFF" "\<lambda>j. if j = 0 then 0xFE else 0xFF"]
    by (auto simp: width numbers dest!: reads(1))
  then show "\<exists>x y. read_decimal x = 4294967295 \<and> read_decimal y = 4294967294 \<and>
     UnityAssertEqualIntArray (two_elements (\<lambda>_. 0xFF) (\<lambda>j. if j = 0 then 0xFE else 0xFF)) 16 32 1 None 1
       UNITY_DISPLAY_STYLE_UINT32 UNITY_ARRAY_TO_ARRAY unity_fresh =
       Inr (UNITY_FAIL_AND_BAIL (int_array_report 0 x y None 1 unity_fresh))"
    by (intro exI conjI)
  obtain x y where "read_decimal x = 0" "read_decimal y = - 9223372036854775808"
     "UnityAssertEqualIntArray (two_elements (\<lambda>_. 0) (\<lambda>j. if j = 7 then 0x80 else 0)) 16 32 1 None 1
       UNITY_DISPLAY_STYLE_INT64 UNITY_ARRAY_TO_ARRAY unity_fresh =
       Inr (UNITY_FAIL_AND_BAIL (int_array_report 0 x y None 1 unity_fresh))"
    using fails [of 7 UNITY_DISPLAY_STYLE_INT64 "\<lambda>_. 0" "\<lambda>j. if j = 7 then 0x80 else 0"]
    by (auto simp: width numbers dest!: reads(2))
  then show "\<exists>x y. read_decimal x = 0 \<and> read_decimal y = - 9223372036854775808 \<and>
     UnityAssertEqualIntArray (two_elements (\<lambda>_. 0) (\<lambda>j. if j = 7 then 0x80 else 0)) 16 32 1 None 1
       UNITY_DISPLAY_STYLE_INT64 UNITY_ARRAY_TO_ARRAY unity_fresh =
       Inr (UNITY_FAIL_AND_BAIL (int_array_report 0 x y None 1 unity_fresh))"
    by (intro exI conjI)
qed

end
