(* ===== verification/Unity_Macros.thy ===== *)
theory Unity_Macros
  imports Unity_Assert
begin

text \<open>
  The assertion macros a test program writes (\<^verbatim>\<open>unity/src/unity.h\<close>) and the internal macros they
  expand to (\<^verbatim>\<open>unity/src/unity_internals.h\<close>), in the default configuration
  (\<^verbatim>\<open>UNITY_SHORTHAND_AS_OLD\<close>). \<^verbatim>\<open>__LINE__\<close> is an argument; pointers and integers arrive as the
  \<^verbatim>\<open>UNITY_INT\<close> the macro casts them to.
\<close>

section \<open>Fail, ignore and conditions\<close>

definition UNITY_TEST_FAIL ::
  "UNITY_LINE_TYPE \<Rightarrow> c_string \<Rightarrow> 'a unity_scheme \<Rightarrow> 'a unity_scheme outcome" where
  "UNITY_TEST_FAIL line message u = UnityFail message line u"

definition UNITY_TEST_IGNORE ::
  "UNITY_LINE_TYPE \<Rightarrow> c_string \<Rightarrow> 'a unity_scheme \<Rightarrow> 'a unity_scheme outcome" where
  "UNITY_TEST_IGNORE line message u = UnityIgnore message line u"

definition UNITY_TEST_ASSERT ::
  "bool \<Rightarrow> UNITY_LINE_TYPE \<Rightarrow> c_string \<Rightarrow> 'a unity_scheme \<Rightarrow> 'a unity_scheme outcome" where
  "UNITY_TEST_ASSERT condition line message u =
     (if condition then Returns u else UNITY_TEST_FAIL line message u)"

section \<open>Shorthand\<close>

definition UNITY_TEST_ASSERT_EQUAL_INT ::
  "UNITY_INT \<Rightarrow> UNITY_INT \<Rightarrow> UNITY_LINE_TYPE \<Rightarrow> c_string \<Rightarrow> 'a unity_scheme \<Rightarrow> 'a unity_scheme outcome" where
  "UNITY_TEST_ASSERT_EQUAL_INT expected actual line message u =
     UnityAssertEqualNumber expected actual message line UNITY_DISPLAY_STYLE_INT u"

definition TEST_ASSERT_EQUAL ::
  "UNITY_INT \<Rightarrow> UNITY_INT \<Rightarrow> UNITY_LINE_TYPE \<Rightarrow> 'a unity_scheme \<Rightarrow> 'a unity_scheme outcome" where
  "TEST_ASSERT_EQUAL expected actual line u = UNITY_TEST_ASSERT_EQUAL_INT expected actual line None u"

definition TEST_ASSERT_EQUAL_MESSAGE ::
  "UNITY_INT \<Rightarrow> UNITY_INT \<Rightarrow> string \<Rightarrow> UNITY_LINE_TYPE \<Rightarrow> 'a unity_scheme \<Rightarrow> 'a unity_scheme outcome" where
  "TEST_ASSERT_EQUAL_MESSAGE expected actual message line u =
     UNITY_TEST_ASSERT_EQUAL_INT expected actual line (Some message) u"

definition TEST_ASSERT_NOT_EQUAL ::
  "UNITY_INT \<Rightarrow> UNITY_INT \<Rightarrow> UNITY_LINE_TYPE \<Rightarrow> 'a unity_scheme \<Rightarrow> 'a unity_scheme outcome" where
  "TEST_ASSERT_NOT_EQUAL expected actual line u =
     UNITY_TEST_ASSERT (expected \<noteq> actual) line (Some '' Expected Not-Equal'') u"

definition TEST_ASSERT_NOT_EQUAL_MESSAGE ::
  "UNITY_INT \<Rightarrow> UNITY_INT \<Rightarrow> string \<Rightarrow> UNITY_LINE_TYPE \<Rightarrow> 'a unity_scheme \<Rightarrow> 'a unity_scheme outcome" where
  "TEST_ASSERT_NOT_EQUAL_MESSAGE expected actual message line u =
     UNITY_TEST_ASSERT (expected \<noteq> actual) line (Some message) u"

lemma passing_shorthand:
  "\<not> fail_or_ignore u \<Longrightarrow> TEST_ASSERT_EQUAL x x line u = Returns u"
  "\<not> fail_or_ignore u \<Longrightarrow> TEST_ASSERT_EQUAL_MESSAGE x x message line u = Returns u"
  "x \<noteq> y \<Longrightarrow> TEST_ASSERT_NOT_EQUAL x y line u = Returns u"
  "x \<noteq> y \<Longrightarrow> TEST_ASSERT_NOT_EQUAL_MESSAGE x y message line u = Returns u"
  by (simp_all add: TEST_ASSERT_EQUAL_def TEST_ASSERT_EQUAL_MESSAGE_def TEST_ASSERT_NOT_EQUAL_def
      TEST_ASSERT_NOT_EQUAL_MESSAGE_def UNITY_TEST_ASSERT_EQUAL_INT_def UNITY_TEST_ASSERT_def
      UnityAssertEqualNumber_def guard_passes)

end
