(* ===== verification/Tests.thy ===== *)
theory Tests
  imports Mem_Mgr Unity_Macros
begin

text \<open>
  The repository's test program, \<^verbatim>\<open>src/tests.c\<close>: the unit tests and the functional tests over
  the memory manager, run by Unity. The state adds the memory manager and the variable
  \<^verbatim>\<open>mem_mgr_test_size\<close> to the framework's record. A test is a program that returns, jumps out of
  a failed assertion, or goes wrong; the main thread has the number 1.
\<close>

section \<open>Programs\<close>

record 'h world = unity +
  mm :: "'h mem_mgr"
  mem_mgr_test_size :: size_t

type_synonym 'h test = "'h world \<Rightarrow> 'h world outcome res"

definition main_thread :: tid where "main_thread = 1"

text \<open>A call of the memory manager with a result, one without, an assertion, and sequencing.\<close>

definition call :: "('h mem_mgr \<Rightarrow> ('x \<times> 'h mem_mgr) res) \<Rightarrow> ('x \<Rightarrow> 'h test) \<Rightarrow> 'h test" where
  "call f k w = rbind (f (mm w)) (\<lambda>(x, m). k x (w\<lparr>mm := m\<rparr>))"

definition call_void :: "('h mem_mgr \<Rightarrow> 'h mem_mgr res) \<Rightarrow> 'h test" where
  "call_void f w = rbind (f (mm w)) (\<lambda>m. Inr (Returns (w\<lparr>mm := m\<rparr>)))"

definition check :: "('h world \<Rightarrow> 'h world outcome) \<Rightarrow> 'h test" where
  "check a w = Inr (a w)"

definition seq :: "'h test \<Rightarrow> 'h test \<Rightarrow> 'h test" where
  "seq f g w = tbind (f w) g"

fun seqs :: "'h test list \<Rightarrow> 'h test" where
  "seqs [] w = Inr (Returns w)"
| "seqs (f # fs) w = tbind (f w) (seqs fs)"

text \<open>\<^verbatim>\<open>TEST_ASSERT_EQUAL(n, je_sallocx(p, 0))\<close>: the real size is asked for where it is checked.\<close>

definition check_size :: "'h jemalloc \<Rightarrow> size_t \<Rightarrow> addr \<Rightarrow> UNITY_LINE_TYPE \<Rightarrow> 'h test" where
  "check_size je n p line w = check (TEST_ASSERT_EQUAL n (je_sallocx je p (je_heap (mm w))) line) w"

section \<open>Unit tests\<close>

definition testNegativeCases :: "'h jemalloc \<Rightarrow> 'h test" where
  "testNegativeCases je = seqs
    [call (allocExecMemory je main_thread 0) (\<lambda>p.
       check (TEST_ASSERT_EQUAL_MESSAGE NULL p ''testNegativeCases: 1'' 54)),
     call (allocExecMemory je main_thread (- 1)) (\<lambda>p.
       check (TEST_ASSERT_EQUAL_MESSAGE NULL p ''testNegativeCases: 2'' 55)),
     call (allocStorageMemory je main_thread 0) (\<lambda>p.
       check (TEST_ASSERT_EQUAL_MESSAGE NULL p ''testNegativeCases: 3'' 56)),
     call (allocStorageMemory je main_thread (- 1)) (\<lambda>p.
       check (TEST_ASSERT_EQUAL_MESSAGE NULL p ''testNegativeCases: 4'' 57))]"

definition testExec1ByteAlloc :: "'h jemalloc \<Rightarrow> 'h test" where
  "testExec1ByteAlloc je =
     call (allocExecMemory je main_thread PM_EXEC_POOL_MIN_REQ_SIZE) (\<lambda>p. seqs
       [check (TEST_ASSERT_NOT_EQUAL NULL p 63),
        check_size je 8 p 64,
        call_void (freeExecMemory je main_thread p)])"

definition testExec4BytesAlloc :: "'h jemalloc \<Rightarrow> 'h test" where
  "testExec4BytesAlloc je =
     call (allocExecMemory je main_thread 4) (\<lambda>p. seqs
       [check (TEST_ASSERT_NOT_EQUAL NULL p 71),
        check_size je 8 p 72,
        call_void (freeExecMemory je main_thread p)])"

definition testExec8BytesAlloc :: "'h jemalloc \<Rightarrow> 'h test" where
  "testExec8BytesAlloc je =
     call (allocExecMemory je main_thread 8) (\<lambda>p. seqs
       [check (TEST_ASSERT_NOT_EQUAL NULL p 79),
        check_size je 8 p 80,
        call_void (freeExecMemory je main_thread p)])"

definition testExecMaxSizeAlloc :: "'h jemalloc \<Rightarrow> 'h test" where
  "testExecMaxSizeAlloc je =
     call (allocExecMemory je main_thread (PM_EXEC_POOL_MAX_REQ_SIZE + 1)) (\<lambda>p.
       check (TEST_ASSERT_EQUAL NULL p 87))"

definition testStorage1ByteAlloc :: "'h jemalloc \<Rightarrow> 'h test" where
  "testStorage1ByteAlloc je =
     call (allocStorageMemory je main_thread 1) (\<lambda>p. check (TEST_ASSERT_EQUAL NULL p 93))"

definition testStorage4BytesAlloc :: "'h jemalloc \<Rightarrow> 'h test" where
  "testStorage4BytesAlloc je =
     call (allocStorageMemory je main_thread 4) (\<lambda>p. check (TEST_ASSERT_EQUAL NULL p 99))"

definition testStorage8BytesAlloc :: "'h jemalloc \<Rightarrow> 'h test" where
  "testStorage8BytesAlloc je =
     call (allocStorageMemory je main_thread 8) (\<lambda>p. check (TEST_ASSERT_EQUAL NULL p 105))"

definition testStorage4KBAlloc :: "'h jemalloc \<Rightarrow> 'h test" where
  "testStorage4KBAlloc je =
     call (allocStorageMemory je main_thread PM_STORAGE_POOL_MIN_REQ_SIZE) (\<lambda>p. seqs
       [check_size je (4 * K1_Ki) p 111,
        call_void (freeStorageMemory je main_thread p)])"

definition testStorageMaxSizeAlloc :: "'h jemalloc \<Rightarrow> 'h test" where
  "testStorageMaxSizeAlloc je =
     call (allocStorageMemory je main_thread (PM_STORAGE_POOL_MAX_REQ_SIZE + 1)) (\<lambda>p.
       check (TEST_ASSERT_EQUAL NULL p 118))"

section \<open>Functional tests\<close>

text \<open>
  The loops fill arrays of pointers from index 0; the model keeps an array as the list of the
  elements assigned so far and hands it to the rest of the test.
\<close>

fun serial_allocs ::
  "'h jemalloc \<Rightarrow> nat \<Rightarrow> addr list \<Rightarrow> addr list \<Rightarrow> (addr list \<Rightarrow> addr list \<Rightarrow> 'h test) \<Rightarrow> 'h test" where
  "serial_allocs je 0 pe_arr ps_arr k = k pe_arr ps_arr"
| "serial_allocs je (Suc n) pe_arr ps_arr k =
     call (allocExecMemory je main_thread (8 * K1_Ki)) (\<lambda>pe.
     seq (check (TEST_ASSERT_NOT_EQUAL NULL pe 130)) (
     seq (call_void (freeExecMemory je main_thread pe)) (
     call (allocExecMemory je main_thread 128) (\<lambda>pe_i.
     seq (check (TEST_ASSERT_NOT_EQUAL NULL pe_i 134)) (
     call (allocStorageMemory je main_thread (16 * K1_Mi)) (\<lambda>ps.
     seq (check (TEST_ASSERT_NOT_EQUAL NULL ps 137)) (
     seq (call_void (freeStorageMemory je main_thread ps)) (
     call (allocStorageMemory je main_thread (16 * K1_Ki)) (\<lambda>ps_i.
     seq (check (TEST_ASSERT_NOT_EQUAL NULL ps_i 141)) (
     serial_allocs je n (pe_arr @ [pe_i]) (ps_arr @ [ps_i]) k))))))))))"

fun free_both :: "'h jemalloc \<Rightarrow> (addr \<times> addr) list \<Rightarrow> 'h test" where
  "free_both je [] = seqs []"
| "free_both je ((pe, ps) # rest) =
     seq (call_void (freeExecMemory je main_thread pe)) (
     seq (call_void (freeStorageMemory je main_thread ps)) (
     free_both je rest))"

definition testMultipleSerialAllocs :: "'h jemalloc \<Rightarrow> 'h test" where
  "testMultipleSerialAllocs je =
     serial_allocs je 1000 [] [] (\<lambda>pe_arr ps_arr. free_both je (zip pe_arr ps_arr))"

text \<open>
  A loop that allocates \<open>n\<close> blocks of one size and checks each, and one that frees an array.
\<close>

fun fill ::
  "(size_t \<Rightarrow> 'h mem_mgr \<Rightarrow> (addr \<times> 'h mem_mgr) res) \<Rightarrow> size_t \<Rightarrow> (addr \<Rightarrow> 'h world \<Rightarrow> 'h world outcome) \<Rightarrow>
   nat \<Rightarrow> addr list \<Rightarrow> (addr list \<Rightarrow> 'h test) \<Rightarrow> 'h test" where
  "fill alloc num_bytes assertion 0 arr k = k arr"
| "fill alloc num_bytes assertion (Suc n) arr k =
     call (alloc num_bytes) (\<lambda>p.
     seq (check (assertion p)) (
     fill alloc num_bytes assertion n (arr @ [p]) k))"

fun free_all :: "(addr \<Rightarrow> 'h mem_mgr \<Rightarrow> 'h mem_mgr res) \<Rightarrow> addr list \<Rightarrow> 'h test" where
  "free_all free [] = seqs []"
| "free_all free (p # ps) = seq (call_void (free p)) (free_all free ps)"

definition TEST_FUNC_TEST_MAX_SIZE :: size_t where "TEST_FUNC_TEST_MAX_SIZE = 128 * K1_Mi"
definition TEST_UNIT_TEST_MAX_SIZE :: size_t where "TEST_UNIT_TEST_MAX_SIZE = K1_Gi"
definition TEST_CONC_TEST_MAX_SIZE :: size_t where "TEST_CONC_TEST_MAX_SIZE = 500 * K1_Mi"

definition testExecPoolQuota :: "'h jemalloc \<Rightarrow> 'h test" where
  "testExecPoolQuota je =
     fill (allocExecMemory je main_thread) PM_EXEC_POOL_MAX_REQ_SIZE
       (\<lambda>p. TEST_ASSERT_NOT_EQUAL NULL p 162)
       (unat (TEST_FUNC_TEST_MAX_SIZE div PM_EXEC_POOL_MAX_REQ_SIZE)) [] (\<lambda>pe_arr. seqs
     [call (allocExecMemory je main_thread PM_EXEC_POOL_MIN_REQ_SIZE) (\<lambda>p.
        check (TEST_ASSERT_EQUAL NULL p 166)),
      call (allocExecMemory je main_thread PM_EXEC_POOL_MAX_REQ_SIZE) (\<lambda>p.
        check (TEST_ASSERT_EQUAL NULL p 167)),
      free_all (freeExecMemory je main_thread) pe_arr])"

definition testStoragePoolQuota :: "'h jemalloc \<Rightarrow> 'h test" where
  "testStoragePoolQuota je =
     fill (allocStorageMemory je main_thread) PM_STORAGE_POOL_MAX_REQ_SIZE
       (\<lambda>p. TEST_ASSERT_NOT_EQUAL_MESSAGE NULL p ''Repeat allocations'' 187)
       (unat (TEST_FUNC_TEST_MAX_SIZE div PM_STORAGE_POOL_MAX_REQ_SIZE - 1)) [] (\<lambda>pe_arr. seqs
     [call (allocStorageMemory je main_thread PM_STORAGE_POOL_MIN_REQ_SIZE) (\<lambda>p.
        check (TEST_ASSERT_EQUAL_MESSAGE NULL p ''min not work'' 191)),
      call (allocStorageMemory je main_thread PM_STORAGE_POOL_MAX_REQ_SIZE) (\<lambda>p.
        check (TEST_ASSERT_EQUAL_MESSAGE NULL p ''max not work'' 194)),
      free_all (freeStorageMemory je main_thread) pe_arr])"

definition testMixedWorkload :: "'h jemalloc \<Rightarrow> 'h test" where
  "testMixedWorkload je =
     call (allocExecMemory je main_thread K1_Mi) (\<lambda>exec1.
     seq (check (TEST_ASSERT_NOT_EQUAL_MESSAGE NULL exec1 ''testMixedWorkload: 1'' 221)) (
     call (allocStorageMemory je main_thread PM_STORAGE_POOL_MAX_REQ_SIZE) (\<lambda>storage1.
     seq (check (TEST_ASSERT_NOT_EQUAL_MESSAGE NULL storage1 ''testMixedWorkload: 2'' 224)) (
     seq (call (allocStorageMemory je main_thread PM_STORAGE_POOL_MIN_REQ_SIZE) (\<lambda>p.
        check (TEST_ASSERT_EQUAL_MESSAGE NULL p ''testMixedWorkload: 3'' 227))) (
     fill (allocExecMemory je main_thread) K1_Mi
       (\<lambda>p. TEST_ASSERT_NOT_EQUAL_MESSAGE NULL p ''testMixedWorkload: 4'' 234) 63 [] (\<lambda>p_arr.
     seq (call (allocExecMemory je main_thread PM_EXEC_POOL_MIN_REQ_SIZE) (\<lambda>p.
        check (TEST_ASSERT_EQUAL_MESSAGE NULL p ''testMixedWorkload: 5'' 238))) (
     seq (call (allocStorageMemory je main_thread PM_STORAGE_POOL_MIN_REQ_SIZE) (\<lambda>p.
        check (TEST_ASSERT_EQUAL_MESSAGE NULL p ''testMixedWorkload: 6'' 243))) (
     seq (call_void (freeStorageMemory je main_thread storage1)) (
     call (allocStorageMemory je main_thread PM_STORAGE_POOL_MAX_REQ_SIZE) (\<lambda>storage1.
     seq (check (TEST_ASSERT_NOT_EQUAL_MESSAGE NULL storage1 ''testMixedWorkload: 7'' 250)) (
     seq (call (allocStorageMemory je main_thread PM_STORAGE_POOL_MIN_REQ_SIZE) (\<lambda>p.
        check (TEST_ASSERT_EQUAL_MESSAGE NULL p ''testMixedWorkload: 8'' 253))) (
     seq (call (allocExecMemory je main_thread PM_EXEC_POOL_MIN_REQ_SIZE) (\<lambda>p.
        check (TEST_ASSERT_EQUAL_MESSAGE NULL p ''testMixedWorkload: 9'' 258))) (
     seqs
       [free_all (freeExecMemory je main_thread) p_arr,
        call_void (freeExecMemory je main_thread exec1),
        call_void (freeStorageMemory je main_thread storage1)])))))))))))))"

text \<open>
  \<^verbatim>\<open>testFree\<close> returns at once; \<open>testFree_unreached\<close> is the code behind its \<^verbatim>\<open>return\<close>: frees of
  pointers that are no blocks.
\<close>

definition testFree :: "'h test" where
  "testFree = seqs []"

definition garbage_p :: addr where "garbage_p = 0xdeadbeef"

definition testFree_unreached :: "'h jemalloc \<Rightarrow> 'h test" where
  "testFree_unreached je =
     seq (call_void (freeExecMemory je main_thread NULL)) (
     seq (call_void (freeStorageMemory je main_thread NULL)) (
     seq (call_void (freeExecMemory je main_thread garbage_p)) (
     seq (call_void (freeStorageMemory je main_thread garbage_p)) (
     call (allocExecMemory je main_thread PM_STORAGE_POOL_MIN_REQ_SIZE) (\<lambda>exec1.
     seq (check (TEST_ASSERT_NOT_EQUAL_MESSAGE NULL exec1 ''testFree: 1'' 289)) (
     seq (call_void (freeExecMemory je main_thread exec1)) (
     seq (call_void (freeExecMemory je main_thread exec1)) (
     call (allocStorageMemory je main_thread PM_STORAGE_POOL_MIN_REQ_SIZE) (\<lambda>storage1.
     seq (check (TEST_ASSERT_NOT_EQUAL_MESSAGE NULL storage1 ''testFree: 2'' 295)) (
     seq (call_void (freeStorageMemory je main_thread storage1)) (
     call_void (freeStorageMemory je main_thread storage1))))))))))))"

section \<open>Running\<close>

definition setUp :: "'h test" where
  "setUp w = call (initMemoryManager (mem_mgr_test_size w)) (\<lambda>_. seqs []) w"

definition tearDown :: "'h test" where
  "tearDown = call_void destroyMemoryManager"

definition RUN_TEST :: "'h test \<Rightarrow> string \<Rightarrow> 32 word \<Rightarrow> 'h world \<Rightarrow> 'h world res" where
  "RUN_TEST func name line w = UnityDefaultTestRun setUp tearDown func (Some name) line w"

text \<open>A sequence of \<^verbatim>\<open>RUN_TEST\<close> statements.\<close>

fun run_tests :: "('h test \<times> string \<times> 32 word) list \<Rightarrow> 'h world \<Rightarrow> 'h world res" where
  "run_tests [] w = Inr w"
| "run_tests ((func, name, line) # rest) w = rbind (RUN_TEST func name line w) (run_tests rest)"

definition runUnitTests :: "'h jemalloc \<Rightarrow> 'h world \<Rightarrow> 'h world res" where
  "runUnitTests je = run_tests
    [(testExec1ByteAlloc je, ''testExec1ByteAlloc'', 313),
     (testExec4BytesAlloc je, ''testExec4BytesAlloc'', 314),
     (testExec8BytesAlloc je, ''testExec8BytesAlloc'', 315),
     (testExecMaxSizeAlloc je, ''testExecMaxSizeAlloc'', 316),
     (testStorage4KBAlloc je, ''testStorage4KBAlloc'', 318),
     (testStorageMaxSizeAlloc je, ''testStorageMaxSizeAlloc'', 319),
     (testStorage1ByteAlloc je, ''testStorage1ByteAlloc'', 322),
     (testStorage4BytesAlloc je, ''testStorage4BytesAlloc'', 323),
     (testStorage8BytesAlloc je, ''testStorage8BytesAlloc'', 324),
     (testNegativeCases je, ''testNegativeCases'', 325)]"

definition runFunctionalTests :: "'h jemalloc \<Rightarrow> 'h world \<Rightarrow> 'h world res" where
  "runFunctionalTests je = run_tests
    [(testMultipleSerialAllocs je, ''testMultipleSerialAllocs'', 303),
     (testExecPoolQuota je, ''testExecPoolQuota'', 304),
     (testStoragePoolQuota je, ''testStoragePoolQuota'', 305),
     (testMixedWorkload je, ''testMixedWorkload'', 306),
     (testFree, ''testFree'', 307)]"

end
