(* ===== verification/Tests_Threads.thy ===== *)
theory Tests_Threads
  imports Tests Mem_Concurrent
begin

text \<open>
  The concurrency test of \<^verbatim>\<open>src/tests.c\<close> and the program's \<^verbatim>\<open>main\<close>. A thread's code is a
  tree of its calls (\<open>prog\<close>); the process is the memory manager, the position and the rest of the
  code of every thread, and what the main thread has left to do. A schedule says which thread moves
  next and what \<^verbatim>\<open>rand\<close> returns if it asks; a thread moves by the steps of
  \<open>Mem_Threads\<close>, so calls of different threads interleave inside the memory manager.
\<close>

section \<open>The code of a thread\<close>

text \<open>
  What a thread does next: nothing more, an allocation (the rest depends on the pointer), a
  deallocation, a call of \<^verbatim>\<open>rand\<close> (the rest depends on the number).
\<close>

datatype prog =
    is_done: Done
  | Alloc policyMgrPool size_t "addr \<Rightarrow> prog"
  | Free policyMgrPool addr prog
  | Rand "nat \<Rightarrow> prog"

text \<open>\<^verbatim>\<open>rand() % bound\<close>; \<^verbatim>\<open>usleep\<close> only delays, which every schedule allows anyway.\<close>

definition rand_mod :: "size_t \<Rightarrow> (size_t \<Rightarrow> prog) \<Rightarrow> prog" where
  "rand_mod bound k = Rand (\<lambda>r. k (of_nat r mod bound))"

definition usleep_rand :: "prog \<Rightarrow> prog" where
  "usleep_rand k = rand_mod 3 (\<lambda>_. k)"

text \<open>\<^verbatim>\<open>if (p) free(p)\<close>\<close>

definition free_if :: "policyMgrPool \<Rightarrow> addr \<Rightarrow> prog \<Rightarrow> prog" where
  "free_if pool p k = (if p \<noteq> NULL then Free pool p k else k)"

text \<open>The loops of \<^verbatim>\<open>testThreadMemAllocs\<close>, in their order; \<open>k\<close> is what follows the loop.\<close>

fun alloc_loop :: "nat \<Rightarrow> addr list \<Rightarrow> addr list \<Rightarrow> (addr list \<Rightarrow> addr list \<Rightarrow> prog) \<Rightarrow> prog" where
  "alloc_loop 0 pe_arr ps_arr k = k pe_arr ps_arr"
| "alloc_loop (Suc n) pe_arr ps_arr k =
     rand_mod PM_EXEC_POOL_MAX_REQ_SIZE (\<lambda>num_bytes. Alloc POLICY_MGR_EXEC_POOL num_bytes (\<lambda>pe.
     free_if POLICY_MGR_EXEC_POOL pe (
     rand_mod PM_EXEC_POOL_MAX_REQ_SIZE (\<lambda>num_bytes. Alloc POLICY_MGR_EXEC_POOL num_bytes (\<lambda>pe_i.
     rand_mod PM_STORAGE_POOL_MAX_REQ_SIZE (\<lambda>num_bytes. Alloc POLICY_MGR_STORAGE_POOL num_bytes (\<lambda>ps.
     free_if POLICY_MGR_STORAGE_POOL ps (
     rand_mod PM_STORAGE_POOL_MAX_REQ_SIZE (\<lambda>num_bytes. Alloc POLICY_MGR_STORAGE_POOL num_bytes (\<lambda>ps_i.
     alloc_loop n (pe_arr @ [pe_i]) (ps_arr @ [ps_i]) k))))))))))"

fun free_pairs_loop :: "(addr \<times> addr) list \<Rightarrow> prog \<Rightarrow> prog" where
  "free_pairs_loop [] k = k"
| "free_pairs_loop ((pe, ps) # rest) k =
     free_if POLICY_MGR_EXEC_POOL pe (free_if POLICY_MGR_STORAGE_POOL ps (free_pairs_loop rest k))"

fun fill_loop :: "policyMgrPool \<Rightarrow> size_t \<Rightarrow> nat \<Rightarrow> addr list \<Rightarrow> (addr list \<Rightarrow> prog) \<Rightarrow> prog" where
  "fill_loop pool num_bytes 0 arr k = k arr"
| "fill_loop pool num_bytes (Suc n) arr k = Alloc pool num_bytes (\<lambda>p. fill_loop pool num_bytes n (arr @ [p]) k)"

fun free_loop :: "policyMgrPool \<Rightarrow> addr list \<Rightarrow> prog \<Rightarrow> prog" where
  "free_loop pool [] k = k"
| "free_loop pool (p # ps) k = free_if pool p (free_loop pool ps k)"

fun churn_loop :: "nat \<Rightarrow> prog \<Rightarrow> prog" where
  "churn_loop 0 k = k"
| "churn_loop (Suc n) k =
     rand_mod PM_EXEC_POOL_MAX_REQ_SIZE (\<lambda>num_bytes. Alloc POLICY_MGR_EXEC_POOL num_bytes (\<lambda>pe.
     usleep_rand (
     free_if POLICY_MGR_EXEC_POOL pe (
     rand_mod PM_STORAGE_POOL_MAX_REQ_SIZE (\<lambda>num_bytes. Alloc POLICY_MGR_STORAGE_POOL num_bytes (\<lambda>ps.
     free_if POLICY_MGR_STORAGE_POOL ps (churn_loop n k)))))))"

definition SERIAL_ALLOCS_MAX :: nat where "SERIAL_ALLOCS_MAX = 1000"

definition testThreadMemAllocs :: prog where
  "testThreadMemAllocs =
     usleep_rand (
     alloc_loop SERIAL_ALLOCS_MAX [] [] (\<lambda>pe_arr ps_arr.
     free_pairs_loop (zip pe_arr ps_arr) (
     rand_mod (of_nat SERIAL_ALLOCS_MAX) (\<lambda>rand_num.
     fill_loop POLICY_MGR_EXEC_POOL K1_Ki (unat rand_num) [] (\<lambda>pe_arr.
     free_loop POLICY_MGR_EXEC_POOL pe_arr (
     rand_mod (of_nat SERIAL_ALLOCS_MAX) (\<lambda>rand_num.
     fill_loop POLICY_MGR_STORAGE_POOL PM_STORAGE_POOL_MAX_REQ_SIZE (unat rand_num) [] (\<lambda>ps_arr.
     free_loop POLICY_MGR_STORAGE_POOL ps_arr (
     rand_mod (of_nat SERIAL_ALLOCS_MAX) (\<lambda>rand_num.
     churn_loop (unat rand_num) Done))))))))))"

section \<open>The process\<close>

datatype main_op = Pthread_create tid | Pthread_join tid

record 'h process =
  memory :: "'h mem_mgr"
  point :: "tid \<Rightarrow> pc"
  code :: "tid \<Rightarrow> prog"
  todo :: "main_op list"  \<comment> \<open>of the main thread\<close>

type_synonym choice = "tid \<times> nat"

definition RAND_MAX :: nat where "RAND_MAX = 2 ^ 31 - 1"

text \<open>One move of a thread: a thread that would have to wait for the mutex stays where it is.\<close>

fun thread_move ::
  "'h jemalloc \<Rightarrow> choice \<Rightarrow> prog \<Rightarrow> pc \<Rightarrow> 'h mem_mgr \<Rightarrow> (prog \<times> pc \<times> 'h mem_mgr) res" where
  "thread_move je c Done pc m = Inr (Done, pc, m)"
| "thread_move je c (Rand k) pc m = Inr (k (snd c mod (RAND_MAX + 1)), pc, m)"
| "thread_move je c (Alloc p n k) pc m =
     (case pc of
        Idle \<Rightarrow> Inr (Alloc p n k, A_lock p n, m)
      | Returned q a \<Rightarrow> Inr (k a, Idle, m)
      | _ \<Rightarrow> (case thread_step je (fst c) pc m of
          Inl Deadlock \<Rightarrow> Inr (Alloc p n k, pc, m)
        | Inl e \<Rightarrow> Inl e
        | Inr (pc, m) \<Rightarrow> Inr (Alloc p n k, pc, m)))"
| "thread_move je c (Free p a k) pc m =
     (case pc of
        Idle \<Rightarrow> Inr (Free p a k, F_sallocx p a, m)
      | Returned q b \<Rightarrow> Inr (k, Idle, m)
      | _ \<Rightarrow> (case thread_step je (fst c) pc m of
          Inl Deadlock \<Rightarrow> Inr (Free p a k, pc, m)
        | Inl e \<Rightarrow> Inl e
        | Inr (pc, m) \<Rightarrow> Inr (Free p a k, pc, m)))"

text \<open>The main thread creates and joins; a join waits until the thread's code is done.\<close>

fun main_move :: "main_op list \<Rightarrow> 'h process \<Rightarrow> 'h process" where
  "main_move [] s = s"
| "main_move (Pthread_create t # ops) s =
     s\<lparr>todo := ops, code := (code s)(t := testThreadMemAllocs)\<rparr>"
| "main_move (Pthread_join t # ops) s = (if is_done (code s t) then s\<lparr>todo := ops\<rparr> else s)"

definition move :: "'h jemalloc \<Rightarrow> choice \<Rightarrow> 'h process \<Rightarrow> 'h process res" where
  "move je c s =
     (if fst c = main_thread then Inr (main_move (todo s) s)
      else rbind (thread_move je c (code s (fst c)) (point s (fst c)) (memory s)) (\<lambda>(k, pc, m).
        Inr (s\<lparr>memory := m, point := (point s)(fst c := pc), code := (code s)(fst c := k)\<rparr>)))"

fun run_schedule :: "'h jemalloc \<Rightarrow> choice list \<Rightarrow> 'h process \<Rightarrow> 'h process res" where
  "run_schedule je [] s = Inr s"
| "run_schedule je (c # cs) s = rbind (move je c s) (run_schedule je cs)"

definition process_start :: "'h mem_mgr \<Rightarrow> 'h process" where
  "process_start m =
     \<lparr>memory = m, point = (\<lambda>_. Idle), code = (\<lambda>_. Done),
      todo = [Pthread_create 2, Pthread_create 3, Pthread_create 4,
              Pthread_join 2, Pthread_join 3, Pthread_join 4]\<rparr>"

text \<open>
  The test: if the schedule ends before the last join returns, the main thread waits for ever
  (\<open>Deadlock\<close>).
\<close>

definition testMultiThreadAccess :: "'h jemalloc \<Rightarrow> choice list \<Rightarrow> 'h test" where
  "testMultiThreadAccess je cs w =
     rbind (run_schedule je cs (process_start (mm w))) (\<lambda>s.
     if todo s = [] then check (TEST_ASSERT_EQUAL 1 1 435) (w\<lparr>mm := memory s\<rparr>)
     else Inl Deadlock)"

definition runConcurrencyTest :: "'h jemalloc \<Rightarrow> choice list \<Rightarrow> 'h world \<Rightarrow> 'h world res" where
  "runConcurrencyTest je cs = run_tests [(testMultiThreadAccess je cs, ''testMultiThreadAccess'', 440)]"

section \<open>The program\<close>

definition UNITY_BEGIN :: "string \<Rightarrow> 'a unity_scheme \<Rightarrow> 'a unity_scheme" where
  "UNITY_BEGIN file u = UnityBegin (Some file) u"

definition UNITY_END :: "'a unity_scheme \<Rightarrow> 32 word \<times> 'a unity_scheme" where
  "UNITY_END u = UnityEnd u"

definition main :: "'h jemalloc \<Rightarrow> choice list \<Rightarrow> 'h world \<Rightarrow> (32 word \<times> 'h world) res" where
  "main je cs w =
     rbind (runUnitTests je (UNITY_BEGIN ''src/tests.c'' (w\<lparr>mem_mgr_test_size := TEST_UNIT_TEST_MAX_SIZE\<rparr>))) (\<lambda>w.
     let w = snd (UNITY_END w) in
     rbind (runFunctionalTests je (UNITY_BEGIN ''src/tests.c'' (w\<lparr>mem_mgr_test_size := TEST_FUNC_TEST_MAX_SIZE\<rparr>))) (\<lambda>w.
     let w = snd (UNITY_END w) in
     rbind (runConcurrencyTest je cs (UNITY_BEGIN ''src/tests.c'' (w\<lparr>mem_mgr_test_size := TEST_CONC_TEST_MAX_SIZE\<rparr>))) (\<lambda>w.
     Inr (UNITY_END w))))"

end
