(* ===== verification/Tests_Pass.thy ===== *)
theory Tests_Pass
  imports Tests
begin

text \<open>
  The test program passes: over every allocator that has the size classes the tests ask for and
  memory for the blocks they hold, each test returns without a failed assertion and without a
  fault, and gives back every block it took. The proofs are triples over the memory manager's state
  (\<open>triple\<close>), with one rule per kind of statement of a test.
\<close>

section \<open>The allocator the tests expect\<close>

text \<open>
  \<open>cap k h\<close> says that the heap can still serve \<open>k\<close> requests of the sizes of the tests; a
  request of \<open>n\<close> bytes gets a block of exactly \<open>r\<close>. The pairs are jemalloc's size classes.
\<close>

definition exact_class ::
  "'h jemalloc \<Rightarrow> 'h heap_view \<Rightarrow> (nat \<Rightarrow> 'h \<Rightarrow> bool) \<Rightarrow> size_t \<times> size_t \<Rightarrow> bool" where
  "exact_class je live cap c \<longleftrightarrow>
     (\<forall>h k. cap (Suc k) h \<longrightarrow> (case je_malloc je (fst c) h of
        (p, h') \<Rightarrow> p \<noteq> NULL \<and> live h' p = Some (snd c) \<and> cap k h'))"

definition suite_sizes :: "(size_t \<times> size_t) list" where
  "suite_sizes =
     [(1, 8), (4, 8), (8, 8), (128, 128), (4096, 4096), (8192, 8192), (16384, 16384),
      (1048576, 1048576), (8388608, 8388608), (16777216, 16777216), (67108864, 67108864)]"

text \<open>
  An allocator that keeps its contract and serves the sizes in \<open>Z\<close>; the tests pass over one that
  serves all of theirs.
\<close>

definition serves ::
  "'h jemalloc \<Rightarrow> 'h heap_view \<Rightarrow> (nat \<Rightarrow> 'h \<Rightarrow> bool) \<Rightarrow> nat \<Rightarrow> (size_t \<times> size_t) list \<Rightarrow> bool" where
  "serves je live cap S Z \<longleftrightarrow>
     je_contract je live S \<and> S < 2 ^ 62 \<and> list_all (exact_class je live cap) Z \<and>
     (\<forall>k h p. cap k h \<longrightarrow> live h p \<noteq> None \<longrightarrow> cap k (je_free je p h))"

abbreviation suite_allocator ::
  "'h jemalloc \<Rightarrow> 'h heap_view \<Rightarrow> (nat \<Rightarrow> 'h \<Rightarrow> bool) \<Rightarrow> nat \<Rightarrow> bool" where
  "suite_allocator je live cap S \<equiv> serves je live cap S suite_sizes"

section \<open>Triples\<close>

definition triple :: "('h mem_mgr \<Rightarrow> bool) \<Rightarrow> 'h test \<Rightarrow> ('h mem_mgr \<Rightarrow> bool) \<Rightarrow> bool" where
  "triple P T Q \<longleftrightarrow>
     (\<forall>w. P (mm w) \<longrightarrow> \<not> fail_or_ignore w \<longrightarrow> (\<exists>m. T w = Inr (Returns (w\<lparr>mm := m\<rparr>)) \<and> Q m))"

lemma fail_or_ignore_mm [simp]: "fail_or_ignore (w\<lparr>mm := m\<rparr>) = fail_or_ignore w"
  by (cases w) (simp add: fail_or_ignore_def)

lemma mm_same [simp]: "w\<lparr>mm := mm w\<rparr> = w"
  by (cases w) simp

lemma tripleE:
  assumes "triple P T Q" and "P m" and "\<not> fail_or_ignore w"
  obtains m' where "T (w\<lparr>mm := m\<rparr>) = Inr (Returns (w\<lparr>mm := m'\<rparr>))" and "Q m'"
  using assms(1) [unfolded triple_def, rule_format, of "w\<lparr>mm := m\<rparr>"] assms(2,3) by auto

lemma triple_seq: "triple P f R \<Longrightarrow> triple R g Q \<Longrightarrow> triple P (seq f g) Q"
  unfolding triple_def
proof (intro allI impI)
  fix w :: "'a world"
  assume f: "\<forall>w. P (mm w) \<longrightarrow> \<not> fail_or_ignore w \<longrightarrow> (\<exists>m. f w = Inr (Returns (w\<lparr>mm := m\<rparr>)) \<and> R m)"
    and g: "\<forall>w. R (mm w) \<longrightarrow> \<not> fail_or_ignore w \<longrightarrow> (\<exists>m. g w = Inr (Returns (w\<lparr>mm := m\<rparr>)) \<and> Q m)"
    and w: "P (mm w)" "\<not> fail_or_ignore w"
  from f w obtain m where m: "f w = Inr (Returns (w\<lparr>mm := m\<rparr>))" "R m" by blast
  with g [rule_format, of "w\<lparr>mm := m\<rparr>"] w(2)
  obtain m' where "g (w\<lparr>mm := m\<rparr>) = Inr (Returns (w\<lparr>mm := m'\<rparr>))" "Q m'" by auto
  with m show "\<exists>m. seq f g w = Inr (Returns (w\<lparr>mm := m\<rparr>)) \<and> Q m"
    by (auto simp: seq_def)
qed

lemma seqs_Cons: "seqs (f # fs) = seq f (seqs fs)"
  by (simp add: fun_eq_iff seq_def)

lemma triple_done: "triple P (seqs []) P"
  unfolding triple_def by (metis mm_same seqs.simps(1))

lemma triple_seqs: "triple P f R \<Longrightarrow> triple R (seqs fs) Q \<Longrightarrow> triple P (seqs (f # fs)) Q"
  unfolding seqs_Cons by (rule triple_seq)

lemma triple_last: "triple P f Q \<Longrightarrow> triple P (seqs [f]) Q"
  by (rule triple_seqs [OF _ triple_done])

lemma triple_call:
  assumes "\<And>m. P m \<Longrightarrow> \<exists>x m'. f m = Inr (x, m') \<and> R x m'" and "\<And>x. triple (R x) (k x) Q"
  shows "triple P (call f k) Q"
  unfolding triple_def
proof (intro allI impI)
  fix w :: "'a world"
  assume w: "P (mm w)" "\<not> fail_or_ignore w"
  obtain x m where f: "f (mm w) = Inr (x, m)" and R: "R x m" using assms(1) [OF w(1)] by blast
  from assms(2) [of x, unfolded triple_def, rule_format, of "w\<lparr>mm := m\<rparr>"] w(2) R
  obtain m' where "k x (w\<lparr>mm := m\<rparr>) = Inr (Returns (w\<lparr>mm := m'\<rparr>))" "Q m'" by auto
  with f show "\<exists>m. call f k w = Inr (Returns (w\<lparr>mm := m\<rparr>)) \<and> Q m"
    by (auto simp: call_def)
qed

lemma triple_void:
  assumes "\<And>m. P m \<Longrightarrow> \<exists>m'. f m = Inr m' \<and> Q m'"
  shows "triple P (call_void f) Q"
  using assms by (fastforce simp: triple_def call_void_def)

lemma triple_check: "(\<And>w. \<not> fail_or_ignore w \<Longrightarrow> a w = Returns w) \<Longrightarrow> triple P (check a) P"
  unfolding triple_def check_def by (metis mm_same)

lemma triple_conj: "(A \<Longrightarrow> triple P T Q) \<Longrightarrow> triple (\<lambda>m. A \<and> P m) T Q"
  by (auto simp: triple_def)

section \<open>The statements of a test\<close>

text \<open>
  The memory manager is up with \<open>tot\<close> bytes; the pools hold \<open>e\<close> and \<open>s\<close> bytes, the live
  blocks are \<open>L\<close>, and the allocator can serve \<open>k\<close> more requests.
\<close>

fun pool_loads :: "nat \<Rightarrow> nat \<Rightarrow> policyMgrPool \<Rightarrow> nat" where
  "pool_loads e s POLICY_MGR_EXEC_POOL = e"
| "pool_loads e s POLICY_MGR_STORAGE_POOL = s"
| "pool_loads e s POLICY_MGR_POOL_MAX = 0"

lemma pool_loads_upd:
  "(pool_loads e s)(POLICY_MGR_EXEC_POOL := n) = pool_loads n s"
  "(pool_loads e s)(POLICY_MGR_STORAGE_POOL := n) = pool_loads e n"
proof -
  show "(pool_loads e s)(POLICY_MGR_EXEC_POOL := n) = pool_loads n s"
    by (rule ext, rename_tac p, case_tac p) simp_all
  show "(pool_loads e s)(POLICY_MGR_STORAGE_POOL := n) = pool_loads e n"
    by (rule ext, rename_tac p, case_tac p) simp_all
qed

definition mm_at ::
  "'h heap_view \<Rightarrow> (nat \<Rightarrow> 'h \<Rightarrow> bool) \<Rightarrow> nat \<Rightarrow> nat \<Rightarrow> (addr \<rightharpoonup> size_t) \<Rightarrow> nat \<Rightarrow> nat \<Rightarrow> nat \<Rightarrow>
   'h mem_mgr \<Rightarrow> bool" where
  "mm_at live cap S tot L e s k m \<longleftrightarrow>
     mm_ok S m \<and> managed m = tot \<and> quota (abs_policy (pm_stats m)) = tot - tot div 2 \<and>
     usage m = pool_loads e s \<and> live (je_heap m) = L \<and> cap k (je_heap m)"

declare abs_policy_simps(3) [simp del]

lemma alloc_serves:
  assumes "serves je live cap S Z" and "list_ex ((=) (n, r)) Z"
    and "mm_ok S m" and "p \<noteq> POLICY_MGR_POOL_MAX" and "admits p (unat n) (abs_policy (pm_stats m))"
    and "cap (Suc k) (je_heap m)"
  obtains a m' where "allocMem je t p n m = Inr (a, m')" and "a \<noteq> NULL" and "live (je_heap m) a = None"
    and "mm_ok S m'" and "live (je_heap m') = (live (je_heap m))(a \<mapsto> r)" and "cap k (je_heap m')"
    and "usage m' = (usage m)(p := usage m p + unat r)" and "managed m' = managed m"
    and "quota (abs_policy (pm_stats m')) = quota (abs_policy (pm_stats m))"
proof -
  from assms(1,2) have je: "je_contract je live S" and "exact_class je live cap (n, r)"
    by (auto simp: serves_def list_all_iff list_ex_iff)
  then obtain a h' where a: "je_malloc je n (je_heap m) = (a, h')" "a \<noteq> NULL" "live h' a = Some r" "cap k h'"
    using assms(6) by (fastforce simp: exact_class_def split: prod.splits)
  show thesis
  proof (rule allocMem_block [OF assms(3,4) je assms(5) a(1,2), where t = t])
    fix m' q
    assume m': "allocMem je t p n m = Inr (a, m')" "je_heap m' = h'" "mm_ok S m'"
      "live (je_heap m) a = None" "live h' = (live (je_heap m))(a \<mapsto> q)"
      "usage m' = (usage m)(p := usage m p + unat q)" "managed m' = managed m"
      "quota (abs_policy (pm_stats m')) = quota (abs_policy (pm_stats m))"
    from m'(5) a(3) have "q = r" by simp
    with m' a show thesis by (intro that [of a m']) (simp_all del: fun_upd_apply)
  qed
qed

lemma triple_exec:
  assumes "serves je live cap S Z" and "list_ex ((=) (n, r)) Z"
    and "1 \<le> unat n" and "unat n \<le> 8388608" and "e + s + unat n \<le> tot"
    and "\<And>p. p \<noteq> NULL \<Longrightarrow> L p = None \<Longrightarrow>
      triple (mm_at live cap S tot (L(p \<mapsto> r)) (e + unat r) s k) (K p) Q"
  shows "triple (mm_at live cap S tot L e s (Suc k)) (call (allocExecMemory je t n) K) Q"
proof (rule triple_call [where R = "\<lambda>p m. (p \<noteq> NULL \<and> L p = None) \<and>
    mm_at live cap S tot (L(p \<mapsto> r)) (e + unat r) s k m"])
  fix m assume m: "mm_at live cap S tot L e s (Suc k) m"
  then have adm: "admits POLICY_MGR_EXEC_POOL (unat n) (abs_policy (pm_stats m))"
    using assms(3-5) by (simp add: mm_at_def)
  show "\<exists>p m'. allocExecMemory je t n m = Inr (p, m') \<and> (p \<noteq> NULL \<and> L p = None) \<and>
      mm_at live cap S tot (L(p \<mapsto> r)) (e + unat r) s k m'"
    by (rule alloc_serves [OF assms(1,2) _ _ adm, of k t])
       (use m in \<open>auto simp: mm_at_def allocExecMemory_def pool_loads_upd\<close>)
next
  fix p
  show "triple (\<lambda>m. (p \<noteq> NULL \<and> L p = None) \<and> mm_at live cap S tot (L(p \<mapsto> r)) (e + unat r) s k m) (K p) Q"
    using assms(6) by (intro triple_conj) blast
qed

lemma triple_storage:
  assumes "serves je live cap S Z" and "list_ex ((=) (n, r)) Z"
    and "4096 \<le> unat n" and "unat n \<le> 67108864" and "s + unat n \<le> tot - tot div 2"
    and "e + s + unat n \<le> tot"
    and "\<And>p. p \<noteq> NULL \<Longrightarrow> L p = None \<Longrightarrow>
      triple (mm_at live cap S tot (L(p \<mapsto> r)) e (s + unat r) k) (K p) Q"
  shows "triple (mm_at live cap S tot L e s (Suc k)) (call (allocStorageMemory je t n) K) Q"
proof (rule triple_call [where R = "\<lambda>p m. (p \<noteq> NULL \<and> L p = None) \<and>
    mm_at live cap S tot (L(p \<mapsto> r)) e (s + unat r) k m"])
  fix m assume m: "mm_at live cap S tot L e s (Suc k) m"
  then have adm: "admits POLICY_MGR_STORAGE_POOL (unat n) (abs_policy (pm_stats m))"
    using assms(3-6) by (simp add: mm_at_def)
  show "\<exists>p m'. allocStorageMemory je t n m = Inr (p, m') \<and> (p \<noteq> NULL \<and> L p = None) \<and>
      mm_at live cap S tot (L(p \<mapsto> r)) e (s + unat r) k m'"
    by (rule alloc_serves [OF assms(1,2) _ _ adm, of k t])
       (use m in \<open>auto simp: mm_at_def allocStorageMemory_def pool_loads_upd\<close>)
next
  fix p
  show "triple (\<lambda>m. (p \<noteq> NULL \<and> L p = None) \<and> mm_at live cap S tot (L(p \<mapsto> r)) e (s + unat r) k m) (K p) Q"
    using assms(7) by (intro triple_conj) blast
qed

text \<open>A request the policy refuses gives NULL and changes nothing.\<close>

lemma triple_exec_refused:
  assumes "unat n < 1 \<or> 8388608 < unat n \<or> tot < e + s + unat n"
    and "triple (mm_at live cap S tot L e s k) (K NULL) Q"
  shows "triple (mm_at live cap S tot L e s k) (call (allocExecMemory je t n) K) Q"
proof (rule triple_call [where R = "\<lambda>p m. p = NULL \<and> mm_at live cap S tot L e s k m"])
  fix m assume m: "mm_at live cap S tot L e s k m"
  with assms(1) have "\<not> admits POLICY_MGR_EXEC_POOL (unat n) (abs_policy (pm_stats m))"
    by (auto simp: mm_at_def)
  with m have "allocMem je t POLICY_MGR_EXEC_POOL n m = Inr (NULL, m)"
    by (intro allocMem_denied [of S]) (auto simp: mm_at_def)
  with m show "\<exists>p m'. allocExecMemory je t n m = Inr (p, m') \<and> p = NULL \<and> mm_at live cap S tot L e s k m'"
    by (simp add: allocExecMemory_def)
qed (use assms(2) in \<open>auto intro: triple_conj\<close>)

lemma triple_storage_refused:
  assumes "unat n < 4096 \<or> 67108864 < unat n \<or> tot - tot div 2 < s + unat n \<or> tot < e + s + unat n"
    and "triple (mm_at live cap S tot L e s k) (K NULL) Q"
  shows "triple (mm_at live cap S tot L e s k) (call (allocStorageMemory je t n) K) Q"
proof (rule triple_call [where R = "\<lambda>p m. p = NULL \<and> mm_at live cap S tot L e s k m"])
  fix m assume m: "mm_at live cap S tot L e s k m"
  with assms(1) have "\<not> admits POLICY_MGR_STORAGE_POOL (unat n) (abs_policy (pm_stats m))"
    by (auto simp: mm_at_def)
  with m have "allocMem je t POLICY_MGR_STORAGE_POOL n m = Inr (NULL, m)"
    by (intro allocMem_denied [of S]) (auto simp: mm_at_def)
  with m show "\<exists>p m'. allocStorageMemory je t n m = Inr (p, m') \<and> p = NULL \<and> mm_at live cap S tot L e s k m'"
    by (simp add: allocStorageMemory_def)
qed (use assms(2) in \<open>auto intro: triple_conj\<close>)

lemma triple_free_exec:
  assumes "serves je live cap S Z" and "L p = Some r" and "r \<noteq> 0" and "unat r \<le> e"
  shows "triple (mm_at live cap S tot L e s k) (call_void (freeExecMemory je t p))
    (mm_at live cap S tot (L(p := None)) (e - unat r) s k)"
proof (rule triple_void)
  fix m assume m: "mm_at live cap S tot L e s k m"
  have je: "je_contract je live S" using assms(1) by (simp add: serves_def)
  have cap: "cap k (je_free je p (je_heap m))"
    using assms(1,2) m by (auto simp: serves_def mm_at_def)
  show "\<exists>m'. freeExecMemory je t p m = Inr m' \<and> mm_at live cap S tot (L(p := None)) (e - unat r) s k m'"
    by (rule freeMem_block [of S m POLICY_MGR_EXEC_POOL je live p r t])
       (use m je cap assms in \<open>auto simp: mm_at_def freeExecMemory_def pool_loads_upd\<close>)
qed

lemma triple_free_storage:
  assumes "serves je live cap S Z" and "L p = Some r" and "r \<noteq> 0" and "unat r \<le> s"
  shows "triple (mm_at live cap S tot L e s k) (call_void (freeStorageMemory je t p))
    (mm_at live cap S tot (L(p := None)) e (s - unat r) k)"
proof (rule triple_void)
  fix m assume m: "mm_at live cap S tot L e s k m"
  have je: "je_contract je live S" using assms(1) by (simp add: serves_def)
  have cap: "cap k (je_free je p (je_heap m))"
    using assms(1,2) m by (auto simp: serves_def mm_at_def)
  show "\<exists>m'. freeStorageMemory je t p m = Inr m' \<and> mm_at live cap S tot (L(p := None)) e (s - unat r) k m'"
    by (rule freeMem_block [of S m POLICY_MGR_STORAGE_POOL je live p r t])
       (use m je cap assms in \<open>auto simp: mm_at_def freeStorageMemory_def pool_loads_upd\<close>)
qed

lemma triple_not_null:
  "p \<noteq> NULL \<Longrightarrow> triple P (check (TEST_ASSERT_NOT_EQUAL NULL p line)) P"
  "p \<noteq> NULL \<Longrightarrow> triple P (check (TEST_ASSERT_NOT_EQUAL_MESSAGE NULL p message line)) P"
  by (auto intro!: triple_check simp: passing_shorthand)

lemma triple_null:
  "triple P (check (TEST_ASSERT_EQUAL NULL NULL line)) P"
  "triple P (check (TEST_ASSERT_EQUAL_MESSAGE NULL NULL message line)) P"
  by (auto intro!: triple_check simp: passing_shorthand)

lemma triple_check_size:
  assumes "serves je live cap S Z" and "L p = Some n"
  shows "triple (mm_at live cap S tot L e s k) (check_size je n p line) (mm_at live cap S tot L e s k)"
  using assms je_sallocx_live [of je live S _ p n]
  by (auto simp: triple_def check_size_def check_def mm_at_def serves_def passing_shorthand
      intro!: exI [of _ "mm _"])

lemma triple_freed_exec:
  assumes "serves je live cap S Z" and "L p = None" and "r \<noteq> 0"
  shows "triple (mm_at live cap S tot (L(p \<mapsto> r)) (e + unat r) s k) (call_void (freeExecMemory je t p))
    (mm_at live cap S tot L e s k)"
  using triple_free_exec [OF assms(1), of "L(p \<mapsto> r)" p r "e + unat r" tot s k t] assms(2,3)
  by (simp add: fun_upd_idem)

lemma triple_freed_storage:
  assumes "serves je live cap S Z" and "L p = None" and "r \<noteq> 0"
  shows "triple (mm_at live cap S tot (L(p \<mapsto> r)) e (s + unat r) k) (call_void (freeStorageMemory je t p))
    (mm_at live cap S tot L e s k)"
  using triple_free_storage [OF assms(1), of "L(p \<mapsto> r)" p r "s + unat r" tot e k t] assms(2,3)
  by (simp add: fun_upd_idem)

section \<open>Loops\<close>

definition held :: "(addr \<rightharpoonup> size_t) \<Rightarrow> addr list \<Rightarrow> size_t \<Rightarrow> addr \<rightharpoonup> size_t" where
  "held L ps r = (\<lambda>a. if a \<in> set ps then Some r else L a)"

definition without :: "(addr \<rightharpoonup> size_t) \<Rightarrow> addr list \<Rightarrow> addr \<rightharpoonup> size_t" where
  "without L ps = (\<lambda>a. if a \<in> set ps then None else L a)"

lemma held_Nil [simp]: "held L [] r = L" "without L [] = L"
  by (simp_all add: held_def without_def)

lemma held_Cons: "q \<notin> set ps \<Longrightarrow> held (L(q \<mapsto> r)) ps r = held L (q # ps) r"
  by (auto simp: held_def fun_eq_iff)

lemma without_Cons: "without (L(q := None)) ps = without L (q # ps)"
  by (auto simp: without_def fun_eq_iff)

lemma without_held: "\<forall>p \<in> set ps. L p = None \<Longrightarrow> without (held L ps r) ps = L"
  by (auto simp: held_def without_def fun_eq_iff)

lemma fill_exec:
  assumes "suite_allocator je live cap S" and "list_ex ((=) (n, n)) suite_sizes"
    and "1 \<le> unat n" and "unat n \<le> 8388608"
    and "\<And>p w. p \<noteq> NULL \<Longrightarrow> \<not> fail_or_ignore w \<Longrightarrow> assertion p w = Returns w"
    and "e + s + j * unat n \<le> tot"
    and "\<And>ps. length ps = j \<Longrightarrow> distinct ps \<Longrightarrow> \<forall>p \<in> set ps. L p = None \<Longrightarrow>
      triple (mm_at live cap S tot (held L ps n) (e + j * unat n) s k) (K (arr @ ps)) Q"
  shows "triple (mm_at live cap S tot L e s (j + k)) (fill (allocExecMemory je t) n assertion j arr K) Q"
  using assms(6,7)
proof (induction j arbitrary: L e arr)
  case 0
  then show ?case using "0.prems"(2) [of "[]"] by simp
next
  case (Suc j)
  have "triple (mm_at live cap S tot (L(p \<mapsto> n)) (e + unat n) s (j + k))
      (seq (check (assertion p)) (fill (allocExecMemory je t) n assertion j (arr @ [p]) K)) Q"
    if p: "p \<noteq> NULL" "L p = None" for p
  proof (rule triple_seq [OF triple_check])
    show "assertion p w = Returns w" if "\<not> fail_or_ignore w" for w using p(1) that by (rule assms(5))
    show "triple (mm_at live cap S tot (L(p \<mapsto> n)) (e + unat n) s (j + k))
        (fill (allocExecMemory je t) n assertion j (arr @ [p]) K) Q"
    proof (rule Suc.IH)
      show "e + unat n + s + j * unat n \<le> tot" using Suc.prems(1) by simp
      fix ps assume ps: "length ps = j" "distinct ps" "\<forall>q \<in> set ps. (L(p \<mapsto> n)) q = None"
      then have "p \<notin> set ps" by auto
      with ps p(2) show "triple (mm_at live cap S tot (held (L(p \<mapsto> n)) ps n) (e + unat n + j * unat n) s k)
          (K ((arr @ [p]) @ ps)) Q"
        using Suc.prems(2) [of "p # ps"] by (auto simp: held_Cons add.assoc split: if_splits)
    qed
  qed
  then show ?case
    using Suc.prems(1) by (auto intro!: triple_exec [OF assms(1-4)])
qed

lemma fill_storage:
  assumes "suite_allocator je live cap S" and "list_ex ((=) (n, n)) suite_sizes"
    and "4096 \<le> unat n" and "unat n \<le> 67108864"
    and "\<And>p w. p \<noteq> NULL \<Longrightarrow> \<not> fail_or_ignore w \<Longrightarrow> assertion p w = Returns w"
    and "e + s + j * unat n \<le> tot" and "s + j * unat n \<le> tot - tot div 2"
    and "\<And>ps. length ps = j \<Longrightarrow> distinct ps \<Longrightarrow> \<forall>p \<in> set ps. L p = None \<Longrightarrow>
      triple (mm_at live cap S tot (held L ps n) e (s + j * unat n) k) (K (arr @ ps)) Q"
  shows "triple (mm_at live cap S tot L e s (j + k)) (fill (allocStorageMemory je t) n assertion j arr K) Q"
  using assms(6-8)
proof (induction j arbitrary: L s arr)
  case 0
  then show ?case using "0.prems"(3) [of "[]"] by simp
next
  case (Suc j)
  have "triple (mm_at live cap S tot (L(p \<mapsto> n)) e (s + unat n) (j + k))
      (seq (check (assertion p)) (fill (allocStorageMemory je t) n assertion j (arr @ [p]) K)) Q"
    if p: "p \<noteq> NULL" "L p = None" for p
  proof (rule triple_seq [OF triple_check])
    show "assertion p w = Returns w" if "\<not> fail_or_ignore w" for w using p(1) that by (rule assms(5))
    show "triple (mm_at live cap S tot (L(p \<mapsto> n)) e (s + unat n) (j + k))
        (fill (allocStorageMemory je t) n assertion j (arr @ [p]) K) Q"
    proof (rule Suc.IH)
      show "e + (s + unat n) + j * unat n \<le> tot" using Suc.prems(1) by simp
      show "s + unat n + j * unat n \<le> tot - tot div 2" using Suc.prems(2) by simp
      fix ps assume ps: "length ps = j" "distinct ps" "\<forall>q \<in> set ps. (L(p \<mapsto> n)) q = None"
      then have "p \<notin> set ps" by auto
      with ps p(2) show "triple (mm_at live cap S tot (held (L(p \<mapsto> n)) ps n) e (s + unat n + j * unat n) k)
          (K ((arr @ [p]) @ ps)) Q"
        using Suc.prems(3) [of "p # ps"] by (auto simp: held_Cons add.assoc split: if_splits)
    qed
  qed
  then show ?case
    using Suc.prems(1,2) by (auto intro!: triple_storage [OF assms(1-4)])
qed

lemma free_all_exec:
  assumes "suite_allocator je live cap S" and "r \<noteq> 0"
    and "distinct ps" and "\<forall>p \<in> set ps. L p = Some r" and "length ps * unat r \<le> e"
  shows "triple (mm_at live cap S tot L e s k) (free_all (freeExecMemory je t) ps)
    (mm_at live cap S tot (without L ps) (e - length ps * unat r) s k)"
  using assms(3-5)
proof (induction ps arbitrary: L e)
  case (Cons p ps)
  have "triple (mm_at live cap S tot (L(p := None)) (e - unat r) s k) (free_all (freeExecMemory je t) ps)
      (mm_at live cap S tot (without (L(p := None)) ps) (e - unat r - length ps * unat r) s k)"
    using Cons.prems by (intro Cons.IH) auto
  then show ?case
    using Cons.prems assms(2)
    by (auto simp: without_Cons diff_diff_left intro!: triple_seq [OF triple_free_exec [OF assms(1)]])
qed (simp add: triple_done)

lemma free_all_storage:
  assumes "suite_allocator je live cap S" and "r \<noteq> 0"
    and "distinct ps" and "\<forall>p \<in> set ps. L p = Some r" and "length ps * unat r \<le> s"
  shows "triple (mm_at live cap S tot L e s k) (free_all (freeStorageMemory je t) ps)
    (mm_at live cap S tot (without L ps) e (s - length ps * unat r) k)"
  using assms(3-5)
proof (induction ps arbitrary: L s)
  case (Cons p ps)
  have "triple (mm_at live cap S tot (L(p := None)) e (s - unat r) k) (free_all (freeStorageMemory je t) ps)
      (mm_at live cap S tot (without (L(p := None)) ps) e (s - unat r - length ps * unat r) k)"
    using Cons.prems by (intro Cons.IH) auto
  then show ?case
    using Cons.prems assms(2)
    by (auto simp: without_Cons diff_diff_left intro!: triple_seq [OF triple_free_storage [OF assms(1)]])
qed (simp add: triple_done)

text \<open>The loop of \<^verbatim>\<open>testMultipleSerialAllocs\<close>, and the one that frees both arrays.\<close>

abbreviation both_held :: "(addr \<rightharpoonup> size_t) \<Rightarrow> addr list \<Rightarrow> addr list \<Rightarrow> addr \<rightharpoonup> size_t" where
  "both_held L pes pss \<equiv> held (held L pes 128) pss 16384"

lemma both_held_Cons:
  "p \<notin> set pes \<union> set pss \<Longrightarrow> q \<notin> set pes \<union> set pss \<Longrightarrow> q \<noteq> p \<Longrightarrow>
   both_held (L(p \<mapsto> 128, q \<mapsto> 16384)) pes pss = both_held L (p # pes) (q # pss)"
  by (auto simp: held_def fun_eq_iff)

lemma suite_has:
  "list_ex ((=) (1, 8)) suite_sizes" "list_ex ((=) (4, 8)) suite_sizes"
  "list_ex ((=) (8, 8)) suite_sizes" "list_ex ((=) (128, 128)) suite_sizes"
  "list_ex ((=) (4096, 4096)) suite_sizes" "list_ex ((=) (8192, 8192)) suite_sizes"
  "list_ex ((=) (16384, 16384)) suite_sizes" "list_ex ((=) (1048576, 1048576)) suite_sizes"
  "list_ex ((=) (8388608, 8388608)) suite_sizes" "list_ex ((=) (16777216, 16777216)) suite_sizes"
  "list_ex ((=) (67108864, 67108864)) suite_sizes"
  by (simp_all add: suite_sizes_def)

lemma test_sizes:
  "8 * K1_Ki = 8192" "16 * K1_Ki = 16384" "16 * K1_Mi = 16777216" "4 * K1_Ki = 4096" "K1_Mi = 1048576"
  "PM_EXEC_POOL_MIN_REQ_SIZE = 1" "PM_EXEC_POOL_MAX_REQ_SIZE = 8388608"
  "PM_STORAGE_POOL_MIN_REQ_SIZE = 4096" "PM_STORAGE_POOL_MAX_REQ_SIZE = 67108864"
  by (simp_all add: size_consts)

lemma serial_allocs_ok:
  assumes A: "suite_allocator je live cap S"
    and "e + s + j * 16512 + 16777216 \<le> tot" and "s + j * 16384 + 16777216 \<le> tot - tot div 2"
    and "\<And>pes pss. length pes = j \<Longrightarrow> length pss = j \<Longrightarrow> distinct (pes @ pss) \<Longrightarrow>
      \<forall>p \<in> set (pes @ pss). L p = None \<Longrightarrow>
      triple (mm_at live cap S tot (both_held L pes pss) (e + j * 128) (s + j * 16384) k)
        (K (pa @ pes) (sa @ pss)) Q"
  shows "triple (mm_at live cap S tot L e s (j * 4 + k)) (serial_allocs je j pa sa K) Q"
  using assms(2-4)
proof (induction j arbitrary: L e s pa sa)
  case 0
  then show ?case using "0.prems"(3) [of "[]" "[]"] by simp
next
  case (Suc j)
  have IH: "triple (mm_at live cap S tot (L(p \<mapsto> 128, q \<mapsto> 16384)) (e + 128) (s + 16384) (j * 4 + k))
      (serial_allocs je j (pa @ [p]) (sa @ [q]) K) Q"
    if p: "L p = None" and q: "(L(p \<mapsto> 128)) q = None" for p q
  proof (rule Suc.IH)
    show "e + 128 + (s + 16384) + j * 16512 + 16777216 \<le> tot" using Suc.prems(1) by simp
    show "s + 16384 + j * 16384 + 16777216 \<le> tot - tot div 2" using Suc.prems(2) by simp
    fix pes pss
    assume new: "length pes = j" "length pss = j" "distinct (pes @ pss)"
      "\<forall>a \<in> set (pes @ pss). (L(p \<mapsto> 128, q \<mapsto> 16384)) a = None"
    have qp: "q \<noteq> p" "L q = None" using q by (auto split: if_splits)
    have out: "p \<notin> set pes \<union> set pss" "q \<notin> set pes \<union> set pss"
      using new(4) qp by (force split: if_splits)+
    have "\<forall>a \<in> set ((p # pes) @ (q # pss)). L a = None"
      using new(4) p qp out by (auto split: if_splits)
    then show "triple (mm_at live cap S tot (both_held (L(p \<mapsto> 128, q \<mapsto> 16384)) pes pss)
        (e + 128 + j * 128) (s + 16384 + j * 16384) k) (K ((pa @ [p]) @ pes) ((sa @ [q]) @ pss)) Q"
      using Suc.prems(3) [of "p # pes" "q # pss"] new(1-3) out qp(1)
      by (auto simp: both_held_Cons add.assoc)
  qed
  have le: "e + s + unat (8192 :: size_t) \<le> tot" "e + s + unat (128 :: size_t) \<le> tot"
      "s + unat (16777216 :: size_t) \<le> tot - tot div 2" "e + 128 + s + unat (16777216 :: size_t) \<le> tot"
      "s + unat (16384 :: size_t) \<le> tot - tot div 2" "e + 128 + s + unat (16384 :: size_t) \<le> tot"
    using Suc.prems(1,2) by simp_all
  have k: "Suc j * 4 + k = Suc (Suc (Suc (Suc (j * 4 + k))))" by simp
  note free_e = triple_freed_exec [OF A, of L _ 8192 tot e s _ main_thread, simplified]
  have free_s: "triple (mm_at live cap S tot (M(a \<mapsto> 16777216)) (e + 128) (s + 16777216) i)
      (call_void (freeStorageMemory je main_thread a)) (mm_at live cap S tot M (e + 128) s i)"
    if "M a = None" for M a i
    using triple_freed_storage [OF A, of M a 16777216 tot "e + 128" s i main_thread] that by simp
  show ?case
    unfolding k serial_allocs.simps test_sizes
    apply (rule triple_exec [OF A suite_has(6) _ _ le(1)], simp_all)
    apply (rule triple_seq [OF triple_not_null(1)], assumption)
    apply (rule triple_seq [OF free_e], assumption)
    apply (rule triple_exec [OF A suite_has(4) _ _ le(2)], simp_all)
    apply (rule triple_seq [OF triple_not_null(1)], assumption)
    apply (rule triple_storage [OF A suite_has(10) _ _ le(3,4)], simp_all)
    apply (rule triple_seq [OF triple_not_null(1)], assumption)
    apply (rule triple_seq [OF free_s], simp)
    apply (rule triple_storage [OF A suite_has(7) _ _ le(5,6)], simp_all)
    apply (rule triple_seq [OF triple_not_null(1)], assumption)
    apply (rule IH, simp_all)
    done
qed

lemma free_both_ok:
  assumes A: "suite_allocator je live cap S" and "length pes = length pss"
    and "distinct (pes @ pss)" and "\<forall>p \<in> set pes. L p = Some 128" and "\<forall>p \<in> set pss. L p = Some 16384"
    and "length pes * 128 \<le> e" and "length pes * 16384 \<le> s"
  shows "triple (mm_at live cap S tot L e s k) (free_both je (zip pes pss))
    (mm_at live cap S tot (without L (pes @ pss)) (e - length pes * 128) (s - length pes * 16384) k)"
  using assms(2-7)
proof (induction pes pss arbitrary: L e s rule: list_induct2)
  case (Cons p pes q pss)
  let ?L = "L(p := None, q := None)"
  have qp: "q \<noteq> p" using Cons.prems(1) by auto
  have "triple (mm_at live cap S tot ?L (e - 128) (s - 16384) k) (free_both je (zip pes pss))
      (mm_at live cap S tot (without ?L (pes @ pss)) (e - 128 - length pes * 128)
        (s - 16384 - length pes * 16384) k)"
    using Cons.prems by (intro Cons.IH) auto
  moreover have "without ?L (pes @ pss) = without L ((p # pes) @ (q # pss))"
    by (auto simp: without_def fun_eq_iff)
  moreover have "triple (mm_at live cap S tot L e s k) (call_void (freeExecMemory je main_thread p))
      (mm_at live cap S tot (L(p := None)) (e - 128) s k)"
    using triple_free_exec [OF A, of L p 128 e] Cons.prems(2,4) by simp
  moreover have "triple (mm_at live cap S tot (L(p := None)) (e - 128) s k)
      (call_void (freeStorageMemory je main_thread q)) (mm_at live cap S tot ?L (e - 128) (s - 16384) k)"
    using triple_free_storage [OF A, of "L(p := None)" q 16384 s] Cons.prems(3,5) qp by simp
  ultimately show ?case
    by (auto simp: diff_diff_left intro: triple_seq)
qed (simp add: triple_done)

section \<open>Every test passes\<close>

text \<open>A test that runs with \<open>tot\<close> bytes and \<open>c\<close> requests left gives everything back.\<close>

definition test_ok ::
  "'h heap_view \<Rightarrow> (nat \<Rightarrow> 'h \<Rightarrow> bool) \<Rightarrow> nat \<Rightarrow> nat \<Rightarrow> nat \<Rightarrow> 'h test \<Rightarrow> bool" where
  "test_ok live cap S tot c T \<longleftrightarrow>
     (\<forall>L k. triple (mm_at live cap S tot L 0 0 (c + k)) T (mm_at live cap S tot L 0 0 k))"

lemma small_exec:
  assumes A: "suite_allocator je live cap S" and "list_ex ((=) (n, 8)) suite_sizes"
    and "1 \<le> unat n" and "unat n \<le> 8" and "8 \<le> tot"
  shows "triple (mm_at live cap S tot L 0 0 (Suc k)) (call (allocExecMemory je main_thread n) (\<lambda>p. seqs
      [check (TEST_ASSERT_NOT_EQUAL NULL p line), check_size je 8 p line',
       call_void (freeExecMemory je main_thread p)])) (mm_at live cap S tot L 0 0 k)"
proof (rule triple_exec [OF A assms(2,3)])
  fix p assume p: "p \<noteq> NULL" "L p = None"
  let ?P = "mm_at live cap S tot (L(p \<mapsto> 8)) (0 + unat (8 :: size_t)) 0 k"
  have "triple ?P (call_void (freeExecMemory je main_thread p)) (mm_at live cap S tot L 0 0 k)"
    using p(2) by (intro triple_freed_exec [OF A]) simp_all
  moreover have "triple ?P (check_size je 8 p line') ?P" by (rule triple_check_size [OF A]) simp
  ultimately show "triple ?P (seqs [check (TEST_ASSERT_NOT_EQUAL NULL p line), check_size je 8 p line',
       call_void (freeExecMemory je main_thread p)]) (mm_at live cap S tot L 0 0 k)"
    using triple_not_null(1) [OF p(1)] by (blast intro: triple_seqs triple_last)
qed (use assms in auto)

text \<open>The tests that ask for nothing the policy admits need no memory at all.\<close>

lemma refused_tests_ok:
  assumes tot: "tot = 1073741824"
  shows "test_ok live cap S tot 0 (testExecMaxSizeAlloc je)"
    "test_ok live cap S tot 0 (testStorage1ByteAlloc je)" "test_ok live cap S tot 0 (testStorage4BytesAlloc je)"
    "test_ok live cap S tot 0 (testStorage8BytesAlloc je)" "test_ok live cap S tot 0 (testStorageMaxSizeAlloc je)"
    "test_ok live cap S tot 0 (testNegativeCases je)"
proof -
  show "test_ok live cap S tot 0 (testExecMaxSizeAlloc je)"
      "test_ok live cap S tot 0 (testStorage1ByteAlloc je)" "test_ok live cap S tot 0 (testStorage4BytesAlloc je)"
      "test_ok live cap S tot 0 (testStorage8BytesAlloc je)" "test_ok live cap S tot 0 (testStorageMaxSizeAlloc je)"
    unfolding test_ok_def testExecMaxSizeAlloc_def testStorage1ByteAlloc_def testStorage4BytesAlloc_def
      testStorage8BytesAlloc_def testStorageMaxSizeAlloc_def test_sizes
    by (auto intro!: triple_exec_refused triple_storage_refused triple_null)
  have neg: "triple P (call (allocExecMemory je main_thread n) (\<lambda>p. check (TEST_ASSERT_EQUAL_MESSAGE NULL p x line))) P"
      "triple P (call (allocStorageMemory je main_thread n) (\<lambda>p. check (TEST_ASSERT_EQUAL_MESSAGE NULL p x line))) P"
    if "P = mm_at live cap S tot L 0 0 k" "n = 0 \<or> n = - 1" for P L k n x line
    using that by (auto intro!: triple_exec_refused triple_storage_refused triple_null simp: unat_uminus64)
  show "test_ok live cap S tot 0 (testNegativeCases je)"
    unfolding test_ok_def testNegativeCases_def add_0
    by (intro allI triple_seqs triple_last; rule neg) simp_all
qed

lemma small_tests_ok:
  assumes A: "suite_allocator je live cap S" and tot: "tot = 1073741824"
  shows "test_ok live cap S tot 1 (testExec1ByteAlloc je)" "test_ok live cap S tot 1 (testExec4BytesAlloc je)"
    "test_ok live cap S tot 1 (testExec8BytesAlloc je)"
  using small_exec [OF A suite_has(1)] small_exec [OF A suite_has(2)] small_exec [OF A suite_has(3)] tot
  by (simp_all add: test_ok_def testExec1ByteAlloc_def testExec4BytesAlloc_def testExec8BytesAlloc_def
      test_sizes del: seqs.simps)

lemma storage_4KB_ok:
  assumes A: "serves je live cap S Z" and "list_ex ((=) (4096, 4096)) Z" and "tot = 1073741824"
  shows "test_ok live cap S tot 1 (testStorage4KBAlloc je)"
proof -
  have "triple (mm_at live cap S tot L 0 0 (Suc k)) (testStorage4KBAlloc je) (mm_at live cap S tot L 0 0 k)" for L k
    unfolding testStorage4KBAlloc_def test_sizes
  proof (rule triple_storage [OF A assms(2)])
    fix p assume p: "p \<noteq> NULL" "L p = None"
    let ?P = "mm_at live cap S tot (L(p \<mapsto> 4096)) 0 (0 + unat (4096 :: size_t)) k"
    have "triple ?P (call_void (freeStorageMemory je main_thread p)) (mm_at live cap S tot L 0 0 k)"
      using p(2) by (intro triple_freed_storage [OF A]) simp_all
    moreover have "triple ?P (check_size je 4096 p 111) ?P" by (rule triple_check_size [OF A]) simp
    ultimately show "triple ?P (seqs [check_size je 4096 p 111,
        call_void (freeStorageMemory je main_thread p)]) (mm_at live cap S tot L 0 0 k)"
      by (blast intro: triple_seqs triple_last)
  qed (use assms(3) in auto)
  then show ?thesis by (simp add: test_ok_def)
qed

lemma serial_ok:
  assumes A: "suite_allocator je live cap S" and "tot = 134217728"
  shows "test_ok live cap S tot 4000 (testMultipleSerialAllocs je)"
proof -
  have "triple (mm_at live cap S tot L 0 0 (1000 * 4 + k)) (testMultipleSerialAllocs je)
      (mm_at live cap S tot L 0 0 k)" for L k
    unfolding testMultipleSerialAllocs_def
  proof (rule serial_allocs_ok [OF A])
    fix pes pss
    assume new: "length pes = 1000" "length pss = 1000" "distinct (pes @ pss)"
      "\<forall>p \<in> set (pes @ pss). L p = None"
    have both: "\<forall>p \<in> set pes. both_held L pes pss p = Some 128"
        "\<forall>p \<in> set pss. both_held L pes pss p = Some 16384"
      using new(3) by (auto simp: held_def)
    have "without (both_held L pes pss) (pes @ pss) = L"
      using new(4) by (auto simp: without_def held_def fun_eq_iff)
    then show "triple (mm_at live cap S tot (both_held L pes pss) (0 + 1000 * 128) (0 + 1000 * 16384) k)
        (free_both je (zip ([] @ pes) ([] @ pss))) (mm_at live cap S tot L 0 0 k)"
      using free_both_ok [OF A _ new(3) both, of "1000 * 128" "1000 * 16384" tot k] new(1,2) by simp
  qed (use assms(2) in auto)
  then show ?thesis by (simp add: test_ok_def)
qed

lemma exec_quota_ok:
  assumes A: "suite_allocator je live cap S" and "tot = 134217728"
  shows "test_ok live cap S tot 16 (testExecPoolQuota je)"
proof -
  have n: "unat (TEST_FUNC_TEST_MAX_SIZE div 8388608) = 16"
    by (simp add: TEST_FUNC_TEST_MAX_SIZE_def size_consts)
  have "triple (mm_at live cap S tot L 0 0 (16 + k)) (testExecPoolQuota je) (mm_at live cap S tot L 0 0 k)" for L k
    unfolding testExecPoolQuota_def test_sizes n
  proof (rule fill_exec [OF A suite_has(9)])
    fix ps :: "addr list" assume ps: "length ps = 16" "distinct ps" "\<forall>p \<in> set ps. L p = None"
    let ?P = "mm_at live cap S tot (held L ps 8388608) (0 + 16 * unat (8388608 :: size_t)) 0 k"
    have "triple ?P (free_all (freeExecMemory je main_thread) ps) (mm_at live cap S tot L 0 0 k)"
      using free_all_exec [OF A, of 8388608 ps "held L ps 8388608" "16 * 8388608" tot 0 k main_thread]
        ps without_held [OF ps(3), of 8388608] by (simp add: held_def)
    moreover have "triple ?P (call (allocExecMemory je main_thread m)
        (\<lambda>p. check (TEST_ASSERT_EQUAL NULL p line))) ?P" if "m = 1 \<or> m = 8388608" for m line
      using that assms(2) by (intro triple_exec_refused triple_null) auto
    ultimately show "triple ?P (seqs
       [call (allocExecMemory je main_thread 1) (\<lambda>p. check (TEST_ASSERT_EQUAL NULL p 166)),
        call (allocExecMemory je main_thread 8388608) (\<lambda>p. check (TEST_ASSERT_EQUAL NULL p 167)),
        free_all (freeExecMemory je main_thread) ([] @ ps)]) (mm_at live cap S tot L 0 0 k)"
      by (auto intro!: triple_seqs triple_last simp del: seqs.simps)
  qed (use assms(2) in \<open>auto simp: passing_shorthand\<close>)
  then show ?thesis by (simp add: test_ok_def)
qed

lemma storage_quota_ok:
  assumes A: "suite_allocator je live cap S" and "tot = 134217728"
  shows "test_ok live cap S tot 1 (testStoragePoolQuota je)"
proof -
  have n: "unat (TEST_FUNC_TEST_MAX_SIZE div 67108864 - 1) = 1"
    by (simp add: TEST_FUNC_TEST_MAX_SIZE_def size_consts)
  have "triple (mm_at live cap S tot L 0 0 (1 + k)) (testStoragePoolQuota je) (mm_at live cap S tot L 0 0 k)" for L k
    unfolding testStoragePoolQuota_def test_sizes n
  proof (rule fill_storage [OF A suite_has(11)])
    fix ps :: "addr list" assume ps: "length ps = 1" "distinct ps" "\<forall>p \<in> set ps. L p = None"
    let ?P = "mm_at live cap S tot (held L ps 67108864) 0 (0 + 1 * unat (67108864 :: size_t)) k"
    have "triple ?P (free_all (freeStorageMemory je main_thread) ps) (mm_at live cap S tot L 0 0 k)"
      using free_all_storage [OF A, of 67108864 ps "held L ps 67108864" "67108864" tot 0 k main_thread]
        ps without_held [OF ps(3), of 67108864] by (simp add: held_def)
    moreover have "triple ?P (call (allocStorageMemory je main_thread m)
        (\<lambda>p. check (TEST_ASSERT_EQUAL_MESSAGE NULL p x line))) ?P" if "m = 4096 \<or> m = 67108864" for m x line
      using that assms(2) by (intro triple_storage_refused triple_null) auto
    ultimately show "triple ?P (seqs
       [call (allocStorageMemory je main_thread 4096) (\<lambda>p.
          check (TEST_ASSERT_EQUAL_MESSAGE NULL p ''min not work'' 191)),
        call (allocStorageMemory je main_thread 67108864) (\<lambda>p.
          check (TEST_ASSERT_EQUAL_MESSAGE NULL p ''max not work'' 194)),
        free_all (freeStorageMemory je main_thread) ([] @ ps)]) (mm_at live cap S tot L 0 0 k)"
      by (auto intro!: triple_seqs triple_last simp del: seqs.simps)
  qed (use assms(2) in \<open>auto simp: passing_shorthand\<close>)
  then show ?thesis by (simp add: test_ok_def)
qed

text \<open>The mixed workload: what is held when both limits have been hit, and giving it all back.\<close>

lemma mixed_release:
  assumes A: "suite_allocator je live cap S"
    and x: "L x = None" and y: "(L(x \<mapsto> 1048576)) y = None"
    and ps: "length ps = 63" "distinct ps" "\<forall>p \<in> set ps. (L(x \<mapsto> 1048576, y \<mapsto> 67108864)) p = None"
    and z: "((held (L(x \<mapsto> 1048576, y \<mapsto> 67108864)) ps 1048576)(y := None)) z = None"
  shows "triple (mm_at live cap S tot
      ((held (L(x \<mapsto> 1048576, y \<mapsto> 67108864)) ps 1048576)(y := None, z \<mapsto> 67108864)) 67108864 67108864 k)
    (seqs [free_all (freeExecMemory je main_thread) ps, call_void (freeExecMemory je main_thread x),
      call_void (freeStorageMemory je main_thread z)])
    (mm_at live cap S tot L 0 0 k)"
proof -
  let ?M = "(held (L(x \<mapsto> 1048576, y \<mapsto> 67108864)) ps 1048576)(y := None, z \<mapsto> 67108864)"
  have distinct: "x \<notin> set ps" "y \<notin> set ps" "y \<noteq> x"
    using y ps(3) by (auto split: if_splits)
  then have "z \<notin> set ps" "z \<noteq> x" using z by (auto simp: held_def split: if_splits)
  with distinct have M: "\<forall>p \<in> set ps. ?M p = Some 1048576" "without ?M ps x = Some 1048576"
      "((without ?M ps)(x := None)) z = Some 67108864"
    by (auto simp: held_def without_def)
  have L: "(without ?M ps)(x := None, z := None) = L"
    using distinct x y z ps(3) by (auto simp: held_def without_def fun_eq_iff split: if_splits)
  have r1: "triple (mm_at live cap S tot ?M 67108864 67108864 k)
      (free_all (freeExecMemory je main_thread) ps) (mm_at live cap S tot (without ?M ps) 1048576 67108864 k)"
    using free_all_exec [OF A _ ps(2) M(1), of 67108864] ps(1) by (simp del: fun_upd_apply)
  have r2: "triple (mm_at live cap S tot (without ?M ps) 1048576 67108864 k)
      (call_void (freeExecMemory je main_thread x))
      (mm_at live cap S tot ((without ?M ps)(x := None)) 0 67108864 k)"
    using triple_free_exec [OF A, of "without ?M ps" x 1048576 1048576] M(2) by (simp del: fun_upd_apply)
  have r3: "triple (mm_at live cap S tot ((without ?M ps)(x := None)) 0 67108864 k)
      (call_void (freeStorageMemory je main_thread z))
      (mm_at live cap S tot ((without ?M ps)(x := None, z := None)) 0 0 k)"
    using triple_free_storage [OF A, of "(without ?M ps)(x := None)" z 67108864 67108864] M(3)
    by (simp del: fun_upd_apply)
  from triple_seqs [OF r1 triple_seqs [OF r2 triple_last [OF r3]]] show ?thesis
    unfolding L .
qed

lemma mixed_ok:
  assumes A: "suite_allocator je live cap S" and tot: "tot = 134217728"
  shows "test_ok live cap S tot 66 (testMixedWorkload je)"
proof -
  have exec_full: "triple P (call (allocExecMemory je main_thread 1) (\<lambda>p.
      check (TEST_ASSERT_EQUAL_MESSAGE NULL p m line))) P"
    if "P = mm_at live cap S tot L 67108864 67108864 i" for P L i m line
    using that tot by (auto intro!: triple_exec_refused triple_null)
  have storage_full: "triple P (call (allocStorageMemory je main_thread 4096) (\<lambda>p.
      check (TEST_ASSERT_EQUAL_MESSAGE NULL p m line))) P"
    if "P = mm_at live cap S tot L e 67108864 i" for P L e i m line
    using that tot by (auto intro!: triple_storage_refused triple_null)
  have fill: "triple (mm_at live cap S tot L 1048576 67108864 (63 + i)) (fill (allocExecMemory je main_thread) 1048576
      (\<lambda>p. TEST_ASSERT_NOT_EQUAL_MESSAGE NULL p m line) 63 [] K) Q"
    if "\<And>ps. length ps = 63 \<Longrightarrow> distinct ps \<Longrightarrow> \<forall>p \<in> set ps. L p = None \<Longrightarrow>
      triple (mm_at live cap S tot (held L ps 1048576) 67108864 67108864 i) (K ps) Q" for L i m line K Q
    using that tot by (intro fill_exec [OF A suite_has(8)]) (auto simp: passing_shorthand)
  have k: "66 + k = Suc (Suc (63 + Suc k))" for k by simp
  have nums: "0 + unat (1048576 :: size_t) = 1048576" "0 + unat (67108864 :: size_t) = 67108864"
      "67108864 - unat (67108864 :: size_t) = 0"
    by simp_all
  have free: "triple (mm_at live cap S tot M e 67108864 i) (call_void (freeStorageMemory je main_thread p))
      (mm_at live cap S tot (M(p := None)) e 0 i)" if "M p = Some 67108864" for M e i p
    using triple_free_storage [OF A, of M p 67108864 67108864 tot e i main_thread] that by simp
  have "triple (mm_at live cap S tot L 0 0 (66 + k)) (testMixedWorkload je) (mm_at live cap S tot L 0 0 k)" for L k
    unfolding testMixedWorkload_def test_sizes k
    apply (rule triple_exec [OF A suite_has(8)], (simp add: tot; fail)+)
    apply (rule triple_seq [OF triple_not_null(2)], assumption)
    apply (rule triple_storage [OF A suite_has(11)], (simp add: tot; fail)+)
    apply (simp only: nums)
    apply (rule triple_seq [OF triple_not_null(2)], assumption)
    apply (rule triple_seq [OF storage_full], rule refl)
    apply (rule fill)
    apply (rule triple_seq [OF exec_full], rule refl)
    apply (rule triple_seq [OF storage_full], rule refl)
    apply (rule triple_seq [OF free])
     apply (simp add: held_def, force split: if_splits)
    apply (rule triple_storage [OF A suite_has(11)], (simp add: tot; fail)+)
    apply (simp only: nums)
    apply (rule triple_seq [OF triple_not_null(2)], assumption)
    apply (rule triple_seq [OF storage_full], rule refl)
    apply (rule triple_seq [OF exec_full], rule refl)
    apply (rule mixed_release [OF A]; assumption)
    done
  then show ?thesis by (simp add: test_ok_def)
qed

section \<open>Running the suites\<close>

text \<open>Between tests: not initialised, the live blocks are \<open>L\<close>.\<close>

definition mm_down ::
  "'h heap_view \<Rightarrow> (nat \<Rightarrow> 'h \<Rightarrow> bool) \<Rightarrow> (addr \<rightharpoonup> size_t) \<Rightarrow> nat \<Rightarrow> 'h mem_mgr \<Rightarrow> bool" where
  "mm_down live cap L k m \<longleftrightarrow>
     mutex_policyMgrStats (pm_stats m) = Mutex_uninit \<and>
     length (poolStats_policyMgrStats (pm_stats m)) = 2 \<and> live (je_heap m) = L \<and> cap k (je_heap m)"

lemma setUp_ok:
  assumes "mm_down live cap L k (mm w)" and "S < 2 ^ 62" and "unat (mem_mgr_test_size w) = tot"
    and "tot < 2 ^ 58"
  obtains m where "setUp w = Inr (Returns (w\<lparr>mm := m\<rparr>))" and "mm_at live cap S tot L 0 0 k m"
proof -
  obtain m where m: "initMemoryManager (mem_mgr_test_size w) (mm w) = Inr (True, m)"
      "je_heap m = je_heap (mm w)" "mm_ok S m" "abs_policy (pm_stats m) = spec_init tot"
    using assms by (rule_tac initMemoryManager_spec [of "mm w" "mem_mgr_test_size w" S])
      (auto simp: mm_down_def)
  have "capacity (abs_policy (pm_stats m)) = tot" "quota (abs_policy (pm_stats m)) = tot - tot div 2"
      "usage m = pool_loads 0 0"
    unfolding m(4) by (simp_all add: spec_init_def fun_eq_iff, metis pool_loads.elims)
  moreover from this(1) have "managed m = tot" by (simp only: abs_policy_simps)
  ultimately have "mm_at live cap S tot L 0 0 k m"
    using m assms(1) by (simp add: mm_at_def mm_down_def)
  with m(1) show thesis by (intro that [of m]) (auto simp: setUp_def call_def)
qed

lemma tearDown_ok:
  assumes "mm_ok S (mm w)"
  shows "\<exists>m. tearDown w = Inr (Returns (w\<lparr>mm := m\<rparr>)) \<and>
    mm_down live cap (live (je_heap (mm w))) k m = cap k (je_heap (mm w))"
  using assms
  by (auto simp: tearDown_def call_void_def mm_down_def destroyMemoryManager_def destroyPolicyMgr_def
      mm_ok_def pm_ready_def pm_config_def)

lemma world_more: "unity.more w = unity.more v \<Longrightarrow> mm w = mm v \<and> mem_mgr_test_size w = mem_mgr_test_size v"
  for w v :: "'h world"
  by (cases w; cases v) simp

text \<open>A state between tests, with the counters and the size the tests are set up with.\<close>

definition between ::
  "'h heap_view \<Rightarrow> (nat \<Rightarrow> 'h \<Rightarrow> bool) \<Rightarrow> (addr \<rightharpoonup> size_t) \<Rightarrow> size_t \<Rightarrow> UNITY_COUNTER_TYPE \<Rightarrow>
   UNITY_COUNTER_TYPE \<Rightarrow> UNITY_COUNTER_TYPE \<Rightarrow> nat \<Rightarrow> 'h world \<Rightarrow> bool" where
  "between live cap L b n f i k w \<longleftrightarrow>
     mm_down live cap L k (mm w) \<and> mem_mgr_test_size w = b \<and> \<not> fail_or_ignore w \<and>
     TestFile (Unity w) = Some ''src/tests.c'' \<and>
     NumberOfTests (Unity w) = n \<and> TestFailures (Unity w) = f \<and> TestIgnores (Unity w) = i"

text \<open>
  A test that started in \<open>u\<close> has ended in \<open>v\<close>, failed (\<open>bad\<close>) or not, with the memory manager up
  and the live blocks \<open>L\<close>. Only a failing test prints.
\<close>

definition ended ::
  "'h heap_view \<Rightarrow> (nat \<Rightarrow> 'h \<Rightarrow> bool) \<Rightarrow> nat \<Rightarrow> (addr \<rightharpoonup> size_t) \<Rightarrow> nat \<Rightarrow> bool \<Rightarrow>
   'h world \<Rightarrow> 'h world \<Rightarrow> bool" where
  "ended live cap S L j bad u v \<longleftrightarrow>
     mm_ok S (mm v) \<and> live (je_heap (mm v)) = L \<and> cap j (je_heap (mm v)) \<and>
     mem_mgr_test_size v = mem_mgr_test_size u \<and>
     NumberOfTests (Unity v) = NumberOfTests (Unity u) \<and> TestFailures (Unity v) = TestFailures (Unity u) \<and>
     TestIgnores (Unity v) = TestIgnores (Unity u) \<and> CurrentTestIgnored (Unity v) = 0 \<and>
     CurrentTestFailed (Unity v) = (if bad then 1 else 0) \<and> TestFile (Unity v) = TestFile (Unity u) \<and>
     CurrentTestName (Unity v) = CurrentTestName (Unity u) \<and>
     CurrentTestLineNumber (Unity v) = CurrentTestLineNumber (Unity u) \<and>
     (bad \<or> printed v = printed u)"

lemma ended_returns:
  "\<not> fail_or_ignore u \<Longrightarrow> ended live cap S L j False u (u\<lparr>mm := m\<rparr>) \<longleftrightarrow>
     mm_ok S m \<and> live (je_heap m) = L \<and> cap j (je_heap m)"
  by (auto simp: ended_def fail_or_ignore_def)

text \<open>The line of the report for a test that passed.\<close>

definition pass_line :: "string \<Rightarrow> 32 word \<Rightarrow> string" where
  "pass_line name line =
     ''src/tests.c:'' @ UnityPrintNumber (scast line) @ '':'' @ UnityPrint (Some name) @ '':PASS'' @ [CHR 0x0A]"

lemma conclude_passed:
  assumes "TestFile (Unity u) = Some ''src/tests.c''" and "CurrentTestIgnored (Unity u) = 0"
    and "CurrentTestFailed (Unity u) = 0" and "CurrentTestName (Unity u) = Some name"
    and "CurrentTestLineNumber (Unity u) = scast line"
  shows "printed (UnityConcludeTest u) = printed u @ pass_line name line"
proof -
  have "UnityPrint (Some ''src/tests.c'') = ''src/tests.c''" "UnityPrint UnityStrPass = ''PASS''"
    by code_simp+
  with assms show ?thesis
    by (simp add: UnityConcludeTest_def UnityTestResultsBegin_def UNITY_PRINT_EOL_def pass_line_def Let_def)
qed

lemma conclude_file: "TestFile (Unity (UnityConcludeTest u)) = TestFile (Unity u)"
  by (simp add: UnityConcludeTest_def Let_def)

text \<open>A test with a known end is counted, failed or passed; \<open>u\<close> is the state it starts in.\<close>

lemma RUN_TEST_cases:
  assumes "between live cap L b n f i k w" and "S < 2 ^ 62" and "unat b < 2 ^ 58"
  obtains u where "mm_at live cap S (unat b) L 0 0 k (mm u)" and "\<not> fail_or_ignore u"
    and "\<And>T r j bad. T u = Inr r \<Longrightarrow> ended live cap S L j bad u (final r) \<Longrightarrow>
      \<exists>v. RUN_TEST T name line w = Inr v \<and> between live cap L b (n + 1) (f + of_bool bad) i j v \<and>
        (bad \<or> printed v = printed w @ pass_line name line)"
proof -
  let ?u = "UNITY_CLR_DETAILS (w\<lparr>Unity := (Unity w)\<lparr>CurrentTestName := Some name,
      CurrentTestLineNumber := scast line, NumberOfTests := NumberOfTests (Unity w) + 1\<rparr>\<rparr>)"
  have u: "mm ?u = mm w" "mem_mgr_test_size ?u = b" "\<not> fail_or_ignore ?u"
      "NumberOfTests (Unity ?u) = n + 1" "TestFailures (Unity ?u) = f" "TestIgnores (Unity ?u) = i"
      "TestFile (Unity ?u) = Some ''src/tests.c''" "CurrentTestName (Unity ?u) = Some name"
      "CurrentTestLineNumber (Unity ?u) = scast line" "printed ?u = printed w"
    using assms(1) by (cases w; simp add: between_def UNITY_CLR_DETAILS_def fail_or_ignore_def)+
  obtain m0 where m0: "setUp ?u = Inr (Returns (?u\<lparr>mm := m0\<rparr>))" "mm_at live cap S (unat b) L 0 0 k m0"
    using assms u by (rule_tac setUp_ok [of live cap L k ?u S "unat b"]) (auto simp: between_def)
  have "\<exists>v. RUN_TEST T name line w = Inr v \<and> between live cap L b (n + 1) (f + of_bool bad) i j v \<and>
      (bad \<or> printed v = printed w @ pass_line name line)"
    if T: "T (?u\<lparr>mm := m0\<rparr>) = Inr r" and r: "ended live cap S L j bad (?u\<lparr>mm := m0\<rparr>) (final r)"
    for T r j bad
  proof -
    let ?w = "final r"
    obtain m2 where m2: "tearDown ?w = Inr (Returns (?w\<lparr>mm := m2\<rparr>))" "mm_down live cap L j m2"
      using tearDown_ok [of S ?w live cap j] r by (auto simp: ended_def)
    let ?v = "UnityConcludeTest (?w\<lparr>mm := m2\<rparr>)"
    have run: "RUN_TEST T name line w = Inr ?v"
      using m0(1) T m2(1)
      by (cases r) (simp_all add: RUN_TEST_def UnityDefaultTestRun_def TEST_PROTECT_def Let_def)
    have "mm ?v = m2" "mem_mgr_test_size ?v = b"
      using world_more [OF conclude_counts(5), of "?w\<lparr>mm := m2\<rparr>"] u(2) r by (simp_all add: ended_def)
    then have "between live cap L b (n + 1) (f + of_bool bad) i j ?v"
      using m2(2) u r conclude_counts [of "?w\<lparr>mm := m2\<rparr>"]
      by (auto simp: between_def ended_def conclude_file)
    moreover have "printed ?v = printed w @ pass_line name line" if "\<not> bad"
      using conclude_passed [of "?w\<lparr>mm := m2\<rparr>" name line] r u that by (simp add: ended_def)
    ultimately show ?thesis using run by blast
  qed
  with m0(2) u(3) show thesis by (intro that [of "?u\<lparr>mm := m0\<rparr>"]) auto
qed

text \<open>What a test does with \<open>tot\<close> bytes and \<open>c\<close> requests: it ends, failed or not, with nothing leaked.\<close>

definition test_ends ::
  "'h heap_view \<Rightarrow> (nat \<Rightarrow> 'h \<Rightarrow> bool) \<Rightarrow> nat \<Rightarrow> nat \<Rightarrow> nat \<times> bool \<Rightarrow> 'h test \<Rightarrow> bool" where
  "test_ends live cap S tot x T \<longleftrightarrow>
     (\<forall>L k u. mm_at live cap S tot L 0 0 (fst x + k) (mm u) \<longrightarrow> \<not> fail_or_ignore u \<longrightarrow>
       (\<exists>r. T u = Inr r \<and> ended live cap S L k (snd x) u (final r)))"

lemma test_ok_ends: "test_ok live cap S tot c T \<Longrightarrow> test_ends live cap S tot (c, False) T"
  unfolding test_ends_def
proof (intro allI impI)
  fix L k and u :: "'a world"
  assume T: "test_ok live cap S tot c T" and u: "mm_at live cap S tot L 0 0 (fst (c, False) + k) (mm u)"
    "\<not> fail_or_ignore u"
  then obtain m where "T (u\<lparr>mm := mm u\<rparr>) = Inr (Returns (u\<lparr>mm := m\<rparr>))" "mm_at live cap S tot L 0 0 k m"
    unfolding test_ok_def by (force elim: tripleE)
  then show "\<exists>r. T u = Inr r \<and> ended live cap S L k (snd (c, False)) u (final r)"
    using u(2) by (auto simp: ended_returns mm_at_def)
qed

lemma RUN_TEST_ends:
  assumes "between live cap L b n f i (c + k) w" and "S < 2 ^ 62" and "unat b < 2 ^ 58"
    and "test_ends live cap S (unat b) (c, bad) T"
  obtains v where "RUN_TEST T name line w = Inr v" and "between live cap L b (n + 1) (f + of_bool bad) i k v"
    and "bad \<or> printed v = printed w @ pass_line name line"
proof (rule RUN_TEST_cases [OF assms(1-3), of name line])
  fix u
  assume u: "mm_at live cap S (unat b) L 0 0 (c + k) (mm u)" "\<not> fail_or_ignore u"
    and run: "\<And>T r j bad. T u = Inr r \<Longrightarrow> ended live cap S L j bad u (final r) \<Longrightarrow>
      \<exists>v. RUN_TEST T name line w = Inr v \<and> between live cap L b (n + 1) (f + of_bool bad) i j v \<and>
        (bad \<or> printed v = printed w @ pass_line name line)"
  with assms(4) that show thesis unfolding test_ends_def fst_conv snd_conv by metis
qed

abbreviation failures :: "(nat \<times> bool) list \<Rightarrow> UNITY_COUNTER_TYPE" where
  "failures xs \<equiv> sum_list (map (\<lambda>x. of_bool (snd x)) xs)"

definition pass_lines :: "(string \<times> 32 word) list \<Rightarrow> string" where
  "pass_lines ts = concat (map (\<lambda>(name, line). pass_line name line) ts)"

lemma run_tests_end:
  assumes "S < 2 ^ 62" and "unat b < 2 ^ 58"
    and "list_all2 (\<lambda>x t. test_ends live cap S (unat b) x (fst t)) xs ts"
    and "between live cap L b n f i (sum_list (map fst xs) + k) w"
  shows "\<exists>v. run_tests ts w = Inr v \<and>
    between live cap L b (n + of_nat (length ts)) (f + failures xs) i k v \<and>
    (list_ex snd xs \<or> printed v = printed w @ pass_lines (map snd ts))"
  using assms(3,4)
proof (induction xs ts arbitrary: n f w rule: list_all2_induct)
  case Nil
  then show ?case by (simp add: pass_lines_def)
next
  case (Cons x xs t ts)
  obtain T name line where t: "t = (T, name, line)" by (cases t)
  obtain c bad where x: "x = (c, bad)" by (cases x)
  have start: "between live cap L b n f i (c + (sum_list (map fst xs) + k)) w"
    using Cons.prems by (simp add: x add.assoc)
  obtain v where v: "RUN_TEST T name line w = Inr v"
      "between live cap L b (n + 1) (f + of_bool bad) i (sum_list (map fst xs) + k) v"
      "bad \<or> printed v = printed w @ pass_line name line"
    using Cons.hyps(1) unfolding t x by (auto intro: RUN_TEST_ends [OF start assms(1,2)])
  from Cons.IH [OF v(2)] v(3) show ?case by (auto simp: t x v(1) add.assoc pass_lines_def)
qed

lemma suite_ends:
  assumes "S < 2 ^ 62" and "unat b < 2 ^ 58"
    and "list_all2 (\<lambda>x t. test_ends live cap S (unat b) x (fst t)) xs ts"
    and "c = sum_list (map fst xs)" and "m = of_nat (length ts)" and "d = failures xs"
    and "between live cap L b n f i (c + k) w"
  shows "\<exists>v. run_tests ts w = Inr v \<and> between live cap L b (n + m) (f + d) i k v"
  using run_tests_end [OF assms(1-3)] assms(4-7) by blast

lemma suite_ok:
  assumes "S < 2 ^ 62" and "unat b < 2 ^ 58"
    and "list_all2 (\<lambda>c t. test_ok live cap S (unat b) c (fst t)) cs ts"
    and "c = sum_list cs" and "m = of_nat (length ts)" and "out = pass_lines (map snd ts)"
    and "between live cap L b n f i (c + k) w"
  shows "\<exists>v. run_tests ts w = Inr v \<and> between live cap L b (n + m) f i k v \<and>
    printed v = printed w @ out"
proof -
  let ?xs = "map (\<lambda>c. (c, False)) cs"
  have "list_all2 (\<lambda>x t. test_ends live cap S (unat b) x (fst t)) ?xs ts"
    using assms(3) by (auto simp: list_all2_conv_all_nth intro: test_ok_ends)
  from run_tests_end [OF assms(1,2) this, of L n f i k w] assms(5,7) show ?thesis
    by (simp add: assms(4,6) comp_def list_ex_iff)
qed

text \<open>What the two suites print.\<close>

definition text_lines :: "string list \<Rightarrow> string" where
  "text_lines ls = concat (map (\<lambda>l. l @ [CHR 0x0A]) ls)"

definition unit_report :: "string list" where
  "unit_report =
     [''src/tests.c:313:testExec1ByteAlloc:PASS'',
      ''src/tests.c:314:testExec4BytesAlloc:PASS'',
      ''src/tests.c:315:testExec8BytesAlloc:PASS'',
      ''src/tests.c:316:testExecMaxSizeAlloc:PASS'',
      ''src/tests.c:318:testStorage4KBAlloc:PASS'',
      ''src/tests.c:319:testStorageMaxSizeAlloc:PASS'',
      ''src/tests.c:322:testStorage1ByteAlloc:PASS'',
      ''src/tests.c:323:testStorage4BytesAlloc:PASS'',
      ''src/tests.c:324:testStorage8BytesAlloc:PASS'',
      ''src/tests.c:325:testNegativeCases:PASS'']"

definition functional_report :: "string list" where
  "functional_report =
     [''src/tests.c:303:testMultipleSerialAllocs:PASS'',
      ''src/tests.c:304:testExecPoolQuota:PASS'',
      ''src/tests.c:305:testStoragePoolQuota:PASS'',
      ''src/tests.c:306:testMixedWorkload:PASS'',
      ''src/tests.c:307:testFree:PASS'']"

lemma unit_suite:
  assumes A: "suite_allocator je live cap S"
    and "between live cap L TEST_UNIT_TEST_MAX_SIZE n f i (4 + k) w"
  shows "\<exists>v. runUnitTests je w = Inr v \<and> between live cap L TEST_UNIT_TEST_MAX_SIZE (n + 10) f i k v \<and>
    printed v = printed w @ text_lines unit_report"
proof -
  have tot: "unat TEST_UNIT_TEST_MAX_SIZE = 1073741824"
    by (simp add: TEST_UNIT_TEST_MAX_SIZE_def size_consts)
  have S: "S < 2 ^ 62" using A by (simp add: serves_def)
  have report: "text_lines unit_report = pass_lines
     [(''testExec1ByteAlloc'', 313), (''testExec4BytesAlloc'', 314), (''testExec8BytesAlloc'', 315),
      (''testExecMaxSizeAlloc'', 316), (''testStorage4KBAlloc'', 318), (''testStorageMaxSizeAlloc'', 319),
      (''testStorage1ByteAlloc'', 322), (''testStorage4BytesAlloc'', 323),
      (''testStorage8BytesAlloc'', 324), (''testNegativeCases'', 325)]"
    by code_simp
  show ?thesis
    unfolding runUnitTests_def report
    by (rule suite_ok [OF S _ _ _ _ _ assms(2), where cs = "[1, 1, 1, 0, 1, 0, 0, 0, 0, 0]"])
       (use small_tests_ok [OF A refl] refused_tests_ok [OF refl, of live cap S je]
         storage_4KB_ok [OF A suite_has(5) refl] in \<open>simp_all add: tot\<close>)
qed

lemma functional_suite:
  assumes A: "suite_allocator je live cap S"
    and "between live cap L TEST_FUNC_TEST_MAX_SIZE n f i (4083 + k) w"
  shows "\<exists>v. runFunctionalTests je w = Inr v \<and> between live cap L TEST_FUNC_TEST_MAX_SIZE (n + 5) f i k v \<and>
    printed v = printed w @ text_lines functional_report"
proof -
  have tot: "unat TEST_FUNC_TEST_MAX_SIZE = 134217728"
    by (simp add: TEST_FUNC_TEST_MAX_SIZE_def size_consts)
  have S: "S < 2 ^ 62" using A by (simp add: serves_def)
  have free: "test_ok live cap S 134217728 0 testFree"
    by (simp add: test_ok_def testFree_def triple_done del: seqs.simps)
  have report: "text_lines functional_report = pass_lines
     [(''testMultipleSerialAllocs'', 303), (''testExecPoolQuota'', 304), (''testStoragePoolQuota'', 305),
      (''testMixedWorkload'', 306), (''testFree'', 307)]"
    by code_simp
  show ?thesis
    unfolding runFunctionalTests_def report
    by (rule suite_ok [OF S _ _ _ _ _ assms(2), where cs = "[4000, 16, 1, 66, 0]"])
       (use serial_ok [OF A refl] exec_quota_ok [OF A refl] storage_quota_ok [OF A refl]
         mixed_ok [OF A refl] free in \<open>simp_all add: tot\<close>)
qed

subsection \<open>An allocator with the size classes of the tests\<close>

text \<open>The concrete allocator rounds to multiples of 8 and never reuses an address.\<close>

definition bump_cap :: "nat \<Rightarrow> bump_heap \<Rightarrow> bool" where
  "bump_cap k h \<longleftrightarrow> 4096 \<le> unat (next_addr h) \<and> unat (next_addr h) + k * 67108864 < 2 ^ 63 \<and>
     (\<forall>p \<in> fst ` set (blocks h). unat p < unat (next_addr h))"

lemma bump_class:
  assumes "1 \<le> unat n" and "unat n \<le> 67108864" and "round8 n = r"
  shows "exact_class bump_je bump_live bump_cap (n, r)"
  unfolding exact_class_def
proof (intro allI impI)
  fix h k assume cap: "bump_cap (Suc k) h"
  let ?p = "next_addr h"
  have small: "n \<le> 1099511627776" using assms(2) by (simp add: word_le_nat_alt)
  have r: "unat r \<le> 67108864" "unat r \<noteq> 0"
    using assms(1,2) unfolding assms(3) [symmetric] unat_round8 [OF small] by simp_all
  have free: "map_of (blocks h) ?p = None"
    using cap by (force simp: bump_cap_def map_of_eq_None_iff)
  have null: "?p \<noteq> NULL" using cap by (auto simp: bump_cap_def)
  have next_p: "unat (?p + r) = unat ?p + unat r"
    using cap r by (intro unat_add_le) (simp add: bump_cap_def)
  then have "bump_cap k \<lparr>next_addr = ?p + r, blocks = (?p, r) # blocks h\<rparr>"
    using cap r by (auto simp: bump_cap_def)
  then show "case je_malloc bump_je (fst (n, r)) h of
      (p, h') \<Rightarrow> p \<noteq> NULL \<and> bump_live h' p = Some (snd (n, r)) \<and> bump_cap k h'"
    using small free null assms(3) by (simp add: bump_je_def bump_malloc_def bump_live_def Let_def)
qed

lemma bump_suite: "suite_allocator bump_je bump_live bump_cap 7"
proof -
  have "list_all (exact_class bump_je bump_live bump_cap) suite_sizes"
    unfolding suite_sizes_def by (simp add: bump_class round8_def)
  moreover have "bump_cap k (je_free bump_je p h)" if "bump_cap k h" for k h p
    using that by (auto simp: bump_cap_def bump_je_def bump_free_def)
  ultimately show ?thesis by (simp add: serves_def bump_contract)
qed

text \<open>A fresh process: zeroed variables, an empty heap, after \<^verbatim>\<open>UNITY_BEGIN\<close>.\<close>

definition fresh_world :: "size_t \<Rightarrow> bump_heap world" where
  "fresh_world b = UnityBegin (Some ''src/tests.c'')
     \<lparr>Unity = Unity_zero, printed = [], mm = \<lparr>pm_stats = pm_stats_zero, je_heap = bump_empty\<rparr>,
      mem_mgr_test_size = b\<rparr>"

lemma fresh_between:
  "between bump_live bump_cap (\<lambda>_. None) b 0 0 0 5000 (fresh_world b)"
  by (simp add: between_def fresh_world_def UnityBegin_def UNITY_CLR_DETAILS_def mm_down_def pm_stats_zero_def
      fail_or_ignore_def bump_live_def bump_empty_def bump_cap_def fun_eq_iff)

text \<open>
  The unit tests pass: over every allocator with the size classes the tests ask for, all ten run
  to their end without a fault, none fails or is ignored, and afterwards exactly the blocks that were
  live before are live, with the memory manager shut down.
\<close>
theorem runUnitTests_pass:
  assumes "suite_allocator je live cap S"
    and "between live cap L TEST_UNIT_TEST_MAX_SIZE n f i (4 + k) w"
  shows "\<exists>v. runUnitTests je w = Inr v \<and> between live cap L TEST_UNIT_TEST_MAX_SIZE (n + 10) f i k v"
  using unit_suite [OF assms] by blast

theorem runUnitTests_pass_witness:
  "\<exists>v. runUnitTests bump_je (fresh_world TEST_UNIT_TEST_MAX_SIZE) = Inr v \<and>
    NumberOfTests (Unity v) = 10 \<and> TestFailures (Unity v) = 0"
  using runUnitTests_pass [OF bump_suite, of "\<lambda>_. None" 0 0 0 4996 "fresh_world TEST_UNIT_TEST_MAX_SIZE"]
    fresh_between [of TEST_UNIT_TEST_MAX_SIZE]
  by (auto simp: between_def)

text \<open>
  The functional tests pass: a thousand rounds of allocations in both pools, the quota of each
  pool hit and verified, and the mixed workload in which execution requests borrow from the storage
  pool; none of the five fails, and every block is given back.
\<close>
theorem runFunctionalTests_pass:
  assumes "suite_allocator je live cap S"
    and "between live cap L TEST_FUNC_TEST_MAX_SIZE n f i (4083 + k) w"
  shows "\<exists>v. runFunctionalTests je w = Inr v \<and> between live cap L TEST_FUNC_TEST_MAX_SIZE (n + 5) f i k v"
  using functional_suite [OF assms] by blast

theorem runFunctionalTests_pass_witness:
  "\<exists>v. runFunctionalTests bump_je (fresh_world TEST_FUNC_TEST_MAX_SIZE) = Inr v \<and>
    NumberOfTests (Unity v) = 5 \<and> TestFailures (Unity v) = 0"
  using runFunctionalTests_pass [OF bump_suite, of "\<lambda>_. None" 0 0 0 917 "fresh_world TEST_FUNC_TEST_MAX_SIZE"]
    fresh_between [of TEST_FUNC_TEST_MAX_SIZE]
  by (auto simp: between_def)

end
