(* ===== verification/Scheduling.thy ===== *)
theory Scheduling
  imports Prelude
begin

text \<open>
  Systems that move as a schedule says: a move is a function that may fail, a schedule the list of
  the choices it gets. Two interfaces: in \<open>safe_moves\<close> no move of a good state fails; in
  \<open>fair_moves\<close> the moves that change anything descend in a well-founded order, and in a state
  that is not final somebody can make one. The clients' lemmas are that every run succeeds, and that
  every fair schedule reaches a final state and stays there.
\<close>

fun run_moves :: "('c \<Rightarrow> 's \<Rightarrow> 's res) \<Rightarrow> 'c list \<Rightarrow> 's \<Rightarrow> 's res" where
  "run_moves move [] s = Inr s"
| "run_moves move (c # cs) s = rbind (move c s) (run_moves move cs)"

lemma run_moves_append:
  "run_moves move (cs @ ds) s = rbind (run_moves move cs s) (run_moves move ds)"
proof (induction cs arbitrary: s)
  case (Cons c cs)
  then show ?case by (cases "move c s") simp_all
qed simp

lemma run_moves_idle: "(\<And>c. move c s = Inr s) \<Longrightarrow> run_moves move cs s = Inr s"
  by (induction cs) simp_all

text \<open>The choices of an infinite schedule from \<open>i\<close> on.\<close>

definition stretch :: "(nat \<Rightarrow> 'c) \<Rightarrow> nat \<Rightarrow> nat \<Rightarrow> 'c list" where
  "stretch sched i n = map sched [i..<i + n]"

lemma stretch_0 [simp]: "stretch sched i 0 = []"
  by (simp add: stretch_def)

lemma stretch_Suc: "stretch sched i (Suc n) = sched i # stretch sched (Suc i) n"
  by (simp add: stretch_def upt_conv_Cons del: upt_Suc)

lemma stretch_add: "stretch sched i (n + k) = stretch sched i n @ stretch sched (i + n) k"
  unfolding stretch_def add.assoc [symmetric] map_append [symmetric]
  by (simp only: upt_add_eq_append [OF le_add1])

text \<open>A schedule is fair if every actor gets its turn again and again.\<close>

definition takes_turns :: "('c \<Rightarrow> 't) \<Rightarrow> 't set \<Rightarrow> (nat \<Rightarrow> 'c) \<Rightarrow> bool" where
  "takes_turns who actors sched \<longleftrightarrow> (\<forall>t \<in> actors. \<forall>i. \<exists>j \<ge> i. who (sched j) = t)"

section \<open>Safety\<close>

locale safe_moves =
  fixes move :: "'c \<Rightarrow> 's \<Rightarrow> 's res"
    and inv :: "'s \<Rightarrow> bool"
  assumes move_safe: "inv s \<Longrightarrow> \<exists>s'. move c s = Inr s' \<and> inv s'"
begin

lemma run_safe: "inv s \<Longrightarrow> \<exists>s'. run_moves move cs s = Inr s' \<and> inv s'"
proof (induction cs arbitrary: s)
  case (Cons c cs)
  obtain s' where "move c s = Inr s'" "inv s'" using move_safe [OF Cons.prems] by blast
  with Cons.IH [of s'] show ?case by simp
qed simp

end

sublocale safe_moves \<subseteq> moving: invariant "\<lambda>s s'. \<exists>c. move c s = Inr s'" inv
proof
  fix s s' assume "inv s" "\<exists>c. move c s = Inr s'"
  then obtain c where "move c s = Inr s'" by blast
  with move_safe [OF \<open>inv s\<close>, of c] show "inv s'" by simp
qed

section \<open>Termination under fair schedules\<close>

locale fair_moves = safe_moves move inv
  for move :: "'c \<Rightarrow> 's \<Rightarrow> 's res" and inv :: "'s \<Rightarrow> bool" +
  fixes order :: "('s \<times> 's) set"
    and who :: "'c \<Rightarrow> 't"
    and actors :: "'t set"
    and final :: "'s \<Rightarrow> bool"
  assumes wf_order: "wf order"
    and descends: "inv s \<Longrightarrow> move c s = Inr s' \<Longrightarrow> s' = s \<or> (s', s) \<in> order"
    and progress: "inv s \<Longrightarrow> \<not> final s \<Longrightarrow> \<exists>t \<in> actors. \<forall>c. who c = t \<longrightarrow> move c s \<noteq> Inr s"
    and final_stays: "inv s \<Longrightarrow> final s \<Longrightarrow> move c s = Inr s"
begin

lemma run_final: "inv s \<Longrightarrow> final s \<Longrightarrow> run_moves move cs s = Inr s"
  by (intro run_moves_idle final_stays)

text \<open>Whatever the others do first, the run descends by the time the turn of a mover has come.\<close>

lemma descends_by_turn:
  assumes inv: "inv s" and mover: "\<And>c. who c = t \<Longrightarrow> move c s \<noteq> Inr s"
  shows "who (sched (i + d)) = t \<Longrightarrow>
    \<exists>n s'. run_moves move (stretch sched i n) s = Inr s' \<and> inv s' \<and> (s', s) \<in> order"
proof (induction d arbitrary: i)
  case 0
  obtain s' where s': "move (sched i) s = Inr s'" "inv s'" using move_safe [OF inv] by blast
  with 0 mover [of "sched i"] have "s' \<noteq> s" by auto
  with descends [OF inv s'(1)] s' show ?case by (intro exI [of _ 1]) (auto simp: stretch_Suc)
next
  case (Suc d)
  obtain s1 where s1: "move (sched i) s = Inr s1" "inv s1" using move_safe [OF inv] by blast
  show ?case
  proof (cases "s1 = s")
    case True
    obtain n s' where "run_moves move (stretch sched (Suc i) n) s = Inr s'" "inv s'" "(s', s) \<in> order"
      using Suc.IH [of "Suc i"] Suc.prems by auto
    then show ?thesis using s1(1) True by (intro exI [of _ "Suc n"]) (auto simp: stretch_Suc)
  next
    case False
    with descends [OF inv s1(1)] s1 show ?thesis by (intro exI [of _ 1]) (auto simp: stretch_Suc)
  qed
qed

lemma reaches_final:
  assumes fair: "takes_turns who actors sched"
  shows "inv s \<Longrightarrow> \<exists>n s'. run_moves move (stretch sched i n) s = Inr s' \<and> inv s' \<and> final s'"
proof (induction s arbitrary: i rule: wf_induct_rule [OF wf_order])
  case (1 s)
  show ?case
  proof (cases "final s")
    case True
    then show ?thesis using 1(2) by (intro exI [of _ 0]) auto
  next
    case False
    obtain t where t: "t \<in> actors" "\<And>c. who c = t \<Longrightarrow> move c s \<noteq> Inr s"
      using progress [OF 1(2) False] by blast
    obtain d where "who (sched (i + d)) = t"
      using fair t(1) unfolding takes_turns_def by (metis le_Suc_ex)
    then obtain n s1 where s1: "run_moves move (stretch sched i n) s = Inr s1" "inv s1" "(s1, s) \<in> order"
      using descends_by_turn [where t = t and sched = sched and i = i and d = d, OF 1(2) t(2)] by auto
    from 1(1) [OF s1(3,2), of "i + n"] obtain m s2 where
      "run_moves move (stretch sched (i + n) m) s1 = Inr s2" "inv s2" "final s2" by blast
    then show ?thesis
      using s1(1) by (intro exI [of _ "n + m"]) (auto simp: stretch_add run_moves_append)
  qed
qed

lemma fair_run_ends:
  assumes "takes_turns who actors sched" and "inv s"
  obtains n s' where "inv s'" and "final s'" and "\<And>k. run_moves move (stretch sched i (n + k)) s = Inr s'"
proof -
  obtain n s' where "run_moves move (stretch sched i n) s = Inr s'" "inv s'" "final s'"
    using reaches_final [OF assms] by blast
  with run_final show thesis by (intro that [of s' n]) (auto simp: stretch_add run_moves_append)
qed

end

end
