(* ===== verification/Tests_Threads_Pass.thy ===== *)
theory Tests_Threads_Pass
  imports Tests_Threads Tests_Pass Scheduling
begin

text \<open>
  The concurrency test passes under every fair schedule: the threads' code frees what it allocates,
  each block once and to its pool (\<open>tidy\<close>); the process is a client of the system of
  \<open>Mem_Concurrent\<close>, so no call fails; each move that changes anything brings the process closer to
  its end, and some thread can always make one.
\<close>

section \<open>The threads' code is tidy\<close>

text \<open>What a thread holds: its blocks and their pools. \<open>got\<close> is what it holds after an allocation.\<close>

type_synonym blocks_held = "addr \<rightharpoonup> policyMgrPool"

definition got :: "blocks_held \<Rightarrow> policyMgrPool \<Rightarrow> addr \<Rightarrow> blocks_held" where
  "got H p a = (if a = NULL then H else H(a \<mapsto> p))"

primrec tidy :: "prog \<Rightarrow> blocks_held \<Rightarrow> bool" where
  "tidy Done H \<longleftrightarrow> H = Map.empty"
| "tidy (Alloc p n k) H \<longleftrightarrow>
     p \<noteq> POLICY_MGR_POOL_MAX \<and> (\<forall>a. (a \<noteq> NULL \<longrightarrow> H a = None) \<longrightarrow> tidy (k a) (got H p a))"
| "tidy (Free p a k) H \<longleftrightarrow> a \<noteq> NULL \<and> H a = Some p \<and> tidy k (H(a := None))"
| "tidy (Rand k) H \<longleftrightarrow> (\<forall>r. tidy (k r) H)"

lemma tidy_rand: "(\<And>n. tidy (k n) H) \<Longrightarrow> tidy (rand_mod b k) H"
  by (simp add: rand_mod_def)

lemma tidy_usleep: "tidy k H \<Longrightarrow> tidy (usleep_rand k) H"
  unfolding usleep_rand_def by (rule tidy_rand)

lemma tidy_free_if:
  assumes "p \<noteq> NULL \<Longrightarrow> H p = Some pool \<and> tidy k (H(p := None))" and "p = NULL \<Longrightarrow> tidy k H"
  shows "tidy (free_if pool p k) H"
  using assms by (simp add: free_if_def)

text \<open>Allocate and free again.\<close>

lemma tidy_temporary:
  assumes "a \<noteq> NULL \<longrightarrow> H a = None" and "tidy k H"
  shows "tidy (free_if p a k) (got H p a)"
  using assms by (auto intro!: tidy_free_if simp: got_def fun_upd_idem)

lemma tidy_alloc:
  assumes "p \<noteq> POLICY_MGR_POOL_MAX" and "\<And>a. a \<noteq> NULL \<longrightarrow> H a = None \<Longrightarrow> tidy (k a) (got H p a)"
  shows "tidy (Alloc p n k) H"
  using assms by simp

text \<open>A list of pointers, NULL or held, that are all a thread holds.\<close>

fun owns :: "(policyMgrPool \<times> addr) list \<Rightarrow> blocks_held \<Rightarrow> bool" where
  "owns [] H \<longleftrightarrow> H = Map.empty"
| "owns ((p, a) # xs) H \<longleftrightarrow> (if a = NULL then owns xs H else H a = Some p \<and> owns xs (H(a := None)))"

lemma owns_append:
  "owns xs H \<Longrightarrow> a \<noteq> NULL \<longrightarrow> H a = None \<Longrightarrow> owns (xs @ [(p, a)]) (got H p a)"
proof (induction xs H rule: owns.induct)
  case (2 q b xs H)
  show ?case
  proof (cases "b = NULL")
    case False
    with 2(3) have b: "H b = Some q" "owns xs (H(b := None))" by simp_all
    from 2(4) have "a \<noteq> NULL \<longrightarrow> (H(b := None)) a = None" by simp
    from 2(2) [OF False b(2) this] b(1)
    have "owns (xs @ [(p, a)]) (got (H(b := None)) p a)" "H b = Some q"
      by (simp_all add: fun_upd_def)
    moreover from this(2) 2(4) False have "got (H(b := None)) p a = (got H p a)(b := None)"
      "got H p a b = Some q"
      by (cases "a = b"; auto simp: got_def fun_upd_twist)+
    ultimately show ?thesis using False by simp
  qed (use 2 in simp)
qed (auto simp: got_def fun_upd_idem)

definition pairs :: "(addr \<times> addr) list \<Rightarrow> (policyMgrPool \<times> addr) list" where
  "pairs xs = concat (map (\<lambda>(e, s). [(POLICY_MGR_EXEC_POOL, e), (POLICY_MGR_STORAGE_POOL, s)]) xs)"

lemma tidy_alloc_loop:
  assumes "\<And>pe ps H. owns (pairs (zip pe ps)) H \<Longrightarrow> tidy (k pe ps) H"
  shows "length pe = length ps \<Longrightarrow> owns (pairs (zip pe ps)) H \<Longrightarrow> tidy (alloc_loop n pe ps k) H"
proof (induction n arbitrary: pe ps H)
  case (Suc n)
  have "owns (pairs (zip (pe @ [e]) (ps @ [s]))) (got (got H POLICY_MGR_EXEC_POOL e) POLICY_MGR_STORAGE_POOL s)"
    if "e \<noteq> NULL \<longrightarrow> H e = None" "s \<noteq> NULL \<longrightarrow> got H POLICY_MGR_EXEC_POOL e s = None" for e s
    using owns_append [OF owns_append [OF Suc.prems(2) that(1), of POLICY_MGR_EXEC_POOL] that(2),
        of POLICY_MGR_STORAGE_POOL] Suc.prems(1)
    by (simp add: pairs_def)
  then show ?case
    unfolding alloc_loop.simps
    by (intro tidy_rand tidy_alloc tidy_temporary Suc.IH) (use Suc.prems(1) in auto)
qed (use assms in simp)

lemma tidy_free_pairs:
  assumes "tidy k Map.empty"
  shows "owns (pairs xs) H \<Longrightarrow> tidy (free_pairs_loop xs k) H"
proof (induction xs arbitrary: H)
  case (Cons x xs)
  then show ?case
    by (cases x) (auto intro!: tidy_free_if simp: pairs_def split: if_splits)
qed (use assms in \<open>simp add: pairs_def\<close>)

lemma tidy_fill:
  assumes "p \<noteq> POLICY_MGR_POOL_MAX" and "\<And>arr H. owns (map (Pair p) arr) H \<Longrightarrow> tidy (k arr) H"
  shows "owns (map (Pair p) arr) H \<Longrightarrow> tidy (fill_loop p b n arr k) H"
proof (induction n arbitrary: arr H)
  case (Suc n)
  then show ?case
    unfolding fill_loop.simps using assms(1) owns_append by (intro tidy_alloc) fastforce+
qed (use assms in simp)

lemma tidy_free_loop:
  assumes "tidy k Map.empty"
  shows "owns (map (Pair p) arr) H \<Longrightarrow> tidy (free_loop p arr k) H"
  using assms by (induction arr arbitrary: H) (auto intro!: tidy_free_if split: if_splits)

lemma tidy_churn: "tidy k H \<Longrightarrow> tidy (churn_loop n k) H"
proof (induction n)
  case (Suc n)
  then show ?case
    unfolding churn_loop.simps
    by (intro tidy_rand tidy_usleep tidy_alloc tidy_temporary) auto
qed simp

lemma tidy_test: "tidy testThreadMemAllocs Map.empty"
  unfolding testThreadMemAllocs_def
  by (intro tidy_usleep tidy_alloc_loop tidy_free_pairs tidy_rand tidy_fill tidy_free_loop tidy_churn)
     (auto simp: pairs_def)

section \<open>The process as a client of the concurrent system\<close>

text \<open>The blocks thread \<open>t\<close> holds and no call is working on; \<open>K\<close> says who holds a block.\<close>

definition mine :: "block_table \<Rightarrow> (addr \<Rightarrow> tid) \<Rightarrow> tid \<Rightarrow> blocks_held" where
  "mine B K t a =
     (case B a of None \<Rightarrow> None
      | Some x \<Rightarrow> if worker x = None \<and> K a = t then Some (bpool x) else None)"

text \<open>The points inside a call of an allocation from, or a deallocation to, a pool.\<close>

fun allocating :: "policyMgrPool \<Rightarrow> pc \<Rightarrow> bool" where
  "allocating p Idle \<longleftrightarrow> False"
| "allocating p (A_lock q n) \<longleftrightarrow> q = p"
| "allocating p (A_read q n) \<longleftrightarrow> q = p"
| "allocating p (A_decide q n l) \<longleftrightarrow> q = p"
| "allocating p (A_unlock q n ok) \<longleftrightarrow> q = p"
| "allocating p (A_malloc q n) \<longleftrightarrow> q = p"
| "allocating p (A_sallocx q n a) \<longleftrightarrow> q = p"
| "allocating p (J_lock q d a) \<longleftrightarrow> q = p"
| "allocating p (J_read q d a) \<longleftrightarrow> q = p"
| "allocating p (J_write q d u a) \<longleftrightarrow> q = p"
| "allocating p (J_unlock q a) \<longleftrightarrow> q = p"
| "allocating p (Returned q a) \<longleftrightarrow> q = p"
| "allocating p (F_sallocx q a) \<longleftrightarrow> False"
| "allocating p (F_free q a n) \<longleftrightarrow> False"

fun freeing :: "pc \<Rightarrow> bool" where
  "freeing (F_sallocx q a) \<longleftrightarrow> True"
| "freeing (F_free q a n) \<longleftrightarrow> True"
| "freeing (J_lock q d a) \<longleftrightarrow> a = NULL"
| "freeing (J_read q d a) \<longleftrightarrow> a = NULL"
| "freeing (J_write q d u a) \<longleftrightarrow> a = NULL"
| "freeing (J_unlock q a) \<longleftrightarrow> a = NULL"
| "freeing (Returned q a) \<longleftrightarrow> a = NULL"
| "freeing pc \<longleftrightarrow> False"

lemma allocating_step: "thread_step je t pc m = Inr (pc', m') \<Longrightarrow> allocating p pc \<Longrightarrow> allocating p pc'"
  by (cases pc) (auto simp: rbind_eq_Inr Let_def split: prod.splits if_splits)

lemma freeing_step: "thread_step je t pc m = Inr (pc', m') \<Longrightarrow> freeing pc \<Longrightarrow> freeing pc'"
  by (cases pc) (auto simp: rbind_eq_Inr Let_def split: prod.splits if_splits)

text \<open>A thread's code fits the point it is at and what it holds.\<close>

definition coded :: "prog \<Rightarrow> pc \<Rightarrow> blocks_held \<Rightarrow> bool" where
  "coded c pc H \<longleftrightarrow>
     (case c of
        Alloc p n k \<Rightarrow> (pc = Idle \<or> allocating p pc) \<and> tidy c H
      | Free p a k \<Rightarrow> if pc = Idle then tidy c H else freeing pc \<and> tidy k H
      | _ \<Rightarrow> pc = Idle \<and> tidy c H)"

text \<open>The blocks live besides the table's are the \<open>L\<close> of before.\<close>

definition besides :: "(addr \<rightharpoonup> size_t) \<Rightarrow> (addr \<rightharpoonup> size_t) \<Rightarrow> block_table \<Rightarrow> bool" where
  "besides L M B \<longleftrightarrow> (\<forall>a. if B a = None then M a = L a else L a = None)"

lemma malloc_fresh:
  assumes "conc_inv je live S b N s" and "je_malloc je n (je_heap (shr s)) = (a, h')" and "a \<noteq> NULL"
  shows "live (je_heap (shr s)) a = None" and "table s a = None"
proof -
  show free: "live (je_heap (shr s)) a = None"
    using je_malloc_block [OF conc_invD(1) [OF assms(1)] assms(2,3)] by blast
  show "table s a = None"
    using conc_invD(8) [OF assms(1), of a] free by (cases "table s a") (auto simp: block_ok_def)
qed

lemma mine_step:
  assumes inv: "conc_inv je live S b N s"
    and step: "thread_step je t (pcs s t) (shr s) = Inr (pc', m')"
  shows "mine (table_step t (pcs s t) pc' (table s)) K = mine (table s) K"
proof (cases "pcs s t")
  case (A_malloc p n)
  then show ?thesis
    using step malloc_fresh [OF inv]
    by (auto simp: mine_def fun_eq_iff Let_def split: prod.splits if_splits option.splits)
next
  case (J_write p d u a)
  then show ?thesis
    using conc_invD(6) [OF inv, of t]
    by (auto simp: mine_def fun_eq_iff adjust_ok_def holding_def split: option.splits)
next
  case (F_free p a n)
  then show ?thesis
    using conc_invD(6) [OF inv, of t]
    by (auto simp: mine_def fun_eq_iff holding_def split: option.splits)
qed auto

lemma besides_step:
  assumes inv: "conc_inv je live S b N s" and L: "besides L (live (je_heap (shr s))) (table s)"
    and step: "thread_step je t (pcs s t) (shr s) = Inr (pc', m')"
  shows "besides L (live (je_heap m')) (table_step t (pcs s t) pc' (table s))"
proof (cases "pcs s t")
  case (A_malloc p n)
  obtain a h' where a: "je_malloc je n (je_heap (shr s)) = (a, h')" by fastforce
  show ?thesis
  proof (cases "a = NULL")
    case True
    then show ?thesis
      using A_malloc step a L je_malloc_null [OF conc_invD(1) [OF inv]] by auto
  next
    case False
    obtain r where "live h' = (live (je_heap (shr s)))(a \<mapsto> r)"
      using je_malloc_block [OF conc_invD(1) [OF inv] a False] by blast
    then show ?thesis
      using A_malloc step a L False malloc_fresh [OF inv a False]
      by (auto simp: besides_def split: if_splits) (metis option.distinct(1))+
  qed
next
  case (J_write p d u a)
  then show ?thesis
    using L step conc_invD(6) [OF inv, of t]
    by (auto simp: besides_def rbind_eq_Inr adjust_ok_def holding_def)
next
  case (F_free p a n)
  then have hold: "holding (live (je_heap (shr s))) (table s) t p a (unat n) n"
    using conc_invD(6) [OF inv, of t] by simp
  then have "live (je_free je a (je_heap (shr s))) = (live (je_heap (shr s)))(a := None)"
    using je_free_live [OF conc_invD(1) [OF inv]] by (simp add: holding_def)
  with hold show ?thesis using F_free L step by (auto simp: besides_def holding_def)
next
  case (Returned p a)
  from step have "m' = shr s" unfolding Returned by simp
  then show ?thesis using L unfolding Returned by simp
qed (use L step in \<open>auto simp: rbind_eq_Inr Let_def split: prod.splits if_splits\<close>)

lemma besides_upd: "besides L M B \<Longrightarrow> B a \<noteq> None \<Longrightarrow> besides L M (B(a \<mapsto> y))"
  unfolding besides_def by (metis fun_upd_apply option.distinct(1))

text \<open>
  The main thread: it creates each thread once, before it joins it; a thread whose code is not done
  is yet to be joined.
\<close>

definition main_ops :: "main_op list" where
  "main_ops = [Pthread_create 2, Pthread_create 3, Pthread_create 4,
               Pthread_join 2, Pthread_join 3, Pthread_join 4]"

definition todo_ok :: "'h process \<Rightarrow> bool" where
  "todo_ok s \<longleftrightarrow> (\<exists>n. todo s = drop n main_ops) \<and>
     (\<forall>t. Pthread_create t \<in> set (todo s) \<longrightarrow> code s t = Done) \<and>
     (\<forall>t. code s t \<noteq> Done \<longrightarrow> Pthread_join t \<in> set (todo s))"

definition process_inv ::
  "'h jemalloc \<Rightarrow> 'h heap_view \<Rightarrow> nat \<Rightarrow> nat \<Rightarrow> (addr \<rightharpoonup> size_t) \<Rightarrow> 'h process \<Rightarrow> bool" where
  "process_inv je live S b L s \<longleftrightarrow> todo_ok s \<and>
     (\<exists>B K. conc_inv je live S b 5 \<lparr>shr = memory s, pcs = point s, table = B\<rparr> \<and>
       (\<forall>t. coded (code s t) (point s t) (mine B K t)) \<and> besides L (live (je_heap (memory s))) B)"

lemma process_invI:
  assumes "todo_ok s" and "conc_inv je live S b 5 \<lparr>shr = memory s, pcs = point s, table = B\<rparr>"
    and "\<And>t. coded (code s t) (point s t) (mine B K t)" and "besides L (live (je_heap (memory s))) B"
  shows "process_inv je live S b L s"
  using assms unfolding process_inv_def by blast

lemma drop_main_ops:
  "drop n main_ops \<in> {main_ops, drop 1 main_ops, drop 2 main_ops, drop 3 main_ops, drop 4 main_ops,
     drop 5 main_ops, []}"
proof -
  have "n = 0 \<or> n = 1 \<or> n = 2 \<or> n = 3 \<or> n = 4 \<or> n = 5 \<or> 6 \<le> n" by linarith
  then show ?thesis by (auto simp: main_ops_def)
qed

lemma todo_create:
  assumes "todo_ok s" and "todo s = Pthread_create t # ops"
  shows "code s t = Done" and "Pthread_create t \<notin> set ops" and "Pthread_join t \<in> set ops"
    and "\<exists>n. ops = drop n main_ops"
proof -
  obtain n where n: "Pthread_create t # ops = drop n main_ops" using assms by (auto simp: todo_ok_def)
  then have "ops = drop (Suc n) main_ops" by (simp add: drop_Suc tl_drop [symmetric], metis list.sel(3))
  then show "\<exists>n. ops = drop n main_ops" by blast
  show "Pthread_create t \<notin> set ops" "Pthread_join t \<in> set ops"
    using drop_main_ops [of n] n [symmetric] by (auto simp: main_ops_def)
qed (use assms in \<open>simp add: todo_ok_def\<close>)

lemma todo_threads: "todo_ok s \<Longrightarrow> code s t \<noteq> Done \<Longrightarrow> t \<in> {2, 3, 4}"
proof -
  assume *: "todo_ok s" "code s t \<noteq> Done"
  then obtain n where "Pthread_join t \<in> set (drop n main_ops)" by (auto simp: todo_ok_def)
  then show ?thesis using set_drop_subset [of n main_ops] by (auto simp: main_ops_def)
qed

lemma coded_Done: "coded Done pc H \<longleftrightarrow> pc = Idle \<and> H = Map.empty"
  by (simp add: coded_def)

lemma main_move_inv:
  assumes "process_inv je live S b L s"
  shows "process_inv je live S b L (main_move (todo s) s)"
proof (cases "todo s")
  case (Cons op ops)
  obtain n where "todo s = drop n main_ops" using assms by (auto simp: process_inv_def todo_ok_def)
  with Cons have ops: "\<exists>n. ops = drop n main_ops"
    by (metis drop_Suc list.sel(3) tl_drop)
  show ?thesis
  proof (cases op)
    case (Pthread_create t)
    have todo: "todo_ok s" using assms by (simp add: process_inv_def)
    note c = todo_create [OF todo Cons [unfolded Pthread_create]]
    have "todo_ok (main_move (todo s) s)"
      using c todo Cons Pthread_create by (auto simp: todo_ok_def)
    moreover have "coded testThreadMemAllocs (point s t) (mine B K t)"
      if "\<forall>u. coded (code s u) (point s u) (mine B K u)" for B K
      using that [rule_format, of t] tidy_test c(1)
      by (auto simp: coded_Done coded_def split: prog.split)
    moreover obtain B K where BK: "conc_inv je live S b 5 \<lparr>shr = memory s, pcs = point s, table = B\<rparr>"
        "\<forall>u. coded (code s u) (point s u) (mine B K u)" "besides L (live (je_heap (memory s))) B"
      using assms by (auto simp: process_inv_def)
    ultimately show ?thesis
      using Cons Pthread_create by (intro process_invI [where B = B and K = K]) auto
  next
    case (Pthread_join t)
    then show ?thesis
      using assms Cons ops by (auto simp: process_inv_def todo_ok_def)
  qed
qed (use assms in simp)

lemma coded_Idle [simp]: "coded c Idle H \<longleftrightarrow> tidy c H"
  by (cases c) (simp_all add: coded_def)

lemma coded_call:
  "coded (Alloc p n k) (A_lock p n) H \<longleftrightarrow> tidy (Alloc p n k) H"
  "coded (Free p a c) (F_sallocx q d) H \<longleftrightarrow> tidy c H"
  by (simp_all add: coded_def)

text \<open>A thread's part of the state after a move, and what the invariant needs of it.\<close>

definition moved :: "tid \<Rightarrow> prog \<Rightarrow> pc \<Rightarrow> 'h mem_mgr \<Rightarrow> 'h process \<Rightarrow> 'h process" where
  "moved t c pc m s = s\<lparr>memory := m, point := (point s)(t := pc), code := (code s)(t := c)\<rparr>"

lemma moved_inv:
  assumes "todo_ok s" and "code s t \<noteq> Done"
    and "conc_inv je live S b 5 \<lparr>shr = m, pcs = (point s)(t := pc), table = B'\<rparr>"
    and "\<And>u. coded (code s u) (point s u) (mine B K u)" and "\<And>u. u \<noteq> t \<Longrightarrow> mine B' K' u = mine B K u"
    and "coded c pc (mine B' K' t)" and "besides L (live (je_heap m)) B'"
  shows "process_inv je live S b L (moved t c pc m s)"
  using assms by (intro process_invI [where B = B' and K = K']) (auto simp: todo_ok_def moved_def)

definition simulates ::
  "'h jemalloc \<Rightarrow> 'h heap_view \<Rightarrow> nat \<Rightarrow> nat \<Rightarrow> (addr \<rightharpoonup> size_t) \<Rightarrow> 'h process \<Rightarrow> block_table \<Rightarrow>
   (addr \<Rightarrow> tid) \<Rightarrow> bool" where
  "simulates je live S b L s B K \<longleftrightarrow> todo_ok s \<and>
     conc_inv je live S b 5 \<lparr>shr = memory s, pcs = point s, table = B\<rparr> \<and>
     (\<forall>u. coded (code s u) (point s u) (mine B K u)) \<and> besides L (live (je_heap (memory s))) B"

lemma process_inv_simulates: "process_inv je live S b L s \<longleftrightarrow> (\<exists>B K. simulates je live S b L s B K)"
  by (auto simp: process_inv_def simulates_def)

lemma simulates_thread: "simulates je live S b L s B K \<Longrightarrow> code s t \<noteq> Done \<Longrightarrow> t < 5"
  unfolding simulates_def using todo_threads [of s t] by auto

lemma simulates_idle: "simulates je live S b L s B K \<Longrightarrow> point s t = Idle \<Longrightarrow> tidy (code s t) (mine B K t)"
  unfolding simulates_def by (metis coded_Idle)

text \<open>A step inside a call.\<close>

lemma inside_step:
  assumes sim: "simulates je live S b L s B K" and "code s t \<noteq> Done"
    and fits: "\<And>pc' m'. thread_step je t (point s t) (memory s) = Inr (pc', m') \<Longrightarrow>
      coded (code s t) pc' (mine B K t)"
  shows "(\<exists>pc' m'. thread_step je t (point s t) (memory s) = Inr (pc', m') \<and>
      process_inv je live S b L (moved t (code s t) pc' m' s)) \<or>
    thread_step je t (point s t) (memory s) = Inl Deadlock \<and>
      waits \<lparr>shr = memory s, pcs = point s, table = B\<rparr> t"
proof -
  let ?c = "\<lparr>shr = memory s, pcs = point s, table = B\<rparr>"
  have inv: "conc_inv je live S b 5 ?c" and t: "t < 5"
    using sim simulates_thread [OF sim assms(2)] by (auto simp: simulates_def)
  have "process_inv je live S b L (moved t (code s t) pc' m' s)"
    if "thread_step je t (point s t) (memory s) = Inr (pc', m')"
      "conc_inv je live S b 5 \<lparr>shr = m', pcs = (point s)(t := pc'), table = table_step t (point s t) pc' B\<rparr>"
    for pc' m'
    using sim that fits [OF that(1)] mine_step [OF inv, of t pc' m' K] besides_step [OF inv, of L t pc' m'] assms(2)
    by (intro moved_inv [where B = B and K = K and K' = K]) (auto simp: simulates_def)
  then show ?thesis using conc_run [OF inv t] by auto
qed

text \<open>A call begins.\<close>

lemma begin_alloc:
  assumes sim: "simulates je live S b L s B K" and "code s t = Alloc p n k" and "point s t = Idle"
  shows "process_inv je live S b L (moved t (code s t) (A_lock p n) (memory s) s)"
proof -
  let ?c = "\<lparr>shr = memory s, pcs = point s, table = B\<rparr>"
  have t: "t < 5" and tidy: "tidy (code s t) (mine B K t)"
    using simulates_thread [OF sim, of t] simulates_idle [OF sim assms(3)] assms(2) by simp_all
  then have "sys_step je 5 ?c (?c\<lparr>pcs := (pcs ?c)(t := A_lock p n)\<rparr>)"
    using assms by (intro call_alloc) auto
  from sys_step_inv [OF _ this]
  have "conc_inv je live S b 5 \<lparr>shr = memory s, pcs = (point s)(t := A_lock p n), table = B\<rparr>"
    using sim by (simp add: simulates_def)
  then show ?thesis
    using sim tidy assms(2) by (intro moved_inv [where B = B and K = K and B' = B and K' = K])
      (auto simp: simulates_def coded_call simp del: tidy.simps)
qed

lemma begin_free:
  assumes sim: "simulates je live S b L s B K" and "code s t = Free p a k" and "point s t = Idle"
  shows "process_inv je live S b L (moved t (code s t) (F_sallocx p a) (memory s) s)"
proof -
  have t: "t < 5" and tidy: "tidy (code s t) (mine B K t)"
    using simulates_thread [OF sim, of t] simulates_idle [OF sim assms(3)] assms(2) by simp_all
  then obtain x where x: "B a = Some x" "worker x = None" "K a = t" "bpool x = p"
    and k: "tidy k ((mine B K t)(a := None))"
    using assms(2) by (auto simp: mine_def split: option.splits if_splits)
  let ?B = "B(a \<mapsto> x\<lparr>worker := Some t\<rparr>)"
  have "conc_inv je live S b 5 \<lparr>shr = memory s, pcs = (point s)(t := F_sallocx p a), table = ?B\<rparr>"
    using run_call_free [where s = "\<lparr>shr = memory s, pcs = point s, table = B\<rparr>" and je = je and live = live
        and S = S and b = b and N = 5] sim t assms(3) x
    by (auto simp: simulates_def)
  moreover have "mine ?B K u = (if u = t then (mine B K t)(a := None) else mine B K u)" for u
    using x by (auto simp: mine_def fun_eq_iff)
  ultimately show ?thesis
    using sim k assms(2) x(1) by (intro moved_inv [where B = B and K = K and B' = ?B and K' = K])
      (auto simp: simulates_def coded_call intro: besides_upd)
qed

text \<open>A call is over.\<close>

lemma end_null:
  assumes sim: "simulates je live S b L s B K" and "code s t \<noteq> Done" and "point s t = Returned p NULL"
    and "tidy k (mine B K t)"
  shows "process_inv je live S b L (moved t k Idle (memory s) s)"
proof -
  let ?c = "\<lparr>shr = memory s, pcs = point s, table = B\<rparr>"
  have "sys_step je 5 ?c (?c\<lparr>pcs := (pcs ?c)(t := Idle), table := (if NULL = NULL then table ?c
      else (table ?c)(NULL := map_option (\<lambda>b. b\<lparr>worker := None\<rparr>) (table ?c NULL)))\<rparr>)"
    using simulates_thread [OF sim assms(2)] assms(3) by (intro return) auto
  from sys_step_inv [OF _ this]
  have "conc_inv je live S b 5 \<lparr>shr = memory s, pcs = (point s)(t := Idle), table = B\<rparr>"
    using sim by (simp add: simulates_def)
  then show ?thesis
    using sim assms(2,4) by (intro moved_inv [where B = B and K = K and B' = B and K' = K])
      (auto simp: simulates_def)
qed

lemma end_block:
  assumes sim: "simulates je live S b L s B K" and c: "code s t \<noteq> Done" and pc: "point s t = Returned p a"
    and a: "a \<noteq> NULL" and tidy: "mine B K t a = None \<Longrightarrow> tidy k (got (mine B K t) p a)"
  shows "process_inv je live S b L (moved t k Idle (memory s) s)"
proof -
  let ?c = "\<lparr>shr = memory s, pcs = point s, table = B\<rparr>"
  have inv: "conc_inv je live S b 5 ?c" and t: "t < 5"
    using sim simulates_thread [OF sim c] by (auto simp: simulates_def)
  obtain r where r: "B a = Some \<lparr>bpool = p, worker = Some t, charged = r\<rparr>"
    using conc_invD(6) [OF inv, of t] pc a by (auto simp: holding_def)
  let ?B = "B(a \<mapsto> \<lparr>bpool = p, worker = None, charged = r\<rparr>)" let ?K = "K(a := t)"
  have "conc_inv je live S b 5 \<lparr>shr = memory s, pcs = (point s)(t := Idle), table = ?B\<rparr>"
    using run_return [OF inv t _ a, of p] pc r by simp
  moreover have "mine ?B ?K u = (if u = t then got (mine B K t) p a else mine B K u)" for u
    using r a by (auto simp: mine_def got_def fun_eq_iff split: option.split)
  moreover have "mine B K t a = None" using r by (simp add: mine_def)
  ultimately show ?thesis
    using sim c tidy r by (intro moved_inv [where B = B and K = K and B' = ?B and K' = ?K])
      (auto simp: simulates_def intro: besides_upd)
qed

section \<open>Every move succeeds, and those that change anything lead towards the end\<close>

definition rest_of :: "(prog \<times> prog) set" where
  "rest_of = {(c', c). case c of Done \<Rightarrow> False | Alloc p n k \<Rightarrow> c' \<in> range k
     | Free p a k \<Rightarrow> c' = k | Rand k \<Rightarrow> c' \<in> range k}"

lemma wf_rest_of: "wf rest_of"
  unfolding wf_def
proof (intro allI impI)
  fix P and c :: prog
  assume step: "\<forall>c. (\<forall>c'. (c', c) \<in> rest_of \<longrightarrow> P c') \<longrightarrow> P c"
  show "P c"
    by (induction c) (rule step [rule_format], auto simp: rest_of_def)+
qed

definition call_rank :: "pc \<Rightarrow> nat" where
  "call_rank pc = (if pc = Idle then 11 else rank pc)"

definition thread_order :: "((prog \<times> pc) \<times> (prog \<times> pc)) set" where
  "thread_order = rest_of <*lex*> measure call_rank"

lemma wf_thread_order: "wf thread_order"
  unfolding thread_order_def by (intro wf_lex_prod wf_rest_of wf_measure)

definition inside :: "pc \<Rightarrow> bool" where
  "inside pc \<longleftrightarrow> pc \<noteq> Idle \<and> 0 < rank pc"

lemma point_cases:
  obtains "pc = Idle" | q a where "pc = Returned q a" | "inside pc"
  by (cases pc) (auto simp: inside_def)

lemma move_inside:
  assumes "inside pc" and "c = Alloc p n k \<or> c = Free p a j"
  shows "thread_move je ch c pc m = (case thread_step je (fst ch) pc m of
      Inl Deadlock \<Rightarrow> Inr (c, pc, m) | Inl e \<Rightarrow> Inl e | Inr (pc, m) \<Rightarrow> Inr (c, pc, m))"
  using assms by (cases pc) (auto simp: inside_def simp del: thread_step.simps)

lemma inside_order:
  assumes "thread_step je t pc m = Inr (pc', m')" and "inside pc"
  shows "((c, pc'), (c, pc)) \<in> thread_order"
proof -
  have "pc' \<noteq> Idle" using assms
    by (cases pc) (auto simp: inside_def rbind_eq_Inr Let_def split: prod.splits if_splits)
  then show ?thesis
    using thread_step_rank [OF assms(1)] assms(2) by (simp add: thread_order_def inside_def call_rank_def)
qed

definition advances ::
  "'h jemalloc \<Rightarrow> 'h heap_view \<Rightarrow> nat \<Rightarrow> nat \<Rightarrow> (addr \<rightharpoonup> size_t) \<Rightarrow> 'h process \<Rightarrow> block_table \<Rightarrow>
   tid \<Rightarrow> (prog \<times> pc \<times> 'h mem_mgr) res \<Rightarrow> bool" where
  "advances je live S b L s B t r \<longleftrightarrow>
     (\<exists>c pc m. r = Inr (c, pc, m) \<and> process_inv je live S b L (moved t c pc m s) \<and>
        (((c, pc), (code s t, point s t)) \<in> thread_order \<or>
         (c, pc, m) = (code s t, point s t, memory s) \<and>
         (code s t = Done \<or> waits \<lparr>shr = memory s, pcs = point s, table = B\<rparr> t)))"

lemma advancesI:
  assumes "process_inv je live S b L (moved t c pc m s)" and "((c, pc), (code s t, point s t)) \<in> thread_order"
  shows "advances je live S b L s B t (Inr (c, pc, m))"
  using assms unfolding advances_def by blast

lemma moved_same [simp]: "moved t (code s t) (point s t) (memory s) s = s"
  by (simp add: moved_def)

lemma advances_inside:
  assumes sim: "simulates je live S b L s B K" and pc: "inside (point s t)" and "fst ch = t"
    and c: "code s t = Alloc p n k \<or> code s t = Free p a j"
    and fits: "\<And>pc' m'. thread_step je t (point s t) (memory s) = Inr (pc', m') \<Longrightarrow>
      coded (code s t) pc' (mine B K t)"
  shows "advances je live S b L s B t (thread_move je ch (code s t) (point s t) (memory s))"
proof -
  have busy: "code s t \<noteq> Done" using c by auto
  have s: "process_inv je live S b L s" using sim process_inv_simulates by blast
  from inside_step [OF sim busy fits] show ?thesis
  proof
    assume "\<exists>pc' m'. thread_step je t (point s t) (memory s) = Inr (pc', m') \<and>
      process_inv je live S b L (moved t (code s t) pc' m' s)"
    then obtain pc' m' where "thread_step je t (point s t) (memory s) = Inr (pc', m')"
      "process_inv je live S b L (moved t (code s t) pc' m' s)" by blast
    then show ?thesis
      using inside_order [OF _ pc] assms(3) by (auto simp: move_inside [OF pc c] intro!: advancesI)
  next
    assume "thread_step je t (point s t) (memory s) = Inl Deadlock \<and>
      waits \<lparr>shr = memory s, pcs = point s, table = B\<rparr> t"
    then show ?thesis
      using assms(3) s by (auto simp: move_inside [OF pc c] advances_def)
  qed
qed

lemma advances_move:
  assumes sim: "simulates je live S b L s B K" and t: "fst ch = t"
  shows "advances je live S b L s B t (thread_move je ch (code s t) (point s t) (memory s))"
proof (cases "code s t")
  case Done
  have "process_inv je live S b L s" using sim process_inv_simulates by blast
  with Done moved_same [of t s] show ?thesis by (simp add: advances_def)
next
  case (Rand k)
  have idle: "point s t = Idle" and tidy: "tidy (Rand k) (mine B K t)"
    using sim [unfolded simulates_def] Rand by (auto simp: coded_def split: prog.splits)
  moreover have "(point s)(t := Idle) = point s" using idle by auto
  ultimately have "process_inv je live S b L (moved t (k r) Idle (memory s) s)" for r
    using sim Rand
    by (intro moved_inv [where B = B and K = K and B' = B and K' = K]) (auto simp: simulates_def)
  then show ?thesis
    using Rand idle by (auto intro!: advancesI simp: thread_order_def rest_of_def)
next
  case (Alloc p n k)
  have busy: "code s t \<noteq> Done" using Alloc by simp
  have coded: "coded (Alloc p n k) (point s t) (mine B K t)"
    using sim [unfolded simulates_def] Alloc by metis
  show ?thesis
  proof (cases "point s t" rule: point_cases)
    case 1
    then show ?thesis
      using begin_alloc [OF sim Alloc 1] Alloc
      by (auto intro!: advancesI simp: thread_order_def call_rank_def)
  next
    case (2 q a)
    have "q = p" and tidy: "tidy (Alloc p n k) (mine B K t)" using coded 2 by (auto simp: coded_def)
    have "process_inv je live S b L (moved t (k a) Idle (memory s) s)"
    proof (cases "a = NULL")
      case True
      have "tidy (k a) (mine B K t)" using tidy True by (auto simp: got_def dest: spec [of _ NULL])
      then show ?thesis using end_null [OF sim busy] 2 True by blast
    next
      case False
      then show ?thesis using end_block [OF sim busy 2 False] tidy \<open>q = p\<close> by simp
    qed
    then show ?thesis
      using 2 Alloc by (auto intro!: advancesI simp: thread_order_def rest_of_def)
  next
    case 3
    then show ?thesis
      using Alloc coded t
      by (intro advances_inside [OF sim]) (auto simp: coded_def inside_def dest: allocating_step)
  qed
next
  case (Free p a k)
  have busy: "code s t \<noteq> Done" using Free by simp
  have coded: "coded (Free p a k) (point s t) (mine B K t)"
    using sim [unfolded simulates_def] Free by metis
  show ?thesis
  proof (cases "point s t" rule: point_cases)
    case 1
    then show ?thesis
      using begin_free [OF sim Free 1] Free
      by (auto intro!: advancesI simp: thread_order_def call_rank_def)
  next
    case (2 q d)
    then have "process_inv je live S b L (moved t k Idle (memory s) s)"
      using coded by (intro end_null [OF sim busy]) (auto simp: coded_def)
    then show ?thesis
      using 2 Free by (auto intro!: advancesI simp: thread_order_def rest_of_def)
  next
    case 3
    have "freeing pc' \<and> pc' \<noteq> Idle" if "thread_step je t (point s t) (memory s) = Inr (pc', m')" for pc' m'
      using freeing_step [OF that] coded 3 by (auto simp: coded_def inside_def)
    then show ?thesis
      using Free coded t 3
      by (intro advances_inside [OF sim]) (auto simp: coded_def inside_def)
  qed
qed

text \<open>The moves of the process, and the order in which they descend.\<close>

definition process_order :: "('h process \<times> 'h process) set" where
  "process_order = inv_image (less_than <*lex*> thread_order <*lex*> thread_order <*lex*> thread_order)
     (\<lambda>s. (length (todo s), (code s 2, point s 2), (code s 3, point s 3), (code s 4, point s 4)))"

lemma wf_process_order: "wf process_order"
  unfolding process_order_def by (intro wf_inv_image wf_lex_prod wf_thread_order wf_less_than)

lemma moved_order:
  assumes "t \<in> {2, 3, 4}" and "((c, pc), (code s t, point s t)) \<in> thread_order"
  shows "(moved t c pc m s, s) \<in> process_order"
  using assms by (auto simp: process_order_def moved_def)

lemma main_move_order: "main_move (todo s) s = s \<or> (main_move (todo s) s, s) \<in> process_order"
proof (cases "todo s")
  case (Cons op ops)
  then show ?thesis by (cases op) (auto simp: process_order_def)
qed simp

lemma thread_choice:
  assumes "fst ch \<noteq> main_thread"
  shows "move je ch s = rbind (thread_move je ch (code s (fst ch)) (point s (fst ch)) (memory s))
    (\<lambda>(c, pc, m). Inr (moved (fst ch) c pc m s))"
  using assms by (simp add: move_def moved_def)

lemma move_ok:
  assumes "process_inv je live S b L s"
  obtains s' where "move je ch s = Inr s'" and "process_inv je live S b L s'"
    and "s' = s \<or> (s', s) \<in> process_order"
proof (cases "fst ch = main_thread")
  case True
  then show thesis
    using that [of "main_move (todo s) s"] main_move_inv [OF assms] main_move_order [of s]
    by (simp add: move_def)
next
  case False
  obtain B K where sim: "simulates je live S b L s B K" using assms process_inv_simulates by blast
  from advances_move [OF sim refl, of ch] obtain c pc m where
    m: "thread_move je ch (code s (fst ch)) (point s (fst ch)) (memory s) = Inr (c, pc, m)"
      "process_inv je live S b L (moved (fst ch) c pc m s)"
      "((c, pc), (code s (fst ch), point s (fst ch))) \<in> thread_order \<or>
        (c, pc, m) = (code s (fst ch), point s (fst ch), memory s)"
    unfolding advances_def by blast
  have "((c, pc), (code s (fst ch), point s (fst ch))) \<notin> thread_order" if "fst ch \<notin> {2, 3, 4}"
  proof -
    have "code s (fst ch) = Done" using assms that todo_threads [of s "fst ch"] by (auto simp: process_inv_def)
    moreover from this have "point s (fst ch) = Idle"
      using sim [unfolded simulates_def] by (metis coded_Done)
    moreover from calculation have "c = Done \<and> pc = Idle" using m(1) by simp
    ultimately show ?thesis using wf_thread_order by auto
  qed
  then have "moved (fst ch) c pc m s = s \<or> (moved (fst ch) c pc m s, s) \<in> process_order"
    using m(3) moved_order moved_same by blast
  then show thesis
    using that [of "moved (fst ch) c pc m s"] m by (simp add: thread_choice [OF False])
qed

lemma progress:
  assumes inv: "process_inv je live S b L s" and "todo s \<noteq> []"
  obtains t where "t \<in> {1, 2, 3, 4}" and "\<And>r. move je (t, r) s \<noteq> Inr s"
proof -
  have irrefl: "(s, s) \<notin> process_order" by (rule wf_not_refl [OF wf_process_order])
  obtain B K where sim: "simulates je live S b L s B K" using inv process_inv_simulates by blast
  let ?c = "\<lparr>shr = memory s, pcs = point s, table = B\<rparr>"
  have thread: "t \<in> {2, 3, 4}" "move je (t, r) s \<noteq> Inr s" if "code s t \<noteq> Done" "\<not> waits ?c t" for t r
  proof -
    show t: "t \<in> {2, 3, 4}" using inv that(1) todo_threads [of s t] by (simp add: process_inv_def)
    from advances_move [OF sim refl, of "(t, r)"] that obtain c pc m where
      "thread_move je (t, r) (code s t) (point s t) (memory s) = Inr (c, pc, m)"
      "((c, pc), (code s t, point s t)) \<in> thread_order"
      unfolding advances_def by auto
    moreover from this(2) have "moved t c pc m s \<noteq> s" using moved_order [OF t, of c pc s m] irrefl by metis
    ultimately show "move je (t, r) s \<noteq> Inr s"
      using t by (auto simp: thread_choice main_thread_def)
  qed
  show thesis
  proof (cases "\<exists>t. code s t \<noteq> Done")
    case True
    then obtain t where t: "code s t \<noteq> Done" by blast
    show thesis
    proof (cases "waits ?c t")
      case True
      then obtain u where u: "critical (point s u)" by (auto simp: waits_def)
      then have "point s u \<noteq> Idle" "\<not> waits ?c u" by (auto simp: waits_def)
      moreover from this(1) have "code s u \<noteq> Done" using sim [unfolded simulates_def] by (metis coded_Done)
      ultimately show thesis using thread [of u] that [of u] by blast
    next
      case False
      then show thesis using thread [OF t] that [of t] by blast
    qed
  next
    case False
    obtain op ops where ops: "todo s = op # ops" using assms(2) by (cases "todo s") auto
    have "main_move (todo s) s \<noteq> s"
    proof
      assume "main_move (todo s) s = s"
      then have "todo (main_move (todo s) s) = op # ops" using ops by simp
      then show False using ops False by (cases op) auto
    qed
    then show thesis using that [of 1] by (simp add: move_def main_thread_def)
  qed
qed

section \<open>Every fair schedule lets the process finish\<close>

lemma run_schedule_moves: "run_schedule je cs s = run_moves (move je) cs s"
proof (induction cs arbitrary: s)
  case (Cons c cs)
  then show ?case by (cases "move je c s") simp_all
qed simp

abbreviation fair :: "(nat \<Rightarrow> choice) \<Rightarrow> bool" where
  "fair \<equiv> takes_turns fst {1, 2, 3, 4}"

text \<open>A process that has finished is at rest.\<close>

lemma finished_threads:
  assumes "process_inv je live S b L s" and "todo s = []"
  shows "code s t = Done" and "point s t = Idle"
proof -
  show "code s t = Done" using assms by (auto simp: process_inv_def todo_ok_def)
  then show "point s t = Idle" using assms(1) unfolding process_inv_def by (metis coded_Done)
qed

lemma finished_stays:
  assumes "process_inv je live S b L s" and "todo s = []"
  shows "move je c s = Inr s"
  using finished_threads [OF assms, of "fst c"] assms(2) moved_same [of "fst c" s]
  by (cases "fst c = main_thread") (simp_all add: thread_choice, simp add: move_def)

text \<open>The process under its scheduler: both interfaces at once.\<close>

interpretation process: fair_moves "move je" "process_inv je live S b L" process_order fst "{1, 2, 3, 4}"
    "\<lambda>s. todo s = []" for je live S b L
proof
  show "wf process_order" by (rule wf_process_order)
  fix s :: "'a process" and s' c
  assume inv: "process_inv je live S b L s"
  show "\<exists>s'. move je c s = Inr s' \<and> process_inv je live S b L s'"
    by (rule move_ok [OF inv, of c]) blast
  show "s' = s \<or> (s', s) \<in> process_order" if "move je c s = Inr s'"
    using that by (auto intro: move_ok [OF inv, of c])
  show "\<exists>t \<in> {1, 2, 3, 4}. \<forall>c. fst c = t \<longrightarrow> move je c s \<noteq> Inr s" if "todo s \<noteq> []"
    by (rule progress [OF inv that]) (metis prod.collapse)
  show "move je c s = Inr s" if "todo s = []" by (rule finished_stays [OF inv that])
qed

lemma finished_drained:
  assumes "process_inv je live S b L s" and "todo s = []"
  shows "pm_ready (pm_stats (memory s))" and "managed (memory s) = b" and "b < 2 ^ 62"
    and "live (je_heap (memory s)) = L" and "p \<noteq> POLICY_MGR_POOL_MAX \<Longrightarrow> usage (memory s) p = 0"
proof -
  obtain B K where inv: "conc_inv je live S b 5 \<lparr>shr = memory s, pcs = point s, table = B\<rparr>"
      and coded: "\<And>t. coded (code s t) (point s t) (mine B K t)"
      and rest: "besides L (live (je_heap (memory s))) B"
    using assms(1) unfolding process_inv_def by blast
  note threads = finished_threads [OF assms]
  have "B a = None" for a
  proof (cases "B a")
    case (Some x)
    show ?thesis
    proof (cases "worker x")
      case None
      have "mine B K (K a) = Map.empty" using coded [of "K a"] threads by (simp add: coded_Done)
      then have "mine B K (K a) a = None" by simp
      then show ?thesis using Some None by (simp add: mine_def)
    next
      case (Some t)
      then have "works_on (point s t) = Some a"
        using conc_own [OF inv, of t] \<open>B a = Some x\<close> by auto
      then show ?thesis using threads by simp
    qed
  qed
  then have B: "B = Map.empty" by auto
  show "live (je_heap (memory s)) = L" using rest B by (auto simp: besides_def)
  show "managed (memory s) = b" "b < 2 ^ 62" using conc_invD(3,4) [OF inv] by auto
  show "usage (memory s) p = 0" if "p \<noteq> POLICY_MGR_POOL_MAX"
    using conc_invD(9) [OF inv that] B threads by (simp add: table_charge_def)
  have "mutex_policyMgrStats (pm_stats (memory s)) = Mutex_unlocked"
    using conc_invD(5) [OF inv] threads by (cases "mutex_policyMgrStats (pm_stats (memory s))") auto
  then show "pm_ready (pm_stats (memory s))" using conc_invD(2) [OF inv] conc_load [OF inv] by (simp add: pm_ready_def)
qed

lemma process_start_inv:
  assumes "je_contract je live S" and "pm_ready (pm_stats m)" and "pm_load (pm_stats m) = 0"
    and "managed m + S * 5 < 2 ^ 62"
  shows "process_inv je live S (managed m) (live (je_heap m)) (process_start m)"
proof (rule process_invI)
  show "todo_ok (process_start m)"
    by (auto simp: todo_ok_def process_start_def main_ops_def intro!: exI [of _ 0])
  show "conc_inv je live S (managed m) 5
      \<lparr>shr = memory (process_start m), pcs = point (process_start m), table = (\<lambda>_. None)\<rparr>"
    using sys_start_inv [OF assms] by (simp add: process_start_def sys_start_def)
  show "coded (code (process_start m) t) (point (process_start m) t) (mine (\<lambda>_. None) (\<lambda>_. 0) t)" for t
    by (simp add: process_start_def mine_def fun_eq_iff)
qed (simp add: process_start_def besides_def)

section \<open>The test, and the whole program\<close>

text \<open>
  C21: threads of the test, safety: whatever the schedule and the random numbers, no call of any of
  the three threads fails; and if the main thread has joined them all, nothing is charged to
  either pool and exactly the blocks that were live before the test are live.
\<close>
theorem concurrency_test_safe:
  assumes "je_contract je live S" and "pm_ready (pm_stats m)" and "pm_load (pm_stats m) = 0"
    and "managed m + S * 5 < 2 ^ 62"
  shows "\<exists>s. run_schedule je cs (process_start m) = Inr s \<and>
    (todo s = [] \<longrightarrow> usage (memory s) POLICY_MGR_EXEC_POOL = 0 \<and>
       usage (memory s) POLICY_MGR_STORAGE_POOL = 0 \<and> live (je_heap (memory s)) = live (je_heap m))"
proof -
  obtain s where "run_schedule je cs (process_start m) = Inr s"
      "process_inv je live S (managed m) (live (je_heap m)) s"
    using process.run_safe [OF process_start_inv [OF assms]] unfolding run_schedule_moves by blast
  with finished_drained [of je live S "managed m" "live (je_heap m)" s] show ?thesis by blast
qed

text \<open>Round robin.\<close>

definition round_robin :: "nat \<Rightarrow> choice" where
  "round_robin i = (i mod 4 + 1, i)"

lemma fair_round_robin: "fair round_robin"
  unfolding takes_turns_def
proof (intro ballI allI)
  fix t i :: nat
  assume "t \<in> {1, 2, 3, 4}"
  then have "fst (round_robin (4 * i + (t - 1))) = t" by (auto simp: round_robin_def)
  moreover have "i \<le> 4 * i + (t - 1)" by simp
  ultimately show "\<exists>j \<ge> i. fst (round_robin j) = t" by blast
qed

lemma mm_128Mi_room: "managed mm_128Mi + 7 * 5 < 2 ^ 62"
  by (simp add: mm_128Mi_def)

theorem concurrency_test_safe_witness:
  "\<exists>s. run_schedule bump_je (map round_robin [0..<1000]) (process_start mm_128Mi) = Inr s"
  using concurrency_test_safe [OF bump_contract mm_128Mi_start(1,2) mm_128Mi_room, of "map round_robin [0..<1000]"]
  by blast

text \<open>
  C20: threads of the test, termination: under every fair schedule there is a point from which on the
  main thread has returned from its last join, whatever \<^verbatim>\<open>rand\<close> returned.
\<close>
theorem concurrency_test_terminates:
  assumes "je_contract je live S" and "pm_ready (pm_stats m)" and "pm_load (pm_stats m) = 0"
    and "managed m + S * 5 < 2 ^ 62" and "fair sched"
  shows "\<exists>n s. \<forall>k. run_schedule je (map sched [0..<n + k]) (process_start m) = Inr s \<and> todo s = []"
proof -
  from process.fair_run_ends [OF assms(5) process_start_inv [OF assms(1-4)], of 0] obtain n s
    where "todo s = []" "\<And>k. run_moves (move je) (stretch sched 0 (n + k)) (process_start m) = Inr s"
    by metis
  then show ?thesis unfolding run_schedule_moves stretch_def by auto
qed

theorem concurrency_test_terminates_witness:
  "\<exists>n s. run_schedule bump_je (map round_robin [0..<n]) (process_start mm_128Mi) = Inr s \<and> todo s = []"
  using concurrency_test_terminates [OF bump_contract mm_128Mi_start(1,2) mm_128Mi_room fair_round_robin]
  by blast

section \<open>The whole program\<close>

lemma conc_test_ok:
  assumes je: "je_contract je live S" and fair: "fair sched" and S: "S \<le> 2 ^ 58" and tot: "tot < 2 ^ 58"
    and m: "mm_at live cap S tot L 0 0 k (mm w)" and u: "\<not> fail_or_ignore w"
  obtains n m' where "\<forall>j. testMultiThreadAccess je (map sched [0..<n + j]) w = Inr (Returns (w\<lparr>mm := m'\<rparr>))"
    and "mm_ok S m'" and "live (je_heap m') = L"
proof -
  have "usage (mm w) = pool_loads 0 0" using m by (simp add: mm_at_def)
  from fun_cong [OF this, of POLICY_MGR_EXEC_POOL] fun_cong [OF this, of POLICY_MGR_STORAGE_POOL]
  have start: "pm_ready (pm_stats (mm w))" "pm_load (pm_stats (mm w)) = 0" "managed (mm w) = tot"
    using m by (simp_all add: mm_at_def mm_ok_def pm_load_def abs_policy_def)
  from start(3) S tot have "managed (mm w) + S * 5 < 2 ^ 62" by simp
  from process.fair_run_ends [OF fair process_start_inv [OF je start(1,2) this], of 0] obtain n s
    where s: "process_inv je live S (managed (mm w)) (live (je_heap (mm w))) s" "todo s = []"
      and run: "\<And>j. run_moves (move je) (stretch sched 0 (n + j)) (process_start (mm w)) = Inr s"
    by metis
  note rest = finished_drained [OF s]
  have "run_schedule je (map sched [0..<n + j]) (process_start (mm w)) = Inr s" for j
    using run [of j] by (simp add: run_schedule_moves stretch_def)
  then have "testMultiThreadAccess je (map sched [0..<n + j]) w = Inr (Returns (w\<lparr>mm := memory s\<rparr>))" for j
    using s(2) u by (simp add: testMultiThreadAccess_def check_def passing_shorthand)
  then show thesis
    using rest(1-4) m by (intro that [of n "memory s"]) (auto simp: mm_ok_def mm_at_def)
qed

definition conc_report :: "string list" where
  "conc_report = [''src/tests.c:440:testMultiThreadAccess:PASS'']"

lemma conc_suite:
  assumes "je_contract je live S" and "fair sched" and "S \<le> 2 ^ 58"
    and "between live cap L TEST_CONC_TEST_MAX_SIZE n f i k w"
  obtains N where "\<forall>j. \<exists>v. runConcurrencyTest je (map sched [0..<N + j]) w = Inr v \<and>
    between live (\<lambda>_ _. True) L TEST_CONC_TEST_MAX_SIZE (n + 1) f i 0 v \<and>
    printed v = printed w @ text_lines conc_report"
proof -
  have b: "unat TEST_CONC_TEST_MAX_SIZE < 2 ^ 58" by (simp add: TEST_CONC_TEST_MAX_SIZE_def size_consts)
  have w: "between live (\<lambda>_ _. True) L TEST_CONC_TEST_MAX_SIZE n f i 0 w"
    using assms(4) by (simp add: between_def mm_down_def)
  have S: "S < 2 ^ 62" using assms(3) by simp
  have report: "text_lines conc_report = pass_line ''testMultiThreadAccess'' 440" by code_simp
  show thesis
  proof (rule RUN_TEST_cases [OF w S b, of "''testMultiThreadAccess''" 440])
    fix u
    assume u: "mm_at live (\<lambda>_ _. True) S (unat TEST_CONC_TEST_MAX_SIZE) L 0 0 0 (mm u)" "\<not> fail_or_ignore u"
      and run: "\<And>T r j bad. T u = Inr r \<Longrightarrow> ended live (\<lambda>_ _. True) S L j bad u (final r) \<Longrightarrow>
        \<exists>v. RUN_TEST T ''testMultiThreadAccess'' 440 w = Inr v \<and>
          between live (\<lambda>_ _. True) L TEST_CONC_TEST_MAX_SIZE (n + 1) (f + of_bool bad) i j v \<and>
          (bad \<or> printed v = printed w @ pass_line ''testMultiThreadAccess'' 440)"
    obtain N m where N: "\<And>j. testMultiThreadAccess je (map sched [0..<N + j]) u = Inr (Returns (u\<lparr>mm := m\<rparr>))"
        "mm_ok S m" "live (je_heap m) = L"
      by (rule conc_test_ok [OF assms(1-3) b u]) metis
    then have "ended live (\<lambda>_ _. True) S L 0 False u (final (Returns (u\<lparr>mm := m\<rparr>)))"
      using u(2) by (simp add: ended_returns)
    then have "\<exists>v. runConcurrencyTest je (map sched [0..<N + j]) w = Inr v \<and>
        between live (\<lambda>_ _. True) L TEST_CONC_TEST_MAX_SIZE (n + 1) f i 0 v \<and>
        printed v = printed w @ text_lines conc_report" for j
      using run [of "testMultiThreadAccess je (map sched [0..<N + j])" _ 0 False, OF N(1)]
      by (auto simp: runConcurrencyTest_def report)
    then show thesis using that by blast
  qed
qed

text \<open>\<^verbatim>\<open>UNITY_BEGIN\<close> and \<^verbatim>\<open>UNITY_END\<close> around a suite.\<close>

abbreviation enter_suite :: "size_t \<Rightarrow> 'h world \<Rightarrow> 'h world" where
  "enter_suite b w \<equiv> UNITY_BEGIN ''src/tests.c'' (w\<lparr>mem_mgr_test_size := b\<rparr>)"

lemma begin_suite:
  "mm_down live cap L k (mm w) \<Longrightarrow> between live cap L b 0 0 0 k (enter_suite b w)"
  "printed (enter_suite b w) = printed w"
  by (cases w; simp add: between_def UNITY_BEGIN_def UnityBegin_def UNITY_CLR_DETAILS_def fail_or_ignore_def)+

text \<open>The summary of a suite of \<open>n\<close> tests that all passed.\<close>

definition summary :: "UNITY_COUNTER_TYPE \<Rightarrow> string list" where
  "summary n =
     ['''', ''-----------------------'', UnityPrintNumber n @ '' Tests 0 Failures 0 Ignored '', ''OK'']"

lemma end_suite:
  assumes "between live cap L b n f i k w"
  shows "fst (UNITY_END w) = ucast f" and "mm_down live cap L k (mm (snd (UNITY_END w)))"
    and "f = 0 \<Longrightarrow> i = 0 \<Longrightarrow> printed (snd (UNITY_END w)) = printed w @ text_lines (summary n)"
proof -
  have "mm (emit cs v) = mm v" "Unity (emit cs v) = Unity v" for cs and v :: "'a world"
    by (simp_all add: emit_def)
  then show "fst (UNITY_END w) = ucast f" "mm_down live cap L k (mm (snd (UNITY_END w)))"
    using assms by (simp_all add: UNITY_END_def UnityEnd_def Let_def UNITY_PRINT_EOL_def between_def)
  have "UnityPrint UnityStrBreaker = ''-----------------------''" "UnityPrint UnityStrResultsTests = '' Tests ''"
      "UnityPrint UnityStrResultsFailures = '' Failures ''" "UnityPrint UnityStrResultsIgnored = '' Ignored ''"
      "UnityPrint UnityStrOk = ''OK''" "UnityPrintNumber 0 = ''0''"
    by code_simp+
  then show "printed (snd (UNITY_END w)) = printed w @ text_lines (summary n)" if "f = 0" "i = 0"
    using assms that by (simp add: UNITY_END_def UnityEnd_def Let_def UNITY_PRINT_EOL_def between_def
        text_lines_def summary_def)
qed

text \<open>
  Whatever the first two suites counted: \<^verbatim>\<open>main\<close> returns what the last \<^verbatim>\<open>UNITY_END\<close> returns,
  the failures of the concurrency test, of which there are none.
\<close>

lemma main_after_suites:
  assumes "je_contract je live S" and "fair sched" and "S \<le> 2 ^ 58"
    and w1: "runUnitTests je (enter_suite TEST_UNIT_TEST_MAX_SIZE w) = Inr w1"
    and w2: "runFunctionalTests je (enter_suite TEST_FUNC_TEST_MAX_SIZE (snd (UNITY_END w1))) = Inr w2"
      "between live cap L TEST_FUNC_TEST_MAX_SIZE n f i k w2"
  shows "\<exists>N. \<forall>j. \<exists>v. main je (map sched [0..<N + j]) w = Inr (0, v) \<and> live (je_heap (mm v)) = L \<and>
    printed v = printed (snd (UNITY_END w2)) @ text_lines (conc_report @ summary 1)"
proof -
  let ?w = "enter_suite TEST_CONC_TEST_MAX_SIZE (snd (UNITY_END w2))"
  obtain N where N: "\<forall>j. \<exists>v. runConcurrencyTest je (map sched [0..<N + j]) ?w = Inr v \<and>
      between live (\<lambda>_ _. True) L TEST_CONC_TEST_MAX_SIZE (0 + 1) 0 0 0 v \<and>
      printed v = printed ?w @ text_lines conc_report"
    by (rule conc_suite [OF assms(1-3) begin_suite(1) [OF end_suite(2) [OF w2(2)]]])
  have "\<exists>v. main je (map sched [0..<N + j]) w = Inr (0, v) \<and> live (je_heap (mm v)) = L \<and>
      printed v = printed (snd (UNITY_END w2)) @ text_lines (conc_report @ summary 1)" for j
  proof -
    obtain w3 where w3: "runConcurrencyTest je (map sched [0..<N + j]) ?w = Inr w3"
      "between live (\<lambda>_ _. True) L TEST_CONC_TEST_MAX_SIZE (0 + 1) 0 0 0 w3"
      "printed w3 = printed ?w @ text_lines conc_report"
      using N by blast
    have "main je (map sched [0..<N + j]) w = Inr (UNITY_END w3)"
      by (simp only: main_def w1 w2(1) w3(1) rbind.simps Let_def)
    then show ?thesis
      using end_suite [OF w3(2)] w3(3)
      by (cases "UNITY_END w3") (auto simp: mm_down_def begin_suite(2) text_lines_def)
  qed
  then show ?thesis by blast
qed

text \<open>What the whole program prints.\<close>

definition main_report :: "string list" where
  "main_report =
     unit_report @
     ['''', ''-----------------------'', ''10 Tests 0 Failures 0 Ignored '', ''OK''] @
     functional_report @
     ['''', ''-----------------------'', ''5 Tests 0 Failures 0 Ignored '', ''OK''] @
     conc_report @
     ['''', ''-----------------------'', ''1 Tests 0 Failures 0 Ignored '', ''OK'']"

text \<open>
  C18: the program passes: over every allocator with the size classes the tests ask for and under
  every fair schedule, \<^verbatim>\<open>main\<close> runs the unit, the functional and the concurrency tests to
  their end without a fault, returns 0 (no test failed), leaves no block behind, and has printed
  exactly one PASS line for each of the sixteen tests and the summaries of the three suites.
\<close>
theorem main_passes:
  assumes "suite_allocator je live cap S" and "S \<le> 2 ^ 58" and "fair sched"
    and "mm_down live cap L (4087 + k) (mm w)"
  shows "\<exists>n. \<forall>j. \<exists>v. main je (map sched [0..<n + j]) w = Inr (0, v) \<and> live (je_heap (mm v)) = L \<and>
    printed v = printed w @ text_lines main_report"
proof -
  have je: "je_contract je live S" using assms(1) by (simp add: serves_def)
  obtain w1 where w1: "runUnitTests je (enter_suite TEST_UNIT_TEST_MAX_SIZE w) = Inr w1"
      "between live cap L TEST_UNIT_TEST_MAX_SIZE (0 + 10) 0 0 (4083 + k) w1"
      "printed w1 = printed w @ text_lines unit_report"
    using unit_suite [OF assms(1), of L 0 0 0 "4083 + k" "enter_suite TEST_UNIT_TEST_MAX_SIZE w"]
      begin_suite(1) [OF assms(4)] begin_suite(2) [of TEST_UNIT_TEST_MAX_SIZE w] by auto
  from begin_suite(1) [OF end_suite(2) [OF w1(2)]] obtain w2 where
    w2: "runFunctionalTests je (enter_suite TEST_FUNC_TEST_MAX_SIZE (snd (UNITY_END w1))) = Inr w2"
      "between live cap L TEST_FUNC_TEST_MAX_SIZE (0 + 5) 0 0 k w2"
      "printed w2 = printed (snd (UNITY_END w1)) @ text_lines functional_report"
    using functional_suite [OF assms(1), of L 0 0 0 k] begin_suite(2) by metis
  have "UnityPrintNumber 10 = ''10''" "UnityPrintNumber 5 = ''5''" "UnityPrintNumber 1 = ''1''"
    by code_simp+
  then have "printed (snd (UNITY_END w2)) @ text_lines (conc_report @ summary 1) =
      printed w @ text_lines main_report"
    using end_suite(3) [OF w1(2) refl refl] end_suite(3) [OF w2(2) refl refl] w1(3) w2(3)
    by (simp add: text_lines_def main_report_def summary_def)
  with main_after_suites [OF je assms(3,2) w1(1) w2(1,2)] show ?thesis by simp
qed

theorem main_passes_witness:
  "\<exists>n v. main bump_je (map round_robin [0..<n]) (fresh_world 0) = Inr (0, v) \<and>
    printed v = text_lines main_report"
proof -
  have "mm_down bump_live bump_cap (\<lambda>_. None) (4087 + 913) (mm (fresh_world 0))"
    using fresh_between [of 0] by (simp add: between_def)
  moreover have "printed (fresh_world 0) = []"
    by (simp add: fresh_world_def UnityBegin_def UNITY_CLR_DETAILS_def)
  ultimately show ?thesis
    using main_passes [OF bump_suite _ fair_round_robin, where k = 913 and w = "fresh_world 0" and L = "\<lambda>_. None"]
    by fastforce
qed

end
