(* ===== verification/Tests_Exit.thy ===== *)
theory Tests_Exit
  imports Tests_Threads_Pass
begin

text \<open>
  What the test program's exit status says: over an allocator that serves only requests of one page
  the tests that need other blocks fail, one assertion each, and are counted; but \<^verbatim>\<open>main\<close> passes on
  the count of its last suite only, and exits with 0.
\<close>

section \<open>An allocator that refuses\<close>

text \<open>The sizes of the first requests of the tests, the single page of one of them aside.\<close>

definition starved_sizes :: "size_t list" where
  "starved_sizes = [1, 4, 8, 8192, 1048576, 8388608, 67108864]"

definition starved_allocator ::
  "'h jemalloc \<Rightarrow> 'h heap_view \<Rightarrow> (nat \<Rightarrow> 'h \<Rightarrow> bool) \<Rightarrow> nat \<Rightarrow> bool" where
  "starved_allocator je live cap S \<longleftrightarrow>
     serves je live cap S [(4096, 4096)] \<and>
     (\<forall>n \<in> set starved_sizes. \<forall>k h. cap k h \<longrightarrow>
        fst (je_malloc je n h) = NULL \<and> cap k (snd (je_malloc je n h)))"

text \<open>Whether the policy or the allocator refuses, the caller gets NULL and nothing is charged.\<close>

lemma allocMem_starved:
  assumes A: "starved_allocator je live cap S" and n: "n \<in> set starved_sizes"
    and p: "p \<noteq> POLICY_MGR_POOL_MAX" and m: "mm_at live cap S tot L e s k m"
  shows "\<exists>m'. allocMem je t p n m = Inr (NULL, m') \<and> mm_at live cap S tot L e s k m'"
proof (cases "admits p (unat n) (abs_policy (pm_stats m))")
  case True
  let ?h = "snd (je_malloc je n (je_heap m))"
  have null: "je_malloc je n (je_heap m) = (NULL, ?h)" and cap: "cap k ?h"
    using A n m by (auto simp: starved_allocator_def mm_at_def prod_eq_iff)
  have "live ?h = live (je_heap m)"
    using A null by (auto simp: starved_allocator_def serves_def intro: je_malloc_null)
  with cap m have "mm_at live cap S tot L e s k (m\<lparr>je_heap := ?h\<rparr>)"
    by (simp add: mm_at_def mm_ok_def)
  with allocMem_null [OF _ p True null] m show ?thesis by (auto simp: mm_at_def)
next
  case False
  with allocMem_denied [OF _ p False] m show ?thesis by (auto simp: mm_at_def)
qed

section \<open>A failed assertion ends its test\<close>

definition failed :: "string \<Rightarrow> 'h world \<Rightarrow> 'h world" where
  "failed s w = w\<lparr>Unity := (Unity w)\<lparr>CurrentTestFailed := 1\<rparr>, printed := printed w @ s\<rparr>"

definition fails_with :: "'h test \<Rightarrow> bool" where
  "fails_with T \<longleftrightarrow> (\<forall>w. \<not> fail_or_ignore w \<longrightarrow> (\<exists>s. T w = Inr (Jumps (failed s w))))"

lemma not_equal_fails:
  "fails_with (check (TEST_ASSERT_NOT_EQUAL NULL NULL line))"
  "fails_with (check (TEST_ASSERT_NOT_EQUAL_MESSAGE NULL NULL message line))"
  using UnityFail_asserts
  by (fastforce simp: fails_with_def failed_def check_def TEST_ASSERT_NOT_EQUAL_def
      TEST_ASSERT_NOT_EQUAL_MESSAGE_def UNITY_TEST_ASSERT_def UNITY_TEST_FAIL_def asserts_def)+

lemma fails_with_seq: "fails_with f \<Longrightarrow> fails_with (seq f g)" "fails_with f \<Longrightarrow> fails_with (seqs (f # fs))"
  by (fastforce simp: fails_with_def seq_def)+

lemma failed_ends:
  "mm_at live cap S tot L e s k m \<Longrightarrow> \<not> fail_or_ignore w \<Longrightarrow>
   ended live cap S L k True w (failed cs (w\<lparr>mm := m\<rparr>))"
  by (simp add: ended_def failed_def mm_at_def fail_or_ignore_def)

lemma first_request_fails:
  assumes A: "starved_allocator je live cap S" and n: "n \<in> set starved_sizes" and K: "fails_with (K NULL)"
  shows "test_ends live cap S tot (0, True) (call (allocExecMemory je t n) K)"
    and "test_ends live cap S tot (0, True) (call (allocStorageMemory je t n) K)"
proof -
  have "test_ends live cap S tot (0, True) (call (allocMem je t p n) K)" if p: "p \<noteq> POLICY_MGR_POOL_MAX" for p
    unfolding test_ends_def
  proof (intro allI impI)
    fix L k and w :: "'a world"
    assume w: "mm_at live cap S tot L 0 0 (fst (0, True) + k) (mm w)" "\<not> fail_or_ignore w"
    then obtain m where m: "allocMem je t p n (mm w) = Inr (NULL, m)" "mm_at live cap S tot L 0 0 k m"
      using allocMem_starved [OF A n p, of tot L 0 0 k "mm w" t] by auto
    moreover obtain cs where "K NULL (w\<lparr>mm := m\<rparr>) = Inr (Jumps (failed cs (w\<lparr>mm := m\<rparr>)))"
      using K [unfolded fails_with_def, rule_format, of "w\<lparr>mm := m\<rparr>"] w(2) by auto
    ultimately show "\<exists>r. call (allocMem je t p n) K w = Inr r \<and>
        ended live cap S L k (snd (0, True)) w (final r)"
      using failed_ends [OF m(2) w(2), of cs] by (simp add: call_def)
  qed
  moreover have "allocExecMemory je t n = allocMem je t POLICY_MGR_EXEC_POOL n"
      "allocStorageMemory je t n = allocMem je t POLICY_MGR_STORAGE_POOL n"
    by (simp_all add: fun_eq_iff allocExecMemory_def allocStorageMemory_def)
  ultimately show "test_ends live cap S tot (0, True) (call (allocExecMemory je t n) K)"
      "test_ends live cap S tot (0, True) (call (allocStorageMemory je t n) K)"
    by simp_all
qed

lemma fill_pos:
  "0 < n \<Longrightarrow> fill alloc b assertion n arr K =
     call (alloc b) (\<lambda>p. seq (check (assertion p)) (fill alloc b assertion (n - 1) (arr @ [p]) K))"
  by (cases n) simp_all

lemma serial_allocs_pos:
  "0 < n \<Longrightarrow> \<exists>K. serial_allocs je n pa sa k = call (allocExecMemory je main_thread 8192) K \<and> fails_with (K NULL)"
  by (cases n) (auto simp: test_sizes intro!: exI fails_with_seq not_equal_fails)

section \<open>The suites over such an allocator\<close>

lemma unit_tests_fail:
  assumes A: "starved_allocator je live cap S"
  shows "test_ends live cap S tot (0, True) (testExec1ByteAlloc je)"
    "test_ends live cap S tot (0, True) (testExec4BytesAlloc je)"
    "test_ends live cap S tot (0, True) (testExec8BytesAlloc je)"
  unfolding testExec1ByteAlloc_def testExec4BytesAlloc_def testExec8BytesAlloc_def test_sizes
  by (rule first_request_fails(1) [OF A], simp add: starved_sizes_def,
      rule fails_with_seq(2), rule not_equal_fails)+

lemma functional_tests_fail:
  assumes A: "starved_allocator je live cap S"
  shows "test_ends live cap S tot (0, True) (testMultipleSerialAllocs je)"
    "test_ends live cap S tot (0, True) (testExecPoolQuota je)"
    "test_ends live cap S tot (0, True) (testStoragePoolQuota je)"
    "test_ends live cap S tot (0, True) (testMixedWorkload je)"
proof -
  have sizes: "8192 \<in> set starved_sizes" "8388608 \<in> set starved_sizes" "67108864 \<in> set starved_sizes"
      "1048576 \<in> set starved_sizes"
    by (simp_all add: starved_sizes_def)
  note request = first_request_fails [OF A] and fails = fails_with_seq(1) not_equal_fails
  obtain K where "testMultipleSerialAllocs je = call (allocExecMemory je main_thread 8192) K" "fails_with (K NULL)"
    unfolding testMultipleSerialAllocs_def using serial_allocs_pos [of 1000 je "[]" "[]"] by fastforce
  then show "test_ends live cap S tot (0, True) (testMultipleSerialAllocs je)"
    using request(1) [OF sizes(1)] by simp
  have "0 < unat (TEST_FUNC_TEST_MAX_SIZE div 8388608)" "0 < unat (TEST_FUNC_TEST_MAX_SIZE div 67108864 - 1)"
    by (simp_all add: TEST_FUNC_TEST_MAX_SIZE_def size_consts)
  then show "test_ends live cap S tot (0, True) (testExecPoolQuota je)"
      "test_ends live cap S tot (0, True) (testStoragePoolQuota je)"
    unfolding testExecPoolQuota_def testStoragePoolQuota_def test_sizes
    by (simp_all only: fill_pos) (intro request sizes fails)+
  show "test_ends live cap S tot (0, True) (testMixedWorkload je)"
    unfolding testMixedWorkload_def test_sizes by (intro request sizes fails)
qed

lemma unit_suite_fails:
  assumes A: "starved_allocator je live cap S"
    and "between live cap L TEST_UNIT_TEST_MAX_SIZE n f i (1 + k) w"
  shows "\<exists>v. runUnitTests je w = Inr v \<and> between live cap L TEST_UNIT_TEST_MAX_SIZE (n + 10) (f + 3) i k v"
proof -
  have tot: "unat TEST_UNIT_TEST_MAX_SIZE = 1073741824"
    by (simp add: TEST_UNIT_TEST_MAX_SIZE_def size_consts)
  have A1: "serves je live cap S [(4096, 4096)]" and S: "S < 2 ^ 62"
    using A by (simp_all add: starved_allocator_def serves_def)
  have page: "test_ok live cap S 1073741824 1 (testStorage4KBAlloc je)"
    by (rule storage_4KB_ok [OF A1 _ refl]) simp
  show ?thesis
    unfolding runUnitTests_def
    by (rule suite_ends [OF S _ _ _ _ _ assms(2), where xs = "[(0, True), (0, True), (0, True),
        (0, False), (1, False), (0, False), (0, False), (0, False), (0, False), (0, False)]"])
       (use unit_tests_fail [OF A, of 1073741824] test_ok_ends [OF page]
         refused_tests_ok [OF refl, of live cap S je, THEN test_ok_ends] in \<open>simp_all add: tot\<close>)
qed

lemma functional_suite_fails:
  assumes A: "starved_allocator je live cap S"
    and "between live cap L TEST_FUNC_TEST_MAX_SIZE n f i k w"
  shows "\<exists>v. runFunctionalTests je w = Inr v \<and> between live cap L TEST_FUNC_TEST_MAX_SIZE (n + 5) (f + 4) i k v"
proof -
  have tot: "unat TEST_FUNC_TEST_MAX_SIZE = 134217728"
    by (simp add: TEST_FUNC_TEST_MAX_SIZE_def size_consts)
  have S: "S < 2 ^ 62" using A by (simp add: starved_allocator_def serves_def)
  have w: "between live cap L TEST_FUNC_TEST_MAX_SIZE n f i (0 + k) w" using assms(2) by simp
  have free: "test_ok live cap S 134217728 0 testFree"
    by (simp add: test_ok_def testFree_def triple_done del: seqs.simps)
  show ?thesis
    unfolding runFunctionalTests_def
    by (rule suite_ends [OF S _ _ _ _ _ w, where xs = "[(0, True), (0, True), (0, True), (0, True), (0, False)]"])
       (use functional_tests_fail [OF A, of 134217728] test_ok_ends [OF free] in \<open>simp_all add: tot\<close>)
qed

section \<open>The exit status\<close>

text \<open>
  C19: the exit status hides failures: over an allocator that serves requests of one page only, three
  unit tests and four functional tests fail and are counted, yet under every fair schedule
  \<^verbatim>\<open>main\<close> runs to its end and returns 0: it drops what the first two \<^verbatim>\<open>UNITY_END\<close> return.
\<close>
theorem main_hides_failures:
  assumes "starved_allocator je live cap S" and "S \<le> 2 ^ 58" and "fair sched"
    and "mm_down live cap L (1 + k) (mm w)"
  shows "\<exists>w1 w2 n. runUnitTests je (enter_suite TEST_UNIT_TEST_MAX_SIZE w) = Inr w1 \<and>
    TestFailures (Unity w1) = 3 \<and> fst (UNITY_END w1) = 3 \<and>
    runFunctionalTests je (enter_suite TEST_FUNC_TEST_MAX_SIZE (snd (UNITY_END w1))) = Inr w2 \<and>
    TestFailures (Unity w2) = 4 \<and> fst (UNITY_END w2) = 4 \<and>
    (\<forall>j. \<exists>v. main je (map sched [0..<n + j]) w = Inr (0, v))"
proof -
  have je: "je_contract je live S" using assms(1) by (simp add: starved_allocator_def serves_def)
  obtain w1 where w1: "runUnitTests je (enter_suite TEST_UNIT_TEST_MAX_SIZE w) = Inr w1"
      "between live cap L TEST_UNIT_TEST_MAX_SIZE (0 + 10) (0 + 3) 0 k w1"
    using unit_suite_fails [OF assms(1) begin_suite(1) [OF assms(4)]] by blast
  from begin_suite(1) [OF end_suite(2) [OF w1(2)]] obtain w2 where
    w2: "runFunctionalTests je (enter_suite TEST_FUNC_TEST_MAX_SIZE (snd (UNITY_END w1))) = Inr w2"
      "between live cap L TEST_FUNC_TEST_MAX_SIZE (0 + 5) (0 + 4) 0 k w2"
    using functional_suite_fails [OF assms(1), of L 0 0 0 k] by blast
  have "fst (UNITY_END w1) = 3" "fst (UNITY_END w2) = 4"
    using end_suite(1) [OF w1(2)] end_suite(1) [OF w2(2)] by simp_all
  moreover have "TestFailures (Unity w1) = 3" "TestFailures (Unity w2) = 4"
    using w1(2) w2(2) by (simp_all add: between_def)
  ultimately show ?thesis using w1(1) w2(1) main_after_suites [OF je assms(3,2) w1(1) w2] by blast
qed

text \<open>The concrete allocator, refusing every request that is not of one page.\<close>

definition starved_je :: "bump_heap jemalloc" where
  "starved_je = bump_je\<lparr>je_malloc := (\<lambda>n h. if n = 4096 then bump_malloc n h else (NULL, h))\<rparr>"

lemma starved_contract: "je_contract starved_je bump_live 7"
proof -
  have bump: "malloc_law bump_je bump_live" "slack_law bump_je bump_live 7" "null_never_live bump_live"
      "sallocx_law bump_je bump_live" "free_law bump_je bump_live"
    using bump_contract by (simp_all add: je_contract_def)
  have "malloc_law starved_je bump_live"
    using bump(1) by (auto simp: malloc_law_def starved_je_def bump_je_def split: if_splits)
  moreover have "je_malloc bump_je n h = (p, h')" if "je_malloc starved_je n h = (p, h')" "p \<noteq> NULL" for n h p h'
    using that by (auto simp: starved_je_def bump_je_def split: if_splits)
  then have "slack_law starved_je bump_live 7" using bump(2) unfolding slack_law_def by metis
  ultimately show ?thesis using bump(3-5)
    by (simp add: je_contract_def sallocx_law_def free_law_def starved_je_def)
qed

lemma starved_bump: "starved_allocator starved_je bump_live bump_cap 7"
proof -
  have "exact_class bump_je bump_live bump_cap (4096, 4096)"
    using bump_suite by (simp add: serves_def suite_sizes_def)
  then have "exact_class starved_je bump_live bump_cap (4096, 4096)"
    by (simp add: exact_class_def starved_je_def bump_je_def)
  moreover have "bump_cap k (je_free starved_je p h)" if "bump_cap k h" for k h p
    using that by (auto simp: bump_cap_def starved_je_def bump_je_def bump_free_def)
  ultimately have "serves starved_je bump_live bump_cap 7 [(4096, 4096)]"
    by (simp add: serves_def starved_contract)
  then show ?thesis by (simp add: starved_allocator_def starved_sizes_def starved_je_def)
qed

theorem main_hides_failures_witness:
  "\<exists>n v. main starved_je (map round_robin [0..<n]) (fresh_world 0) = Inr (0, v)"
proof -
  have "mm_down bump_live bump_cap (\<lambda>_. None) (1 + 4999) (mm (fresh_world 0))"
    using fresh_between [of 0] by (simp add: between_def)
  from main_hides_failures [OF starved_bump _ fair_round_robin this] show ?thesis by fastforce
qed

end
