(* ===== verification/Tests_Free.thy ===== *)
theory Tests_Free
  imports Tests_Pass
begin

text \<open>
  The code behind the \<^verbatim>\<open>return\<close> of \<^verbatim>\<open>testFree\<close>, which frees pointers that are no blocks. What it
  does is up to what \<^verbatim>\<open>je_sallocx\<close> says of such a pointer, which jemalloc leaves open: the guard of
  \<^verbatim>\<open>freeMem\<close> catches exactly the answer 0. If that is the answer the code would pass as a test; a
  stale size instead is subtracted from the pool a second time.
\<close>

section \<open>The guard of freeMem\<close>

lemma freeMem_ignored_iff:
  assumes "mm_ok S m" and "p \<noteq> POLICY_MGR_POOL_MAX"
  shows "freeMem je t p a m = Inr m \<longleftrightarrow> je_sallocx je a (je_heap m) = 0"
proof
  let ?r = "je_sallocx je a (je_heap m)" and ?s = "pm_stats m"
  have ready: "mutex_policyMgrStats ?s = Mutex_unlocked" "length (poolStats_policyMgrStats ?s) = 2"
    using assms(1) by (simp_all add: mm_ok_def pm_ready_def)
  have adjust: "policyMgrAdjustAlloc t p (- ?r) ?s
      = rbind (slong_add (used ?s p) (- ?r)) (\<lambda>n. Inr (set_used p n ?s))"
    using ready assms(2) by (simp add: policyMgrAdjustAlloc_critical policyMgrAdjustAlloc_read_def
        pool_index_lt2 policyMgrAdjustAlloc_write_def)
  assume free: "freeMem je t p a m = Inr m"
  show "?r = 0"
  proof (rule ccontr)
    assume r: "?r \<noteq> 0"
    with free obtain n where n: "slong_add (used ?s p) (- ?r) = Inr n"
        "m\<lparr>je_heap := je_free je a (je_heap m), pm_stats := set_used p n ?s\<rparr> = m"
      by (auto simp: freeMem_def Let_def adjust rbind_eq_Inr)
    have "set_used p n ?s = ?s" using arg_cong [OF n(2), of pm_stats] by simp
    then have "used ?s p = n" using arg_cong [OF pool_ctx_set_used [OF ready(2) assms(2), of n p],
        of used_memory_policyMgrPoolCtx] by simp
    with slong_add_Inr [OF n(1)] r show False by simp
  qed
qed (simp add: freeMem_def)

text \<open>A second free of the last block of a pool, if jemalloc still reports its size.\<close>

lemma double_free_blocks_pool:
  assumes "mm_ok S m" and "p \<noteq> POLICY_MGR_POOL_MAX" and "usage m p = 0"
    and "je_sallocx je a (je_heap m) = r" and "r \<noteq> 0" and "unat r < 2 ^ 63"
  shows "\<exists>m'. freeMem je t p a m = Inr m' \<and> usage m' p = 2 ^ 64 - unat r \<and>
    (\<forall>n u. allocMem je u p n m' = Inr (NULL, m'))"
  by (rule free_underflow [OF assms(1,2,4) _ assms(6), of t])
     (use assms(3,5) in \<open>auto simp: unat_gt_0\<close>)

section \<open>The unreached code\<close>

definition dead_has_size_0 :: "'h jemalloc \<Rightarrow> 'h heap_view \<Rightarrow> bool" where
  "dead_has_size_0 je live \<longleftrightarrow> (\<forall>h p. live h p = None \<longrightarrow> je_sallocx je p h = 0)"

lemma triple_free_dead:
  assumes "dead_has_size_0 je live" and "L p = None"
  shows "triple (mm_at live cap S tot L e s k) (call_void (freeExecMemory je t p)) (mm_at live cap S tot L e s k)"
    and "triple (mm_at live cap S tot L e s k) (call_void (freeStorageMemory je t p)) (mm_at live cap S tot L e s k)"
  using assms
  by (auto intro!: triple_void simp: freeExecMemory_def freeStorageMemory_def freeMem_def mm_at_def
      dead_has_size_0_def)

lemma testFree_unreached_ok:
  assumes A: "suite_allocator je live cap S" and dead: "dead_has_size_0 je live"
    and L: "L NULL = None" "L garbage_p = None" and tot: "8192 \<le> tot"
  shows "triple (mm_at live cap S tot L 0 0 (Suc (Suc k))) (testFree_unreached je) (mm_at live cap S tot L 0 0 k)"
proof -
  note gone = triple_free_dead [OF dead]
  note freed = triple_freed_exec [OF A, of L _ 4096 tot 0 0, simplified]
    triple_freed_storage [OF A, of L _ 4096 tot 0 0, simplified]
  show ?thesis
    unfolding testFree_unreached_def test_sizes
    apply (rule triple_seq [OF gone(1)], rule L(1))
    apply (rule triple_seq [OF gone(2)], rule L(1))
    apply (rule triple_seq [OF gone(1)], rule L(2))
    apply (rule triple_seq [OF gone(2)], rule L(2))
    apply (rule triple_exec [OF A suite_has(5)], (use tot in \<open>simp; fail\<close>)+, simp)
    apply (rule triple_seq [OF triple_not_null(2)], assumption)
    apply (rule triple_seq [OF freed(1)], assumption)
    apply (rule triple_seq [OF gone(1)], assumption)
    apply (rule triple_storage [OF A suite_has(5)], (use tot in \<open>simp; fail\<close>)+, simp)
    apply (rule triple_seq [OF triple_not_null(2)], assumption)
    apply (rule triple_seq [OF freed(2)], assumption)
    apply (rule gone(2), assumption)
    done
qed

text \<open>A concrete allocator that reports 0.\<close>

definition careful_je :: "bump_heap jemalloc" where
  "careful_je = bump_je\<lparr>je_sallocx := (\<lambda>p h. case bump_live h p of None \<Rightarrow> 0 | Some m \<Rightarrow> m)\<rparr>"

lemma careful_suite: "suite_allocator careful_je bump_live bump_cap 7"
  using bump_suite
  by (simp add: serves_def je_contract_def malloc_law_def sallocx_law_def free_law_def slack_law_def
      exact_class_def list_all_iff careful_je_def)

lemma careful_dead: "dead_has_size_0 careful_je bump_live"
  by (simp add: dead_has_size_0_def careful_je_def)

end
