(* ===== verification/Unity_Options.thy ===== *)
theory Unity_Options
  imports Unity_Core "HOL-Library.Sublist"
begin

text \<open>
  Unity's command line (\<^verbatim>\<open>unity/src/unity.c\<close>, compiled with \<^verbatim>\<open>UNITY_USE_COMMAND_LINE_ARGS\<close>):
  parsing the options, and selecting tests by name patterns. Patterns are walked by index into the
  string, so that a read behind its terminator is visible (\<open>Out_of_bounds\<close>).
\<close>

section \<open>Options\<close>

record unity_options =
  UnityOptionIncludeNamed :: c_string
  UnityOptionExcludeNamed :: c_string
  UnityVerbosity :: int

definition unity_options_init :: unity_options where
  "unity_options_init =
     \<lparr>UnityOptionIncludeNamed = None, UnityOptionExcludeNamed = None, UnityVerbosity = 1\<rparr>"

text \<open>An error message, a character if the message shows one, and the end of the line.\<close>

definition option_error :: "string \<Rightarrow> string \<Rightarrow> 'a unity_scheme \<Rightarrow> 'a unity_scheme" where
  "option_error message shown u = UNITY_PRINT_EOL (emit shown (emit (UnityPrint (Some message)) u))"

text \<open>The loop over \<^verbatim>\<open>argv\<close> from the first argument on; \<^verbatim>\<open>++i\<close> takes the next one.\<close>

fun parse_args ::
  "string list \<Rightarrow> unity_options \<Rightarrow> 'a unity_scheme \<Rightarrow> int \<times> unity_options \<times> 'a unity_scheme" where
  "parse_args [] opts u = (0, opts, u)"
| "parse_args (arg # args) opts u =
     (if first_char arg \<noteq> CHR ''-'' then parse_args args opts u
      else let c = first_char (tl arg) in
        if c = CHR ''l'' then (- 1, opts, u)
        else if c = CHR ''n'' \<or> c = CHR ''f'' then
          (if first_char (tl (tl arg)) = CHR ''='' then
             parse_args args (opts\<lparr>UnityOptionIncludeNamed := Some (drop 3 arg)\<rparr>) u
           else case args of
             next_arg # rest \<Rightarrow> parse_args rest (opts\<lparr>UnityOptionIncludeNamed := Some next_arg\<rparr>) u
           | [] \<Rightarrow> (1, opts, option_error ''ERROR: No Test String to Include Matches For'' [] u))
        else if c = CHR ''q'' then parse_args args (opts\<lparr>UnityVerbosity := 0\<rparr>) u
        else if c = CHR ''v'' then parse_args args (opts\<lparr>UnityVerbosity := 2\<rparr>) u
        else if c = CHR ''x'' then
          (if first_char (tl (tl arg)) = CHR ''='' then
             parse_args args (opts\<lparr>UnityOptionExcludeNamed := Some (drop 3 arg)\<rparr>) u
           else case args of
             next_arg # rest \<Rightarrow> parse_args rest (opts\<lparr>UnityOptionExcludeNamed := Some next_arg\<rparr>) u
           | [] \<Rightarrow> (1, opts, option_error ''ERROR: No Test String to Exclude Matches For'' [] u))
        else (1, opts, option_error ''ERROR: Unknown Option '' [c] u))"

text \<open>\<open>argv\<close> includes the program's name.\<close>

definition UnityParseOptions ::
  "string list \<Rightarrow> unity_options \<Rightarrow> 'a unity_scheme \<Rightarrow> int \<times> unity_options \<times> 'a unity_scheme" where
  "UnityParseOptions argv opts u =
     parse_args (tl argv)
       (opts\<lparr>UnityOptionIncludeNamed := None, UnityOptionExcludeNamed := None\<rparr>) u"

section \<open>Finding a pattern in a name\<close>

text \<open>
  The inner loop of \<^verbatim>\<open>IsStringInBiggerString\<close>: \<open>Some r\<close> if it returns \<open>r\<close>, \<open>None\<close> if it falls
  through to the next starting point.
\<close>

fun match_here :: "string \<Rightarrow> string \<Rightarrow> nat option" where
  "match_here (l # ls) (s # ss) =
     (if l \<noteq> CHR 0x00 \<and> s \<noteq> CHR 0x00 \<and> l = s then
        (let c = first_char ss in
         if c = CHR ''*'' then Some 1
         else if c = CHR '','' then Some 1
         else if c = CHR 0x22 then Some 1
         else if c = CHR 0x27 then Some 1
         else if c = CHR '':'' then Some 2
         else if c = CHR 0x00 then Some 1
         else match_here ls ss)
      else None)"
| "match_here ls ss = None"

fun match_from :: "string \<Rightarrow> string \<Rightarrow> nat" where
  "match_from [] s = 0"
| "match_from (l # ls) s =
     (if l = CHR 0x00 then 0
      else case match_here (l # ls) s of Some r \<Rightarrow> r | None \<Rightarrow> match_from ls s)"

definition IsStringInBiggerString :: "c_string \<Rightarrow> string \<Rightarrow> nat res" where
  "IsStringInBiggerString longstring shortstring =
     (if first_char shortstring = CHR ''*'' then Inr 1
      else case longstring of
        None \<Rightarrow> Inl Out_of_bounds
      | Some l \<Rightarrow> Inr (match_from l shortstring))"

section \<open>Matching the current test against the patterns\<close>

definition quote :: "char \<Rightarrow> bool" where
  "quote c \<longleftrightarrow> c = CHR 0x27 \<or> c = CHR 0x22"

text \<open>
  The \<^verbatim>\<open>do\<close> loop that looks for the end of the current pattern: the final \<^verbatim>\<open>ptr2\<close>, and \<^verbatim>\<open>ptrf\<close>,
  the start of a test name behind a colon.
\<close>

function scan :: "string \<Rightarrow> nat \<Rightarrow> nat option \<Rightarrow> (nat \<times> nat option) res" where
  "scan str p ptrf =
     rbind (char_at str (p + 1)) (\<lambda>c.
     rbind (if c = CHR '':'' then
              rbind (char_at str (p + 2)) (\<lambda>d. Inr (if d \<noteq> CHR 0x00 then Some (p + 2) else ptrf))
            else Inr ptrf) (\<lambda>ptrf.
     if c \<noteq> CHR 0x00 \<and> \<not> quote c \<and> c \<noteq> CHR '','' then scan str (p + 1) ptrf
     else Inr (p + 1, ptrf)))"
  by auto
termination
  by (relation "measure (\<lambda>(str, p, ptrf). length str - p)") (auto dest: char_at_content)

function skip :: "string \<Rightarrow> nat \<Rightarrow> nat res" where
  "skip str p =
     rbind (char_at str p) (\<lambda>c.
     if c \<noteq> CHR 0x00 \<and> (c = CHR '':'' \<or> quote c \<or> c = CHR '','') then skip str (p + 1) else Inr p)"
  by auto
termination
  by (relation "measure (\<lambda>(str, p). length str - p)") (auto dest: char_at_content)

declare scan.simps [simp del] skip.simps [simp del]

lemma rbind_InrE:
  assumes "rbind m k = Inr y"
  obtains x where "m = Inr x" and "k x = Inr y"
  using assms by (cases m) auto

lemma scan_step:
  assumes "scan str p ptrf = Inr (q, f)"
  obtains c g where "char_at str (p + 1) = Inr c"
    and "rbind (if c = CHR '':'' then
              rbind (char_at str (p + 2)) (\<lambda>d. Inr (if d \<noteq> CHR 0x00 then Some (p + 2) else ptrf))
            else Inr ptrf) Inr = Inr g"
    and "if c \<noteq> CHR 0x00 \<and> \<not> quote c \<and> c \<noteq> CHR '','' then scan str (p + 1) g = Inr (q, f)
         else q = p + 1 \<and> f = g"
  using assms
  by (subst (asm) scan.simps) (elim rbind_InrE, rule that, assumption, auto split: if_splits)

lemma scan_advances: "scan str p ptrf = Inr (q, f) \<Longrightarrow> p < q"
proof (induction "length str - p" arbitrary: p ptrf rule: less_induct)
  case less
  from less.prems show ?case
  proof (rule scan_step)
    fix c g
    assume c: "char_at str (p + 1) = Inr c"
      and more: "if c \<noteq> CHR 0x00 \<and> \<not> quote c \<and> c \<noteq> CHR '','' then scan str (p + 1) g = Inr (q, f)
        else q = p + 1 \<and> f = g"
    show "p < q"
    proof (cases "c \<noteq> CHR 0x00 \<and> \<not> quote c \<and> c \<noteq> CHR '',''")
      case True
      with c have "length str - (p + 1) < length str - p" by (auto dest: char_at_content)
      from less.hyps [OF this, of g] True more show ?thesis by simp
    qed (use more in simp)
  qed
qed

lemma skip_step:
  assumes "skip str p = Inr q"
  obtains c where "char_at str p = Inr c"
    and "if c \<noteq> CHR 0x00 \<and> (c = CHR '':'' \<or> quote c \<or> c = CHR '','') then skip str (p + 1) = Inr q
         else q = p"
  using assms
  by (subst (asm) skip.simps) (elim rbind_InrE, rule that, assumption, auto split: if_splits)

lemma skip_advances: "skip str p = Inr q \<Longrightarrow> p \<le> q"
proof (induction "length str - p" arbitrary: p rule: less_induct)
  case less
  from less.prems show ?case
  proof (rule skip_step)
    fix c
    assume c: "char_at str p = Inr c"
      and more: "if c \<noteq> CHR 0x00 \<and> (c = CHR '':'' \<or> quote c \<or> c = CHR '','') then skip str (p + 1) = Inr q
        else q = p"
    show "p \<le> q"
    proof (cases "c \<noteq> CHR 0x00 \<and> (c = CHR '':'' \<or> quote c \<or> c = CHR '','')")
      case True
      with c have "length str - (p + 1) < length str - p" by (auto dest: char_at_content)
      from less.hyps [OF this] True more show ?thesis by simp
    qed (use more in simp)
  qed
qed

function argument_matches :: "'a unity_scheme \<Rightarrow> string \<Rightarrow> nat \<Rightarrow> nat res" where
  "argument_matches u str p =
     rbind (char_at str p) (\<lambda>c.
     if c = CHR 0x00 then Inr 0
     else
       (let ptr1 = (if quote c then p + 1 else p) in
        rbind (scan str ptr1 None) (\<lambda>(ptr2, ptrf).
        rbind (skip str ptr2) (\<lambda>ptr2.
        rbind (IsStringInBiggerString (TestFile (Unity u)) (drop ptr1 str)) (\<lambda>retval.
        if retval = 1 then Inr retval
        else
          rbind (case ptrf of
                   Some f \<Rightarrow> if retval = 2
                             then IsStringInBiggerString (CurrentTestName (Unity u)) (drop f str)
                             else Inr 0
                 | None \<Rightarrow> Inr 0) (\<lambda>r.
          if r \<noteq> 0 then Inr 1
          else
            rbind (IsStringInBiggerString (CurrentTestName (Unity u)) (drop ptr1 str)) (\<lambda>r.
            if r = 1 then Inr 1 else argument_matches u str ptr2)))))))"
  by auto
termination
  by (relation "measure (\<lambda>(u, str, p). length str - p)")
     (auto dest!: char_at_content scan_advances skip_advances split: if_splits)

declare argument_matches.simps [simp del]

definition UnityStringArgumentMatches :: "string \<Rightarrow> 'a unity_scheme \<Rightarrow> nat res" where
  "UnityStringArgumentMatches str u = argument_matches u str 0"

definition UnityTestMatches :: "unity_options \<Rightarrow> 'a unity_scheme \<Rightarrow> nat res" where
  "UnityTestMatches opts u =
     rbind (case UnityOptionIncludeNamed opts of
              Some str \<Rightarrow> UnityStringArgumentMatches str u
            | None \<Rightarrow> Inr 1) (\<lambda>retval.
     case UnityOptionExcludeNamed opts of
       Some str \<Rightarrow> rbind (UnityStringArgumentMatches str u) (\<lambda>r. Inr (if r \<noteq> 0 then 0 else retval))
     | None \<Rightarrow> Inr retval)"

section \<open>What a pattern matches\<close>

definition stops :: "char \<Rightarrow> bool" where
  "stops c \<longleftrightarrow> c \<in> {CHR 0x00, CHR ''*'', CHR '','', CHR 0x22, CHR 0x27, CHR '':''}"

text \<open>The text a pattern looks for, and what finding it returns.\<close>

definition pattern_key :: "string \<Rightarrow> string" where
  "pattern_key s = take 1 s @ takeWhile (\<lambda>c. \<not> stops c) (tl s)"

definition pattern_result :: "string \<Rightarrow> nat" where
  "pattern_result s = (if first_char (dropWhile (\<lambda>c. \<not> stops c) (tl s)) = CHR '':'' then 2 else 1)"

lemma match_here_key:
  "c \<noteq> CHR 0x00 \<Longrightarrow> match_here l (c # cs) =
     (if prefix (pattern_key (c # cs)) l then Some (pattern_result (c # cs)) else None)"
proof (induction l arbitrary: c cs)
  case Nil
  then show ?case by (simp add: pattern_key_def)
next
  case (Cons x xs)
  show ?case
  proof (cases cs)
    case Nil
    with Cons.prems show ?thesis
      by (auto simp: pattern_key_def pattern_result_def first_char_def)
  next
    case (Cons d ds)
    show ?thesis
    proof (cases "stops d")
      case True
      with Cons Cons.prems show ?thesis
        by (auto simp: pattern_key_def pattern_result_def first_char_def stops_def)
    next
      case False
      then have "d \<noteq> CHR 0x00" by (simp add: stops_def)
      from Cons.IH [OF this, of ds] False Cons Cons.prems show ?thesis
        by (auto simp: pattern_key_def pattern_result_def first_char_def stops_def)
    qed
  qed
qed

lemma content_Cons: "c_content (x # xs) = (if x = CHR 0x00 then [] else x # c_content xs)"
  by (simp add: c_content_def)

lemma prefix_content: "CHR 0x00 \<notin> set k \<Longrightarrow> prefix k (c_content l) \<longleftrightarrow> prefix k l"
proof (induction l arbitrary: k)
  case (Cons x xs)
  then show ?case by (cases k) (auto simp: content_Cons)
qed (simp add: c_content_def)

lemma match_from_key:
  assumes "c \<noteq> CHR 0x00"
  shows "match_from l (c # cs) =
    (if sublist (pattern_key (c # cs)) (c_content l) then pattern_result (c # cs) else 0)"
proof (induction l)
  case Nil
  then show ?case by (simp add: c_content_def pattern_key_def)
next
  case (Cons x xs)
  have plain: "CHR 0x00 \<notin> set (pattern_key (c # cs))"
    using assms by (auto simp: pattern_key_def stops_def dest: set_takeWhileD)
  show ?case
  proof (cases "x = CHR 0x00")
    case True
    then show ?thesis by (simp add: content_Cons pattern_key_def)
  next
    case False
    have "sublist (pattern_key (c # cs)) (c_content (x # xs)) \<longleftrightarrow>
        prefix (pattern_key (c # cs)) (x # xs) \<or> sublist (pattern_key (c # cs)) (c_content xs)"
      using prefix_content [OF plain, of "x # xs"] False by (simp add: content_Cons sublist_Cons_right)
    with False Cons.IH match_here_key [OF assms, of "x # xs" cs] show ?thesis
      by (simp del: match_here.simps)
  qed
qed

text \<open>
  \<^verbatim>\<open>IsStringInBiggerString\<close> is substring search: a leading star matches everything; otherwise
  the text of the pattern, its first character and what follows up to a star, comma, quote, colon or
  the end, must occur in the string. The result is 2 if a colon ended it, else 1, and 0 if not found.
\<close>
theorem IsStringInBiggerString_spec:
  assumes "c \<noteq> CHR 0x00"
  shows "IsStringInBiggerString (Some l) (c # cs) =
    Inr (if c = CHR ''*'' then 1
         else if sublist (pattern_key (c # cs)) (c_content l) then pattern_result (c # cs) else 0)"
  using match_from_key [OF assms] by (simp add: IsStringInBiggerString_def first_char_def)

theorem IsStringInBiggerString_spec_witness:
  "IsStringInBiggerString (Some ''test_mem.c'') ''mem:alloc'' = Inr 2 \<and>
   IsStringInBiggerString (Some ''test_mem.c'') ''men'' = Inr 0"
proof -
  have "sublist ''mem'' ''test_mem.c''" "\<not> sublist ''men'' ''test_mem.c''"
    by (simp_all add: sublist_code)
  then show ?thesis
    using IsStringInBiggerString_spec [of "CHR ''m''" "''test_mem.c''" "''em:alloc''"]
      IsStringInBiggerString_spec [of "CHR ''m''" "''test_mem.c''" "''en''"]
    by (simp add: pattern_key_def pattern_result_def stops_def c_content_def first_char_def)
qed

section \<open>Reading the patterns\<close>

lemma char_at_simps:
  "i < length s \<Longrightarrow> char_at s i = Inr (s ! i)"
  "char_at s (length s) = Inr (CHR 0x00)"
  "length s < i \<Longrightarrow> char_at s i = Inl Out_of_bounds"
  by (simp_all add: char_at_def)

lemma scan_ok:
  "p < length str \<Longrightarrow> \<exists>q f. scan str p ptrf = Inr (q, f) \<and> p < q \<and> q \<le> length str"
proof (induction "length str - p" arbitrary: p ptrf rule: less_induct)
  case less
  show ?case
  proof (cases "p + 1 = length str")
    case True
    then show ?thesis by (subst scan.simps) (simp add: char_at_def)
  next
    case False
    with less.prems have p: "p + 1 < length str" by simp
    then obtain d where d: "char_at str (p + 2) = Inr d"
      by (cases "p + 2 = length str") (auto simp: char_at_def)
    let ?g = "if str ! (p + 1) = CHR '':'' \<and> d \<noteq> CHR 0x00 then Some (p + 2) else ptrf"
    obtain q f where "scan str (p + 1) ?g = Inr (q, f)" "p + 1 < q" "q \<le> length str"
      using less.hyps [OF diff_less_mono2 [OF less_add_one less.prems] p, of ?g] by blast
    then show ?thesis
      using p d by (subst scan.simps) (auto simp: char_at_simps(1))
  qed
qed

lemma skip_ok:
  "p \<le> length str \<Longrightarrow> \<exists>q. skip str p = Inr q \<and> q \<le> length str \<and> (q < length str \<longrightarrow> \<not> quote (str ! q) \<or> str ! q = CHR 0x00)"
proof (induction "length str - p" arbitrary: p rule: less_induct)
  case less
  show ?case
  proof (cases "p = length str")
    case True
    then show ?thesis by (subst skip.simps) (simp add: char_at_def)
  next
    case False
    with less.prems have p: "p < length str" by simp
    with less.hyps [of "p + 1"] show ?thesis
      by (subst skip.simps) (auto simp: char_at_simps(1))
  qed
qed

lemma in_bigger_string_ok:
  "l \<noteq> None \<Longrightarrow> \<exists>r. IsStringInBiggerString l s = Inr r"
  by (auto simp: IsStringInBiggerString_def)

lemma argument_matches_ok:
  assumes "TestFile (Unity u) \<noteq> None" and "CurrentTestName (Unity u) \<noteq> None"
    and "p \<le> length str" and "p < length str \<Longrightarrow> quote (str ! p) \<Longrightarrow> p + 1 < length str"
  shows "\<exists>r \<le> 1. argument_matches u str p = Inr r"
  using assms(3,4)
proof (induction "length str - p" arbitrary: p rule: less_induct)
  case less
  show ?case
  proof (cases "char_at str p = Inr (CHR 0x00)")
    case True
    then show ?thesis by (subst argument_matches.simps) simp
  next
    case False
    with less.prems(1) have p: "p < length str" by (auto simp: char_at_def split: if_splits)
    let ?q = "if quote (str ! p) then p + 1 else p"
    have "?q < length str" using p less.prems(2) by auto
    then obtain a f where scan: "scan str ?q None = Inr (a, f)" "?q < a" "a \<le> length str"
      using scan_ok by blast
    obtain b where skip: "skip str a = Inr b" "b \<le> length str"
        "b < length str \<longrightarrow> \<not> quote (str ! b) \<or> str ! b = CHR 0x00"
      using skip_ok [OF scan(3)] by blast
    have "p < b" using scan(2) skip_advances [OF skip(1)] by (auto split: if_splits)
    then have rest: "\<exists>r \<le> 1. argument_matches u str b = Inr r"
      using less.hyps [of b] p skip(2,3) by (cases "b < length str") (auto simp: quote_def)
    obtain r1 r2 where r: "IsStringInBiggerString (TestFile (Unity u)) (drop ?q str) = Inr r1"
        "IsStringInBiggerString (CurrentTestName (Unity u)) (drop ?q str) = Inr r2"
      using in_bigger_string_ok [OF assms(1)] in_bigger_string_ok [OF assms(2)] by blast
    obtain r3 where "(case f of Some f \<Rightarrow> if r1 = 2
        then IsStringInBiggerString (CurrentTestName (Unity u)) (drop f str) else Inr 0 | None \<Rightarrow> Inr 0) = Inr r3"
      using in_bigger_string_ok [OF assms(2)] by (cases f; cases "r1 = 2") auto
    with False p scan(1) skip(1) r rest show ?thesis
      by (subst argument_matches.simps) (auto simp: char_at_simps(1) Let_def)
  qed
qed

text \<open>
  C30: reading the patterns stays inside the string, and the answer is 0 or 1, for every pattern except
  one: a single quote character and nothing else sends the loop behind the terminator.
\<close>
theorem UnityStringArgumentMatches_reads:
  assumes "TestFile (Unity u) \<noteq> None" and "CurrentTestName (Unity u) \<noteq> None"
  shows "(UnityStringArgumentMatches str u = Inl Out_of_bounds \<longleftrightarrow> (\<exists>c. quote c \<and> str = [c])) \<and>
    ((\<nexists>c. quote c \<and> str = [c]) \<longrightarrow> UnityStringArgumentMatches str u \<in> {Inr 0, Inr 1})"
proof -
  have lone: "UnityStringArgumentMatches [c] u = Inl Out_of_bounds" if "quote c" for c
  proof -
    have "scan [c] 1 None = Inl Out_of_bounds" by (subst scan.simps) (simp add: char_at_def)
    moreover have "c \<noteq> CHR 0x00" using that by (auto simp: quote_def)
    ultimately show ?thesis
      using that by (simp add: UnityStringArgumentMatches_def argument_matches.simps [of u "[c]" 0] char_at_def)
  qed
  have "UnityStringArgumentMatches str u \<in> {Inr 0, Inr 1}" if "\<nexists>c. quote c \<and> str = [c]"
  proof -
    have "0 + 1 < length str" if "0 < length str" "quote (str ! 0)"
    proof (rule ccontr)
      assume "\<not> 0 + 1 < length str"
      with that(1) have "length str = 1" by linarith
      then obtain c where "str = [c]" by (auto simp: length_Suc_conv)
      with \<open>\<nexists>c. quote c \<and> str = [c]\<close> that(2) show False by simp
    qed
    then obtain r where "r \<le> 1" "argument_matches u str 0 = Inr r"
      using argument_matches_ok [OF assms, of 0 str] by auto
    then show ?thesis by (cases r) (auto simp: UnityStringArgumentMatches_def)
  qed
  with lone show ?thesis by (metis Inl_Inr_False insertE singletonD)
qed

definition named_test :: unity where
  "named_test = \<lparr>Unity = Unity_zero\<lparr>TestFile := Some ''test_mem.c'', CurrentTestName := Some ''testFree''\<rparr>,
     printed = []\<rparr>"

theorem UnityStringArgumentMatches_reads_witness:
  "UnityStringArgumentMatches [CHR 0x27] named_test = Inl Out_of_bounds"
  using UnityStringArgumentMatches_reads [of named_test "[CHR 0x27]"]
  by (simp add: named_test_def quote_def)

section \<open>Selecting tests with plain patterns\<close>

definition plain :: "string \<Rightarrow> bool" where
  "plain s \<longleftrightarrow> s \<noteq> [] \<and> (\<forall>c \<in> set s. \<not> stops c)"

lemma plain_nth: "plain s \<Longrightarrow> i < length s \<Longrightarrow> \<not> stops (s ! i)"
  by (simp add: plain_def)

lemma scan_plain: "plain s \<Longrightarrow> p < length s \<Longrightarrow> scan s p f = Inr (length s, f)"
proof (induction "length s - p" arbitrary: p rule: less_induct)
  case less
  show ?case
  proof (cases "p + 1 = length s")
    case True
    then show ?thesis by (subst scan.simps) (simp add: char_at_def)
  next
    case False
    with less.prems have p: "p + 1 < length s" by simp
    with less.prems(1) have "\<not> stops (s ! (p + 1))" by (rule plain_nth)
    moreover have "scan s (p + 1) f = Inr (length s, f)"
      using less.hyps [OF diff_less_mono2 [OF less_add_one less.prems(2)] less.prems(1) p] .
    ultimately show ?thesis
      using p by (subst scan.simps) (simp add: char_at_simps(1) stops_def quote_def)
  qed
qed

lemma search_plain:
  assumes "plain s"
  shows "IsStringInBiggerString (Some l) s = Inr (if sublist s (c_content l) then 1 else 0)"
proof -
  obtain c cs where s: "s = c # cs" using assms by (cases s) (auto simp: plain_def)
  have "\<forall>d \<in> set cs. \<not> stops d" "\<not> stops c" using assms s by (auto simp: plain_def)
  moreover from this(1) have rest: "dropWhile (\<lambda>d. \<not> stops d) cs = []" "takeWhile (\<lambda>d. \<not> stops d) cs = cs"
    by simp_all
  ultimately have "pattern_key s = s" "pattern_result s = 1" "c \<noteq> CHR 0x00" "c \<noteq> CHR ''*''"
    by (simp_all add: s pattern_key_def pattern_result_def rest first_char_def stops_def [of c])
  then show ?thesis
    using match_from_key [of c l cs] by (simp add: s IsStringInBiggerString_def first_char_def)
qed

definition names_test :: "string \<Rightarrow> string \<Rightarrow> string \<Rightarrow> bool" where
  "names_test s file name \<longleftrightarrow> sublist s (c_content file) \<or> sublist s (c_content name)"

lemma argument_plain:
  assumes "plain s" and "TestFile (Unity u) = Some file" and "CurrentTestName (Unity u) = Some name"
  shows "UnityStringArgumentMatches s u = Inr (if names_test s file name then 1 else 0)"
proof -
  have s: "s \<noteq> []" using assms(1) by (simp add: plain_def)
  have c: "\<not> stops (s ! 0)" using assms(1) s by (intro plain_nth) auto
  have "char_at s 0 = Inr (s ! 0)" using s by (simp add: char_at_def)
  moreover have "scan s 0 None = Inr (length s, None)"
    using scan_plain [OF assms(1)] s by simp
  moreover have "skip s (length s) = Inr (length s)"
    by (subst skip.simps) (simp add: char_at_def)
  moreover have "argument_matches u s (length s) = Inr 0"
    by (subst argument_matches.simps) (simp add: char_at_def)
  ultimately show ?thesis
    unfolding UnityStringArgumentMatches_def
    using c assms(2,3) search_plain [OF assms(1)]
    by (subst argument_matches.simps) (auto simp: names_test_def stops_def quote_def)
qed

text \<open>
  Selection: with patterns of ordinary characters, a test runs exactly if the pattern to include
  (if given) occurs in the test's file or name, and the pattern to exclude (if given) does not.
\<close>
theorem UnityTestMatches_plain:
  assumes "TestFile (Unity u) = Some file" and "CurrentTestName (Unity u) = Some name"
    and "\<forall>s. UnityOptionIncludeNamed opts = Some s \<longrightarrow> plain s"
    and "\<forall>s. UnityOptionExcludeNamed opts = Some s \<longrightarrow> plain s"
  shows "UnityTestMatches opts u = Inr
    (if (\<forall>s. UnityOptionIncludeNamed opts = Some s \<longrightarrow> names_test s file name) \<and>
        (\<forall>s. UnityOptionExcludeNamed opts = Some s \<longrightarrow> \<not> names_test s file name) then 1 else 0)"
  using assms argument_plain [OF _ assms(1,2)]
  by (cases "UnityOptionIncludeNamed opts"; cases "UnityOptionExcludeNamed opts")
     (simp_all add: UnityTestMatches_def)

theorem UnityTestMatches_plain_witness:
  "UnityTestMatches (unity_options_init\<lparr>UnityOptionIncludeNamed := Some ''Free''\<rparr>) named_test = Inr 1"
proof -
  have "sublist ''Free'' ''testFree''" by (simp add: sublist_code)
  then show ?thesis
    using UnityTestMatches_plain [of named_test "''test_mem.c''" "''testFree''"
        "unity_options_init\<lparr>UnityOptionIncludeNamed := Some ''Free''\<rparr>"]
    by (simp add: named_test_def unity_options_init_def names_test_def plain_def stops_def c_content_def)
qed

section \<open>Parsing the options\<close>

lemma print_error: "\<exists>e. UnityPrint (Some (''ERROR: '' @ m)) = ''ERROR: '' @ e"
  by (simp add: UnityPrintChar_def char_val_def)

lemma error_line: "\<exists>e. option_error (''ERROR: '' @ m) shown u = emit (''ERROR: '' @ e @ [CHR 0x0A]) u"
proof -
  obtain e where "UnityPrint (Some (''ERROR: '' @ m)) = ''ERROR: '' @ e" using print_error by blast
  then have "option_error (''ERROR: '' @ m) shown u = emit (''ERROR: '' @ (e @ shown) @ [CHR 0x0A]) u"
    by (simp add: option_error_def UNITY_PRINT_EOL_def del: UnityPrint.simps)
  then show ?thesis by blast
qed

definition is_error_line :: "'a unity_scheme \<Rightarrow> 'a unity_scheme \<Rightarrow> bool" where
  "is_error_line u v \<longleftrightarrow> (\<exists>e. v = emit (''ERROR: '' @ e @ [CHR 0x0A]) u)"

lemma error_lines:
  "is_error_line u (option_error ''ERROR: No Test String to Include Matches For'' shown u)"
  "is_error_line u (option_error ''ERROR: No Test String to Exclude Matches For'' shown u)"
  "is_error_line u (option_error ''ERROR: Unknown Option '' shown u)"
  using error_line [of "''No Test String to Include Matches For''" shown u]
    error_line [of "''No Test String to Exclude Matches For''" shown u]
    error_line [of "''Unknown Option ''" shown u]
  by (simp_all add: is_error_line_def)

text \<open>One argument: the loop goes on with the same output behind it, or it returns.\<close>

definition goes_on :: "string list \<Rightarrow> 'a unity_scheme \<Rightarrow> int \<times> unity_options \<times> 'a unity_scheme \<Rightarrow> bool" where
  "goes_on args u r \<longleftrightarrow>
     (\<exists>opts. r = parse_args args opts u) \<or> args \<noteq> [] \<and> (\<exists>opts. r = parse_args (tl args) opts u) \<or>
     (\<exists>opts. r = (- 1, opts, u)) \<or> (\<exists>opts v. r = (1, opts, v) \<and> is_error_line u v)"

lemma goes_on_intros:
  "goes_on args u (parse_args args opts u)" "goes_on (a # args) u (parse_args args opts u)"
  "goes_on args u (- 1, opts, u)" "is_error_line u v \<Longrightarrow> goes_on args u (1, opts, v)"
  by (auto simp: goes_on_def)

lemma parse_args_step: "goes_on args u (parse_args (arg # args) opts u)"
  unfolding parse_args.simps(2) Let_def
  by (cases args) (auto simp only: list.case intro!: goes_on_intros error_lines split: if_split)

lemma parse_args_result:
  "parse_args args opts u = (r, opts', u') \<Longrightarrow>
   (r = 0 \<or> r = - 1) \<and> u' = u \<or> r = 1 \<and> is_error_line u u'"
proof (induction "length args" arbitrary: args opts rule: less_induct)
  case less
  show ?case
  proof (cases args)
    case Nil
    with less.prems show ?thesis by simp
  next
    case (Cons arg rest)
    have "length rest < length args" "rest \<noteq> [] \<Longrightarrow> length (tl rest) < length args"
      using Cons by auto
    with less.hyps less.prems parse_args_step [of rest u arg opts] show ?thesis
      unfolding goes_on_def Cons by (metis prod.inject)
  qed
qed

text \<open>
  C31: \<^verbatim>\<open>UnityParseOptions\<close> returns 0 to run, -1 to list the tests, or 1; it prints an error line
  exactly when it returns 1, and changes nothing else of the framework.
\<close>
theorem UnityParseOptions_result:
  assumes "UnityParseOptions argv opts u = (r, opts', u')"
  shows "r \<in> {- 1, 0, 1} \<and> (r = 1 \<longleftrightarrow> u' \<noteq> u) \<and>
    (r = 1 \<longrightarrow> (\<exists>e. u' = emit (''ERROR: '' @ e @ [CHR 0x0A]) u))"
proof -
  have "emit (''ERROR: '' @ e) u \<noteq> u" for e
    by (cases u) (simp add: emit_def)
  then show ?thesis
    using parse_args_result [OF assms [unfolded UnityParseOptions_def]]
    by (auto simp: is_error_line_def)
qed

theorem UnityParseOptions_result_witness:
  "\<exists>opts' u' e. UnityParseOptions [''tests'', ''-n''] unity_options_init named_test = (1, opts', u') \<and>
     u' = emit (''ERROR: '' @ e @ [CHR 0x0A]) named_test"
  using UnityParseOptions_result [of "[''tests'', ''-n'']" unity_options_init named_test]
  by (auto simp: UnityParseOptions_def first_char_def Let_def)

end
