(* ===== verification/Float_Arith.thy ===== *)
theory Float_Arith
  imports Prelude "HOL-Library.Log_Nat"
begin

text \<open>
  C's binary floating point on the target: the IEEE 754 formats of \<^verbatim>\<open>float\<close> and \<^verbatim>\<open>double\<close>, rounding
  to nearest with ties to even. A finite number is a sign and a magnitude, counted in units of the
  format's smallest positive number, so that every operation is one rounding of a quotient of natural
  numbers. The payload of a NaN is not kept. Rounding is monotone and exact on the numbers the format
  has; what the users of this theory prove rests on these two laws.
\<close>

section \<open>Formats\<close>

record float_format =
  precision :: nat   \<comment> \<open>digits of the significand\<close>
  exp_bits :: nat

definition single :: float_format where "single = \<lparr>precision = 24, exp_bits = 8\<rparr>"
definition double :: float_format where "double = \<lparr>precision = 53, exp_bits = 11\<rparr>"

text \<open>The unit is \<open>2 ^ - unit_exp\<close>; magnitudes are below \<open>2 ^ top_exp\<close> units.\<close>

definition unit_exp :: "float_format \<Rightarrow> nat" where
  "unit_exp f = 2 ^ (exp_bits f - 1) - 2 + (precision f - 1)"

definition top_exp :: "float_format \<Rightarrow> nat" where
  "top_exp f = 2 ^ exp_bits f - 2 + (precision f - 1)"

lemma format_values [simp]:
  "precision single = 24" "exp_bits single = 8" "precision double = 53" "exp_bits double = 11"
  "unit_exp single = 149" "top_exp single = 277" "unit_exp double = 1074" "top_exp double = 2098"
  by (simp_all add: single_def double_def unit_exp_def top_exp_def)

section \<open>Rounding\<close>

definition round_half_even :: "nat \<Rightarrow> nat \<Rightarrow> nat" where
  "round_half_even num den =
     (let q = num div den; r = num mod den
      in if 2 * r < den \<or> (2 * r = den \<and> even q) then q else q + 1)"

text \<open>The magnitude nearest to \<open>num / den\<close> units.\<close>

definition round_units :: "nat \<Rightarrow> nat \<Rightarrow> nat \<Rightarrow> nat" where
  "round_units p num den =
     (let s = floorlog 2 (num div den) - p in round_half_even num (den * 2 ^ s) * 2 ^ s)"

definition representable :: "nat \<Rightarrow> nat \<Rightarrow> bool" where
  "representable p k \<longleftrightarrow> 2 ^ (floorlog 2 k - p) dvd k"

section \<open>Numbers and operations\<close>

datatype fp = NaN | Infinite bool | Finite bool nat

definition fp_ok :: "float_format \<Rightarrow> fp \<Rightarrow> bool" where
  "fp_ok f x = (case x of Finite s k \<Rightarrow> representable (precision f) k \<and> k < 2 ^ top_exp f | _ \<Rightarrow> True)"

definition rounded :: "float_format \<Rightarrow> bool \<Rightarrow> nat \<Rightarrow> nat \<Rightarrow> fp" where
  "rounded f s num den =
     (let k = round_units (precision f) num den
      in if k < 2 ^ top_exp f then Finite s k else Infinite s)"

text \<open>The value of a literal or of a converted integer.\<close>

definition fp_lit :: "float_format \<Rightarrow> nat \<Rightarrow> nat \<Rightarrow> fp" where
  "fp_lit f num den = rounded f False (num * 2 ^ unit_exp f) den"

definition fp_of_int :: "float_format \<Rightarrow> int \<Rightarrow> fp" where
  "fp_of_int f n = rounded f (n < 0) (nat \<bar>n\<bar> * 2 ^ unit_exp f) 1"

definition signed_units :: "bool \<Rightarrow> nat \<Rightarrow> int" where
  "signed_units s k = (if s then - int k else int k)"

lemma signed_units_simps [simp]: "signed_units False k = int k" "signed_units True k = - int k"
  by (simp_all add: signed_units_def)

fun fneg :: "fp \<Rightarrow> fp" where
  "fneg NaN = NaN"
| "fneg (Infinite s) = Infinite (\<not> s)"
| "fneg (Finite s k) = Finite (\<not> s) k"

fun fadd :: "float_format \<Rightarrow> fp \<Rightarrow> fp \<Rightarrow> fp" where
  "fadd f NaN y = NaN"
| "fadd f x NaN = NaN"
| "fadd f (Infinite s) (Infinite t) = (if s = t then Infinite s else NaN)"
| "fadd f (Infinite s) y = Infinite s"
| "fadd f x (Infinite t) = Infinite t"
| "fadd f (Finite s k) (Finite t l) =
     (let v = signed_units s k + signed_units t l
      in if v = 0 then Finite (s \<and> t) 0 else rounded f (v < 0) (nat \<bar>v\<bar>) 1)"

definition fsub :: "float_format \<Rightarrow> fp \<Rightarrow> fp \<Rightarrow> fp" where
  "fsub f x y = fadd f x (fneg y)"

fun fmul :: "float_format \<Rightarrow> fp \<Rightarrow> fp \<Rightarrow> fp" where
  "fmul f NaN y = NaN"
| "fmul f x NaN = NaN"
| "fmul f (Infinite s) (Infinite t) = Infinite (s \<noteq> t)"
| "fmul f (Infinite s) (Finite t l) = (if l = 0 then NaN else Infinite (s \<noteq> t))"
| "fmul f (Finite s k) (Infinite t) = (if k = 0 then NaN else Infinite (s \<noteq> t))"
| "fmul f (Finite s k) (Finite t l) = rounded f (s \<noteq> t) (k * l) (2 ^ unit_exp f)"

fun fdiv :: "float_format \<Rightarrow> fp \<Rightarrow> fp \<Rightarrow> fp" where
  "fdiv f NaN y = NaN"
| "fdiv f x NaN = NaN"
| "fdiv f (Infinite s) (Infinite t) = NaN"
| "fdiv f (Infinite s) (Finite t l) = Infinite (s \<noteq> t)"
| "fdiv f (Finite s k) (Infinite t) = Finite (s \<noteq> t) 0"
| "fdiv f (Finite s k) (Finite t l) =
     (if l = 0 then (if k = 0 then NaN else Infinite (s \<noteq> t))
      else rounded f (s \<noteq> t) (k * 2 ^ unit_exp f) l)"

text \<open>The comparisons \<^verbatim>\<open><\<close> and \<^verbatim>\<open>==\<close>: false on a NaN, and the two zeros are equal.\<close>

fun flt :: "fp \<Rightarrow> fp \<Rightarrow> bool" where
  "flt NaN y = False"
| "flt x NaN = False"
| "flt (Infinite s) (Infinite t) = (s \<and> \<not> t)"
| "flt (Infinite s) (Finite t l) = s"
| "flt (Finite s k) (Infinite t) = (\<not> t)"
| "flt (Finite s k) (Finite t l) = (signed_units s k < signed_units t l)"

lemma flt_units [simp]: "flt (Finite False k) (Finite False l) \<longleftrightarrow> k < l"
  by simp

lemma flt_negative [simp]: "flt (Finite True k) (Finite False 0) \<longleftrightarrow> 0 < k"
  by simp

declare flt.simps(7) [simp del]

fun feq :: "fp \<Rightarrow> fp \<Rightarrow> bool" where
  "feq (Infinite s) (Infinite t) = (s = t)"
| "feq (Finite s k) (Finite t l) = (signed_units s k = signed_units t l)"
| "feq x y = False"

definition fp_isnan :: "fp \<Rightarrow> bool" where "fp_isnan x \<longleftrightarrow> x = NaN"

fun fp_isinf :: "fp \<Rightarrow> bool" where
  "fp_isinf (Infinite s) = True"
| "fp_isinf x = False"

abbreviation fzero :: fp where "fzero \<equiv> Finite False 0"

text \<open>Conversion to a 32-bit integer, towards zero; undefined if the value does not fit.\<close>

fun fp_to_int32 :: "float_format \<Rightarrow> fp \<Rightarrow> int res" where
  "fp_to_int32 f (Finite s k) =
     (let n = signed_units s (k div 2 ^ unit_exp f)
      in if - (2 ^ 31) \<le> n \<and> n < 2 ^ 31 then Inr n else Inl Signed_overflow)"
| "fp_to_int32 f x = Inl Signed_overflow"

text \<open>The same number in a format with a smaller unit.\<close>

fun fp_widen :: "float_format \<Rightarrow> float_format \<Rightarrow> fp \<Rightarrow> fp" where
  "fp_widen f g (Finite s k) = Finite s (k * 2 ^ (unit_exp g - unit_exp f))"
| "fp_widen f g x = x"

text \<open>The nearest number of another format.\<close>

fun fp_convert :: "float_format \<Rightarrow> float_format \<Rightarrow> fp \<Rightarrow> fp" where
  "fp_convert f g (Finite s k) = rounded g s (k * 2 ^ unit_exp g) (2 ^ unit_exp f)"
| "fp_convert f g x = x"

section \<open>Object representation\<close>

definition fp_of_bits :: "float_format \<Rightarrow> nat \<Rightarrow> fp" where
  "fp_of_bits f w =
     (let w' = w div 2 ^ (precision f - 1);
          fr = w mod 2 ^ (precision f - 1);
          e = w' mod 2 ^ exp_bits f;
          s = odd (w' div 2 ^ exp_bits f)
      in if e = 2 ^ exp_bits f - 1 then (if fr = 0 then Infinite s else NaN)
         else if e = 0 then Finite s fr
         else Finite s ((2 ^ (precision f - 1) + fr) * 2 ^ (e - 1)))"

definition join_bits :: "float_format \<Rightarrow> bool \<Rightarrow> nat \<Rightarrow> nat \<Rightarrow> nat" where
  "join_bits f s e fr = ((if s then 2 ^ exp_bits f else 0) + e) * 2 ^ (precision f - 1) + fr"

fun bits_of_fp :: "float_format \<Rightarrow> fp \<Rightarrow> nat" where
  "bits_of_fp f NaN = join_bits f False (2 ^ exp_bits f - 1) (2 ^ (precision f - 2))"
| "bits_of_fp f (Infinite s) = join_bits f s (2 ^ exp_bits f - 1) 0"
| "bits_of_fp f (Finite s k) =
     (if k < 2 ^ (precision f - 1) then join_bits f s 0 k
      else (let e = floorlog 2 k - precision f
            in join_bits f s (e + 1) (k div 2 ^ e - 2 ^ (precision f - 1))))"

section \<open>The laws of rounding\<close>

lemma floorlog_less: "k < 2 ^ floorlog 2 k"
  using floorlog_leD [of 2 k "floorlog 2 k"] by simp

lemma floorlog_numeral [simp]: "floorlog 2 (numeral n) = floorlog 2 (numeral n div 2) + 1"
  using compute_floorlog [of 2 "numeral n"] by simp

lemma floorlog_at_1 [simp]: "floorlog 2 0 = 0" "floorlog 2 (Suc 0) = 1"
  using compute_floorlog [of 2 0] compute_floorlog [of 2 1] by simp_all

lemma floorlog_shift: "k \<noteq> 0 \<Longrightarrow> floorlog 2 (k * 2 ^ s) = floorlog 2 k + s"
  by (simp add: floorlog_power)

lemma half_even_between:
  "num div den \<le> round_half_even num den" "round_half_even num den \<le> num div den + 1"
  by (simp_all add: round_half_even_def Let_def)

lemma half_even_exact [simp]: "0 < den \<Longrightarrow> round_half_even (k * den) den = k"
  by (simp add: round_half_even_def)

lemma half_even_mono:
  assumes "num * den' \<le> num' * den" and "0 < den" "0 < den'"
  shows "round_half_even num den \<le> round_half_even num' den'"
proof -
  define q r where "q = num div den" and "r = num mod den"
  define q' r' where "q' = num' div den'" and "r' = num' mod den'"
  have num: "num = q * den + r" "num' = q' * den' + r'"
    by (simp_all add: q_def r_def q'_def r'_def)
  have rem: "r < den" "r' < den'" using assms by (simp_all add: r_def r'_def)
  have le: "q \<le> q'"
  proof (rule ccontr)
    assume "\<not> q \<le> q'"
    then have "(q' + 1) * (den * den') \<le> q * (den * den')" by (intro mult_right_mono) auto
    moreover have "q * (den * den') \<le> num * den'" by (simp add: num algebra_simps)
    moreover have "num' * den < (q' + 1) * (den * den')"
      using rem(2) assms(2) by (simp add: num algebra_simps)
    ultimately show False using assms(1) by linarith
  qed
  show ?thesis
  proof (cases "q = q'")
    case False
    with le have "q + 1 \<le> q'" by simp
    then show ?thesis
      using half_even_between [of num den] half_even_between [of num' den'] by (simp add: q_def q'_def)
  next
    case True
    then have rs: "r * den' \<le> r' * den" using assms(1) by (simp add: num algebra_simps)
    have "q + 1 \<le> round_half_even num' den'" if up: "round_half_even num den = q + 1"
    proof (rule ccontr)
      assume down: "\<not> ?thesis"
      have "den \<le> 2 * r" and parity: "2 * r = den \<longrightarrow> odd q"
        using up by (auto simp: round_half_even_def Let_def q_def [symmetric] r_def [symmetric] split: if_splits)
      have "2 * r' \<le> den'" and parity': "2 * r' = den' \<longrightarrow> even q"
        using down True
        by (auto simp: round_half_even_def Let_def q'_def [symmetric] r'_def [symmetric] split: if_splits)
      have "den * den' \<le> 2 * r * den'" using \<open>den \<le> 2 * r\<close> by (rule mult_le_mono1)
      moreover have "2 * r' * den \<le> den' * den" using \<open>2 * r' \<le> den'\<close> by (rule mult_le_mono1)
      moreover have "2 * r * den' \<le> 2 * r' * den" using rs by simp
      moreover have "den' * den = den * den'" by simp
      ultimately have "2 * r * den' = den * den'" "2 * r' * den = den' * den" by linarith+
      then have "2 * r = den" "2 * r' = den'" using assms(2,3) by simp_all
      with parity parity' show False by blast
    qed
    moreover have "round_half_even num den = q \<or> round_half_even num den = q + 1"
      by (simp add: round_half_even_def Let_def q_def)
    moreover have "q \<le> round_half_even num' den'"
      using half_even_between(1) [of num' den'] True by (simp add: q'_def)
    ultimately show ?thesis by linarith
  qed
qed

lemma div_mono_cross:
  fixes num den num' den' :: nat
  assumes "num * den' \<le> num' * den" and "0 < den" "0 < den'"
  shows "num div den \<le> num' div den'"
proof -
  have "num div den * den \<le> num" by (rule div_times_less_eq_dividend)
  then have "num div den * den * den' \<le> num * den'" by (rule mult_le_mono1)
  also note assms(1)
  finally have "num div den * den' * den \<le> num' * den" by (simp add: mult.commute mult.left_commute)
  then have "num div den * den' \<le> num'" using assms(2) by simp
  then show ?thesis using assms(3) by (simp add: less_eq_div_iff_mult_less_eq)
qed

theorem round_units_mono:
  assumes "num * den' \<le> num' * den" and "0 < den" "0 < den'" and "0 < p"
  shows "round_units p num den \<le> round_units p num' den'"
proof -
  define s where "s = floorlog 2 (num div den) - p"
  define s' where "s' = floorlog 2 (num' div den') - p"
  have le: "num div den \<le> num' div den'" by (rule div_mono_cross [OF assms(1-3)])
  have "s \<le> s'" using floorlog_mono [OF le, of 2] by (simp add: s_def s'_def)
  show ?thesis
  proof (cases "s = s'")
    case True
    have "round_half_even num (den * 2 ^ s) \<le> round_half_even num' (den' * 2 ^ s)"
      using assms by (intro half_even_mono) (simp_all add: algebra_simps)
    with True show ?thesis
      by (simp add: round_units_def Let_def s_def [symmetric] s'_def [symmetric])
  next
    case False
    with \<open>s \<le> s'\<close> have "s < s'" by simp
    have "num div den < 2 ^ (p + s)"
      using floorlog_less [of "num div den"] by (rule less_le_trans) (simp add: s_def)
    then have "num div den div 2 ^ s < 2 ^ p"
      by (simp add: power_add mult.commute less_mult_imp_div_less)
    then have "round_half_even num (den * 2 ^ s) \<le> 2 ^ p"
      using half_even_between(2) [of num "den * 2 ^ s"] by (simp add: div_mult2_eq)
    then have "round_half_even num (den * 2 ^ s) * 2 ^ s \<le> 2 ^ (p + s)" by (simp add: power_add)
    also have "\<dots> \<le> 2 ^ (p - 1 + s')" using \<open>s < s'\<close> \<open>0 < p\<close> by (intro power_increasing) auto
    also have "\<dots> \<le> round_half_even num' (den' * 2 ^ s') * 2 ^ s'"
    proof -
      have fl: "floorlog 2 (num' div den') = p + s'" using \<open>s < s'\<close> by (simp add: s'_def)
      then have "num' div den' \<noteq> 0" using \<open>0 < p\<close> by (metis floorlog_at_1(1) add_is_0 less_irrefl)
      then have "2 ^ (p + s' - 1) \<le> num' div den'"
        using floorlog_geD [of "p + s'" 2 "num' div den'"] fl \<open>0 < p\<close> by simp
      then have "2 ^ (p - 1) * 2 ^ s' \<le> num' div den'"
        using \<open>0 < p\<close> by (simp flip: power_add)
      then have "2 ^ (p - 1) \<le> num' div den' div 2 ^ s'"
        by (simp add: less_eq_div_iff_mult_less_eq)
      then have "2 ^ (p - 1) \<le> round_half_even num' (den' * 2 ^ s')"
        using half_even_between(1) [of num' "den' * 2 ^ s'"] by (simp add: div_mult2_eq)
      then show ?thesis by (simp add: power_add)
    qed
    finally show ?thesis
      by (simp add: round_units_def Let_def s_def [symmetric] s'_def [symmetric])
  qed
qed

lemma round_units_exact:
  assumes "representable p k" and "0 < den"
  shows "round_units p (k * den) den = k"
proof -
  obtain j where j: "k = 2 ^ (floorlog 2 k - p) * j" using assms(1) by (auto simp: representable_def)
  then have eq: "k * den = j * (den * 2 ^ (floorlog 2 k - p))" by (metis mult.assoc mult.commute)
  have "round_half_even (k * den) (den * 2 ^ (floorlog 2 k - p)) = j"
    unfolding eq using assms(2) by (intro half_even_exact) simp
  moreover have "j * 2 ^ (floorlog 2 k - p) = k" using j by (metis mult.commute)
  ultimately show ?thesis using assms(2) by (simp add: round_units_def)
qed

lemma representable_iff: "0 < p \<Longrightarrow> representable p k \<longleftrightarrow> (\<exists>m s. m < 2 ^ p \<and> k = m * 2 ^ s)"
proof
  assume "representable p k"
  then obtain j where j: "k = 2 ^ (floorlog 2 k - p) * j" by (auto simp: representable_def)
  have "k < 2 ^ (floorlog 2 k - p) * 2 ^ p"
    using floorlog_less [of k] by (rule less_le_trans) (simp flip: power_add)
  with j have "j < 2 ^ p" by (metis mult_less_cancel1)
  with j show "\<exists>m s. m < 2 ^ p \<and> k = m * 2 ^ s" by (metis mult.commute)
next
  assume "\<exists>m s. m < 2 ^ p \<and> k = m * 2 ^ s"
  then obtain m s where k: "m < 2 ^ p" "k = m * 2 ^ s" by blast
  show "representable p k"
  proof (cases "m = 0")
    case False
    have "floorlog 2 m \<le> p" using k(1) by (simp add: floorlog_le_iff)
    then have "floorlog 2 k - p \<le> s" using False by (simp add: k(2) floorlog_shift)
    then show ?thesis by (simp add: representable_def k(2) le_imp_power_dvd)
  qed (simp add: k(2) representable_def)
qed

lemma representableI: "m < 2 ^ p \<Longrightarrow> 0 < p \<Longrightarrow> representable p (m * 2 ^ s)"
  by (auto simp: representable_iff)

lemma representable_small: "m < 2 ^ p \<Longrightarrow> 0 < p \<Longrightarrow> representable p m"
  using representableI [of m p 0] by simp

lemma representable_shift: "representable p k \<Longrightarrow> 0 < p \<Longrightarrow> representable p (k * 2 ^ s)"
  by (auto simp: representable_iff mult.assoc simp flip: power_add)

lemma round_units_representable: "0 < p \<Longrightarrow> representable p (round_units p num den)"
proof -
  assume "0 < p"
  define s where "s = floorlog 2 (num div den) - p"
  have "num div den < 2 ^ (p + s)"
    using floorlog_less [of "num div den"] by (rule less_le_trans) (simp add: s_def)
  then have "num div den div 2 ^ s < 2 ^ p"
    by (simp add: power_add mult.commute less_mult_imp_div_less)
  then have "round_half_even num (den * 2 ^ s) \<le> 2 ^ p"
    using half_even_between(2) [of num "den * 2 ^ s"] by (simp add: div_mult2_eq)
  moreover have "representable p (2 ^ p * 2 ^ s)"
    using representableI [of 1 p "p + s"] \<open>0 < p\<close> one_less_power [of "2 :: nat" p]
    by (simp add: power_add)
  ultimately show ?thesis
    using \<open>0 < p\<close> representableI [of "round_half_even num (den * 2 ^ s)" p s]
    by (auto simp: round_units_def Let_def s_def [symmetric] le_less)
qed

text \<open>Bounds by numbers the format has carry over from the exact quotient to the rounded one.\<close>

lemma round_units_le:
  "num \<le> k * den \<Longrightarrow> representable p k \<Longrightarrow> 0 < den \<Longrightarrow> 0 < p \<Longrightarrow> round_units p num den \<le> k"
  using round_units_mono [of num den "k * den" den p] by (simp add: round_units_exact)

lemma round_units_ge:
  "k * den \<le> num \<Longrightarrow> representable p k \<Longrightarrow> 0 < den \<Longrightarrow> 0 < p \<Longrightarrow> k \<le> round_units p num den"
  using round_units_mono [of "k * den" den num den p] by (simp add: round_units_exact)

lemma round_units_cancel:
  "0 < c \<Longrightarrow> 0 < den \<Longrightarrow> 0 < p \<Longrightarrow> round_units p (num * c) (den * c) = round_units p num den"
  by (intro antisym round_units_mono) (simp_all add: algebra_simps)

lemma round_units_rough: "0 < p \<Longrightarrow> round_units p num den \<le> 2 * (num div den) + 1"
proof -
  assume "0 < p"
  define n s where "n = num div den" and "s = floorlog 2 n - p"
  have "round_half_even num (den * 2 ^ s) \<le> n div 2 ^ s + 1"
    using half_even_between(2) [of num "den * 2 ^ s"] by (simp add: n_def div_mult2_eq)
  from mult_le_mono1 [OF this, of "2 ^ s"]
  have "round_units p num den \<le> (n div 2 ^ s + 1) * 2 ^ s"
    by (simp only: round_units_def Let_def n_def s_def)
  also have "\<dots> \<le> n + 2 ^ s" by (simp add: distrib_right)
  also have "2 ^ s \<le> n + 1"
  proof (cases "s = 0")
    case False
    then have "s < floorlog 2 n" using \<open>0 < p\<close> by (simp add: s_def)
    then have "2 ^ s \<le> n" using floorlog_geD [of "Suc s" 2 n] by fastforce
    then show ?thesis by simp
  qed simp
  finally show ?thesis by (simp add: n_def)
qed

section \<open>The operations on positive numbers\<close>

lemma rounded_finite:
  "round_units (precision f) num den < 2 ^ top_exp f \<Longrightarrow>
   rounded f s num den = Finite s (round_units (precision f) num den)"
  by (simp add: rounded_def Let_def)

lemma fp_ok_rounded: "0 < precision f \<Longrightarrow> fp_ok f (rounded f s num den)"
  by (simp add: fp_ok_def rounded_def Let_def round_units_representable)

lemma fp_ok_convert: "0 < precision g \<Longrightarrow> fp_ok g (fp_convert f g x)"
  by (cases x) (simp_all add: fp_ok_rounded, simp_all add: fp_ok_def)

lemma round_units_one [simp]: "representable p k \<Longrightarrow> round_units p k (Suc 0) = k"
  using round_units_exact [of p k 1] by simp

lemma fp_lit_exact:
  "representable (precision f) n \<Longrightarrow> 0 < precision f \<Longrightarrow> n * 2 ^ unit_exp f < 2 ^ top_exp f \<Longrightarrow>
   fp_lit f n 1 = Finite False (n * 2 ^ unit_exp f)"
  by (simp add: fp_lit_def rounded_finite representable_shift)

lemma fp_of_int_exact:
  "representable (precision f) n \<Longrightarrow> 0 < precision f \<Longrightarrow> n * 2 ^ unit_exp f < 2 ^ top_exp f \<Longrightarrow>
   fp_of_int f (int n) = Finite False (n * 2 ^ unit_exp f)"
  by (simp add: fp_of_int_def rounded_finite representable_shift)

lemma fp_of_int_small:
  assumes "nat \<bar>n\<bar> < 2 ^ precision f" and "0 < precision f" and "precision f + unit_exp f \<le> top_exp f"
  shows "fp_of_int f n = Finite (n < 0) (nat \<bar>n\<bar> * 2 ^ unit_exp f)"
proof -
  have "nat \<bar>n\<bar> * 2 ^ unit_exp f < 2 ^ precision f * 2 ^ unit_exp f"
    using assms(1) by (intro mult_strict_right_mono) simp_all
  also have "\<dots> \<le> 2 ^ top_exp f"
    using power_increasing [OF assms(3), of "2 :: nat"] by (simp add: power_add)
  finally show ?thesis
    using assms(1,2) by (simp add: fp_of_int_def rounded_finite representable_shift representable_small)
qed

lemma fmul_by:
  assumes "0 < precision f" and "round_units (precision f) (k * n) 1 < 2 ^ top_exp f"
  shows "fmul f (Finite False k) (Finite False (n * 2 ^ unit_exp f)) =
    Finite False (round_units (precision f) (k * n) 1)"
proof -
  have "round_units (precision f) (k * (n * 2 ^ unit_exp f)) (2 ^ unit_exp f) =
      round_units (precision f) (k * n) 1"
    using round_units_cancel [of "2 ^ unit_exp f" 1 "precision f" "k * n"] assms(1)
    by (simp add: mult.assoc)
  with assms(2) show ?thesis by (simp add: rounded_finite)
qed

lemma fdiv_by:
  assumes "0 < precision f" and "0 < n" and "round_units (precision f) k n < 2 ^ top_exp f"
  shows "fdiv f (Finite False k) (Finite False (n * 2 ^ unit_exp f)) =
    Finite False (round_units (precision f) k n)"
  using assms round_units_cancel [of "2 ^ unit_exp f" n "precision f" k]
  by (simp add: rounded_finite)

lemma representable_mod: "representable p k \<Longrightarrow> 0 < p \<Longrightarrow> representable p (k mod 2 ^ n)"
proof -
  assume "representable p k" "0 < p"
  then obtain m s where k: "m < 2 ^ p" "k = m * 2 ^ s" by (auto simp: representable_iff)
  show ?thesis
  proof (cases "s \<le> n")
    case True
    then have "k mod 2 ^ n = (m mod 2 ^ (n - s)) * 2 ^ s"
      using mult_mod_right [of "2 ^ s" m "2 ^ (n - s)"] by (simp add: k(2) mult.commute flip: power_add)
    moreover have "m mod 2 ^ (n - s) < 2 ^ p" using k(1) mod_less_eq_dividend le_less_trans by blast
    ultimately show ?thesis using \<open>0 < p\<close> by (simp add: representableI)
  next
    case False
    then have "2 ^ n dvd k" by (simp add: k(2) le_imp_power_dvd)
    then show ?thesis using \<open>0 < p\<close> by (simp add: representable_small dvd_imp_mod_0)
  qed
qed

lemma representable_double: "representable p k \<Longrightarrow> 0 < p \<Longrightarrow> representable p (2 * k)"
  using representable_shift [of p k 1] by (simp add: mult.commute)

lemma fp_of_bits_ok:
  assumes "0 < precision f" "2 \<le> exp_bits f"
  shows "fp_ok f (fp_of_bits f w)"
proof -
  let ?p = "precision f" let ?m = "w mod 2 ^ (?p - 1)"
  let ?e = "w div 2 ^ (?p - 1) mod 2 ^ exp_bits f"
  have pow: "(4 :: nat) \<le> 2 ^ exp_bits f"
    using power_increasing [OF assms(2), of "2 :: nat"] by simp
  have m: "?m < 2 ^ (?p - 1)" by simp
  have p: "2 ^ ?p = 2 ^ (?p - 1) + (2 :: nat) ^ (?p - 1)" using assms(1) by (cases ?p) simp_all
  have "representable ?p ?m" using m p assms(1) by (intro representable_small) linarith+
  moreover have "?m < 2 ^ top_exp f"
    by (rule less_le_trans [OF m]) (simp add: top_exp_def power_increasing)
  moreover have "representable ?p ((2 ^ (?p - 1) + ?m) * 2 ^ (?e - 1))"
    using m p assms(1) by (intro representableI) linarith+
  moreover have "(2 ^ (?p - 1) + ?m) * 2 ^ (?e - 1) < 2 ^ top_exp f" if "?e \<noteq> 2 ^ exp_bits f - 1"
  proof -
    have "?e < 2 ^ exp_bits f" by simp
    with that have "?e - 1 \<le> 2 ^ exp_bits f - 3" by linarith
    have "(2 ^ (?p - 1) + ?m) * 2 ^ (?e - 1) < 2 ^ ?p * 2 ^ (?e - 1)"
      using m p by (intro mult_strict_right_mono) simp_all
    also have "\<dots> \<le> 2 ^ (?p + (2 ^ exp_bits f - 3))"
      using \<open>?e - 1 \<le> 2 ^ exp_bits f - 3\<close> by (simp flip: power_add)
    also have "?p + (2 ^ exp_bits f - 3) = top_exp f" using pow assms(1) by (simp add: top_exp_def)
    finally show ?thesis .
  qed
  ultimately show ?thesis by (simp add: fp_ok_def fp_of_bits_def Let_def)
qed

text \<open>Reading back a representation.\<close>

lemma join_bits_parts:
  assumes "e < 2 ^ exp_bits f" and "m < 2 ^ (precision f - 1)"
  shows "join_bits f s e m mod 2 ^ (precision f - 1) = m"
    and "join_bits f s e m div 2 ^ (precision f - 1) mod 2 ^ exp_bits f = e"
    and "odd (join_bits f s e m div 2 ^ (precision f - 1) div 2 ^ exp_bits f) = s"
    and "join_bits f s e m < 2 ^ (precision f + exp_bits f) \<or> precision f = 0"
proof -
  have q: "join_bits f s e m div 2 ^ (precision f - 1) = (if s then 2 ^ exp_bits f else 0) + e"
    using assms(2) by (simp add: join_bits_def)
  show "join_bits f s e m mod 2 ^ (precision f - 1) = m"
    using assms(2) by (simp add: join_bits_def)
  show "join_bits f s e m div 2 ^ (precision f - 1) mod 2 ^ exp_bits f = e"
    "odd (join_bits f s e m div 2 ^ (precision f - 1) div 2 ^ exp_bits f) = s"
    using assms(1) unfolding q by (auto simp: div_add_self1)
  have "(if s then 2 ^ exp_bits f else 0) + e < 2 * 2 ^ exp_bits f" using assms(1) by simp
  then have "join_bits f s e m div 2 ^ (precision f - 1) < 2 ^ Suc (exp_bits f)" unfolding q by simp
  then have "join_bits f s e m < 2 ^ Suc (exp_bits f) * 2 ^ (precision f - 1)"
    by (simp add: div_less_iff_less_mult)
  then show "join_bits f s e m < 2 ^ (precision f + exp_bits f) \<or> precision f = 0"
    by (cases "precision f") (simp_all add: power_add mult.commute mult.left_commute)
qed

lemma significand_bounds:
  assumes "representable p k" and "2 ^ (p - 1) \<le> k" and "0 < p" and "e = floorlog 2 k - p"
  shows "2 ^ (p - 1) \<le> k div 2 ^ e" "k div 2 ^ e < 2 ^ p" "k div 2 ^ e * 2 ^ e = k" "p + e = floorlog 2 k"
proof -
  have "k \<noteq> 0" using assms(2) by (metis le_zero_eq power_not_zero zero_neq_numeral)
  have "p \<le> floorlog 2 k" using floorlog_geI [of 2 p k] assms(2) by simp
  then show fl: "p + e = floorlog 2 k" by (simp add: assms(4))
  have "2 ^ e dvd k" using assms(1,4) by (simp add: representable_def)
  then show eq: "k div 2 ^ e * 2 ^ e = k" by simp
  have "k < 2 ^ (p + e)" using floorlog_less [of k] by (simp add: fl)
  then show "k div 2 ^ e < 2 ^ p" by (simp add: power_add mult.commute less_mult_imp_div_less)
  have "2 ^ (p + e - 1) \<le> k" using floorlog_geD [of "p + e" 2 k] fl assms(3) by simp
  then have "2 ^ (p - 1) * 2 ^ e \<le> k" using assms(3) by (simp flip: power_add)
  then show "2 ^ (p - 1) \<le> k div 2 ^ e" by (simp add: less_eq_div_iff_mult_less_eq)
qed

lemma fp_of_bits_of_fp:
  assumes "1 < precision f" and "2 \<le> exp_bits f" and "fp_ok f x"
  shows "fp_of_bits f (bits_of_fp f x) = x" and "bits_of_fp f x < 2 ^ (precision f + exp_bits f)"
proof -
  have pow: "(4 :: nat) \<le> 2 ^ exp_bits f"
    using power_increasing [OF assms(2), of "2 :: nat"] by simp
  have "\<exists>s e m. bits_of_fp f x = join_bits f s e m \<and> e < 2 ^ exp_bits f \<and> m < 2 ^ (precision f - 1) \<and>
      x = (if e = 2 ^ exp_bits f - 1 then (if m = 0 then Infinite s else NaN)
         else if e = 0 then Finite s m else Finite s ((2 ^ (precision f - 1) + m) * 2 ^ (e - 1)))"
  proof (cases x)
    case NaN
    have "(2 :: nat) ^ (precision f - 2) < 2 ^ (precision f - 1)" using assms(1) by simp
    with NaN show ?thesis
      by (intro exI [of _ False] exI [of _ "2 ^ exp_bits f - 1"] exI [of _ "2 ^ (precision f - 2)"]) auto
  next
    case (Infinite s)
    then show ?thesis
      by (intro exI [of _ s] exI [of _ "2 ^ exp_bits f - 1"] exI [of _ 0]) auto
  next
    case (Finite s k)
    show ?thesis
    proof (cases "k < 2 ^ (precision f - 1)")
      case True
      with Finite pow show ?thesis
        by (intro exI [of _ s] exI [of _ 0] exI [of _ k]) auto
    next
      case False
      define e where "e = floorlog 2 k - precision f"
      have k: "representable (precision f) k" "k < 2 ^ top_exp f"
        using Finite assms(3) by (simp_all add: fp_ok_def)
      note sig = significand_bounds [OF k(1) _ _ e_def]
      have b: "2 ^ (precision f - 1) \<le> k div 2 ^ e" "k div 2 ^ e < 2 ^ precision f"
          "k div 2 ^ e * 2 ^ e = k" "precision f + e = floorlog 2 k"
        using sig False assms(1) by simp_all
      have "floorlog 2 k \<le> top_exp f" using k(2) by (simp add: floorlog_le_iff)
      then have e: "e + 1 < 2 ^ exp_bits f - 1" using b(4) pow assms(1) by (simp add: top_exp_def)
      have "(2 :: nat) ^ precision f = 2 * 2 ^ (precision f - 1)" using assms(1) by (cases "precision f") simp_all
      then have "k div 2 ^ e - 2 ^ (precision f - 1) < 2 ^ (precision f - 1)" using b(1,2) by linarith
      moreover have "bits_of_fp f x = join_bits f s (e + 1) (k div 2 ^ e - 2 ^ (precision f - 1))"
        using Finite False by (simp add: e_def Let_def)
      ultimately show ?thesis
      proof (intro exI conjI)
        show "e + 1 < 2 ^ exp_bits f" using e by linarith
        have "(2 ^ (precision f - 1) + (k div 2 ^ e - 2 ^ (precision f - 1))) * 2 ^ (e + 1 - 1) = k"
          using b(1,3) by simp
        with e Finite show "x = (if e + 1 = 2 ^ exp_bits f - 1
            then (if k div 2 ^ e - 2 ^ (precision f - 1) = 0 then Infinite s else NaN)
            else if e + 1 = 0 then Finite s (k div 2 ^ e - 2 ^ (precision f - 1))
            else Finite s ((2 ^ (precision f - 1) + (k div 2 ^ e - 2 ^ (precision f - 1))) * 2 ^ (e + 1 - 1)))"
          by (simp only: fp.inject) (simp add: less_imp_neq)
      qed
    qed
  qed
  then obtain s e m where b: "bits_of_fp f x = join_bits f s e m" "e < 2 ^ exp_bits f" "m < 2 ^ (precision f - 1)"
      and x: "x = (if e = 2 ^ exp_bits f - 1 then (if m = 0 then Infinite s else NaN)
         else if e = 0 then Finite s m else Finite s ((2 ^ (precision f - 1) + m) * 2 ^ (e - 1)))"
    by blast
  show "fp_of_bits f (bits_of_fp f x) = x"
    unfolding b(1) fp_of_bits_def Let_def join_bits_parts [OF b(2,3)] by (rule x [symmetric])
  show "bits_of_fp f x < 2 ^ (precision f + exp_bits f)"
    using join_bits_parts(4) [OF b(2,3), of s] assms(1) by (simp add: b(1))
qed

end
