(* ===== verification/Unity_Float.thy ===== *)
theory Unity_Float
  imports Float_Arith Unity_Arrays "HOL-Library.Signed_Division"
begin

text \<open>
  Floating point in Unity (\<^verbatim>\<open>unity/src/unity.c\<close>): the printer and the assertions. The flag \<open>dbl\<close> says
  whether Unity is compiled with \<^verbatim>\<open>UNITY_INCLUDE_DOUBLE\<close>; without it (as the Makefile has it)
  \<^verbatim>\<open>UNITY_DOUBLE\<close> is \<^verbatim>\<open>float\<close>. Numbers of type \<^verbatim>\<open>float\<close> are computed as such
  (\<^verbatim>\<open>FLT_EVAL_METHOD\<close> 0, no contraction), as on the 64-bit targets. The counters of the printer are
  mathematical integers here; their bounds are part of what is proved in \<open>Unity_Float_Print\<close>.
\<close>

section \<open>Types and constants\<close>

definition UNITY_DOUBLE :: "bool \<Rightarrow> float_format" where
  "UNITY_DOUBLE dbl = (if dbl then double else single)"

definition to_UNITY_DOUBLE :: "bool \<Rightarrow> float_format \<Rightarrow> fp \<Rightarrow> fp" where
  "to_UNITY_DOUBLE dbl f x = fp_widen f (UNITY_DOUBLE dbl) x"

definition UNITY_FLOAT_PRECISION :: fp where "UNITY_FLOAT_PRECISION = fp_lit single 1 100000"
definition UNITY_DOUBLE_PRECISION :: fp where "UNITY_DOUBLE_PRECISION = fp_lit double 1 (10 ^ 12)"

datatype UNITY_FLOAT_TRAIT_T =
    UNITY_FLOAT_IS_NOT_INF
  | UNITY_FLOAT_IS_INF
  | UNITY_FLOAT_IS_NOT_NEG_INF
  | UNITY_FLOAT_IS_NEG_INF
  | UNITY_FLOAT_IS_NOT_NAN
  | UNITY_FLOAT_IS_NAN
  | UNITY_FLOAT_IS_NOT_DET
  | UNITY_FLOAT_IS_DET
  | UNITY_FLOAT_INVALID_TRAIT

text \<open>The constants of an enumeration count from 0.\<close>

fun trait_value :: "UNITY_FLOAT_TRAIT_T \<Rightarrow> nat" where
  "trait_value UNITY_FLOAT_IS_NOT_INF = 0"
| "trait_value UNITY_FLOAT_IS_INF = 1"
| "trait_value UNITY_FLOAT_IS_NOT_NEG_INF = 2"
| "trait_value UNITY_FLOAT_IS_NEG_INF = 3"
| "trait_value UNITY_FLOAT_IS_NOT_NAN = 4"
| "trait_value UNITY_FLOAT_IS_NAN = 5"
| "trait_value UNITY_FLOAT_IS_NOT_DET = 6"
| "trait_value UNITY_FLOAT_IS_DET = 7"
| "trait_value UNITY_FLOAT_INVALID_TRAIT = 8"

section \<open>The printer\<close>

definition sig_digits :: "bool \<Rightarrow> int" where "sig_digits dbl = (if dbl then 9 else 7)"
definition min_scaled :: "bool \<Rightarrow> int" where "min_scaled dbl = (if dbl then 100000000 else 1000000)"
definition max_scaled :: "bool \<Rightarrow> int" where "max_scaled dbl = (if dbl then 1000000000 else 10000000)"

text \<open>The loops that scale; each may run forever for some arguments.\<close>

partial_function (option) scale_up :: "float_format \<Rightarrow> fp \<Rightarrow> fp \<Rightarrow> int \<Rightarrow> (fp \<times> int) option" where
  [code]: "scale_up f limit number exponent =
     (if flt number limit
      then scale_up f limit (fmul f number (fp_lit f (10 ^ 10) 1)) (exponent - 10)
      else Some (number, exponent))"

partial_function (option) grow_factor ::
  "float_format \<Rightarrow> fp \<Rightarrow> fp \<Rightarrow> fp \<Rightarrow> int \<Rightarrow> (fp \<times> int) option" where
  [code]: "grow_factor f limit number factor exponent =
     (if flt (fmul f number factor) limit
      then grow_factor f limit number (fmul f factor (fp_lit f 10 1)) (exponent - 1)
      else Some (factor, exponent))"

partial_function (option) scale_down :: "float_format \<Rightarrow> fp \<Rightarrow> fp \<Rightarrow> int \<Rightarrow> (fp \<times> int) option" where
  [code]: "scale_down f limit number exponent =
     (if flt limit number
      then scale_down f limit (fdiv f number (fp_lit f (10 ^ 10) 1)) (exponent + 10)
      else Some (number, exponent))"

partial_function (option) grow_divisor ::
  "float_format \<Rightarrow> fp \<Rightarrow> fp \<Rightarrow> fp \<Rightarrow> int \<Rightarrow> (fp \<times> int) option" where
  [code]: "grow_divisor f limit number divisor exponent =
     (if flt limit (fdiv f number divisor)
      then grow_divisor f limit number (fmul f divisor (fp_lit f 10 1)) (exponent + 1)
      else Some (divisor, exponent))"

partial_function (option) scale_int ::
  "float_format \<Rightarrow> int \<Rightarrow> int \<Rightarrow> fp \<Rightarrow> int \<Rightarrow> (int \<times> fp \<times> int) option" where
  [code]: "scale_int f limit n_int factor exponent =
     (if n_int < limit
      then scale_int f limit (n_int * 10) (fmul f factor (fp_lit f 10 1)) (exponent - 1)
      else Some (n_int, factor, exponent))"

definition returned :: "'x option \<Rightarrow> 'x res" where
  "returned r = (case r of None \<Rightarrow> Inl No_return | Some x \<Rightarrow> Inr x)"

text \<open>The three cases: the integer part split off, the scaled number, and the exponent.\<close>

definition scale_number :: "bool \<Rightarrow> fp \<Rightarrow> (int \<times> fp \<times> int) res" where
  "scale_number dbl number =
     (let f = UNITY_DOUBLE dbl; one = fp_lit f 1 1; lo = fp_of_int f (min_scaled dbl);
          hi = fp_of_int f (max_scaled dbl); e10 = fp_lit f (10 ^ 10) 1
      in if flt number one then
           rbind (returned (scale_up f (fdiv f hi e10) number 0)) (\<lambda>(number, exponent).
           rbind (returned (grow_factor f lo number one exponent)) (\<lambda>(factor, exponent).
           Inr (0, fmul f number factor, exponent)))
         else if flt hi number then
           rbind (returned (scale_down f (fmul f lo e10) number 0)) (\<lambda>(number, exponent).
           rbind (returned (grow_divisor f hi number one exponent)) (\<lambda>(divisor, exponent).
           Inr (0, fdiv f number divisor, exponent)))
         else
           rbind (fp_to_int32 f number) (\<lambda>n_int.
           let number = fsub f number (fp_of_int f n_int)
           in rbind (returned (scale_int f (min_scaled dbl) n_int one 0)) (\<lambda>(n_int, factor, exponent).
              Inr (n_int, fmul f number factor, exponent))))"

definition int32 :: "int \<Rightarrow> int res" where
  "int32 n = (if - (2 ^ 31) \<le> n \<and> n < 2 ^ 31 then Inr n else Inl Signed_overflow)"

text \<open>Rounding to the nearest integer, to even between two, and the overflow to the next power.\<close>

definition round_scaled :: "bool \<Rightarrow> int \<Rightarrow> fp \<Rightarrow> int \<Rightarrow> (int \<times> int) res" where
  "round_scaled dbl n_int number exponent =
     (let f = UNITY_DOUBLE dbl
      in rbind (fp_to_int32 f (fadd f number number)) (\<lambda>t.
         rbind (int32 (t + 1)) (\<lambda>t.
         let n = t sdiv 2;
             n = (if odd n \<and> feq (fsub f (fp_of_int f n) number) (fp_lit f 1 2) then n - 1 else n)
         in rbind (int32 (n + n_int)) (\<lambda>n.
            Inr (if n \<ge> max_scaled dbl then (min_scaled dbl, exponent + 1) else (n, exponent))))))"

fun truncate_zeroes :: "int \<Rightarrow> nat \<Rightarrow> int \<times> nat" where
  "truncate_zeroes n 0 = (n, 0)"
| "truncate_zeroes n (Suc decimals) =
     (if n smod 10 = 0 then truncate_zeroes (n sdiv 10) decimals else (n, Suc decimals))"

text \<open>
  The loops that fill \<^verbatim>\<open>buf[16]\<close>, in reverse order, with the digits of \<open>n\<close> and at least \<open>least\<close>
  of them. The second argument holds what is in the buffer already.
\<close>

function fill_buf :: "int \<Rightarrow> nat \<Rightarrow> string \<Rightarrow> string res" where
  "fill_buf n least buf =
     (if n \<noteq> 0 \<or> length buf < least then
        (if length buf < 16
         then fill_buf (n sdiv 10) least (buf @ [char_of (nat (48 + n smod 10))])
         else Inl Out_of_bounds)
      else Inr buf)"
  by auto
termination by (relation "measure (\<lambda>(n, least, buf). 16 - length buf)") auto

declare fill_buf.simps [simp del]

text \<open>Printing the buffer backwards, with the point before the last \<open>decimals\<close> digits.\<close>

fun print_buf :: "nat \<Rightarrow> string \<Rightarrow> nat \<Rightarrow> string" where
  "print_buf decimals buf 0 = []"
| "print_buf decimals buf (Suc digits) =
     (if Suc digits = decimals then ''.'' else []) @ [buf ! digits] @ print_buf decimals buf digits"

definition print_exponent :: "int \<Rightarrow> string res" where
  "print_exponent exponent =
     (if exponent \<noteq> 0 then
        rbind (fill_buf \<bar>exponent\<bar> 2 []) (\<lambda>buf.
        Inr (''e'' @ (if exponent < 0 then ''-'' else ''+'') @ rev buf))
      else Inr [])"

definition print_scaled :: "bool \<Rightarrow> int \<Rightarrow> int \<Rightarrow> string res" where
  "print_scaled dbl n exponent =
     (let decimals = (if exponent \<le> 0 \<and> exponent \<ge> - (sig_digits dbl + 3) then - exponent
                      else sig_digits dbl - 1);
          exponent = exponent + decimals;
          (n, decimals) = truncate_zeroes n (nat decimals)
      in rbind (fill_buf n (decimals + 1) []) (\<lambda>buf.
         rbind (print_exponent exponent) (\<lambda>e.
         Inr (print_buf decimals buf (length buf) @ e))))"

definition UnityPrintFloat :: "bool \<Rightarrow> fp \<Rightarrow> string res" where
  "UnityPrintFloat dbl input_number =
     (let (sign, number) = (if flt input_number fzero then (''-'', fneg input_number)
                            else ([], input_number))
      in if feq number fzero then Inr (sign @ UnityPrint (Some ''0''))
         else if fp_isnan number then Inr (sign @ UnityPrint (Some ''nan''))
         else if fp_isinf number then Inr (sign @ UnityPrint (Some ''inf''))
         else rbind (scale_number dbl number) (\<lambda>(n_int, number, exponent).
              rbind (round_scaled dbl n_int number exponent) (\<lambda>(n, exponent).
              rbind (print_scaled dbl n exponent) (\<lambda>s. Inr (sign @ s)))))"

end
