(* ===== verification/Unity_Float_Print.thy ===== *)
theory Unity_Float_Print
  imports Unity_Float
begin

text \<open>
  The float printer never goes wrong: for every number, in either configuration, its scaling loops
  end, no conversion and no sum leaves the range of \<^verbatim>\<open>int\<close>, and the 16 bytes of its buffer are enough.
  The argument uses rounding only through its two laws, and needs a few numbers of the format, which
  are the assumptions of a locale with \<^verbatim>\<open>float\<close> and \<^verbatim>\<open>double\<close> as its instances.
\<close>

section \<open>Division towards zero\<close>

lemma sdiv_nonneg: "0 \<le> (a :: int) \<Longrightarrow> 0 < b \<Longrightarrow> a sdiv b = a div b"
  by (cases "a = 0") (simp_all add: signed_divide_int_def)

lemma smod_nonneg: "0 \<le> (a :: int) \<Longrightarrow> 0 < b \<Longrightarrow> a smod b = a mod b"
  by (cases "a = 0") (simp_all add: signed_modulo_int_def)

lemma sdiv_smod_ten [simp]:
  "int n sdiv 10 = int (n div 10)" "int n smod 10 = int (n mod 10)"
  by (simp_all add: sdiv_nonneg smod_nonneg zdiv_int zmod_int)

section \<open>Scaling\<close>

lemma scale_up_stop:
  "\<not> flt number limit \<Longrightarrow> scale_up f limit number e = Some (number, e)"
  by (subst scale_up.simps) simp

lemma scale_up_step:
  "flt number limit \<Longrightarrow>
   scale_up f limit number e = scale_up f limit (fmul f number (fp_lit f (10 ^ 10) 1)) (e - 10)"
  by (subst scale_up.simps) simp

lemma grow_factor_stop:
  "\<not> flt (fmul f number factor) limit \<Longrightarrow> grow_factor f limit number factor e = Some (factor, e)"
  by (subst grow_factor.simps) simp

lemma grow_factor_step:
  "flt (fmul f number factor) limit \<Longrightarrow>
   grow_factor f limit number factor e = grow_factor f limit number (fmul f factor (fp_lit f 10 1)) (e - 1)"
  by (subst grow_factor.simps) simp

lemma scale_down_stop:
  "\<not> flt limit number \<Longrightarrow> scale_down f limit number e = Some (number, e)"
  by (subst scale_down.simps) simp

lemma scale_down_step:
  "flt limit number \<Longrightarrow>
   scale_down f limit number e = scale_down f limit (fdiv f number (fp_lit f (10 ^ 10) 1)) (e + 10)"
  by (subst scale_down.simps) simp

lemma grow_divisor_stop:
  "\<not> flt limit (fdiv f number divisor) \<Longrightarrow> grow_divisor f limit number divisor e = Some (divisor, e)"
  by (subst grow_divisor.simps) simp

lemma grow_divisor_step:
  "flt limit (fdiv f number divisor) \<Longrightarrow>
   grow_divisor f limit number divisor e = grow_divisor f limit number (fmul f divisor (fp_lit f 10 1)) (e + 1)"
  by (subst grow_divisor.simps) simp

lemma scale_int_stop: "\<not> n < limit \<Longrightarrow> scale_int f limit n factor e = Some (n, factor, e)"
  by (subst scale_int.simps) simp

lemma scale_int_step:
  "n < limit \<Longrightarrow>
   scale_int f limit n factor e = scale_int f limit (n * 10) (fmul f factor (fp_lit f 10 1)) (e - 1)"
  by (subst scale_int.simps) simp

lemma fp_to_int32_units:
  "m = k div 2 ^ unit_exp f \<Longrightarrow> m < 2 ^ 31 \<Longrightarrow> fp_to_int32 f (Finite False k) = Inr (int m)"
  by (simp add: Let_def del: of_nat_div)

locale scaled_printer =
  fixes f :: float_format and lo hi B unit limit :: nat
  assumes prec: "0 < precision f"
    and unit_def: "unit = 2 ^ unit_exp f"
    and limit_def: "limit = round_units (precision f) (hi * unit) (10 ^ 10)"
    and lo: "0 < lo" "lo \<le> 10 ^ 10" "hi = 10 * lo" "hi < 2 ^ precision f"
    and B: "hi \<le> B" "2 * B + 1 < 2 ^ 31" "B < 2 ^ precision f \<or> representable (precision f) B"
    and tens: "j \<le> 10 \<Longrightarrow> representable (precision f) (10 ^ j)"
    and room: "B * 10 ^ 11 * unit < 2 ^ top_exp f"
    and limit_bounds: "lo * unit \<le> limit * 10 ^ 10" "limit * 10 ^ 10 \<le> B * unit" "limit \<le> unit"
begin

lemma unit_pos: "0 < unit"
  by (simp add: unit_def)

lemma representable_units: "representable (precision f) n \<Longrightarrow> representable (precision f) (n * unit)"
  by (simp add: unit_def representable_shift prec)

lemma representable_lo: "n \<le> hi \<Longrightarrow> representable (precision f) n"
  using lo(4) prec by (simp add: representable_small)

lemma representable_B: "representable (precision f) B"
  using B(3) prec by (auto intro: representable_small)

lemma fits: "k \<le> B * 10 ^ 11 * unit \<Longrightarrow> k < 2 ^ top_exp f"
  using room by simp

lemma B_pos: "1 \<le> B" "1 \<le> hi"
  using lo B by simp_all

lemma unit_le_B: "unit \<le> B * unit"
  using mult_le_mono1 [OF B_pos(1), of unit] by (simp only: nat_mult_1)

lemma fits_B: "k \<le> B * unit \<Longrightarrow> k < 2 ^ top_exp f"
  by (rule fits, rule order_trans, assumption) simp

lemma ten_fits: "j \<le> 10 \<Longrightarrow> 10 ^ j * unit < 2 ^ top_exp f"
proof -
  assume "j \<le> 10"
  then have "(10 :: nat) ^ j \<le> 10 ^ 11" by (intro power_increasing) auto
  then have "10 ^ j \<le> B * 10 ^ 11" using B_pos(1) by (metis mult_le_mono nat_mult_1)
  then show ?thesis by (intro fits) simp
qed

lemma ten_lit: "j \<le> 10 \<Longrightarrow> fp_lit f (10 ^ j) 1 = Finite False (10 ^ j * unit)"
  using fp_lit_exact [of f "10 ^ j"] tens ten_fits by (simp add: prec unit_def)

lemma lits:
  "fp_lit f (10 ^ 10) 1 = Finite False (10 ^ 10 * unit)"
  "fp_lit f 10 1 = Finite False (10 * unit)" "fp_lit f 1 1 = Finite False unit"
  using ten_lit [of 10] ten_lit [of 1] ten_lit [of 0] by simp_all

lemmas lit_simps = lits [simplified]

lemma of_int: "n \<le> hi \<Longrightarrow> fp_of_int f (int n) = Finite False (n * unit)"
  using fp_of_int_exact [of f n] representable_lo [of n] fits_B [of "n * unit"] B(1)
  by (simp add: prec unit_def)

lemma next_factor:
  "j < 10 \<Longrightarrow> fmul f (Finite False (10 ^ j * unit)) (Finite False (10 * unit)) = Finite False (10 ^ Suc j * unit)"
proof -
  assume "j < 10"
  then have "representable (precision f) (10 ^ Suc j * unit)"
    by (intro representable_units tens) simp
  then have "round_units (precision f) (10 ^ j * unit * 10) 1 = 10 ^ Suc j * unit"
    by (simp add: ac_simps)
  then show ?thesis
    using fmul_by [of f "10 ^ j * unit" 10] ten_fits [of "Suc j"] \<open>j < 10\<close>
    by (simp add: prec unit_def)
qed

lemma limit_representable: "representable (precision f) limit"
  by (simp add: limit_def round_units_representable prec)

lemma limit_lit:
  "fdiv f (fp_of_int f (int hi)) (fp_lit f (10 ^ 10) 1) = Finite False limit"
proof -
  have "fp_of_int f (int hi) = Finite False (hi * unit)" by (rule of_int) simp
  moreover have "limit < 2 ^ top_exp f"
    by (rule fits_B) (use limit_bounds(3) B_pos(1) in \<open>metis mult_le_mono1 nat_mult_1 order_trans\<close>)
  ultimately show ?thesis
    using fdiv_by [of f "10 ^ 10" "hi * unit"] by (simp add: lit_simps prec limit_def unit_def)
qed

text \<open>Numbers below 1.\<close>

lemma scale_up_ends:
  assumes "unit \<le> k * 2 ^ n" and "representable (precision f) k" and "k \<le> B * unit"
  shows "\<exists>l e'. scale_up f (Finite False limit) (Finite False k) e = Some (Finite False l, e') \<and>
    limit \<le> l \<and> l \<le> B * unit \<and> representable (precision f) l \<and> e - 10 * int n \<le> e' \<and> e' \<le> e"
  using assms
proof (induction n arbitrary: k e)
  case 0
  then have "\<not> k < limit" using limit_bounds(3) by simp
  with 0 show ?case by (intro exI [of _ k] exI [of _ e]) (simp add: scale_up_stop)
next
  case (Suc n)
  show ?case
  proof (cases "k < limit")
    case False
    with Suc.prems show ?thesis by (simp add: scale_up_stop)
  next
    case True
    let ?l = "round_units (precision f) (k * 10 ^ 10) 1"
    have "k * 10 ^ 10 \<le> B * unit"
      using True limit_bounds(2) mult_le_mono1 [of k limit "10 ^ 10"] by linarith
    then have l: "?l \<le> B * unit"
      by (intro round_units_le) (simp_all add: representable_units representable_B prec)
    have grow: "k * 2 \<le> ?l"
      using representable_double [OF Suc.prems(2)] prec by (intro round_units_ge) (simp_all add: mult.commute)
    have "scale_up f (Finite False limit) (Finite False k) e =
        scale_up f (Finite False limit) (Finite False ?l) (e - 10)"
      using fmul_by [of f k "10 ^ 10"] fits_B [OF l] True
      by (subst scale_up_step) (simp_all add: lit_simps prec unit_def)
    moreover have "unit \<le> ?l * 2 ^ n"
      using Suc.prems(1) mult_le_mono1 [OF grow, of "2 ^ n"] by (simp only: power_Suc mult.assoc)
    moreover have "representable (precision f) ?l" by (rule round_units_representable [OF prec])
    ultimately obtain l' e' where "scale_up f (Finite False limit) (Finite False k) e = Some (Finite False l', e')"
        "limit \<le> l'" "l' \<le> B * unit" "representable (precision f) l'" "e - 10 - 10 * int n \<le> e'" "e' \<le> e - 10"
      using Suc.IH [of ?l "e - 10"] l by auto
    then show ?thesis by (intro exI [of _ l'] exI [of _ e']) simp
  qed
qed

lemma bounded_product:
  assumes "representable (precision f) k" and "if j = 0 then k \<le> B * unit else k * 10 ^ j \<le> hi * unit"
  shows "round_units (precision f) (k * 10 ^ j) 1 \<le> B * unit"
    and "fmul f (Finite False k) (Finite False (10 ^ j * unit)) =
      Finite False (round_units (precision f) (k * 10 ^ j) 1)"
proof -
  have "k * 10 ^ j \<le> B * unit"
    using assms(2) order_trans [OF _ mult_le_mono1 [OF B(1), of unit]] by (auto split: if_splits)
  then show le: "round_units (precision f) (k * 10 ^ j) 1 \<le> B * unit"
    by (intro round_units_le) (simp_all add: representable_units representable_B prec)
  show "fmul f (Finite False k) (Finite False (10 ^ j * unit)) =
      Finite False (round_units (precision f) (k * 10 ^ j) 1)"
    using fmul_by [of f k "10 ^ j"] fits_B [OF le] by (simp add: prec unit_def)
qed

lemma grow_factor_ends:
  assumes "j + d = 10" and "limit \<le> k" and "representable (precision f) k"
    and "if j = 0 then k \<le> B * unit else k * 10 ^ j \<le> hi * unit"
  shows "\<exists>i e'. grow_factor f (Finite False (lo * unit)) (Finite False k) (Finite False (10 ^ j * unit)) e =
      Some (Finite False (10 ^ i * unit), e') \<and>
    fmul f (Finite False k) (Finite False (10 ^ i * unit)) =
      Finite False (round_units (precision f) (k * 10 ^ i) 1) \<and>
    round_units (precision f) (k * 10 ^ i) 1 \<le> B * unit \<and> e - int d \<le> e' \<and> e' \<le> e"
  using assms
proof (induction d arbitrary: j e)
  case (Suc d)
  let ?v = "round_units (precision f) (k * 10 ^ j) 1"
  have v: "?v \<le> B * unit" "fmul f (Finite False k) (Finite False (10 ^ j * unit)) = Finite False ?v"
    using bounded_product [OF Suc.prems(3,4)] by simp_all
  show ?case
  proof (cases "?v < lo * unit")
    case False
    with v show ?thesis by (intro exI [of _ j] exI [of _ e]) (simp add: grow_factor_stop del: fmul.simps)
  next
    case True
    have "k * 10 ^ j < lo * unit"
    proof (rule ccontr)
      assume "\<not> ?thesis"
      then have "lo * unit \<le> ?v"
        by (intro round_units_ge) (simp_all add: representable_units representable_lo prec lo)
      with True show False by simp
    qed
    then have "k * 10 ^ Suc j \<le> hi * unit" using lo(3) by simp
    moreover have "j < 10" using Suc.prems(1) by simp
    ultimately obtain i e' where "grow_factor f (Finite False (lo * unit)) (Finite False k)
          (Finite False (10 ^ Suc j * unit)) (e - 1) = Some (Finite False (10 ^ i * unit), e')"
        "fmul f (Finite False k) (Finite False (10 ^ i * unit)) =
          Finite False (round_units (precision f) (k * 10 ^ i) 1)"
        "round_units (precision f) (k * 10 ^ i) 1 \<le> B * unit" "e - 1 - int d \<le> e'" "e' \<le> e - 1"
      using Suc.IH [of "Suc j" "e - 1"] Suc.prems by auto
    moreover have "grow_factor f (Finite False (lo * unit)) (Finite False k) (Finite False (10 ^ j * unit)) e =
        grow_factor f (Finite False (lo * unit)) (Finite False k) (Finite False (10 ^ Suc j * unit)) (e - 1)"
      using True v(2) next_factor [OF \<open>j < 10\<close>] by (subst grow_factor_step) (simp_all add: lit_simps del: fmul.simps)
    ultimately show ?thesis by (intro exI [of _ i] exI [of _ e']) simp
  qed
next
  case 0
  let ?v = "round_units (precision f) (k * 10 ^ j) 1"
  have v: "?v \<le> B * unit" "fmul f (Finite False k) (Finite False (10 ^ j * unit)) = Finite False ?v"
    using bounded_product [OF 0(3,4)] by simp_all
  have "lo * unit \<le> k * 10 ^ j"
    using 0 limit_bounds(1) mult_le_mono1 [of limit k "10 ^ 10"] by simp
  then have "lo * unit \<le> ?v"
    by (intro round_units_ge) (simp_all add: representable_units representable_lo prec lo)
  with v show ?case by (intro exI [of _ j] exI [of _ e]) (simp add: grow_factor_stop del: fmul.simps)
qed

text \<open>Numbers above the largest scaled one. \<open>big\<close> is the threshold of the first loop.\<close>

definition big :: nat where "big = round_units (precision f) (lo * unit * 10 ^ 10) 1"

lemma big_le: "big \<le> hi * unit * 10 ^ 10"
proof -
  have "big \<le> 2 * (lo * unit * 10 ^ 10) + 1"
    using round_units_rough [OF prec, of "lo * unit * 10 ^ 10" 1] by (simp add: big_def)
  also have "\<dots> \<le> hi * unit * 10 ^ 10" using lo(1,3) unit_pos by simp
  finally show ?thesis .
qed

lemma big_pos: "0 < big"
proof -
  have "lo * unit \<le> big"
    unfolding big_def
    by (intro round_units_ge) (simp_all add: representable_units representable_lo prec lo)
  moreover have "0 < lo * unit" using lo(1) unit_pos by simp
  ultimately show ?thesis by linarith
qed

lemma big_lit:
  "fmul f (fp_of_int f (int lo)) (fp_lit f (10 ^ 10) 1) = Finite False big"
proof -
  have "hi * unit * 10 ^ 10 \<le> B * 10 ^ 11 * unit"
    using mult_le_mono [of hi "B * 10" "unit * 10 ^ 10" "unit * 10 ^ 10"] B(1) by simp
  then have "big < 2 ^ top_exp f" using big_le by (intro fits) linarith
  moreover have "fp_of_int f (int lo) = Finite False (lo * unit)" by (rule of_int) (simp add: lo)
  ultimately show ?thesis
    using fmul_by [OF prec, of "lo * unit" "10 ^ 10", folded unit_def big_def] by (simp add: lit_simps del: fmul.simps)
qed

lemma scale_down_ends:
  assumes "k < 2 ^ n" and "k < 2 ^ top_exp f" and "representable (precision f) k"
  shows "\<exists>l e'. scale_down f (Finite False big) (Finite False k) e = Some (Finite False l, e') \<and>
    l \<le> big \<and> l < 2 ^ top_exp f \<and> representable (precision f) l \<and> e \<le> e' \<and> e' \<le> e + 10 * int n"
  using assms
proof (induction n arbitrary: k e)
  case 0
  then have "\<not> big < k" by simp
  with 0 show ?case by (intro exI [of _ k] exI [of _ e]) (simp add: scale_down_stop)
next
  case (Suc n)
  show ?case
  proof (cases "big < k")
    case False
    with Suc.prems show ?thesis by (intro exI [of _ k] exI [of _ e]) (simp add: scale_down_stop)
  next
    case True
    let ?l = "round_units (precision f) k (10 ^ 10)"
    have small: "?l \<le> 2 * (k div 10 ^ 10) + 1" by (rule round_units_rough [OF prec])
    have l: "?l < 2 ^ n" "?l < 2 ^ top_exp f"
    proof -
      have "2 \<le> k" using True big_pos by simp
      let ?q = "k div 10 ^ 10"
      have q: "?q * 10 ^ 10 \<le> k" by (rule div_times_less_eq_dividend)
      have "2 * ?q + 1 < 2 ^ n"
      proof (cases "?q = 0")
        case True
        have "n \<noteq> 0" using Suc.prems(1) \<open>2 \<le> k\<close> by (cases n) auto
        with True show ?thesis using one_less_power [of "2 :: nat" n] by simp
      next
        case False
        with q Suc.prems(1) show ?thesis by simp
      qed
      with small show "?l < 2 ^ n" by linarith
      have "2 * ?q + 1 \<le> k" using q \<open>2 \<le> k\<close> by (cases "?q = 0") simp_all
      with small Suc.prems(2) show "?l < 2 ^ top_exp f" by linarith
    qed
    have "scale_down f (Finite False big) (Finite False k) e =
        scale_down f (Finite False big) (Finite False ?l) (e + 10)"
      using fdiv_by [of f "10 ^ 10" k] l(2) True
      by (subst scale_down_step) (simp_all add: lit_simps prec unit_def del: fdiv.simps)
    moreover have "representable (precision f) ?l" by (rule round_units_representable [OF prec])
    ultimately obtain l' e' where "scale_down f (Finite False big) (Finite False k) e = Some (Finite False l', e')"
        "l' \<le> big" "l' < 2 ^ top_exp f" "representable (precision f) l'" "e + 10 \<le> e'"
        "e' \<le> e + 10 + 10 * int n"
      using Suc.IH [of ?l "e + 10"] l by auto
    then show ?thesis by (intro exI [of _ l'] exI [of _ e']) simp
  qed
qed

lemma grow_divisor_ends:
  assumes "j + d = 10" and "k \<le> big" and "representable (precision f) k" and "k < 2 ^ top_exp f"
  shows "\<exists>i e'. grow_divisor f (Finite False (hi * unit)) (Finite False k) (Finite False (10 ^ j * unit)) e =
      Some (Finite False (10 ^ i * unit), e') \<and>
    fdiv f (Finite False k) (Finite False (10 ^ i * unit)) =
      Finite False (round_units (precision f) k (10 ^ i)) \<and>
    round_units (precision f) k (10 ^ i) \<le> hi * unit \<and> e \<le> e' \<and> e' \<le> e + int d"
  using assms
proof (induction d arbitrary: j e)
  case (Suc d)
  let ?v = "round_units (precision f) k (10 ^ j)"
  have "?v \<le> k" using Suc.prems(3) by (intro round_units_le) (simp_all add: prec)
  then have v: "fdiv f (Finite False k) (Finite False (10 ^ j * unit)) = Finite False ?v"
    using fdiv_by [of f "10 ^ j" k] Suc.prems(4) by (simp add: prec unit_def del: fdiv.simps)
  show ?case
  proof (cases "hi * unit < ?v")
    case False
    with v show ?thesis
      by (intro exI [of _ j] exI [of _ e]) (simp add: grow_divisor_stop del: fdiv.simps)
  next
    case True
    have "j < 10" using Suc.prems(1) by simp
    then obtain i e' where "grow_divisor f (Finite False (hi * unit)) (Finite False k)
          (Finite False (10 ^ Suc j * unit)) (e + 1) = Some (Finite False (10 ^ i * unit), e')"
        "fdiv f (Finite False k) (Finite False (10 ^ i * unit)) =
          Finite False (round_units (precision f) k (10 ^ i))"
        "round_units (precision f) k (10 ^ i) \<le> hi * unit" "e + 1 \<le> e'" "e' \<le> e + 1 + int d"
      using Suc.IH [of "Suc j" "e + 1"] Suc.prems by auto
    moreover have "grow_divisor f (Finite False (hi * unit)) (Finite False k) (Finite False (10 ^ j * unit)) e =
        grow_divisor f (Finite False (hi * unit)) (Finite False k) (Finite False (10 ^ Suc j * unit)) (e + 1)"
      using True v next_factor [OF \<open>j < 10\<close>]
      by (subst grow_divisor_step) (simp_all add: lit_simps del: fdiv.simps fmul.simps)
    ultimately show ?thesis by (intro exI [of _ i] exI [of _ e']) simp
  qed
next
  case 0
  let ?v = "round_units (precision f) k (10 ^ j)"
  have "?v \<le> k" using 0(3) by (intro round_units_le) (simp_all add: prec)
  then have v: "fdiv f (Finite False k) (Finite False (10 ^ j * unit)) = Finite False ?v"
    using fdiv_by [of f "10 ^ j" k] 0(4) by (simp add: prec unit_def del: fdiv.simps)
  have "k \<le> hi * unit * 10 ^ j" using 0(1,2) big_le by simp
  then have "?v \<le> hi * unit"
    by (intro round_units_le) (simp_all add: representable_units representable_lo prec)
  with v show ?case
    by (intro exI [of _ j] exI [of _ e]) (simp add: grow_divisor_stop del: fdiv.simps)
qed

text \<open>Numbers with an integer part: \<open>n\<close> is that part.\<close>

lemma factor_le:
  assumes "0 < n" and "if j = 0 then n \<le> hi else n * 10 ^ j \<le> hi"
  shows "10 ^ j \<le> hi"
proof (cases "j = 0")
  case False
  have "1 * 10 ^ j \<le> n * 10 ^ j" using assms(1) by (intro mult_le_mono1) simp
  also have "\<dots> \<le> hi" using assms(2) False by simp
  finally show ?thesis by simp
qed (use B_pos(2) in simp)

lemma scale_int_ends:
  assumes "j + d = 10" and "0 < n" and "if j = 0 then n \<le> hi else n * 10 ^ j \<le> hi"
    and "n < hi \<Longrightarrow> n * 10 ^ j < hi"
  shows "\<exists>i e'. scale_int f (int lo) (int (n * 10 ^ j)) (Finite False (10 ^ j * unit)) e =
      Some (int (n * 10 ^ i), Finite False (10 ^ i * unit), e') \<and>
    n * 10 ^ i \<le> hi \<and> 10 ^ i \<le> hi \<and> i \<le> 10 \<and> e' = e + int j - int i \<and>
    (n < hi \<longrightarrow> n * 10 ^ i < hi)"
  using assms
proof (induction d arbitrary: j e)
  case (Suc d)
  have pow: "10 ^ j \<le> hi" by (rule factor_le [OF Suc.prems(2,3)])
  show ?case
  proof (cases "n * 10 ^ j < lo")
    case False
    then have "\<not> int (n * 10 ^ j) < int lo" by (simp only: of_nat_less_iff not_False_eq_True)
    from scale_int_stop [OF this] show ?thesis
      using Suc.prems pow by (intro exI [of _ j] exI [of _ e]) (simp split: if_splits)
  next
    case True
    have "j < 10" using Suc.prems(1) by simp
    moreover have "n * 10 ^ Suc j < hi" using True lo(3) by simp
    ultimately obtain i e' where "scale_int f (int lo) (int (n * 10 ^ Suc j)) (Finite False (10 ^ Suc j * unit))
          (e - 1) = Some (int (n * 10 ^ i), Finite False (10 ^ i * unit), e')"
        "n * 10 ^ i \<le> hi" "10 ^ i \<le> hi" "i \<le> 10" "e' = e - 1 + int (Suc j) - int i"
        "n < hi \<longrightarrow> n * 10 ^ i < hi"
      using Suc.IH [of "Suc j" "e - 1"] Suc.prems by auto
    moreover have "scale_int f (int lo) (int (n * 10 ^ j)) (Finite False (10 ^ j * unit)) e =
        scale_int f (int lo) (int (n * 10 ^ Suc j)) (Finite False (10 ^ Suc j * unit)) (e - 1)"
    proof -
      have "int (n * 10 ^ j) < int lo" using True by (simp only: of_nat_less_iff)
      moreover have "int (n * 10 ^ j) * 10 = int (n * 10 ^ Suc j)" by simp
      ultimately show ?thesis by (simp only: scale_int_step lits next_factor [OF \<open>j < 10\<close>])
    qed
    ultimately show ?thesis by (intro exI [of _ i] exI [of _ e']) simp
  qed
next
  case 0
  have "lo \<le> n * 10 ^ j" using 0(1,2) lo(2) by simp
  moreover have "10 ^ j \<le> hi"
    by (rule factor_le [OF 0(2,3)])
  moreover have "\<not> int (n * 10 ^ j) < int lo" using \<open>lo \<le> n * 10 ^ j\<close>
    by (simp only: of_nat_less_iff not_less)
  note scale_int_stop [OF this]
  ultimately show ?case using 0 by (intro exI [of _ j] exI [of _ e]) simp
qed

text \<open>The three cases together, and the rounding that follows.\<close>

theorem scale_number_ends:
  assumes cfg: "UNITY_DOUBLE dbl = f" "min_scaled dbl = int lo" "max_scaled dbl = int hi"
    and k: "0 < k" "k < 2 ^ top_exp f" "representable (precision f) k"
  shows "\<exists>n v e. scale_number dbl (Finite False k) = Inr (int n, Finite False v, e) \<and>
    n \<le> hi \<and> v \<le> B * unit \<and> representable (precision f) v \<and>
    \<bar>e\<bar> \<le> 10 * int (top_exp f) + 10 * int (unit_exp f) + 10"
proof -
  have lits_lo: "fp_of_int f (int lo) = Finite False (lo * unit)" by (rule of_int) (simp add: lo)
  have lits_hi: "fp_of_int f (int hi) = Finite False (hi * unit)" by (rule of_int) simp
  note prims = cfg lits lits_lo lits_hi limit_lit [unfolded lits_hi lits] big_lit [unfolded lits_lo lits]
  consider "k < unit" | "unit \<le> k" "hi * unit < k" | "unit \<le> k" "k \<le> hi * unit" by linarith
  then show ?thesis
  proof cases
    case 1
    have "unit \<le> k * 2 ^ unit_exp f" using k(1) by (simp add: unit_def)
    moreover have "k \<le> B * unit" using 1 unit_le_B by linarith
    ultimately obtain l e where l: "scale_up f (Finite False limit) (Finite False k) 0 = Some (Finite False l, e)"
        "limit \<le> l" "l \<le> B * unit" "representable (precision f) l" "0 - 10 * int (unit_exp f) \<le> e" "e \<le> 0"
      using scale_up_ends [of k "unit_exp f" 0] k(3) by blast
    obtain i e' where i: "grow_factor f (Finite False (lo * unit)) (Finite False l) (Finite False unit) e =
          Some (Finite False (10 ^ i * unit), e')"
        "fmul f (Finite False l) (Finite False (10 ^ i * unit)) =
          Finite False (round_units (precision f) (l * 10 ^ i) 1)"
        "round_units (precision f) (l * 10 ^ i) 1 \<le> B * unit" "e - 10 \<le> e'" "e' \<le> e"
      using grow_factor_ends [of 0 10 l e] l by auto
    have "scale_number dbl (Finite False k) =
        Inr (int 0, Finite False (round_units (precision f) (l * 10 ^ i) 1), e')"
      unfolding scale_number_def Let_def prims
      using 1 l(1) i(1,2) by (simp add: returned_def del: fmul.simps fdiv.simps)
    moreover have "\<bar>e'\<bar> \<le> 10 * int (top_exp f) + 10 * int (unit_exp f) + 10"
      using l(5,6) i(4,5) by linarith
    ultimately show ?thesis
      using i(3) round_units_representable [OF prec] by (metis le0)
  next
    case 2
    obtain l e where l: "scale_down f (Finite False big) (Finite False k) 0 = Some (Finite False l, e)"
        "l \<le> big" "l < 2 ^ top_exp f" "representable (precision f) l" "0 \<le> e" "e \<le> 0 + 10 * int (top_exp f)"
      using scale_down_ends [OF k(2,2,3), of 0] by blast
    obtain i e' where i: "grow_divisor f (Finite False (hi * unit)) (Finite False l) (Finite False unit) e =
          Some (Finite False (10 ^ i * unit), e')"
        "fdiv f (Finite False l) (Finite False (10 ^ i * unit)) =
          Finite False (round_units (precision f) l (10 ^ i))"
        "round_units (precision f) l (10 ^ i) \<le> hi * unit" "e \<le> e'" "e' \<le> e + 10"
      using grow_divisor_ends [of 0 10 l e] l by auto
    have "scale_number dbl (Finite False k) =
        Inr (int 0, Finite False (round_units (precision f) l (10 ^ i)), e')"
      unfolding scale_number_def Let_def prims
      using 2 l(1) i(1,2) by (simp add: returned_def del: fmul.simps fdiv.simps)
    moreover have "\<bar>e'\<bar> \<le> 10 * int (top_exp f) + 10 * int (unit_exp f) + 10"
      using l(5,6) i(4,5) by linarith
    moreover have "round_units (precision f) l (10 ^ i) \<le> B * unit"
      using i(3) mult_le_mono1 [OF B(1), of unit] by linarith
    ultimately show ?thesis
      using round_units_representable [OF prec] by (metis le0)
  next
    case 3
    let ?n = "k div unit" and ?r = "k mod unit"
    have n: "0 < ?n" "?n \<le> hi"
      using 3 unit_pos div_le_mono [OF 3(2), of unit] by (simp_all add: div_greater_zero_iff)
    have to_int: "fp_to_int32 f (Finite False k) = Inr (int ?n)"
      using n(2) B by (intro fp_to_int32_units) (simp_all add: unit_def)
    have r: "?r < unit" "representable (precision f) ?r"
      using unit_pos representable_mod [OF k(3) prec] by (simp_all add: unit_def)
    have sub: "fsub f (Finite False k) (fp_of_int f (int ?n)) = Finite False ?r"
    proof -
      have "int k - int (?n * unit) = int ?r"
        using div_mult_mod_eq [of k unit] by (metis add_diff_cancel_left' of_nat_add)
      moreover have "rounded f False ?r (Suc 0) = Finite False ?r"
        using r fits_B [of ?r] unit_le_B by (simp add: rounded_finite)
      ultimately show ?thesis
        using of_int [OF n(2)] by (auto simp: fsub_def Let_def simp flip: of_nat_mult)
    qed
    obtain i e where i: "scale_int f (int lo) (int ?n) (Finite False unit) 0 =
          Some (int (?n * 10 ^ i), Finite False (10 ^ i * unit), e)"
        "?n * 10 ^ i \<le> hi" "10 ^ i \<le> hi" "i \<le> 10" "e = - int i"
      using scale_int_ends [of 0 10 ?n 0] n by auto
    have le: "round_units (precision f) (?r * 10 ^ i) 1 \<le> hi * unit"
      using mult_le_mono [OF less_imp_le [OF r(1)] i(3)]
      by (intro round_units_le) (simp_all add: representable_units representable_lo prec mult.commute)
    also have "\<dots> \<le> B * unit" using B(1) by simp
    finally have le_B: "round_units (precision f) (?r * 10 ^ i) 1 \<le> B * unit" .
    have "fmul f (Finite False ?r) (Finite False (10 ^ i * unit)) =
        Finite False (round_units (precision f) (?r * 10 ^ i) 1)"
      using fmul_by [OF prec, of ?r "10 ^ i"] fits_B [OF le_B] by (simp add: unit_def del: fmul.simps)
    with 3 i(1) have "scale_number dbl (Finite False k) =
        Inr (int (?n * 10 ^ i), Finite False (round_units (precision f) (?r * 10 ^ i) 1), e)"
      unfolding scale_number_def Let_def prims
      by (simp add: to_int sub returned_def del: fmul.simps fdiv.simps fp_to_int32.simps of_nat_mult)
    moreover have "\<bar>e\<bar> \<le> 10 * int (top_exp f) + 10 * int (unit_exp f) + 10"
      using i(4,5) by linarith
    ultimately show ?thesis
      using i(2) le_B round_units_representable [OF prec] by metis
  qed
qed

lemma round_scaled_ends:
  assumes cfg: "UNITY_DOUBLE dbl = f" "min_scaled dbl = int lo" "max_scaled dbl = int hi"
    and "n_int \<le> hi" "v \<le> B * unit" "representable (precision f) v"
  shows "\<exists>n e'. round_scaled dbl (int n_int) (Finite False v) e = Inr (int n, e') \<and> n < hi \<and>
    (e' = e \<or> e' = e + 1)"
proof -
  let ?t = "2 * v div unit"
  have sum: "fadd f (Finite False v) (Finite False v) = Finite False (2 * v)"
  proof -
    have "2 * v < 2 ^ top_exp f"
      using mult_le_mono [OF order_refl, of v "B * unit" 2] assms(5) by (intro fits) simp
    then show ?thesis
      using representable_double [OF assms(6) prec]
      by (simp add: Let_def rounded_finite nat_mult_distrib flip: mult_2)
  qed
  have t: "?t \<le> 2 * B"
    using div_le_mono [of "2 * v" "2 * B * unit" unit] assms(5) unit_pos by simp
  then have "?t < 2 ^ 31" using B(2) by linarith
  then have conv: "fp_to_int32 f (Finite False (2 * v)) = Inr (int ?t)"
    by (intro fp_to_int32_units) (simp_all add: unit_def)
  have succ: "int32 (int ?t + 1) = Inr (int ?t + 1)" using t B(2) by (simp add: int32_def)
  have half: "(int ?t + 1) sdiv 2 = int ((?t + 1) div 2)"
    by (simp add: sdiv_nonneg of_nat_div add.commute del: of_nat_div)
  let ?n = "(?t + 1) div 2"
  let ?b = "odd (int ?n) \<and> feq (fsub f (fp_of_int f (int ?n)) (Finite False v)) (fp_lit f 1 2)"
  define m where "m = (if ?b then ?n - 1 else ?n)"
  have m: "(if ?b then int ?n - 1 else int ?n) = int m"
  proof -
    have "odd (int ?n) \<Longrightarrow> 1 \<le> ?n" by (cases "?n = 0") auto
    then show ?thesis by (auto simp: m_def of_nat_diff simp del: of_nat_div)
  qed
  have "m \<le> ?n" by (simp add: m_def)
  then have total: "int32 (int m + int n_int) = Inr (int m + int n_int)"
    using t assms(4) B by (simp add: int32_def)
  have "round_scaled dbl (int n_int) (Finite False v) e =
      Inr (if int m + int n_int \<ge> int hi then (int lo, e + 1) else (int m + int n_int, e))"
    unfolding round_scaled_def cfg Let_def sum conv rbind.simps succ half m total ..
  then show ?thesis
    using lo(1,3) by (cases "hi \<le> m + n_int")
      (auto intro!: exI [of _ lo] exI [of _ "m + n_int"] exI [of _ e] exI [of _ "e + 1"])
qed

text \<open>An integer is split off whole: nothing is left to round.\<close>

lemma integer_scaled:
  assumes cfg: "UNITY_DOUBLE dbl = f" "min_scaled dbl = int lo" "max_scaled dbl = int hi"
    and n: "0 < n" "n < hi"
  shows "\<exists>i. i \<le> 10 \<and> rbind (scale_number dbl (Finite False (n * unit)))
    (\<lambda>(n_int, number, exponent). round_scaled dbl n_int number exponent) = Inr (int (n * 10 ^ i), - int i)"
proof -
  have ge: "unit \<le> n * unit" using n(1) mult_le_mono1 [of 1 n unit] by simp
  have le: "n * unit \<le> hi * unit" using n(2) by simp
  have lits_lo: "fp_of_int f (int lo) = Finite False (lo * unit)" by (rule of_int) (simp add: lo)
  have lits_hi: "fp_of_int f (int hi) = Finite False (hi * unit)" by (rule of_int) simp
  have to_int: "fp_to_int32 f (Finite False (n * unit)) = Inr (int n)"
    using n(2) B by (intro fp_to_int32_units) (simp_all add: unit_def)
  have sub: "fsub f (Finite False (n * unit)) (fp_of_int f (int n)) = Finite False 0"
    using of_int [of n] n(2) by (simp add: fsub_def)
  obtain i where i: "scale_int f (int lo) (int n) (Finite False unit) 0 =
        Some (int (n * 10 ^ i), Finite False (10 ^ i * unit), - int i)"
      "n * 10 ^ i < hi" "i \<le> 10"
    using scale_int_ends [of 0 10 n 0] n by auto
  have "fmul f fzero (Finite False (10 ^ i * unit)) = fzero"
    using fmul_by [OF prec, of 0 "10 ^ i"] representable_small [of 0 "precision f"] prec
    by (simp add: unit_def del: fmul.simps)
  then have "scale_number dbl (Finite False (n * unit)) = Inr (int (n * 10 ^ i), fzero, - int i)"
    unfolding scale_number_def Let_def cfg lits lits_lo lits_hi
    using ge le i(1)
    by (simp only: flt_units not_less [symmetric] if_False to_int sub rbind.simps returned_def
        option.case prod.case)
  moreover have "round_scaled dbl (int (n * 10 ^ i)) fzero (- int i) = Inr (int (n * 10 ^ i), - int i)"
    using i(2) B by (simp add: round_scaled_def cfg Let_def int32_def sdiv_nonneg del: of_nat_mult)
  ultimately show ?thesis using i(3) by auto
qed

end

section \<open>The buffer\<close>

definition digit_chars :: "char set" where "digit_chars = set ''0123456789''"

lemma digit_in: "d < 10 \<Longrightarrow> char_of (48 + d :: nat) \<in> digit_chars"
proof -
  have "\<forall>d \<in> set [0..<10 :: nat]. char_of (48 + d) \<in> digit_chars" by code_simp
  moreover assume "d < 10"
  ultimately show ?thesis by simp
qed

text \<open>A number below \<open>10 ^ d\<close> takes at most \<open>d\<close> places.\<close>

lemma fill_buf_ends:
  assumes "0 \<le> n" and "n < 10 ^ d" and "length buf + d \<le> 16" and "least \<le> 16"
    and "set buf \<subseteq> digit_chars" and "length buf \<le> 16"
  shows "\<exists>b. fill_buf n least buf = Inr b \<and> set b \<subseteq> digit_chars \<and> length b \<le> 16 \<and> least \<le> length b"
  using assms
proof (induction n least buf arbitrary: d rule: fill_buf.induct)
  case (1 n least buf)
  show ?case
  proof (cases "n \<noteq> 0 \<or> length buf < least")
    case False
    with 1 show ?thesis by (subst fill_buf.simps) simp
  next
    case True
    then have room: "length buf < 16" using 1 by (cases "d = 0") auto
    let ?buf = "buf @ [char_of (nat (48 + n smod 10))]"
    have "\<exists>b. fill_buf (n sdiv 10) least ?buf = Inr b \<and> set b \<subseteq> digit_chars \<and> length b \<le> 16 \<and> least \<le> length b"
    proof (rule "1.IH" [OF True room, of "d - 1"])
      show "n sdiv 10 < 10 ^ (d - 1)" "0 \<le> n sdiv 10"
        using "1.prems"(1,2) by (cases d; simp add: sdiv_nonneg)+
      have "nat (48 + n smod 10) = 48 + nat (n mod 10)" "nat (n mod 10) < 10"
        using "1.prems"(1) by (simp_all add: smod_nonneg nat_add_distrib nat_less_iff)
      then show "set ?buf \<subseteq> digit_chars" using "1.prems"(5) digit_in [of "nat (n mod 10)"] by simp
    qed (use "1.prems" room in auto)
    with True room show ?thesis by (subst fill_buf.simps) simp
  qed
qed

lemma truncate_zeroes_ends:
  "\<exists>m d'. truncate_zeroes (int n) d = (int m, d') \<and> m \<le> n \<and> d' \<le> d"
proof (induction d arbitrary: n)
  case (Suc d)
  obtain m d' where "truncate_zeroes (int (n div 10)) d = (int m, d')" "m \<le> n div 10" "d' \<le> d"
    using Suc by blast
  moreover have "n div 10 \<le> n" by simp
  ultimately show ?case by (cases "n mod 10 = 0") (auto simp: le_SucI intro: order_trans)
qed simp

lemma print_buf_chars: "digits \<le> length buf \<Longrightarrow> set (print_buf d buf digits) \<subseteq> set buf \<union> {CHR ''.''}"
  by (induction digits) (auto simp: Suc_le_eq)

definition float_chars :: "char set" where "float_chars = digit_chars \<union> set ''.e+-nanif''"

lemma print_exponent_ends:
  assumes "\<bar>e\<bar> < 10 ^ 16"
  shows "\<exists>s. print_exponent e = Inr s \<and> set s \<subseteq> float_chars"
proof -
  obtain b where "fill_buf \<bar>e\<bar> 2 [] = Inr b" "set b \<subseteq> digit_chars"
    using fill_buf_ends [of "\<bar>e\<bar>" 16 "[]" 2] assms by auto
  then show ?thesis by (auto simp: print_exponent_def float_chars_def)
qed

lemma print_scaled_ends:
  assumes "n < 10 ^ 9" and "\<bar>e\<bar> < 10 ^ 15"
  shows "\<exists>s. print_scaled dbl (int n) e = Inr s \<and> set s \<subseteq> float_chars"
proof -
  define d where "d = (if e \<le> 0 \<and> e \<ge> - (sig_digits dbl + 3) then - e else sig_digits dbl - 1)"
  have d: "0 \<le> d" "d \<le> 12" by (auto simp: d_def sig_digits_def)
  obtain m k where m: "truncate_zeroes (int n) (nat d) = (int m, k)" "m \<le> n" "k \<le> nat d"
    using truncate_zeroes_ends by blast
  have "k \<le> 12" using m(3) d by linarith
  then obtain b where b: "fill_buf (int m) (k + 1) [] = Inr b" "set b \<subseteq> digit_chars"
    using fill_buf_ends [of "int m" 9 "[]" "k + 1"] m assms(1) by auto
  obtain x where x: "print_exponent (e + d) = Inr x" "set x \<subseteq> float_chars"
  proof -
    have "\<bar>e + d\<bar> < 10 ^ 16" using assms(2) d by simp
    then show ?thesis using print_exponent_ends that by blast
  qed
  have "print_scaled dbl (int n) e = Inr (print_buf k b (length b) @ x)"
    unfolding print_scaled_def d_def [symmetric] Let_def m(1) prod.case b(1) x(1) rbind.simps ..
  moreover have "set (print_buf k b (length b)) \<subseteq> float_chars"
    using print_buf_chars [of "length b" b k] b(2) by (auto simp: float_chars_def)
  ultimately show ?thesis using x(2) by auto
qed

section \<open>Integers\<close>

lemma truncate_zeroes_all: "truncate_zeroes (int (n * 10 ^ d)) d = (int n, 0)"
proof (induction d)
  case (Suc d)
  have "int (n * 10 ^ Suc d) smod 10 = 0" "int (n * 10 ^ Suc d) sdiv 10 = int (n * 10 ^ d)"
    unfolding sdiv_smod_ten by simp_all
  with Suc show ?case by (simp only: truncate_zeroes.simps refl if_True)
qed simp

lemma print_buf_rev: "k \<le> length buf \<Longrightarrow> print_buf 0 buf k = rev (take k buf)"
  by (induction k) (simp_all add: take_Suc_conv_app_nth)

lemma fill_buf_read:
  assumes "0 \<le> n" and "fill_buf n least buf = Inr b"
  shows "\<exists>ds. b = buf @ ds \<and> read_from 10 0 (rev ds) = nat n"
  using assms
proof (induction n least buf rule: fill_buf.induct)
  case (1 n least buf)
  show ?case
  proof (cases "n \<noteq> 0 \<or> length buf < least")
    case False
    with 1 have "b = buf" "n = 0" by (simp_all add: fill_buf.simps [of n])
    then show ?thesis by simp
  next
    case True
    then have room: "length buf < 16"
        and fill: "fill_buf (n sdiv 10) least (buf @ [char_of (nat (48 + n smod 10))]) = Inr b"
      using 1(3) by (simp_all add: fill_buf.simps [of n] split: if_splits)
    have "0 \<le> n sdiv 10" using 1(2) by (simp add: sdiv_nonneg)
    then obtain ds where ds: "b = buf @ [char_of (nat (48 + n smod 10))] @ ds"
        "read_from 10 0 (rev ds) = nat (n sdiv 10)"
      using "1.IH" [OF True room _ fill] by auto
    have "nat (48 + n smod 10) = 48 + nat (n mod 10)" "nat (n mod 10) \<le> 9"
      using 1(2) pos_mod_bound [of 10 n] by (simp_all add: smod_nonneg nat_add_distrib nat_le_iff)
    then have "read_from 10 0 (rev ([char_of (nat (48 + n smod 10))] @ ds)) = 10 * nat (n div 10) + nat (n mod 10)"
      using ds(2) 1(2) by (simp add: read_from_def sdiv_nonneg)
    also have "\<dots> = nat n" using 1(2) by (simp add: nat_div_distrib nat_mod_distrib)
    finally show ?thesis using ds(1) by blast
  qed
qed

lemma print_scaled_integer:
  assumes "n < 10 ^ 9" and "i \<le> 10"
  shows "\<exists>s. print_scaled dbl (int (n * 10 ^ i)) (- int i) = Inr s \<and> s \<noteq> [] \<and>
    set s \<subseteq> digit_chars \<and> read_from 10 0 s = n"
proof -
  obtain b where b: "fill_buf (int n) (0 + 1) [] = Inr b" "set b \<subseteq> digit_chars" "1 \<le> length b"
    using fill_buf_ends [of "int n" 9 "[]" "0 + 1"] assms(1) by auto
  have d: "(if - int i \<le> 0 \<and> - int i \<ge> - (sig_digits dbl + 3) then - (- int i) else sig_digits dbl - 1) = int i"
    using assms(2) by (simp add: sig_digits_def)
  have "print_scaled dbl (int (n * 10 ^ i)) (- int i) = Inr (print_buf 0 b (length b) @ [])"
    unfolding print_scaled_def Let_def d nat_int truncate_zeroes_all prod.case b(1)
    by (simp add: print_exponent_def)
  moreover have "read_from 10 0 (rev b) = n" using fill_buf_read [OF _ b(1)] by simp
  ultimately show ?thesis using b(2,3) by (auto simp: print_buf_rev)
qed

section \<open>The two configurations\<close>

lemma tens_representable: "j \<le> 10 \<Longrightarrow> 10 \<le> p \<Longrightarrow> 24 \<le> p \<Longrightarrow> representable p (10 ^ j)"
proof -
  assume j: "j \<le> 10" and "24 \<le> p"
  have "(5 :: nat) ^ j \<le> 5 ^ 10" using j by (intro power_increasing) auto
  also have "\<dots> < 2 ^ 24" by simp
  also have "\<dots> \<le> (2 :: nat) ^ p" using \<open>24 \<le> p\<close> by (intro power_increasing) auto
  finally have "representable p (5 ^ j * 2 ^ j)" using \<open>24 \<le> p\<close> by (intro representableI) auto
  then show ?thesis by (simp flip: power_mult_distrib)
qed

interpretation print_single: scaled_printer single 1000000 10000000 "2 ^ 25" "2 ^ unit_exp single"
  "round_units (precision single) (10000000 * 2 ^ unit_exp single) (10 ^ 10)"
proof unfold_locales
  let ?c = "round_units (precision single) (10000000 * 2 ^ unit_exp single) (10 ^ 10)"
  have ge: "2 ^ (149 - 10) \<le> ?c"
    using representableI [of 1 24 139] by (intro round_units_ge) simp_all
  have le: "?c \<le> 2 ^ (149 - 9)"
    using representableI [of 1 24 140] by (intro round_units_le) simp_all
  show "1000000 * 2 ^ unit_exp single \<le> ?c * 10 ^ 10" using mult_le_mono1 [OF ge, of "10 ^ 10"] by simp
  show "?c * 10 ^ 10 \<le> 2 ^ 25 * 2 ^ unit_exp single" using mult_le_mono1 [OF le, of "10 ^ 10"] by simp
  show "?c \<le> 2 ^ unit_exp single" using le by simp
  show "2 ^ 25 < 2 ^ precision single \<or> representable (precision single) (2 ^ 25)"
    using representableI [of 1 24 25] by simp
qed (simp_all add: tens_representable)

interpretation print_double: scaled_printer double 100000000 1000000000 "2 ^ 30 - 1" "2 ^ unit_exp double"
  "round_units (precision double) (1000000000 * 2 ^ unit_exp double) (10 ^ 10)"
proof unfold_locales
  let ?c = "round_units (precision double) (1000000000 * 2 ^ unit_exp double) (10 ^ 10)"
  have ge: "2 ^ (1074 - 6) \<le> ?c"
    using representableI [of 1 53 1068] by (intro round_units_ge) simp_all
  have le: "?c \<le> 27 * 2 ^ (1074 - 8)"
    using representableI [of 27 53 1066] by (intro round_units_le) simp_all
  show "100000000 * 2 ^ unit_exp double \<le> ?c * 10 ^ 10" using mult_le_mono1 [OF ge, of "10 ^ 10"] by simp
  show "?c * 10 ^ 10 \<le> (2 ^ 30 - 1) * 2 ^ unit_exp double" using mult_le_mono1 [OF le, of "10 ^ 10"] by simp
  show "?c \<le> 2 ^ unit_exp double" using le by simp
qed (simp_all add: tens_representable)

lemma print_positive:
  assumes "0 < k" "k < 2 ^ top_exp (UNITY_DOUBLE dbl)" "representable (precision (UNITY_DOUBLE dbl)) k"
  shows "\<exists>s. rbind (scale_number dbl (Finite False k)) (\<lambda>(n_int, number, exponent).
      rbind (round_scaled dbl n_int number exponent) (\<lambda>(n, exponent). print_scaled dbl n exponent)) = Inr s \<and>
    set s \<subseteq> float_chars"
proof (cases dbl)
  case False
  then have cfg: "UNITY_DOUBLE dbl = single" "min_scaled dbl = int 1000000" "max_scaled dbl = int 10000000"
    by (simp_all add: UNITY_DOUBLE_def min_scaled_def max_scaled_def)
  note k = assms [unfolded cfg]
  obtain n v e where 1: "scale_number dbl (Finite False k) = Inr (int n, Finite False v, e)"
      "n \<le> 10000000" "v \<le> 2 ^ 25 * 2 ^ unit_exp single" "representable (precision single) v"
      "\<bar>e\<bar> \<le> 10 * int (top_exp single) + 10 * int (unit_exp single) + 10"
    using print_single.scale_number_ends [OF cfg k] by blast
  then obtain m e' where 2: "round_scaled dbl (int n) (Finite False v) e = Inr (int m, e')"
      "m < 10000000" "e' = e \<or> e' = e + 1"
    using print_single.round_scaled_ends [OF cfg 1(2,3,4), of e] by blast
  have "\<exists>s. print_scaled dbl (int m) e' = Inr s \<and> set s \<subseteq> float_chars"
    using 1(5) 2(2,3) by (intro print_scaled_ends) (auto simp: abs_if split: if_splits)
  then show ?thesis using 1(1) 2(1) by auto
next
  case True
  then have cfg: "UNITY_DOUBLE dbl = double" "min_scaled dbl = int 100000000" "max_scaled dbl = int 1000000000"
    by (simp_all add: UNITY_DOUBLE_def min_scaled_def max_scaled_def)
  note k = assms [unfolded cfg]
  obtain n v e where 1: "scale_number dbl (Finite False k) = Inr (int n, Finite False v, e)"
      "n \<le> 1000000000" "v \<le> (2 ^ 30 - 1) * 2 ^ unit_exp double" "representable (precision double) v"
      "\<bar>e\<bar> \<le> 10 * int (top_exp double) + 10 * int (unit_exp double) + 10"
    using print_double.scale_number_ends [OF cfg k] by blast
  then obtain m e' where 2: "round_scaled dbl (int n) (Finite False v) e = Inr (int m, e')"
      "m < 1000000000" "e' = e \<or> e' = e + 1"
    using print_double.round_scaled_ends [OF cfg 1(2,3,4), of e] by blast
  have "\<exists>s. print_scaled dbl (int m) e' = Inr s \<and> set s \<subseteq> float_chars"
    using 1(5) 2(2,3) by (intro print_scaled_ends) (auto simp: abs_if split: if_splits)
  then show ?thesis using 1(1) 2(1) by auto
qed

lemma UnityPrint_float_words: "set (UnityPrint (Some ''0'')) \<subseteq> float_chars"
  "set (UnityPrint (Some ''nan'')) \<subseteq> float_chars" "set (UnityPrint (Some ''inf'')) \<subseteq> float_chars"
  by code_simp+

lemma UnityPrintFloat_ends:
  assumes "fp_ok (UNITY_DOUBLE dbl) x"
  shows "\<exists>s. UnityPrintFloat dbl x = Inr s \<and> set s \<subseteq> float_chars"
proof (cases x)
  case NaN
  then show ?thesis using UnityPrint_float_words(2) by (simp add: UnityPrintFloat_def fp_isnan_def)
next
  case (Infinite s)
  then show ?thesis using UnityPrint_float_words(3)
    by (cases s) (simp_all add: UnityPrintFloat_def fp_isnan_def float_chars_def)
next
  case (Finite s k)
  show ?thesis
  proof (cases "k = 0")
    case True
    then show ?thesis using UnityPrint_float_words(1) Finite
      by (cases s) (simp_all add: UnityPrintFloat_def flt.simps)
  next
    case False
    obtain t where "rbind (scale_number dbl (Finite False k)) (\<lambda>(n_int, number, exponent).
        rbind (round_scaled dbl n_int number exponent) (\<lambda>(n, exponent). print_scaled dbl n exponent)) = Inr t"
        "set t \<subseteq> float_chars"
      using print_positive [of k dbl] False assms Finite by (auto simp: fp_ok_def)
    moreover define sign where "sign = (if s then ''-'' else [])"
    moreover have "UnityPrintFloat dbl x = rbind (rbind (scale_number dbl (Finite False k))
        (\<lambda>(n_int, number, exponent). rbind (round_scaled dbl n_int number exponent)
        (\<lambda>(n, exponent). print_scaled dbl n exponent))) (\<lambda>t. Inr (sign @ t))"
      using False Finite
      by (cases s) (simp_all add: UnityPrintFloat_def flt.simps fp_isnan_def sign_def rbind_assoc split_def)
    moreover have "set sign \<subseteq> float_chars" by (auto simp: sign_def float_chars_def)
    ultimately show ?thesis by simp
  qed
qed

lemma widen_ok: "fp_ok single x \<Longrightarrow> fp_ok (UNITY_DOUBLE dbl) (to_UNITY_DOUBLE dbl single x)"
proof (cases x)
  case (Finite s k)
  assume "fp_ok single x"
  then have k: "representable 24 k" "k < 2 ^ 277" using Finite by (simp_all add: fp_ok_def)
  obtain m t where m: "m < 2 ^ 24" "k = m * 2 ^ t" using k(1) by (auto simp: representable_iff)
  have "m < 2 ^ 53" using m(1) by simp
  then have "representable 53 (m * 2 ^ (t + 925))" by (intro representableI) simp_all
  moreover have "k * 2 ^ 925 < 2 ^ 277 * 2 ^ 925" using k(2) by (intro mult_strict_right_mono) simp_all
  then have "k * 2 ^ 925 < 2 ^ 2098" by (rule less_le_trans) simp
  ultimately show ?thesis
    using k Finite m(2) by (simp add: fp_ok_def UNITY_DOUBLE_def to_UNITY_DOUBLE_def power_add mult.assoc)
qed (simp_all add: fp_ok_def to_UNITY_DOUBLE_def)

text \<open>
  C36: printing a float never goes wrong: for each of the \<open>2 ^ 32\<close> representations of a \<^verbatim>\<open>float\<close>, with
  and without support for \<^verbatim>\<open>double\<close>, and for each of the \<open>2 ^ 64\<close> of a \<^verbatim>\<open>double\<close>, the loops that scale
  the number end, no conversion or addition overflows, the digits fit the buffer of 16 bytes, and
  what is printed is made of digits, a point, signs and the letters of an exponent, nan and inf.
\<close>
theorem UnityPrintFloat_safe:
  "(\<exists>s. UnityPrintFloat dbl (to_UNITY_DOUBLE dbl single (fp_of_bits single (unat (w :: 32 word)))) = Inr s \<and>
     set s \<subseteq> set ''0123456789.e+-nanif'') \<and>
   (\<exists>s. UnityPrintFloat True (fp_of_bits double (unat (v :: 64 word))) = Inr s \<and>
     set s \<subseteq> set ''0123456789.e+-nanif'')"
proof (intro conjI)
  have chars: "float_chars = set ''0123456789.e+-nanif''" by (auto simp: float_chars_def digit_chars_def)
  show "\<exists>s. UnityPrintFloat dbl (to_UNITY_DOUBLE dbl single (fp_of_bits single (unat w))) = Inr s \<and>
     set s \<subseteq> set ''0123456789.e+-nanif''"
    using UnityPrintFloat_ends [OF widen_ok [OF fp_of_bits_ok]] by (simp add: chars del: set_simps)
  have "fp_ok (UNITY_DOUBLE True) (fp_of_bits double (unat v))"
    using fp_of_bits_ok [of double "unat v"] by (simp add: UNITY_DOUBLE_def)
  then show "\<exists>s. UnityPrintFloat True (fp_of_bits double (unat v)) = Inr s \<and>
     set s \<subseteq> set ''0123456789.e+-nanif''"
    unfolding chars [symmetric] by (rule UnityPrintFloat_ends)
qed

lemma print_integer:
  assumes "0 < n" and "int n < max_scaled dbl"
  shows "\<exists>s. UnityPrintFloat dbl (Finite m (n * 2 ^ unit_exp (UNITY_DOUBLE dbl))) =
      Inr ((if m then ''-'' else []) @ s) \<and> s \<noteq> [] \<and> set s \<subseteq> digit_chars \<and> read_from 10 0 s = n"
proof -
  have "\<exists>i. i \<le> 10 \<and> rbind (scale_number dbl (Finite False (n * 2 ^ unit_exp (UNITY_DOUBLE dbl))))
    (\<lambda>(n_int, number, exponent). round_scaled dbl n_int number exponent) = Inr (int (n * 10 ^ i), - int i)"
  proof (cases dbl)
    case True
    with assms show ?thesis using print_double.integer_scaled [of dbl n]
      by (simp add: UNITY_DOUBLE_def min_scaled_def max_scaled_def)
  next
    case False
    with assms show ?thesis using print_single.integer_scaled [of dbl n]
      by (simp add: UNITY_DOUBLE_def min_scaled_def max_scaled_def)
  qed
  then obtain i where i: "i \<le> 10" "rbind (scale_number dbl (Finite False (n * 2 ^ unit_exp (UNITY_DOUBLE dbl))))
    (\<lambda>(n_int, number, exponent). round_scaled dbl n_int number exponent) = Inr (int (n * 10 ^ i), - int i)"
    by blast
  have "n < 10 ^ 9" using assms(2) by (simp add: max_scaled_def split: if_splits)
  then obtain s where s: "print_scaled dbl (int (n * 10 ^ i)) (- int i) = Inr s" "s \<noteq> []"
      "set s \<subseteq> digit_chars" "read_from 10 0 s = n"
    using print_scaled_integer [OF _ i(1)] by blast
  have "UnityPrintFloat dbl (Finite m (n * 2 ^ unit_exp (UNITY_DOUBLE dbl))) =
      rbind (rbind (rbind (scale_number dbl (Finite False (n * 2 ^ unit_exp (UNITY_DOUBLE dbl))))
        (\<lambda>(n_int, number, exponent). round_scaled dbl n_int number exponent))
        (\<lambda>(n, exponent). print_scaled dbl n exponent)) (\<lambda>s. Inr ((if m then ''-'' else []) @ s))"
    using assms(1)
    by (cases m) (simp_all add: UnityPrintFloat_def fp_isnan_def rbind_assoc split_def)
  also have "\<dots> = Inr ((if m then ''-'' else []) @ s)" by (simp only: i(2) rbind.simps prod.case s(1))
  finally show ?thesis using s by blast
qed

text \<open>
  C37: integers of up to seven digits (nine with support for \<^verbatim>\<open>double\<close>) are printed exactly, as plain
  decimal numerals: reading back the characters gives the number.
\<close>
theorem UnityPrintFloat_integer:
  assumes "\<bar>n\<bar> < max_scaled dbl"
  shows "\<exists>s. UnityPrintFloat dbl (fp_of_int (UNITY_DOUBLE dbl) n) = Inr s \<and>
    read_decimal s = n \<and> set s \<subseteq> set ''-0123456789''"
proof -
  have exact: "fp_of_int (UNITY_DOUBLE dbl) n = Finite (n < 0) (nat \<bar>n\<bar> * 2 ^ unit_exp (UNITY_DOUBLE dbl))"
    using assms by (intro fp_of_int_small) (auto simp: UNITY_DOUBLE_def max_scaled_def split: if_splits)
  show ?thesis
  proof (cases "n = 0")
    case True
    have "UnityPrint (Some ''0'') = ''0''" by code_simp
    with True exact show ?thesis by (simp add: UnityPrintFloat_def read_decimal_def digit_val_def)
  next
    case False
    then obtain s where s: "UnityPrintFloat dbl (fp_of_int (UNITY_DOUBLE dbl) n) =
        Inr ((if n < 0 then ''-'' else []) @ s)" "s \<noteq> []" "set s \<subseteq> digit_chars" "read_from 10 0 s = nat \<bar>n\<bar>"
      using print_integer [of "nat \<bar>n\<bar>" dbl "n < 0"] assms unfolding exact by auto
    obtain c cs where c: "s = c # cs" using s(2) by (cases s) auto
    then have "c \<noteq> CHR ''-''" using s(3) by (auto simp: digit_chars_def)
    then have "read_decimal ((if n < 0 then ''-'' else []) @ s) = n"
      using s(4) c False by (auto simp: read_decimal_def)
    moreover have "set ''-0123456789'' = insert CHR ''-'' digit_chars" by (simp add: digit_chars_def)
    then have "set ((if n < 0 then ''-'' else []) @ s) \<subseteq> set ''-0123456789''"
      using s(3) by (simp only:) auto
    ultimately show ?thesis using s(1) by blast
  qed
qed

theorem UnityPrintFloat_integer_witness:
  "\<exists>s. UnityPrintFloat False (fp_of_int single (- 4096)) = Inr s \<and> read_decimal s = - 4096"
proof -
  have "\<bar>- 4096 :: int\<bar> < max_scaled False" by (simp add: max_scaled_def)
  from UnityPrintFloat_integer [OF this] show ?thesis
    by (simp only: UNITY_DOUBLE_def if_False) blast
qed

end
