(* ===== verification/Unity_Printf.thy ===== *)
theory Unity_Printf
  imports Unity_Core Unity_Float_Print
begin

text \<open>
  Unity's own \<^verbatim>\<open>printf\<close> (\<^verbatim>\<open>unity/src/unity.c\<close>, compiled with
  \<^verbatim>\<open>UNITY_INCLUDE_PRINT_FORMATTED\<close>); \<open>dbl\<close> is \<^verbatim>\<open>UNITY_INCLUDE_DOUBLE\<close>. The variable arguments are a list
  of tagged values, a \<^verbatim>\<open>double\<close> as its representation: reading one of another type, or one more than there are, is undefined behaviour
  (\<open>Bad_argument\<close>). The format is walked by index, so a read behind its terminator is visible.
  A format's conversions are its type: a call is free of faults exactly if its arguments have it.
\<close>

section \<open>Arguments\<close>

text \<open>
  \<^verbatim>\<open>long\<close> and \<^verbatim>\<open>long long\<close> are both 64 bits wide, but different types; the signed and the
  unsigned type of a width share a representation and are not told apart.
\<close>

datatype va_arg =
    Va_int "32 word"
  | Va_long "64 word"
  | Va_long_long "64 word"
  | Va_double "64 word"
  | Va_string c_string

datatype UnityLengthModifier =
    UNITY_LENGTH_MODIFIER_NONE
  | UNITY_LENGTH_MODIFIER_LONG_LONG
  | UNITY_LENGTH_MODIFIER_LONG

text \<open>\<^verbatim>\<open>va_arg(va, int)\<close> and \<^verbatim>\<open>va_arg(va, const char *)\<close>.\<close>

fun va_int :: "va_arg list \<Rightarrow> (32 word \<times> va_arg list) res" where
  "va_int (Va_int n # va) = Inr (n, va)"
| "va_int va = Inl Bad_argument"

fun va_string :: "va_arg list \<Rightarrow> (c_string \<times> va_arg list) res" where
  "va_string (Va_string s # va) = Inr (s, va)"
| "va_string va = Inl Bad_argument"

text \<open>
  \<^verbatim>\<open>va_arg(va, double)\<close>, and the conversion to \<^verbatim>\<open>UNITY_DOUBLE\<close>, which rounds if that is \<^verbatim>\<open>float\<close>.
\<close>

fun va_double :: "va_arg list \<Rightarrow> (fp \<times> va_arg list) res" where
  "va_double (Va_double w # va) = Inr (fp_of_bits double (unat w), va)"
| "va_double va = Inl Bad_argument"

definition from_double :: "bool \<Rightarrow> fp \<Rightarrow> fp" where
  "from_double dbl x = (if dbl then x else fp_convert double single x)"

text \<open>\<open>as_int\<close> says which of \<^verbatim>\<open>int\<close> and \<^verbatim>\<open>unsigned int\<close> is converted to 64 bits.\<close>

fun UNITY_EXTRACT_ARG :: "bool \<Rightarrow> UnityLengthModifier \<Rightarrow> va_arg list \<Rightarrow> (64 word \<times> va_arg list) res" where
  "UNITY_EXTRACT_ARG as_int UNITY_LENGTH_MODIFIER_LONG_LONG va =
     (case va of Va_long_long n # va \<Rightarrow> Inr (n, va) | _ \<Rightarrow> Inl Bad_argument)"
| "UNITY_EXTRACT_ARG as_int UNITY_LENGTH_MODIFIER_LONG va =
     (case va of Va_long n # va \<Rightarrow> Inr (n, va) | _ \<Rightarrow> Inl Bad_argument)"
| "UNITY_EXTRACT_ARG as_int UNITY_LENGTH_MODIFIER_NONE va =
     rbind (va_int va) (\<lambda>(n, va). Inr (if as_int then scast n else ucast n, va))"

section \<open>Printing\<close>

text \<open>The length modifier at \<open>p\<close>, and how many characters it takes.\<close>

definition UnityLengthModifierGet :: "string \<Rightarrow> nat \<Rightarrow> (UnityLengthModifier \<times> nat) res" where
  "UnityLengthModifierGet pch p =
     rbind (char_at pch p) (\<lambda>c.
     if c = CHR ''l'' then
       rbind (char_at pch (p + 1)) (\<lambda>d.
       Inr (if d = CHR ''l'' then (UNITY_LENGTH_MODIFIER_LONG_LONG, 2) else (UNITY_LENGTH_MODIFIER_LONG, 1)))
     else if c = CHR ''h'' then
       rbind (char_at pch (p + 1)) (\<lambda>d.
       Inr (UNITY_LENGTH_MODIFIER_NONE, if d = CHR ''h'' then 2 else 1))
     else if c \<in> {CHR ''j'', CHR ''z'', CHR ''t'', CHR ''L''} then Inr (UNITY_LENGTH_MODIFIER_NONE, 1)
     else Inr (UNITY_LENGTH_MODIFIER_NONE, 0))"

text \<open>The \<^verbatim>\<open>switch\<close> on the conversion character: what is printed, and the arguments left.\<close>

definition print_conversion ::
  "bool \<Rightarrow> UnityLengthModifier \<Rightarrow> char \<Rightarrow> va_arg list \<Rightarrow> (string \<times> va_arg list) res" where
  "print_conversion dbl length_mod c va =
     (if c = CHR ''d'' \<or> c = CHR ''i'' then
        rbind (UNITY_EXTRACT_ARG True length_mod va) (\<lambda>(number, va). Inr (UnityPrintNumber number, va))
      else if c = CHR ''f'' \<or> c = CHR ''g'' then
        rbind (va_double va) (\<lambda>(number, va).
        rbind (UnityPrintFloat dbl (from_double dbl number)) (\<lambda>out. Inr (out, va)))
      else if c = CHR ''u'' then
        rbind (UNITY_EXTRACT_ARG False length_mod va) (\<lambda>(number, va). Inr (UnityPrintNumberUnsigned number, va))
      else if c = CHR ''b'' then
        rbind (UNITY_EXTRACT_ARG False length_mod va) (\<lambda>(number, va).
        let msk = 0 - 1 in Inr (''0b'' @ UnityPrintMask msk number, va))
      else if c = CHR ''x'' \<or> c = CHR ''X'' then
        rbind (UNITY_EXTRACT_ARG False length_mod va) (\<lambda>(number, va).
        Inr (''0x'' @ UnityPrintNumberHex number 8, va))
      else if c = CHR ''p'' then
        rbind (va_int va) (\<lambda>(number, va). Inr (''0x'' @ UnityPrintNumberHex (ucast number) 8, va))
      else if c = CHR ''c'' then
        rbind (va_int va) (\<lambda>(ch, va). Inr (UnityPrintChar (char_of (unat ch)), va))
      else if c = CHR ''s'' then
        rbind (va_string va) (\<lambda>(s, va). Inr (UnityPrint s, va))
      else if c = CHR ''%'' then Inr (UnityPrintChar c, va)
      else Inr (''%'' @ UnityPrintChar c, va))"

text \<open>The loop of \<^verbatim>\<open>UnityPrintFVA\<close> from index \<open>p\<close>.\<close>

function print_format :: "bool \<Rightarrow> string \<Rightarrow> nat \<Rightarrow> va_arg list \<Rightarrow> string res" where
  "print_format dbl pch p va =
     rbind (char_at pch p) (\<lambda>c.
     if c = CHR 0x00 then Inr []
     else if c = CHR ''%'' then
       rbind (UnityLengthModifierGet pch (p + 1)) (\<lambda>(length_mod, length_mod_size).
       rbind (char_at pch (p + 1 + length_mod_size)) (\<lambda>d.
       rbind (print_conversion dbl length_mod d va) (\<lambda>(out, va).
       rbind (print_format dbl pch (p + 1 + length_mod_size + 1) va) (\<lambda>rest. Inr (out @ rest)))))
     else rbind (print_format dbl pch (p + 1) va) (\<lambda>rest.
       Inr ((if c = CHR 0x0A then [CHR 0x0A] else UnityPrintChar c) @ rest)))"
  by auto
termination
  by (relation "measure (\<lambda>(dbl, pch, p, va). length pch - p)") (auto dest!: char_at_content)

declare print_format.simps [simp del]

fun UnityPrintFVA :: "bool \<Rightarrow> c_string \<Rightarrow> va_arg list \<Rightarrow> string res" where
  "UnityPrintFVA dbl None va = Inr []"
| "UnityPrintFVA dbl (Some format) va = print_format dbl format 0 va"

definition UnityPrintF ::
  "bool \<Rightarrow> UNITY_LINE_TYPE \<Rightarrow> c_string \<Rightarrow> va_arg list \<Rightarrow> 'a unity_scheme \<Rightarrow> 'a unity_scheme res" where
  "UnityPrintF dbl line format va u =
     (let u = UnityTestResultsBegin (TestFile (Unity u)) line u;
          u = emit (UnityPrint (Some ''INFO'')) u in
      if format \<noteq> None then
        rbind (UnityPrintFVA dbl format va) (\<lambda>out.
        Inr (UNITY_PRINT_EOL (emit out (emit (UnityPrint (Some '': '')) u))))
      else Inr (UNITY_PRINT_EOL u))"

section \<open>The type of a format\<close>

datatype piece = Plain char | Conversion UnityLengthModifier char

datatype arg_type = T_int | T_long | T_long_long | T_double | T_string

fun type_of :: "va_arg \<Rightarrow> arg_type" where
  "type_of (Va_int n) = T_int"
| "type_of (Va_long n) = T_long"
| "type_of (Va_long_long n) = T_long_long"
| "type_of (Va_double w) = T_double"
| "type_of (Va_string s) = T_string"

fun number_type :: "UnityLengthModifier \<Rightarrow> arg_type" where
  "number_type UNITY_LENGTH_MODIFIER_NONE = T_int"
| "number_type UNITY_LENGTH_MODIFIER_LONG = T_long"
| "number_type UNITY_LENGTH_MODIFIER_LONG_LONG = T_long_long"

fun wants :: "piece \<Rightarrow> arg_type list" where
  "wants (Plain c) = []"
| "wants (Conversion m c) =
     (if c \<in> set ''diubxX'' then
        [number_type m]
      else if c \<in> set ''pc'' then [T_int]
      else if c \<in> set ''fg'' then [T_double]
      else if c = CHR ''s'' then [T_string]
      else [])"

text \<open>A format as the pieces it consists of; \<open>None\<close> if it ends inside a conversion.\<close>

fun modifier :: "string \<Rightarrow> UnityLengthModifier \<times> string" where
  "modifier (c # d # cs) =
     (if c = CHR ''l'' then
        (if d = CHR ''l'' then (UNITY_LENGTH_MODIFIER_LONG_LONG, cs) else (UNITY_LENGTH_MODIFIER_LONG, d # cs))
      else if c = CHR ''h'' then (UNITY_LENGTH_MODIFIER_NONE, if d = CHR ''h'' then cs else d # cs)
      else if c \<in> set ''jztL'' then (UNITY_LENGTH_MODIFIER_NONE, d # cs)
      else (UNITY_LENGTH_MODIFIER_NONE, c # d # cs))"
| "modifier [c] =
     (if c = CHR ''l'' then (UNITY_LENGTH_MODIFIER_LONG, [])
      else if c \<in> set ''hjztL'' then (UNITY_LENGTH_MODIFIER_NONE, [])
      else (UNITY_LENGTH_MODIFIER_NONE, [c]))"
| "modifier [] = (UNITY_LENGTH_MODIFIER_NONE, [])"

lemma modifier_shorter: "(m, ds) = modifier cs \<Longrightarrow> length ds \<le> length cs"
  by (cases cs rule: modifier.cases) (auto split: if_splits)

function parse_format :: "string \<Rightarrow> piece list option" where
  "parse_format [] = Some []"
| "parse_format (c # cs) =
     (if c = CHR ''%'' then
        (case modifier cs of
           (m, []) \<Rightarrow> None
         | (m, d # ds) \<Rightarrow> map_option ((#) (Conversion m d)) (parse_format ds))
      else map_option ((#) (Plain c)) (parse_format cs))"
  by pat_completeness auto
termination
  by (relation "measure length") (auto dest!: modifier_shorter)

definition well_typed :: "string \<Rightarrow> va_arg list \<Rightarrow> bool" where
  "well_typed format va \<longleftrightarrow>
     (case parse_format format of None \<Rightarrow> False
      | Some ps \<Rightarrow> (\<exists>rest. map type_of va = concat (map wants ps) @ rest))"

text \<open>Reading the first argument as a type.\<close>

definition reads :: "arg_type \<Rightarrow> va_arg list \<Rightarrow> ('x \<times> va_arg list) res \<Rightarrow> bool" where
  "reads T va r \<longleftrightarrow>
     (\<exists>x va'. r = Inr (x, va') \<and> map type_of va = T # map type_of va') \<or>
     (\<exists>e. r = Inl e) \<and> (\<nexists>rest. map type_of va = T # rest)"

lemma reads_int: "reads T_int va (va_int va)"
  by (cases va rule: va_int.cases) (auto simp: reads_def)

lemma reads_string: "reads T_string va (va_string va)"
  by (cases va rule: va_string.cases) (auto simp: reads_def)

lemma reads_double: "reads T_double va (va_double va)"
  by (cases va rule: va_double.cases) (auto simp: reads_def)

lemma va_double_prints:
  assumes "va_double va = Inr (x, va')"
  obtains out where "UnityPrintFloat dbl (from_double dbl x) = Inr out"
proof -
  obtain w :: "64 word" where "x = fp_of_bits double (unat w)"
  proof (cases va rule: va_double.cases)
    case (1 w va)
    with assms show ?thesis by (intro that [of w]) simp
  qed (use assms in auto)
  then have "fp_ok (UNITY_DOUBLE dbl) (from_double dbl x)"
    by (cases dbl) (simp_all add: from_double_def UNITY_DOUBLE_def fp_ok_convert fp_of_bits_ok)
  then show ?thesis using UnityPrintFloat_ends that by blast
qed

lemma reads_float:
  "reads T_double va (rbind (va_double va) (\<lambda>(number, va).
     rbind (UnityPrintFloat dbl (from_double dbl number)) (\<lambda>out. Inr (out, va))))"
proof (cases "va_double va")
  case (Inr r)
  obtain x va' where r: "r = (x, va')" by (cases r)
  with Inr obtain out where "UnityPrintFloat dbl (from_double dbl x) = Inr out"
    using va_double_prints [of va x va'] by blast
  with Inr r show ?thesis using reads_double [of va] by (auto simp: reads_def)
qed (use reads_double [of va] in \<open>auto simp: reads_def\<close>)

lemma reads_bind: "reads T va r \<Longrightarrow> reads T va (rbind r (\<lambda>(x, va). Inr (f x, va)))"
  by (cases r) (auto simp: reads_def)

lemma reads_number: "reads (number_type m) va (UNITY_EXTRACT_ARG b m va)"
proof (cases m)
  case UNITY_LENGTH_MODIFIER_NONE
  then show ?thesis by (auto intro!: reads_bind reads_int)
qed (auto simp: reads_def split: list.split va_arg.split)

lemma conversion_reads:
  "d \<in> set ''diubxX'' \<Longrightarrow> reads (number_type m) va (print_conversion dbl m d va)"
  "d \<in> set ''pc'' \<Longrightarrow> reads T_int va (print_conversion dbl m d va)"
  "d \<in> set ''fg'' \<Longrightarrow> reads T_double va (print_conversion dbl m d va)"
  "d = CHR ''s'' \<Longrightarrow> reads T_string va (print_conversion dbl m d va)"
  "d \<notin> set ''diubxXpcsfg'' \<Longrightarrow> \<exists>out. print_conversion dbl m d va = Inr (out, va)"
  unfolding print_conversion_def Let_def
  by (auto intro!: reads_bind reads_number reads_int reads_string reads_float)

lemma conversion_cases:
  "(\<exists>out va'. print_conversion dbl m d va = Inr (out, va') \<and>
      map type_of va = wants (Conversion m d) @ map type_of va') \<or>
   (\<exists>e. print_conversion dbl m d va = Inl e) \<and>
      (\<nexists>rest. map type_of va = wants (Conversion m d) @ rest)"
proof -
  consider (number) "d \<in> set ''diubxX''" | (int) "d \<in> set ''pc''" "d \<notin> set ''diubxX''"
    | (float) "d \<in> set ''fg''" "d \<notin> set ''diubxX''" "d \<notin> set ''pc''"
    | (str) "d = CHR ''s''" "d \<notin> set ''diubxX''" "d \<notin> set ''pc''" "d \<notin> set ''fg''"
    | (none) "d \<notin> set ''diubxXpcsfg''" by auto
  then show ?thesis
  proof cases
    case number
    with conversion_reads(1) [OF number, of m va dbl] show ?thesis by (simp only: wants.simps if_True append.simps reads_def)
  next
    case int
    with conversion_reads(2) [OF int(1), of va dbl m] show ?thesis
      by (simp only: wants.simps if_True if_False append.simps reads_def)
  next
    case float
    with conversion_reads(3) [OF float(1), of va dbl m] show ?thesis
      by (simp only: wants.simps if_True if_False append.simps reads_def)
  next
    case str
    with conversion_reads(4) [OF str(1), of va dbl m] show ?thesis
      by (simp only: wants.simps if_True if_False append.simps reads_def simp_thms)
  next
    case none
    with conversion_reads(5) [OF none, of dbl m va] show ?thesis by auto
  qed
qed

text \<open>The walk by index follows the pieces.\<close>

lemma modifier_at:
  assumes "drop p s = cs" and "p \<le> length s" and "CHR 0x00 \<notin> set s"
  shows "UnityLengthModifierGet s p = Inr (fst (modifier cs), length cs - length (snd (modifier cs)))"
    and "drop (p + (length cs - length (snd (modifier cs)))) s = snd (modifier cs)"
    and "p + (length cs - length (snd (modifier cs))) \<le> length s"
proof -
  have len: "length cs = length s - p" using assms(1) by auto
  note at = char_at_drop [of p s] char_at_drop [of "Suc p" s]
  show "UnityLengthModifierGet s p = Inr (fst (modifier cs), length cs - length (snd (modifier cs)))"
  proof (cases cs rule: modifier.cases)
    case (1 c d ds)
    with drop_next [of p s c] assms(1) have "drop (Suc p) s = d # ds" "Suc p \<le> length s" by auto
    with 1 assms(1,2) at show ?thesis by (auto simp: UnityLengthModifierGet_def)
  next
    case (2 c)
    with drop_next [of p s c] assms(1) have "drop (Suc p) s = []" "Suc p \<le> length s" by auto
    with 2 assms(1,2) at show ?thesis by (auto simp: UnityLengthModifierGet_def)
  qed (use assms(1,2) at in \<open>simp add: UnityLengthModifierGet_def\<close>)
  have "snd (modifier cs) = drop (length cs - length (snd (modifier cs))) cs"
    by (cases cs rule: modifier.cases) (auto simp: Suc_diff_le)
  then show "drop (p + (length cs - length (snd (modifier cs)))) s = snd (modifier cs)"
    unfolding assms(1) [symmetric] by (simp add: add.commute)
  show "p + (length cs - length (snd (modifier cs))) \<le> length s"
    using len assms(2) by linarith
qed

lemma behind_end: "length s < p \<Longrightarrow> print_format dbl s p va = Inl Out_of_bounds"
  by (subst print_format.simps) (simp add: char_at_def)

lemma print_format_typed:
  assumes "CHR 0x00 \<notin> set s"
  shows "drop p s = cs \<Longrightarrow> p \<le> length s \<Longrightarrow> (\<exists>out. print_format dbl s p va = Inr out) \<longleftrightarrow> well_typed cs va"
proof (induction cs arbitrary: p va rule: parse_format.induct)
  case 1
  then have "print_format dbl s p va = Inr []" by (subst print_format.simps) (simp add: char_at_drop)
  then show ?case by (simp add: well_typed_def)
next
  case (2 c cs)
  have next_p: "drop (Suc p) s = cs" "Suc p \<le> length s" using drop_next [OF 2(3)] by auto
  have c: "char_at s p = Inr c" using 2(3,4) by (simp add: char_at_drop)
  have "c \<in> set s" using 2(3) by (metis in_set_dropD list.set_intros(1))
  with assms have c0: "c \<noteq> CHR 0x00" by auto
  show ?case
  proof (cases "c = CHR ''%''")
    case False
    have "(\<exists>out. print_format dbl s p va = Inr out) \<longleftrightarrow> (\<exists>out. print_format dbl s (Suc p) va = Inr out)"
      using c c0 False by (subst print_format.simps) (auto simp: rbind_eq_Inr)
    also have "\<dots> \<longleftrightarrow> well_typed cs va" using 2(2) [OF False next_p] .
    also have "\<dots> \<longleftrightarrow> well_typed (c # cs) va"
      using False by (simp add: well_typed_def split: option.split)
    finally show ?thesis .
  next
    case True
    obtain m ds where m: "modifier cs = (m, ds)" by (cases "modifier cs")
    let ?q = "Suc p + (length cs - length ds)"
    have q: "UnityLengthModifierGet s (Suc p) = Inr (m, length cs - length ds)" "drop ?q s = ds" "?q \<le> length s"
      using modifier_at [OF next_p assms] m by simp_all
    have step: "print_format dbl s p va = rbind (print_conversion dbl m (case ds of [] \<Rightarrow> CHR 0x00 | d # _ \<Rightarrow> d) va)
        (\<lambda>(out, va). rbind (print_format dbl s (Suc ?q) va) (\<lambda>rest. Inr (out @ rest)))"
      using c c0 True q by (subst print_format.simps) (simp add: char_at_drop)
    show ?thesis
    proof (cases ds)
      case Nil
      then have "?q = length s" using q(2,3) by simp
      then have "print_format dbl s (Suc ?q) va' = Inl Out_of_bounds" for va' by (simp add: behind_end)
      then have "\<nexists>out. print_format dbl s p va = Inr out"
        unfolding step by (auto simp: rbind_eq_Inr)
      moreover have "\<not> well_typed (c # cs) va" using True m Nil by (simp add: well_typed_def)
      ultimately show ?thesis by blast
    next
      case (Cons d es)
      have next_q: "drop (Suc ?q) s = es" "Suc ?q \<le> length s"
        using drop_next [of ?q s d es] q(2) Cons by auto
      have IH: "(\<exists>out. print_format dbl s (Suc ?q) va' = Inr out) \<longleftrightarrow> well_typed es va'" for va'
        using 2(1) [OF True _ _ next_q] m Cons by metis
      from conversion_cases [of dbl m d va] show ?thesis
      proof (elim disjE exE conjE)
        fix out va'
        assume conv: "print_conversion dbl m d va = Inr (out, va')"
          "map type_of va = wants (Conversion m d) @ map type_of va'"
        have "(\<exists>out. print_format dbl s p va = Inr out) \<longleftrightarrow> well_typed es va'"
          using conv(1) IH [of va'] unfolding step Cons by (auto simp: rbind_eq_Inr)
        also have "\<dots> \<longleftrightarrow> well_typed (c # cs) va"
          using True m Cons conv(2) by (simp add: well_typed_def del: wants.simps split: option.split)
        finally show ?thesis .
      next
        fix e
        assume conv: "print_conversion dbl m d va = Inl e"
          "\<nexists>rest. map type_of va = wants (Conversion m d) @ rest"
        then have "\<nexists>out. print_format dbl s p va = Inr out" unfolding step Cons by simp
        moreover have "\<not> well_typed (c # cs) va"
          using True m Cons conv(2) by (auto simp: well_typed_def simp del: wants.simps split: option.split)
        ultimately show ?thesis by blast
      qed
    qed
  qed
qed

text \<open>
  C32: a format's type: a call of \<^verbatim>\<open>UnityPrintF\<close> reads nothing behind the format and no argument
  that is missing or of another type exactly if the format does not end inside a conversion and the
  arguments start with those its conversions ask for, in their order.
\<close>
theorem UnityPrintF_typed:
  assumes "CHR 0x00 \<notin> set format"
  shows "(\<exists>v. UnityPrintF dbl line (Some format) va u = Inr v) \<longleftrightarrow> well_typed format va"
  using print_format_typed [OF assms, of 0 format dbl va] by (auto simp: UnityPrintF_def Let_def rbind_eq_Inr)

theorem UnityPrintF_typed_witness:
  "(\<exists>v. UnityPrintF False 7 (Some ''%lu bytes in %s'') [Va_long 4096, Va_string (Some ''pool'')]
      \<lparr>Unity = Unity_zero, printed = []\<rparr> = Inr v) \<and>
   \<not> (\<exists>v. UnityPrintF False 7 (Some ''100%'') [] \<lparr>Unity = Unity_zero, printed = []\<rparr> = Inr v)"
  using UnityPrintF_typed [of "''%lu bytes in %s''" False 7 "[Va_long 4096, Va_string (Some ''pool'')]"
      "\<lparr>Unity = Unity_zero, printed = []\<rparr>"]
    UnityPrintF_typed [of "''100%''" False 7 "[]" "\<lparr>Unity = Unity_zero, printed = []\<rparr>"]
  by (simp add: well_typed_def)

text \<open>The macro of \<^verbatim>\<open>unity.h\<close>.\<close>

definition TEST_PRINTF where "TEST_PRINTF dbl message va line = UnityPrintF dbl line message va"

end
