(* ===== verification/Unity_Float_Assert.thy ===== *)
theory Unity_Float_Assert
  imports Unity_Float_Print
begin

text \<open>
  Unity's assertions on \<^verbatim>\<open>float\<close> and \<^verbatim>\<open>double\<close> (\<^verbatim>\<open>unity/src/unity.c\<close>). The functions for the two
  types have the same text but for the type and the precision, so each pair shares a definition over
  the format \<open>f\<close> (\<open>prec\<close> is the relative precision); the functions on \<^verbatim>\<open>double\<close> exist only with
  \<^verbatim>\<open>UNITY_INCLUDE_DOUBLE\<close>. Arrays are read from the byte memory of \<open>Unity_Arrays\<close>.
\<close>

section \<open>Numbers within a distance\<close>

definition UNITY_NAN_CHECK :: "fp \<Rightarrow> fp \<Rightarrow> bool" where
  "UNITY_NAN_CHECK expected actual \<longleftrightarrow> fp_isnan expected \<and> fp_isnan actual"

definition UNITY_FLOAT_OR_DOUBLE_WITHIN :: "float_format \<Rightarrow> fp \<Rightarrow> fp \<Rightarrow> fp \<Rightarrow> bool" where
  "UNITY_FLOAT_OR_DOUBLE_WITHIN f delta expected actual =
     (if fp_isinf expected \<and> fp_isinf actual \<and> flt expected fzero = flt actual fzero then True
      else if UNITY_NAN_CHECK expected actual then True
      else (let diff = fsub f actual expected;
                diff = (if flt diff fzero then fneg diff else diff);
                delta = (if flt delta fzero then fneg delta else delta)
            in \<not> (fp_isnan diff \<or> fp_isinf diff \<or> flt delta diff)))"

definition UnityFloatsWithin :: "fp \<Rightarrow> fp \<Rightarrow> fp \<Rightarrow> bool" where
  "UnityFloatsWithin delta expected actual = UNITY_FLOAT_OR_DOUBLE_WITHIN single delta expected actual"

definition UnityDoublesWithin :: "fp \<Rightarrow> fp \<Rightarrow> fp \<Rightarrow> bool" where
  "UnityDoublesWithin delta expected actual = UNITY_FLOAT_OR_DOUBLE_WITHIN double delta expected actual"

section \<open>Reports\<close>

definition UNITY_PRINT_EXPECTED_AND_ACTUAL_FLOAT ::
  "bool \<Rightarrow> fp \<Rightarrow> fp \<Rightarrow> 'a unity_scheme \<Rightarrow> 'a unity_scheme res" where
  "UNITY_PRINT_EXPECTED_AND_ACTUAL_FLOAT dbl expected actual u =
     rbind (UnityPrintFloat dbl expected) (\<lambda>e.
     rbind (UnityPrintFloat dbl actual) (\<lambda>a.
     Inr (emit (UnityPrint UnityStrExpected @ e @ UnityPrint UnityStrWas @ a) u)))"

text \<open>The end of every failing assertion.\<close>

definition fail_with :: "c_string \<Rightarrow> 'a unity_scheme res \<Rightarrow> 'a unity_scheme outcome res" where
  "fail_with msg r = rbind r (\<lambda>u. Inr (UNITY_FAIL_AND_BAIL (UnityAddMsgIfSpecified msg u)))"

section \<open>Assertions on two numbers\<close>

definition assert_within ::
  "float_format \<Rightarrow> bool \<Rightarrow> fp \<Rightarrow> fp \<Rightarrow> fp \<Rightarrow> c_string \<Rightarrow> UNITY_LINE_TYPE \<Rightarrow> 'a unity_scheme \<Rightarrow>
   'a unity_scheme outcome res" where
  "assert_within f dbl delta expected actual msg lineNumber u =
     (if fail_or_ignore u then Inr (Jumps u)
      else if \<not> UNITY_FLOAT_OR_DOUBLE_WITHIN f delta expected actual then
        fail_with msg
          (UNITY_PRINT_EXPECTED_AND_ACTUAL_FLOAT dbl (to_UNITY_DOUBLE dbl f expected)
             (to_UNITY_DOUBLE dbl f actual) (UnityTestResultsFailBegin lineNumber u))
      else Inr (Returns u))"

definition assert_not_within ::
  "float_format \<Rightarrow> bool \<Rightarrow> fp \<Rightarrow> fp \<Rightarrow> fp \<Rightarrow> c_string \<Rightarrow> UNITY_LINE_TYPE \<Rightarrow> 'a unity_scheme \<Rightarrow>
   'a unity_scheme outcome res" where
  "assert_not_within f dbl delta expected actual msg lineNumber u =
     (if fail_or_ignore u then Inr (Jumps u)
      else if UNITY_FLOAT_OR_DOUBLE_WITHIN f delta expected actual then
        fail_with msg
          (rbind (UnityPrintFloat dbl (to_UNITY_DOUBLE dbl f expected)) (\<lambda>e.
           rbind (UnityPrintFloat dbl (to_UNITY_DOUBLE dbl f actual)) (\<lambda>a.
           Inr (emit (UnityPrint UnityStrExpected @ e @ UnityPrint UnityStrNotEqual @ a)
             (UnityTestResultsFailBegin lineNumber u)))))
      else Inr (Returns u))"

definition assert_greater_or_less ::
  "float_format \<Rightarrow> fp \<Rightarrow> bool \<Rightarrow> fp \<Rightarrow> fp \<Rightarrow> UNITY_COMPARISON_T \<Rightarrow> c_string \<Rightarrow> UNITY_LINE_TYPE \<Rightarrow>
   'a unity_scheme \<Rightarrow> 'a unity_scheme outcome res" where
  "assert_greater_or_less f prec dbl threshold actual compare msg lineNumber u =
     (if fail_or_ignore u then Inr (Jumps u)
      else
        (let failed = False;
             failed = (if \<not> flt actual threshold \<and> compare_has compare UNITY_SMALLER_THAN then True else failed);
             failed = (if \<not> flt threshold actual \<and> compare_has compare UNITY_GREATER_THAN then True else failed);
             failed = (if compare_has compare UNITY_EQUAL_TO \<and>
                          UNITY_FLOAT_OR_DOUBLE_WITHIN f (fmul f threshold prec) threshold actual
                       then False else failed)
         in if failed then
              fail_with msg
                (rbind (UnityPrintFloat dbl (to_UNITY_DOUBLE dbl f actual)) (\<lambda>a.
                 rbind (UnityPrintFloat dbl (to_UNITY_DOUBLE dbl f threshold)) (\<lambda>t.
                 let u = UnityTestResultsFailBegin lineNumber u;
                     u = emit (UnityPrint UnityStrExpected @ a) u;
                     u = (if compare_has compare UNITY_GREATER_THAN then emit (UnityPrint UnityStrGt) u else u);
                     u = (if compare_has compare UNITY_SMALLER_THAN then emit (UnityPrint UnityStrLt) u else u);
                     u = (if compare_has compare UNITY_EQUAL_TO then emit (UnityPrint UnityStrOrEqual) u else u)
                 in Inr (emit t u))))
            else Inr (Returns u)))"

section \<open>Special values\<close>

definition trait_holds :: "fp \<Rightarrow> UNITY_FLOAT_TRAIT_T \<Rightarrow> bool option" where
  "trait_holds actual style =
     (if style \<in> {UNITY_FLOAT_IS_INF, UNITY_FLOAT_IS_NOT_INF} then
        Some (fp_isinf actual \<and> flt fzero actual)
      else if style \<in> {UNITY_FLOAT_IS_NEG_INF, UNITY_FLOAT_IS_NOT_NEG_INF} then
        Some (fp_isinf actual \<and> flt actual fzero)
      else if style \<in> {UNITY_FLOAT_IS_NAN, UNITY_FLOAT_IS_NOT_NAN} then Some (fp_isnan actual)
      else if style \<in> {UNITY_FLOAT_IS_DET, UNITY_FLOAT_IS_NOT_DET} then
        Some (\<not> fp_isinf actual \<and> \<not> fp_isnan actual)
      else None)"

definition assert_special ::
  "float_format \<Rightarrow> bool \<Rightarrow> fp \<Rightarrow> c_string \<Rightarrow> UNITY_LINE_TYPE \<Rightarrow> UNITY_FLOAT_TRAIT_T \<Rightarrow> 'a unity_scheme \<Rightarrow>
   'a unity_scheme outcome res" where
  "assert_special f dbl actual msg lineNumber style u =
     (let trait_names = [UnityStrInf, UnityStrNegInf, UnityStrNaN, UnityStrDet];
          should_be_trait = odd (trait_value style);
          (is_trait, trait_names, trait_index) =
            (case trait_holds actual style of
               Some b \<Rightarrow> (b, trait_names, trait_value style div 2)
             | None \<Rightarrow> (\<not> should_be_trait, trait_names[0 := UnityStrInvalidFloatTrait], 0))
      in if fail_or_ignore u then Inr (Jumps u)
         else if is_trait \<noteq> should_be_trait then
           fail_with msg
             (rbind (UnityPrintFloat dbl (to_UNITY_DOUBLE dbl f actual)) (\<lambda>a.
              let u = UnityTestResultsFailBegin lineNumber u;
                  u = emit (UnityPrint UnityStrExpected) u;
                  u = (if \<not> should_be_trait then emit (UnityPrint UnityStrNot) u else u)
              in Inr (emit (UnityPrint (trait_names ! trait_index) @ UnityPrint UnityStrWas @ a) u)))
         else Inr (Returns u))"

section \<open>Arrays\<close>

definition load_float :: "c_mem \<Rightarrow> float_format \<Rightarrow> addr \<Rightarrow> fp res" where
  "load_float mem f p =
     rbind (load_unsigned mem p ((precision f + exp_bits f) div 8)) (\<lambda>w. Inr (fp_of_bits f (unat w)))"

definition sizeof_float :: "float_format \<Rightarrow> nat" where
  "sizeof_float f = (precision f + exp_bits f) div 8"

fun float_array_loop ::
  "float_format \<Rightarrow> fp \<Rightarrow> bool \<Rightarrow> c_mem \<Rightarrow> fp \<Rightarrow> UNITY_UINT32 \<Rightarrow> c_string \<Rightarrow> UNITY_LINE_TYPE \<Rightarrow>
   UNITY_FLAGS_T \<Rightarrow> nat \<Rightarrow> addr \<Rightarrow> addr \<Rightarrow> 'a unity_scheme \<Rightarrow> 'a unity_scheme outcome res" where
  "float_array_loop f prec dbl mem in_delta num_elements msg lineNumber flags 0 ptr_expected ptr_actual u =
     Inr (Returns u)"
| "float_array_loop f prec dbl mem in_delta num_elements msg lineNumber flags (Suc elements)
       ptr_expected ptr_actual u =
     rbind (load_float mem f ptr_expected) (\<lambda>expected.
     let current_element_delta = fmul f expected prec;
         current_element_delta = (if flt current_element_delta fzero then fneg current_element_delta
                                  else current_element_delta)
     in rbind (load_float mem f ptr_actual) (\<lambda>actual.
        if \<not> UNITY_FLOAT_OR_DOUBLE_WITHIN f (fadd f in_delta current_element_delta) expected actual then
          fail_with msg
            (UNITY_PRINT_EXPECTED_AND_ACTUAL_FLOAT dbl (to_UNITY_DOUBLE dbl f expected)
               (to_UNITY_DOUBLE dbl f actual)
               (emit (UnityPrint UnityStrElement @
                      UnityPrintNumberUnsigned (ucast (num_elements - of_nat elements - 1)))
                 (UnityTestResultsFailBegin lineNumber u)))
        else float_array_loop f prec dbl mem in_delta num_elements msg lineNumber flags elements
               (step_ptr flags ptr_expected (sizeof_float f)) (ptr_actual + of_nat (sizeof_float f)) u))"

definition assert_within_array ::
  "float_format \<Rightarrow> fp \<Rightarrow> bool \<Rightarrow> c_mem \<Rightarrow> fp \<Rightarrow> addr \<Rightarrow> addr \<Rightarrow> UNITY_UINT32 \<Rightarrow> c_string \<Rightarrow>
   UNITY_LINE_TYPE \<Rightarrow> UNITY_FLAGS_T \<Rightarrow> 'a unity_scheme \<Rightarrow> 'a unity_scheme outcome res" where
  "assert_within_array f prec dbl mem delta expected actual num_elements msg lineNumber flags u =
     (if fail_or_ignore u then Inr (Jumps u)
      else if num_elements = 0 then Inr (UnityPrintPointlessAndBail lineNumber msg u)
      else if fp_isinf delta then Inr (Returns u)
      else if fp_isnan delta then Inr (UnityPrintPointlessAndBail lineNumber msg u)
      else if expected = actual then Inr (Returns u)
      else case UnityIsOneArrayNull expected actual lineNumber msg u of
             (True, u) \<Rightarrow> Inr (UNITY_FAIL_AND_BAIL u)
           | (False, u) \<Rightarrow>
               (let in_delta = (if flt delta fzero then fneg delta else delta)
                in float_array_loop f prec dbl mem in_delta num_elements msg lineNumber flags
                     (unat num_elements) expected actual u))"

section \<open>The functions of the interface\<close>

definition UnityAssertWithinFloatArray where
  "UnityAssertWithinFloatArray dbl mem delta expected actual num_elements msg lineNumber flags =
     assert_within_array single UNITY_FLOAT_PRECISION dbl mem delta expected actual num_elements msg
       lineNumber flags"

definition UnityAssertFloatsWithin where
  "UnityAssertFloatsWithin dbl = assert_within single dbl"

definition UnityAssertFloatsNotWithin where
  "UnityAssertFloatsNotWithin dbl = assert_not_within single dbl"

definition UnityAssertGreaterOrLessFloat where
  "UnityAssertGreaterOrLessFloat dbl = assert_greater_or_less single UNITY_FLOAT_PRECISION dbl"

definition UnityAssertFloatSpecial where
  "UnityAssertFloatSpecial dbl = assert_special single dbl"

definition UnityAssertWithinDoubleArray where
  "UnityAssertWithinDoubleArray mem delta expected actual num_elements msg lineNumber flags =
     assert_within_array double UNITY_DOUBLE_PRECISION True mem delta expected actual num_elements msg
       lineNumber flags"

definition UnityAssertDoublesWithin where
  "UnityAssertDoublesWithin = assert_within double True"

definition UnityAssertDoublesNotWithin where
  "UnityAssertDoublesNotWithin = assert_not_within double True"

definition UnityAssertGreaterOrLessDouble where
  "UnityAssertGreaterOrLessDouble = assert_greater_or_less double UNITY_DOUBLE_PRECISION True"

definition UnityAssertDoubleSpecial where
  "UnityAssertDoubleSpecial = assert_special double True"

definition UnityFloatToPtr :: "addr \<Rightarrow> fp \<Rightarrow> c_mem \<Rightarrow> addr \<times> c_mem" where
  "UnityFloatToPtr quick num mem = (quick, store_bytes mem quick 4 (of_nat (bits_of_fp single num)))"

definition UnityDoubleToPtr :: "addr \<Rightarrow> fp \<Rightarrow> c_mem \<Rightarrow> addr \<times> c_mem" where
  "UnityDoubleToPtr quick num mem = (quick, store_bytes mem quick 8 (of_nat (bits_of_fp double num)))"

section \<open>What the assertions accept\<close>

lemma signed_units_neg [simp]: "signed_units (\<not> s) k = - signed_units s k"
  by (simp add: signed_units_def)

text \<open>On finite numbers the test is the comparison of the rounded distance with the delta.\<close>

definition distance :: "bool \<Rightarrow> nat \<Rightarrow> bool \<Rightarrow> nat \<Rightarrow> nat" where
  "distance s k t l = nat \<bar>signed_units s k - signed_units t l\<bar>"

definition rounded_distance :: "float_format \<Rightarrow> bool \<Rightarrow> nat \<Rightarrow> bool \<Rightarrow> nat \<Rightarrow> nat" where
  "rounded_distance f s k t l = round_units (precision f) (distance s k t l) 1"

lemma fsub_finite:
  "fsub f (Finite s k) (Finite t l) =
     (if distance s k t l = 0 then Finite (s \<and> \<not> t) 0
      else rounded f (signed_units s k < signed_units t l) (distance s k t l) 1)"
  by (simp add: fsub_def distance_def Let_def)

lemma diff_cases:
  assumes "0 < precision f"
  shows "\<exists>s'. fsub f (Finite s k) (Finite t l) =
    (if rounded_distance f s k t l < 2 ^ top_exp f then Finite s' (rounded_distance f s k t l) else Infinite s')"
proof (cases "distance s k t l = 0")
  case True
  then have "rounded_distance f s k t l = 0"
    using representable_small [of 0 "precision f"] assms by (simp add: rounded_distance_def)
  with True show ?thesis by (auto simp: fsub_finite)
next
  case False
  then show ?thesis by (auto simp: fsub_finite rounded_def Let_def rounded_distance_def)
qed

lemma within_finite:
  assumes "0 < precision f" and "d < 2 ^ top_exp f"
  shows "UNITY_FLOAT_OR_DOUBLE_WITHIN f (Finite sd d) (Finite se e) (Finite sa a) \<longleftrightarrow>
    rounded_distance f sa a se e \<le> d"
proof -
  let ?r = "rounded_distance f sa a se e"
  obtain s where s: "fsub f (Finite sa a) (Finite se e) = (if ?r < 2 ^ top_exp f then Finite s ?r else Infinite s)"
    using diff_cases [OF assms(1)] by blast
  show ?thesis
  proof (cases "?r < 2 ^ top_exp f")
    case True
    with s show ?thesis
      by (cases s; cases sd) (simp_all add: UNITY_FLOAT_OR_DOUBLE_WITHIN_def UNITY_NAN_CHECK_def
          fp_isnan_def flt.simps Let_def not_less)
  next
    case False
    with s assms(2) show ?thesis
      by (cases s) (auto simp: UNITY_FLOAT_OR_DOUBLE_WITHIN_def UNITY_NAN_CHECK_def fp_isnan_def Let_def)
  qed
qed

text \<open>With another delta, only a distance that overflows is told apart from the others.\<close>

lemma within_any_delta:
  assumes "0 < precision f" and "delta = NaN \<or> fp_isinf delta"
  shows "UNITY_FLOAT_OR_DOUBLE_WITHIN f delta (Finite se e) (Finite sa a) \<longleftrightarrow>
    rounded_distance f sa a se e < 2 ^ top_exp f"
proof -
  let ?r = "rounded_distance f sa a se e"
  obtain s where s: "fsub f (Finite sa a) (Finite se e) = (if ?r < 2 ^ top_exp f then Finite s ?r else Infinite s)"
    using diff_cases [OF assms(1)] by blast
  have "\<not> flt (if flt delta fzero then fneg delta else delta) (Finite t k)" for t k
    using assms(2) by (cases delta) auto
  with s show ?thesis
    by (cases "?r < 2 ^ top_exp f"; cases s)
      (simp_all add: UNITY_FLOAT_OR_DOUBLE_WITHIN_def UNITY_NAN_CHECK_def fp_isnan_def Let_def)
qed

text \<open>A configuration in which a format's numbers can be printed.\<close>

definition printable :: "float_format \<Rightarrow> bool \<Rightarrow> bool" where
  "printable f dbl \<longleftrightarrow> f = single \<or> f = double \<and> dbl"

lemma prints:
  assumes "printable f dbl" and "fp_ok f x"
  obtains s where "UnityPrintFloat dbl (to_UNITY_DOUBLE dbl f x) = Inr s"
proof -
  have "fp_ok (UNITY_DOUBLE dbl) (to_UNITY_DOUBLE dbl f x)"
    using assms widen_ok [of x dbl]
    by (cases x) (auto simp: printable_def to_UNITY_DOUBLE_def UNITY_DOUBLE_def)
  then show ?thesis using UnityPrintFloat_ends that by blast
qed

lemma fail_with_asserts: "r = Inr v \<Longrightarrow> extends u v \<Longrightarrow> \<not> P \<Longrightarrow> asserts_res P u (fail_with msg r)"
  by (simp add: fail_with_def asserts_res_fail)

lemma assert_within_asserts:
  assumes "printable f dbl" and "fp_ok f expected" "fp_ok f actual" and "\<not> fail_or_ignore u"
  shows "asserts_res (UNITY_FLOAT_OR_DOUBLE_WITHIN f delta expected actual) u
    (assert_within f dbl delta expected actual msg line u)"
proof -
  obtain e a where "UnityPrintFloat dbl (to_UNITY_DOUBLE dbl f expected) = Inr e"
      "UnityPrintFloat dbl (to_UNITY_DOUBLE dbl f actual) = Inr a"
    using prints assms(1-3) by metis
  then show ?thesis
    using assms(4)
    by (auto simp: assert_within_def UNITY_PRINT_EXPECTED_AND_ACTUAL_FLOAT_def asserts_res_return
        intro!: fail_with_asserts)
qed

lemma assert_not_within_asserts:
  assumes "printable f dbl" and "fp_ok f expected" "fp_ok f actual" and "\<not> fail_or_ignore u"
  shows "asserts_res (\<not> UNITY_FLOAT_OR_DOUBLE_WITHIN f delta expected actual) u
    (assert_not_within f dbl delta expected actual msg line u)"
proof -
  obtain e a where "UnityPrintFloat dbl (to_UNITY_DOUBLE dbl f expected) = Inr e"
      "UnityPrintFloat dbl (to_UNITY_DOUBLE dbl f actual) = Inr a"
    using prints assms(1-3) by metis
  then show ?thesis
    using assms(4) by (auto simp: assert_not_within_def asserts_res_return intro!: fail_with_asserts)
qed

text \<open>
  C38: \<^verbatim>\<open>UnityAssertFloatsWithin\<close> on finite numbers (\<open>d\<close>, \<open>e\<close> and \<open>a\<close> are the magnitudes of the
  delta, the expected and the actual number): it returns or reports, never goes wrong; it accepts
  every actual number whose exact distance from the expected one is at most the delta, and rejects
  every one that is as far away as some \<^verbatim>\<open>float\<close> above the delta. Rounding plays a part only between.
\<close>
theorem float_within_accepts:
  assumes "\<not> fail_or_ignore u" and "fp_ok single (Finite sd d)"
    and "fp_ok single (Finite se e)" and "fp_ok single (Finite sa a)"
  shows "\<exists>accepted. asserts_res accepted u
      (UnityAssertFloatsWithin dbl (Finite sd d) (Finite se e) (Finite sa a) msg line u) \<and>
    (\<bar>signed_units sa a - signed_units se e\<bar> \<le> int d \<longrightarrow> accepted) \<and>
    (\<forall>d'. representable 24 d' \<and> d < d' \<and> int d' \<le> \<bar>signed_units sa a - signed_units se e\<bar> \<longrightarrow> \<not> accepted)"
proof (intro exI conjI impI allI)
  have d: "representable 24 d" "d < 2 ^ 277" using assms(2) by (simp_all add: fp_ok_def)
  show "asserts_res (rounded_distance single sa a se e \<le> d) u
      (UnityAssertFloatsWithin dbl (Finite sd d) (Finite se e) (Finite sa a) msg line u)"
    using assert_within_asserts [of single dbl "Finite se e" "Finite sa a" u "Finite sd d"] assms d(2)
    by (simp add: UnityAssertFloatsWithin_def printable_def within_finite)
  show "rounded_distance single sa a se e \<le> d" if "\<bar>signed_units sa a - signed_units se e\<bar> \<le> int d"
  proof -
    have "distance sa a se e \<le> d * 1" using that by (simp add: distance_def)
    then show ?thesis unfolding rounded_distance_def using d(1) by (intro round_units_le) simp_all
  qed
  fix d' assume d': "representable 24 d' \<and> d < d' \<and> int d' \<le> \<bar>signed_units sa a - signed_units se e\<bar>"
  then have "d' * 1 \<le> distance sa a se e" by (simp add: distance_def le_nat_iff)
  then have "d' \<le> rounded_distance single sa a se e"
    unfolding rounded_distance_def using d' by (intro round_units_ge) simp_all
  with d' show "\<not> rounded_distance single sa a se e \<le> d" by simp
qed

theorem float_within_accepts_witness:
  "asserts_res False unity_fresh (UnityAssertFloatsWithin False (Finite False (2 ^ 148))
     (Finite False (2 ^ 149)) (Finite False (2 ^ 150)) None 1 unity_fresh)"
proof -
  have r: "representable 24 (2 ^ 148)" "representable 24 (2 ^ 149)" "representable 24 (2 ^ 150)"
    using representableI [of 1 24 148] representableI [of 1 24 149] representableI [of 1 24 150] by simp_all
  then have ok: "fp_ok single (Finite False (2 ^ 148))" "fp_ok single (Finite False (2 ^ 149))"
      "fp_ok single (Finite False (2 ^ 150))" by (simp_all add: fp_ok_def)
  obtain accepted where A: "asserts_res accepted unity_fresh (UnityAssertFloatsWithin False
        (Finite False (2 ^ 148)) (Finite False (2 ^ 149)) (Finite False (2 ^ 150)) None 1 unity_fresh)"
      and B: "\<forall>d'. representable 24 d' \<and> 2 ^ 148 < d' \<and>
        int d' \<le> \<bar>signed_units False (2 ^ 150) - signed_units False (2 ^ 149)\<bar> \<longrightarrow> \<not> accepted"
    using float_within_accepts [OF unity_fresh_ok ok, of False None 1] by blast
  have "\<not> accepted" using B [rule_format, of "2 ^ 149"] r(2) by simp
  with A show ?thesis by simp
qed

text \<open>A distance overflows from half a unit in the last place above the greatest \<^verbatim>\<open>float\<close> on.\<close>

lemma floorlog_below: "2 ^ 276 \<le> n \<Longrightarrow> n < 2 ^ 277 \<Longrightarrow> floorlog 2 n = 277" for n :: nat
  by (intro antisym) (simp add: floorlog_le_iff, use floorlog_mono [of "2 ^ 276" n 2] in simp)

lemma single_overflow: "round_units 24 d 1 < 2 ^ 277 \<longleftrightarrow> d < 2 ^ 277 - 2 ^ 252"
proof
  assume finite: "round_units 24 d 1 < 2 ^ 277"
  show "d < 2 ^ 277 - 2 ^ 252"
  proof (rule ccontr)
    assume "\<not> d < 2 ^ 277 - 2 ^ 252"
    then have "round_units 24 (2 ^ 277 - 2 ^ 252) 1 \<le> round_units 24 d 1"
      by (intro round_units_mono) simp_all
    moreover have "round_units 24 (2 ^ 277 - 2 ^ 252) 1 = 2 ^ 277"
      by (simp add: round_units_def round_half_even_def floorlog_below)
    ultimately show False using finite by simp
  qed
next
  assume "d < 2 ^ 277 - 2 ^ 252"
  then have "round_units 24 d 1 \<le> round_units 24 (2 ^ 277 - 2 ^ 252 - 1) 1"
    by (intro round_units_mono) simp_all
  also have "round_units 24 (2 ^ 277 - 2 ^ 252 - 1) 1 < 2 ^ 277"
    by (simp add: round_units_def round_half_even_def floorlog_below)
  finally show "round_units 24 d 1 < 2 ^ 277" .
qed

text \<open>
  C39: a delta that is not a number: \<^verbatim>\<open>UnityAssertFloatsWithin\<close> then accepts two finite numbers exactly
  if their difference does not overflow to an infinity (in units of the smallest \<^verbatim>\<open>float\<close>, if it is
  below 2^277 - 2^252), where the array assertion fails on arrays of any length but 0.
\<close>
theorem nan_delta_accepts:
  assumes "\<not> fail_or_ignore u" and "fp_ok single (Finite se e)" and "fp_ok single (Finite sa a)"
    and "n \<noteq> 0"
  shows "asserts_res (\<bar>signed_units sa a - signed_units se e\<bar> < 2 ^ 277 - 2 ^ 252) u
      (UnityAssertFloatsWithin dbl NaN (Finite se e) (Finite sa a) msg line u) \<and>
    asserts_res False u (UnityAssertWithinFloatArray dbl mem NaN expected actual n msg line flags u)"
proof
  have "rounded_distance single sa a se e < 2 ^ 277 \<longleftrightarrow> distance sa a se e < 2 ^ 277 - 2 ^ 252"
    unfolding rounded_distance_def format_values by (rule single_overflow)
  also have "\<dots> \<longleftrightarrow> \<bar>signed_units sa a - signed_units se e\<bar> < 2 ^ 277 - 2 ^ 252"
    by (simp add: distance_def nat_less_iff)
  finally have "rounded_distance single sa a se e < 2 ^ top_exp single \<longleftrightarrow>
    \<bar>signed_units sa a - signed_units se e\<bar> < 2 ^ 277 - 2 ^ 252" by simp
  then show "asserts_res (\<bar>signed_units sa a - signed_units se e\<bar> < 2 ^ 277 - 2 ^ 252) u
      (UnityAssertFloatsWithin dbl NaN (Finite se e) (Finite sa a) msg line u)"
    using assert_within_asserts [of single dbl "Finite se e" "Finite sa a" u NaN] assms(1-3)
    by (simp only: UnityAssertFloatsWithin_def printable_def within_any_delta simp_thms format_values
        zero_less_numeral)
  show "asserts_res False u (UnityAssertWithinFloatArray dbl mem NaN expected actual n msg line flags u)"
    using assms(1,4)
    by (auto simp: UnityAssertWithinFloatArray_def assert_within_array_def fp_isnan_def
        UnityPrintPointlessAndBail_def intro!: asserts_res_fail)
qed

text \<open>Zero and the greatest \<^verbatim>\<open>float\<close> are accepted, the two greatest of opposite signs are not.\<close>

theorem nan_delta_accepts_witness:
  "asserts_res True unity_fresh (UnityAssertFloatsWithin False NaN (Finite False 0)
     (Finite False ((2 ^ 24 - 1) * 2 ^ 253)) None 1 unity_fresh) \<and>
   asserts_res False unity_fresh (UnityAssertFloatsWithin False NaN (Finite True ((2 ^ 24 - 1) * 2 ^ 253))
     (Finite False ((2 ^ 24 - 1) * 2 ^ 253)) None 1 unity_fresh)"
proof -
  have "representable 24 ((2 ^ 24 - 1) * 2 ^ 253)" "representable 24 0"
    by (rule representableI representable_small; simp)+
  then have ok: "fp_ok single (Finite False 0)" "fp_ok single (Finite s ((2 ^ 24 - 1) * 2 ^ 253))" for s
    by (simp_all add: fp_ok_def)
  show ?thesis
    using nan_delta_accepts [OF unity_fresh_ok ok(1) ok(2) [of False], of 1 False None 1]
      nan_delta_accepts [OF unity_fresh_ok ok(2) [of True] ok(2) [of False], of 1 False None 1]
    by simp
qed

text \<open>The strict order, and the order up to the relative precision.\<close>

lemma assert_greater_or_less_asserts:
  assumes "printable f dbl" and "fp_ok f threshold" "fp_ok f actual" and "\<not> fail_or_ignore u"
    and "P \<longleftrightarrow> (compare_has compare UNITY_EQUAL_TO \<and>
           UNITY_FLOAT_OR_DOUBLE_WITHIN f (fmul f threshold prec) threshold actual) \<or>
         (compare_has compare UNITY_SMALLER_THAN \<longrightarrow> flt actual threshold) \<and>
         (compare_has compare UNITY_GREATER_THAN \<longrightarrow> flt threshold actual)"
  shows "asserts_res P u (assert_greater_or_less f prec dbl threshold actual compare msg line u)"
proof -
  obtain t a where "UnityPrintFloat dbl (to_UNITY_DOUBLE dbl f threshold) = Inr t"
      "UnityPrintFloat dbl (to_UNITY_DOUBLE dbl f actual) = Inr a"
    using prints assms(1-3) by metis
  then show ?thesis
    using assms(4,5)
    by (auto simp: assert_greater_or_less_def Let_def asserts_res_return intro!: fail_with_asserts)
qed

text \<open>
  The order assertions on floats: greater-than and less-than accept exactly if the actual number is
  strictly above (below) the threshold, so never on a NaN; the variants with equality also accept
  numbers within a hundred-thousandth of the threshold on the other side of it.
\<close>
theorem float_order_accepts:
  assumes "\<not> fail_or_ignore u" and "fp_ok single threshold" and "fp_ok single actual"
  shows "asserts_res (flt threshold actual) u
      (UnityAssertGreaterOrLessFloat dbl threshold actual UNITY_GREATER_THAN msg line u) \<and>
    asserts_res (flt actual threshold) u
      (UnityAssertGreaterOrLessFloat dbl threshold actual UNITY_SMALLER_THAN msg line u) \<and>
    asserts_res (flt threshold actual \<or>
        UnityFloatsWithin (fmul single threshold UNITY_FLOAT_PRECISION) threshold actual) u
      (UnityAssertGreaterOrLessFloat dbl threshold actual UNITY_GREATER_OR_EQUAL msg line u) \<and>
    asserts_res (flt actual threshold \<or>
        UnityFloatsWithin (fmul single threshold UNITY_FLOAT_PRECISION) threshold actual) u
      (UnityAssertGreaterOrLessFloat dbl threshold actual UNITY_SMALLER_OR_EQUAL msg line u)"
  unfolding UnityAssertGreaterOrLessFloat_def UnityFloatsWithin_def
  using assms by (intro conjI assert_greater_or_less_asserts) (auto simp: printable_def)

theorem float_order_accepts_witness:
  "asserts_res True unity_fresh
     (UnityAssertGreaterOrLessFloat False (Finite True 1) fzero UNITY_GREATER_THAN None 1 unity_fresh)"
proof -
  have "representable 24 1" "representable 24 0" by (simp_all add: representable_small)
  then show ?thesis
    using float_order_accepts [OF unity_fresh_ok, of "Finite True 1" fzero False None 1] by (simp add: fp_ok_def)
qed

text \<open>
  \<^verbatim>\<open>UnityAssertFloatSpecial\<close> accepts exactly the numbers that have the trait it is asked for, or
  lack it for the negated styles; the invalid style is never accepted.
\<close>
theorem float_special_accepts:
  assumes "\<not> fail_or_ignore u" and "fp_ok single actual"
  shows "asserts_res
    (case style of
       UNITY_FLOAT_IS_INF \<Rightarrow> actual = Infinite False | UNITY_FLOAT_IS_NOT_INF \<Rightarrow> actual \<noteq> Infinite False
     | UNITY_FLOAT_IS_NEG_INF \<Rightarrow> actual = Infinite True | UNITY_FLOAT_IS_NOT_NEG_INF \<Rightarrow> actual \<noteq> Infinite True
     | UNITY_FLOAT_IS_NAN \<Rightarrow> actual = NaN | UNITY_FLOAT_IS_NOT_NAN \<Rightarrow> actual \<noteq> NaN
     | UNITY_FLOAT_IS_DET \<Rightarrow> (\<exists>s k. actual = Finite s k) | UNITY_FLOAT_IS_NOT_DET \<Rightarrow> \<not> (\<exists>s k. actual = Finite s k)
     | UNITY_FLOAT_INVALID_TRAIT \<Rightarrow> False) u
    (UnityAssertFloatSpecial dbl actual msg line style u)"
proof -
  obtain a where "UnityPrintFloat dbl (to_UNITY_DOUBLE dbl single actual) = Inr a"
    using prints [of single dbl actual] assms(2) by (auto simp: printable_def)
  then show ?thesis
    using assms(1)
    by (cases style; cases actual)
      (auto simp: UnityAssertFloatSpecial_def assert_special_def trait_holds_def fp_isnan_def Let_def
        asserts_res_return intro!: fail_with_asserts)
qed

theorem float_special_accepts_witness:
  "asserts_res True unity_fresh (UnityAssertFloatSpecial False (Infinite True) None 1 UNITY_FLOAT_IS_NOT_NAN unity_fresh)"
  using float_special_accepts [OF unity_fresh_ok, of "Infinite True" UNITY_FLOAT_IS_NOT_NAN] by (simp add: fp_ok_def)

section \<open>Arrays and single values\<close>

lemma fp_ok_loaded: "load_float mem single p = Inr x \<Longrightarrow> fp_ok single x"
  "load_float mem double p = Inr x \<Longrightarrow> fp_ok double x"
  by (auto simp: load_float_def rbind_eq_Inr fp_of_bits_ok)

text \<open>What the loop asks of two elements: the delta grows by the relative precision.\<close>

definition element_within :: "float_format \<Rightarrow> fp \<Rightarrow> fp \<Rightarrow> fp \<Rightarrow> fp \<Rightarrow> bool" where
  "element_within f prec delta expected actual \<longleftrightarrow>
     (let d = fmul f expected prec; d = (if flt d fzero then fneg d else d)
      in UNITY_FLOAT_OR_DOUBLE_WITHIN f (fadd f delta d) expected actual)"

lemma float_array_loop_asserts:
  assumes "printable f dbl"
    and "\<And>i. i < n \<Longrightarrow> load_float mem f (step_ptr flags expected (i * sizeof_float f)) = Inr (es i)"
    and "\<And>i. i < n \<Longrightarrow> load_float mem f (actual + of_nat (i * sizeof_float f)) = Inr (as i)"
  shows "asserts_res (\<forall>i<n. element_within f prec delta (es i) (as i)) u
    (float_array_loop f prec dbl mem delta num_elements msg line flags n expected actual u)"
  using assms(2,3)
proof (induction n arbitrary: expected actual es as)
  case 0
  then show ?case by (simp add: asserts_res_return)
next
  case (Suc n)
  let ?sz = "sizeof_float f"
  have e0: "load_float mem f expected = Inr (es 0)"
    using Suc.prems(1) [of 0] by (simp add: step_ptr_def split: if_splits)
  have a0: "load_float mem f actual = Inr (as 0)"
    using Suc.prems(2) [of 0] by simp
  have all: "(\<forall>i<Suc n. element_within f prec delta (es i) (as i)) \<longleftrightarrow>
      element_within f prec delta (es 0) (as 0) \<and> (\<forall>i<n. element_within f prec delta (es (Suc i)) (as (Suc i)))"
    by (simp add: All_less_Suc2)
  show ?case
  proof (cases "element_within f prec delta (es 0) (as 0)")
    case False
    have "fp_ok f (es 0)" "fp_ok f (as 0)"
      using assms(1) e0 a0 fp_ok_loaded by (auto simp: printable_def)
    then obtain e a where "UnityPrintFloat dbl (to_UNITY_DOUBLE dbl f (es 0)) = Inr e"
        "UnityPrintFloat dbl (to_UNITY_DOUBLE dbl f (as 0)) = Inr a"
      using prints assms(1) by metis
    moreover have "\<not> (\<forall>i<Suc n. element_within f prec delta (es i) (as i))" using False by auto
    ultimately show ?thesis
      using e0 a0 False [unfolded element_within_def Let_def]
      by (simp add: Let_def UNITY_PRINT_EXPECTED_AND_ACTUAL_FLOAT_def del: not_all)
        (rule fail_with_asserts, rule refl, simp_all)
  next
    case True
    have "asserts_res (\<forall>i<n. element_within f prec delta (es (Suc i)) (as (Suc i))) u
      (float_array_loop f prec dbl mem delta num_elements msg line flags n
        (step_ptr flags expected ?sz) (actual + of_nat ?sz) u)"
    proof (rule Suc.IH)
      fix i assume "i < n"
      then show "load_float mem f (step_ptr flags (step_ptr flags expected ?sz) (i * ?sz)) = Inr (es (Suc i))"
        using Suc.prems(1) [of "Suc i"] by (simp add: step_ptr_def add.assoc split: if_splits)
      show "load_float mem f (actual + of_nat ?sz + of_nat (i * ?sz)) = Inr (as (Suc i))"
        using Suc.prems(2) [of "Suc i"] \<open>i < n\<close> by (simp add: add.assoc)
    qed
    with e0 a0 True all show ?thesis by (simp add: Let_def element_within_def)
  qed
qed

text \<open>A number stored for \<^verbatim>\<open>UnityQuickCompare\<close> is read back as it was.\<close>

lemma float_stored:
  assumes "fp_ok single x"
  shows "load_float (snd (UnityFloatToPtr quick x mem)) single (fst (UnityFloatToPtr quick x mem)) = Inr x"
proof -
  note bits = fp_of_bits_of_fp [of single x, simplified, OF assms]
  have "load_unsigned (store_bytes mem quick 4 (of_nat (bits_of_fp single x))) quick 4 =
      Inr (take_bit 32 (of_nat (bits_of_fp single x)))"
    using load_store [of 4] by simp
  moreover have "unat (take_bit 32 (of_nat (bits_of_fp single x)) :: 64 word) = bits_of_fp single x"
  proof -
    have "unat (of_nat (bits_of_fp single x) :: 64 word) = bits_of_fp single x"
      using bits(2) by (simp add: unsigned_of_nat take_bit_nat_eq_self_iff)
    then show ?thesis using bits(2) by (simp only: unsigned_take_bit_eq) (simp add: take_bit_nat_eq_self_iff)
  qed
  ultimately show ?thesis
    using bits(1) by (simp add: UnityFloatToPtr_def load_float_def del: store_bytes.simps)
qed

lemma within_itself:
  assumes "fp_ok f x" and "fp_ok f delta" and "0 < precision f"
    and "delta = NaN \<longrightarrow> x = NaN"
  shows "UNITY_FLOAT_OR_DOUBLE_WITHIN f delta x x"
proof (cases x)
  case (Finite s k)
  have "rounded_distance f s k s k = 0"
    using representable_small [of 0 "precision f"] assms(3) by (simp add: rounded_distance_def distance_def)
  with Finite assms show ?thesis
    by (cases delta) (auto simp: fp_ok_def within_finite within_any_delta)
qed (simp_all add: UNITY_FLOAT_OR_DOUBLE_WITHIN_def UNITY_NAN_CHECK_def fp_isnan_def)

end
