(* ===== verification/Unity_Internal_Macros.thy ===== *)
theory Unity_Internal_Macros
  imports Unity_Macros Unity_Arrays
begin

text \<open>
  The internal assertion macros of \<^verbatim>\<open>unity/src/unity_internals.h\<close> for integers, pointers, strings,
  memory and arrays, one definition per macro, with 64-bit support: each picks the casts, the
  comparison, the display style and the flags for one of the assertion functions. Integer and pointer
  arguments arrive as 64-bit values; \<open>mem\<close> is the memory, \<open>quick\<close> the address of
  \<^verbatim>\<open>UnityQuickCompare\<close>. The last argument of every macro, not written here, is the framework's state.
\<close>

section \<open>Casts\<close>

definition as_UNITY_INT8 :: "UNITY_INT \<Rightarrow> UNITY_INT" where "as_UNITY_INT8 x = scast (ucast x :: 8 word)"
definition as_UNITY_INT16 :: "UNITY_INT \<Rightarrow> UNITY_INT" where "as_UNITY_INT16 x = scast (ucast x :: 16 word)"
definition as_UNITY_INT32 :: "UNITY_INT \<Rightarrow> UNITY_INT" where "as_UNITY_INT32 x = scast (ucast x :: 32 word)"
definition as_UNITY_UINT8 :: "UNITY_INT \<Rightarrow> UNITY_INT" where "as_UNITY_UINT8 x = ucast (ucast x :: 8 word)"
definition as_UNITY_UINT16 :: "UNITY_INT \<Rightarrow> UNITY_INT" where "as_UNITY_UINT16 x = ucast (ucast x :: 16 word)"
definition as_UNITY_UINT32 :: "UNITY_INT \<Rightarrow> UNITY_INT" where "as_UNITY_UINT32 x = ucast (ucast x :: 32 word)"

text \<open>\<^verbatim>\<open>(UNITY_UINT32)(num_elements)\<close>, passed to a parameter of that type.\<close>

definition as_length :: "UNITY_INT \<Rightarrow> UNITY_UINT32" where "as_length n = ucast n"

definition UNITY_DISPLAY_STYLE_POINTER :: UNITY_DISPLAY_STYLE_T where
  "UNITY_DISPLAY_STYLE_POINTER = UNITY_DISPLAY_STYLE_HEX64"

definition UNITY_POINTER_WIDTH :: nat where "UNITY_POINTER_WIDTH = 64"

section \<open>The macros\<close>

subsection \<open>Pointers\<close>

definition UNITY_TEST_ASSERT_NULL where
  "UNITY_TEST_ASSERT_NULL pointer line message =
    UNITY_TEST_ASSERT (pointer = NULL) line message"
definition UNITY_TEST_ASSERT_NOT_NULL where
  "UNITY_TEST_ASSERT_NOT_NULL pointer line message =
    UNITY_TEST_ASSERT (pointer \<noteq> NULL) line message"
definition UNITY_TEST_ASSERT_EMPTY where
  "UNITY_TEST_ASSERT_EMPTY pointer line message u =
    (case pointer of None \<Rightarrow> Inl Out_of_bounds
     | Some s \<Rightarrow> Inr (UNITY_TEST_ASSERT (first_char s = CHR 0x00) line message u))"
definition UNITY_TEST_ASSERT_NOT_EMPTY where
  "UNITY_TEST_ASSERT_NOT_EMPTY pointer line message u =
    (case pointer of None \<Rightarrow> Inl Out_of_bounds
     | Some s \<Rightarrow> Inr (UNITY_TEST_ASSERT (first_char s \<noteq> CHR 0x00) line message u))"

subsection \<open>Integers\<close>

definition UNITY_TEST_ASSERT_EQUAL_INT8 where
  "UNITY_TEST_ASSERT_EQUAL_INT8 expected actual line message =
    UnityAssertEqualNumber (as_UNITY_INT8 expected) (as_UNITY_INT8 actual) message line
     UNITY_DISPLAY_STYLE_INT8"
definition UNITY_TEST_ASSERT_EQUAL_INT16 where
  "UNITY_TEST_ASSERT_EQUAL_INT16 expected actual line message =
    UnityAssertEqualNumber (as_UNITY_INT16 expected) (as_UNITY_INT16 actual) message line
     UNITY_DISPLAY_STYLE_INT16"
definition UNITY_TEST_ASSERT_EQUAL_INT32 where
  "UNITY_TEST_ASSERT_EQUAL_INT32 expected actual line message =
    UnityAssertEqualNumber (as_UNITY_INT32 expected) (as_UNITY_INT32 actual) message line
     UNITY_DISPLAY_STYLE_INT32"
definition UNITY_TEST_ASSERT_EQUAL_UINT where
  "UNITY_TEST_ASSERT_EQUAL_UINT expected actual line message =
    UnityAssertEqualNumber expected actual message line UNITY_DISPLAY_STYLE_UINT"
definition UNITY_TEST_ASSERT_EQUAL_UINT8 where
  "UNITY_TEST_ASSERT_EQUAL_UINT8 expected actual line message =
    UnityAssertEqualNumber (as_UNITY_UINT8 expected) (as_UNITY_UINT8 actual) message line
     UNITY_DISPLAY_STYLE_UINT8"
definition UNITY_TEST_ASSERT_EQUAL_UINT16 where
  "UNITY_TEST_ASSERT_EQUAL_UINT16 expected actual line message =
    UnityAssertEqualNumber (as_UNITY_UINT16 expected) (as_UNITY_UINT16 actual) message line
     UNITY_DISPLAY_STYLE_UINT16"
definition UNITY_TEST_ASSERT_EQUAL_UINT32 where
  "UNITY_TEST_ASSERT_EQUAL_UINT32 expected actual line message =
    UnityAssertEqualNumber (as_UNITY_UINT32 expected) (as_UNITY_UINT32 actual) message line
     UNITY_DISPLAY_STYLE_UINT32"
definition UNITY_TEST_ASSERT_EQUAL_HEX8 where
  "UNITY_TEST_ASSERT_EQUAL_HEX8 expected actual line message =
    UnityAssertEqualNumber (as_UNITY_INT8 expected) (as_UNITY_INT8 actual) message line
     UNITY_DISPLAY_STYLE_HEX8"
definition UNITY_TEST_ASSERT_EQUAL_HEX16 where
  "UNITY_TEST_ASSERT_EQUAL_HEX16 expected actual line message =
    UnityAssertEqualNumber (as_UNITY_INT16 expected) (as_UNITY_INT16 actual) message line
     UNITY_DISPLAY_STYLE_HEX16"
definition UNITY_TEST_ASSERT_EQUAL_HEX32 where
  "UNITY_TEST_ASSERT_EQUAL_HEX32 expected actual line message =
    UnityAssertEqualNumber (as_UNITY_INT32 expected) (as_UNITY_INT32 actual) message line
     UNITY_DISPLAY_STYLE_HEX32"
definition UNITY_TEST_ASSERT_EQUAL_CHAR where
  "UNITY_TEST_ASSERT_EQUAL_CHAR expected actual line message =
    UnityAssertEqualNumber (as_UNITY_INT8 expected) (as_UNITY_INT8 actual) message line
     UNITY_DISPLAY_STYLE_CHAR"
definition UNITY_TEST_ASSERT_BITS where
  "UNITY_TEST_ASSERT_BITS msk expected actual line message =
    UnityAssertBits msk expected actual message line"

subsection \<open>Not equal\<close>

definition UNITY_TEST_ASSERT_NOT_EQUAL_INT where
  "UNITY_TEST_ASSERT_NOT_EQUAL_INT threshold actual line message =
    UnityAssertGreaterOrLessOrEqualNumber threshold actual UNITY_NOT_EQUAL message line
     UNITY_DISPLAY_STYLE_INT"
definition UNITY_TEST_ASSERT_NOT_EQUAL_INT8 where
  "UNITY_TEST_ASSERT_NOT_EQUAL_INT8 threshold actual line message =
    UnityAssertGreaterOrLessOrEqualNumber (as_UNITY_INT8 threshold) (as_UNITY_INT8 actual)
     UNITY_NOT_EQUAL message line UNITY_DISPLAY_STYLE_INT8"
definition UNITY_TEST_ASSERT_NOT_EQUAL_INT16 where
  "UNITY_TEST_ASSERT_NOT_EQUAL_INT16 threshold actual line message =
    UnityAssertGreaterOrLessOrEqualNumber (as_UNITY_INT16 threshold) (as_UNITY_INT16 actual)
     UNITY_NOT_EQUAL message line UNITY_DISPLAY_STYLE_INT16"
definition UNITY_TEST_ASSERT_NOT_EQUAL_INT32 where
  "UNITY_TEST_ASSERT_NOT_EQUAL_INT32 threshold actual line message =
    UnityAssertGreaterOrLessOrEqualNumber (as_UNITY_INT32 threshold) (as_UNITY_INT32 actual)
     UNITY_NOT_EQUAL message line UNITY_DISPLAY_STYLE_INT32"
definition UNITY_TEST_ASSERT_NOT_EQUAL_UINT where
  "UNITY_TEST_ASSERT_NOT_EQUAL_UINT threshold actual line message =
    UnityAssertGreaterOrLessOrEqualNumber threshold actual UNITY_NOT_EQUAL message line
     UNITY_DISPLAY_STYLE_UINT"
definition UNITY_TEST_ASSERT_NOT_EQUAL_UINT8 where
  "UNITY_TEST_ASSERT_NOT_EQUAL_UINT8 threshold actual line message =
    UnityAssertGreaterOrLessOrEqualNumber (as_UNITY_UINT8 threshold) (as_UNITY_UINT8 actual)
     UNITY_NOT_EQUAL message line UNITY_DISPLAY_STYLE_UINT8"
definition UNITY_TEST_ASSERT_NOT_EQUAL_UINT16 where
  "UNITY_TEST_ASSERT_NOT_EQUAL_UINT16 threshold actual line message =
    UnityAssertGreaterOrLessOrEqualNumber (as_UNITY_UINT16 threshold) (as_UNITY_UINT16 actual)
     UNITY_NOT_EQUAL message line UNITY_DISPLAY_STYLE_UINT16"
definition UNITY_TEST_ASSERT_NOT_EQUAL_UINT32 where
  "UNITY_TEST_ASSERT_NOT_EQUAL_UINT32 threshold actual line message =
    UnityAssertGreaterOrLessOrEqualNumber (as_UNITY_UINT32 threshold) (as_UNITY_UINT32 actual)
     UNITY_NOT_EQUAL message line UNITY_DISPLAY_STYLE_UINT32"
definition UNITY_TEST_ASSERT_NOT_EQUAL_HEX8 where
  "UNITY_TEST_ASSERT_NOT_EQUAL_HEX8 threshold actual line message =
    UnityAssertGreaterOrLessOrEqualNumber (as_UNITY_UINT8 threshold) (as_UNITY_UINT8 actual)
     UNITY_NOT_EQUAL message line UNITY_DISPLAY_STYLE_HEX8"
definition UNITY_TEST_ASSERT_NOT_EQUAL_HEX16 where
  "UNITY_TEST_ASSERT_NOT_EQUAL_HEX16 threshold actual line message =
    UnityAssertGreaterOrLessOrEqualNumber (as_UNITY_UINT16 threshold) (as_UNITY_UINT16 actual)
     UNITY_NOT_EQUAL message line UNITY_DISPLAY_STYLE_HEX16"
definition UNITY_TEST_ASSERT_NOT_EQUAL_HEX32 where
  "UNITY_TEST_ASSERT_NOT_EQUAL_HEX32 threshold actual line message =
    UnityAssertGreaterOrLessOrEqualNumber (as_UNITY_UINT32 threshold) (as_UNITY_UINT32 actual)
     UNITY_NOT_EQUAL message line UNITY_DISPLAY_STYLE_HEX32"
definition UNITY_TEST_ASSERT_NOT_EQUAL_CHAR where
  "UNITY_TEST_ASSERT_NOT_EQUAL_CHAR threshold actual line message =
    UnityAssertGreaterOrLessOrEqualNumber (as_UNITY_INT8 threshold) (as_UNITY_INT8 actual)
     UNITY_NOT_EQUAL message line UNITY_DISPLAY_STYLE_CHAR"

subsection \<open>Greater than\<close>

definition UNITY_TEST_ASSERT_GREATER_THAN_INT where
  "UNITY_TEST_ASSERT_GREATER_THAN_INT threshold actual line message =
    UnityAssertGreaterOrLessOrEqualNumber threshold actual UNITY_GREATER_THAN message line
     UNITY_DISPLAY_STYLE_INT"
definition UNITY_TEST_ASSERT_GREATER_THAN_INT8 where
  "UNITY_TEST_ASSERT_GREATER_THAN_INT8 threshold actual line message =
    UnityAssertGreaterOrLessOrEqualNumber (as_UNITY_INT8 threshold) (as_UNITY_INT8 actual)
     UNITY_GREATER_THAN message line UNITY_DISPLAY_STYLE_INT8"
definition UNITY_TEST_ASSERT_GREATER_THAN_INT16 where
  "UNITY_TEST_ASSERT_GREATER_THAN_INT16 threshold actual line message =
    UnityAssertGreaterOrLessOrEqualNumber (as_UNITY_INT16 threshold) (as_UNITY_INT16 actual)
     UNITY_GREATER_THAN message line UNITY_DISPLAY_STYLE_INT16"
definition UNITY_TEST_ASSERT_GREATER_THAN_INT32 where
  "UNITY_TEST_ASSERT_GREATER_THAN_INT32 threshold actual line message =
    UnityAssertGreaterOrLessOrEqualNumber (as_UNITY_INT32 threshold) (as_UNITY_INT32 actual)
     UNITY_GREATER_THAN message line UNITY_DISPLAY_STYLE_INT32"
definition UNITY_TEST_ASSERT_GREATER_THAN_UINT where
  "UNITY_TEST_ASSERT_GREATER_THAN_UINT threshold actual line message =
    UnityAssertGreaterOrLessOrEqualNumber threshold actual UNITY_GREATER_THAN message line
     UNITY_DISPLAY_STYLE_UINT"
definition UNITY_TEST_ASSERT_GREATER_THAN_UINT8 where
  "UNITY_TEST_ASSERT_GREATER_THAN_UINT8 threshold actual line message =
    UnityAssertGreaterOrLessOrEqualNumber (as_UNITY_UINT8 threshold) (as_UNITY_UINT8 actual)
     UNITY_GREATER_THAN message line UNITY_DISPLAY_STYLE_UINT8"
definition UNITY_TEST_ASSERT_GREATER_THAN_UINT16 where
  "UNITY_TEST_ASSERT_GREATER_THAN_UINT16 threshold actual line message =
    UnityAssertGreaterOrLessOrEqualNumber (as_UNITY_UINT16 threshold) (as_UNITY_UINT16 actual)
     UNITY_GREATER_THAN message line UNITY_DISPLAY_STYLE_UINT16"
definition UNITY_TEST_ASSERT_GREATER_THAN_UINT32 where
  "UNITY_TEST_ASSERT_GREATER_THAN_UINT32 threshold actual line message =
    UnityAssertGreaterOrLessOrEqualNumber (as_UNITY_UINT32 threshold) (as_UNITY_UINT32 actual)
     UNITY_GREATER_THAN message line UNITY_DISPLAY_STYLE_UINT32"
definition UNITY_TEST_ASSERT_GREATER_THAN_HEX8 where
  "UNITY_TEST_ASSERT_GREATER_THAN_HEX8 threshold actual line message =
    UnityAssertGreaterOrLessOrEqualNumber (as_UNITY_UINT8 threshold) (as_UNITY_UINT8 actual)
     UNITY_GREATER_THAN message line UNITY_DISPLAY_STYLE_HEX8"
definition UNITY_TEST_ASSERT_GREATER_THAN_HEX16 where
  "UNITY_TEST_ASSERT_GREATER_THAN_HEX16 threshold actual line message =
    UnityAssertGreaterOrLessOrEqualNumber (as_UNITY_UINT16 threshold) (as_UNITY_UINT16 actual)
     UNITY_GREATER_THAN message line UNITY_DISPLAY_STYLE_HEX16"
definition UNITY_TEST_ASSERT_GREATER_THAN_HEX32 where
  "UNITY_TEST_ASSERT_GREATER_THAN_HEX32 threshold actual line message =
    UnityAssertGreaterOrLessOrEqualNumber (as_UNITY_UINT32 threshold) (as_UNITY_UINT32 actual)
     UNITY_GREATER_THAN message line UNITY_DISPLAY_STYLE_HEX32"
definition UNITY_TEST_ASSERT_GREATER_THAN_CHAR where
  "UNITY_TEST_ASSERT_GREATER_THAN_CHAR threshold actual line message =
    UnityAssertGreaterOrLessOrEqualNumber (as_UNITY_INT8 threshold) (as_UNITY_INT8 actual)
     UNITY_GREATER_THAN message line UNITY_DISPLAY_STYLE_CHAR"

subsection \<open>Smaller than\<close>

definition UNITY_TEST_ASSERT_SMALLER_THAN_INT where
  "UNITY_TEST_ASSERT_SMALLER_THAN_INT threshold actual line message =
    UnityAssertGreaterOrLessOrEqualNumber threshold actual UNITY_SMALLER_THAN message line
     UNITY_DISPLAY_STYLE_INT"
definition UNITY_TEST_ASSERT_SMALLER_THAN_INT8 where
  "UNITY_TEST_ASSERT_SMALLER_THAN_INT8 threshold actual line message =
    UnityAssertGreaterOrLessOrEqualNumber (as_UNITY_INT8 threshold) (as_UNITY_INT8 actual)
     UNITY_SMALLER_THAN message line UNITY_DISPLAY_STYLE_INT8"
definition UNITY_TEST_ASSERT_SMALLER_THAN_INT16 where
  "UNITY_TEST_ASSERT_SMALLER_THAN_INT16 threshold actual line message =
    UnityAssertGreaterOrLessOrEqualNumber (as_UNITY_INT16 threshold) (as_UNITY_INT16 actual)
     UNITY_SMALLER_THAN message line UNITY_DISPLAY_STYLE_INT16"
definition UNITY_TEST_ASSERT_SMALLER_THAN_INT32 where
  "UNITY_TEST_ASSERT_SMALLER_THAN_INT32 threshold actual line message =
    UnityAssertGreaterOrLessOrEqualNumber (as_UNITY_INT32 threshold) (as_UNITY_INT32 actual)
     UNITY_SMALLER_THAN message line UNITY_DISPLAY_STYLE_INT32"
definition UNITY_TEST_ASSERT_SMALLER_THAN_UINT where
  "UNITY_TEST_ASSERT_SMALLER_THAN_UINT threshold actual line message =
    UnityAssertGreaterOrLessOrEqualNumber threshold actual UNITY_SMALLER_THAN message line
     UNITY_DISPLAY_STYLE_UINT"
definition UNITY_TEST_ASSERT_SMALLER_THAN_UINT8 where
  "UNITY_TEST_ASSERT_SMALLER_THAN_UINT8 threshold actual line message =
    UnityAssertGreaterOrLessOrEqualNumber (as_UNITY_UINT8 threshold) (as_UNITY_UINT8 actual)
     UNITY_SMALLER_THAN message line UNITY_DISPLAY_STYLE_UINT8"
definition UNITY_TEST_ASSERT_SMALLER_THAN_UINT16 where
  "UNITY_TEST_ASSERT_SMALLER_THAN_UINT16 threshold actual line message =
    UnityAssertGreaterOrLessOrEqualNumber (as_UNITY_UINT16 threshold) (as_UNITY_UINT16 actual)
     UNITY_SMALLER_THAN message line UNITY_DISPLAY_STYLE_UINT16"
definition UNITY_TEST_ASSERT_SMALLER_THAN_UINT32 where
  "UNITY_TEST_ASSERT_SMALLER_THAN_UINT32 threshold actual line message =
    UnityAssertGreaterOrLessOrEqualNumber (as_UNITY_UINT32 threshold) (as_UNITY_UINT32 actual)
     UNITY_SMALLER_THAN message line UNITY_DISPLAY_STYLE_UINT32"
definition UNITY_TEST_ASSERT_SMALLER_THAN_HEX8 where
  "UNITY_TEST_ASSERT_SMALLER_THAN_HEX8 threshold actual line message =
    UnityAssertGreaterOrLessOrEqualNumber (as_UNITY_UINT8 threshold) (as_UNITY_UINT8 actual)
     UNITY_SMALLER_THAN message line UNITY_DISPLAY_STYLE_HEX8"
definition UNITY_TEST_ASSERT_SMALLER_THAN_HEX16 where
  "UNITY_TEST_ASSERT_SMALLER_THAN_HEX16 threshold actual line message =
    UnityAssertGreaterOrLessOrEqualNumber (as_UNITY_UINT16 threshold) (as_UNITY_UINT16 actual)
     UNITY_SMALLER_THAN message line UNITY_DISPLAY_STYLE_HEX16"
definition UNITY_TEST_ASSERT_SMALLER_THAN_HEX32 where
  "UNITY_TEST_ASSERT_SMALLER_THAN_HEX32 threshold actual line message =
    UnityAssertGreaterOrLessOrEqualNumber (as_UNITY_UINT32 threshold) (as_UNITY_UINT32 actual)
     UNITY_SMALLER_THAN message line UNITY_DISPLAY_STYLE_HEX32"
definition UNITY_TEST_ASSERT_SMALLER_THAN_CHAR where
  "UNITY_TEST_ASSERT_SMALLER_THAN_CHAR threshold actual line message =
    UnityAssertGreaterOrLessOrEqualNumber (as_UNITY_INT8 threshold) (as_UNITY_INT8 actual)
     UNITY_SMALLER_THAN message line UNITY_DISPLAY_STYLE_CHAR"

subsection \<open>Greater or equal\<close>

definition UNITY_TEST_ASSERT_GREATER_OR_EQUAL_INT where
  "UNITY_TEST_ASSERT_GREATER_OR_EQUAL_INT threshold actual line message =
    UnityAssertGreaterOrLessOrEqualNumber threshold actual UNITY_GREATER_OR_EQUAL message line
     UNITY_DISPLAY_STYLE_INT"
definition UNITY_TEST_ASSERT_GREATER_OR_EQUAL_INT8 where
  "UNITY_TEST_ASSERT_GREATER_OR_EQUAL_INT8 threshold actual line message =
    UnityAssertGreaterOrLessOrEqualNumber (as_UNITY_INT8 threshold) (as_UNITY_INT8 actual)
     UNITY_GREATER_OR_EQUAL message line UNITY_DISPLAY_STYLE_INT8"
definition UNITY_TEST_ASSERT_GREATER_OR_EQUAL_INT16 where
  "UNITY_TEST_ASSERT_GREATER_OR_EQUAL_INT16 threshold actual line message =
    UnityAssertGreaterOrLessOrEqualNumber (as_UNITY_INT16 threshold) (as_UNITY_INT16 actual)
     UNITY_GREATER_OR_EQUAL message line UNITY_DISPLAY_STYLE_INT16"
definition UNITY_TEST_ASSERT_GREATER_OR_EQUAL_INT32 where
  "UNITY_TEST_ASSERT_GREATER_OR_EQUAL_INT32 threshold actual line message =
    UnityAssertGreaterOrLessOrEqualNumber (as_UNITY_INT32 threshold) (as_UNITY_INT32 actual)
     UNITY_GREATER_OR_EQUAL message line UNITY_DISPLAY_STYLE_INT32"
definition UNITY_TEST_ASSERT_GREATER_OR_EQUAL_UINT where
  "UNITY_TEST_ASSERT_GREATER_OR_EQUAL_UINT threshold actual line message =
    UnityAssertGreaterOrLessOrEqualNumber threshold actual UNITY_GREATER_OR_EQUAL message line
     UNITY_DISPLAY_STYLE_UINT"
definition UNITY_TEST_ASSERT_GREATER_OR_EQUAL_UINT8 where
  "UNITY_TEST_ASSERT_GREATER_OR_EQUAL_UINT8 threshold actual line message =
    UnityAssertGreaterOrLessOrEqualNumber (as_UNITY_UINT8 threshold) (as_UNITY_UINT8 actual)
     UNITY_GREATER_OR_EQUAL message line UNITY_DISPLAY_STYLE_UINT8"
definition UNITY_TEST_ASSERT_GREATER_OR_EQUAL_UINT16 where
  "UNITY_TEST_ASSERT_GREATER_OR_EQUAL_UINT16 threshold actual line message =
    UnityAssertGreaterOrLessOrEqualNumber (as_UNITY_UINT16 threshold) (as_UNITY_UINT16 actual)
     UNITY_GREATER_OR_EQUAL message line UNITY_DISPLAY_STYLE_UINT16"
definition UNITY_TEST_ASSERT_GREATER_OR_EQUAL_UINT32 where
  "UNITY_TEST_ASSERT_GREATER_OR_EQUAL_UINT32 threshold actual line message =
    UnityAssertGreaterOrLessOrEqualNumber (as_UNITY_UINT32 threshold) (as_UNITY_UINT32 actual)
     UNITY_GREATER_OR_EQUAL message line UNITY_DISPLAY_STYLE_UINT32"
definition UNITY_TEST_ASSERT_GREATER_OR_EQUAL_HEX8 where
  "UNITY_TEST_ASSERT_GREATER_OR_EQUAL_HEX8 threshold actual line message =
    UnityAssertGreaterOrLessOrEqualNumber (as_UNITY_UINT8 threshold) (as_UNITY_UINT8 actual)
     UNITY_GREATER_OR_EQUAL message line UNITY_DISPLAY_STYLE_HEX8"
definition UNITY_TEST_ASSERT_GREATER_OR_EQUAL_HEX16 where
  "UNITY_TEST_ASSERT_GREATER_OR_EQUAL_HEX16 threshold actual line message =
    UnityAssertGreaterOrLessOrEqualNumber (as_UNITY_UINT16 threshold) (as_UNITY_UINT16 actual)
     UNITY_GREATER_OR_EQUAL message line UNITY_DISPLAY_STYLE_HEX16"
definition UNITY_TEST_ASSERT_GREATER_OR_EQUAL_HEX32 where
  "UNITY_TEST_ASSERT_GREATER_OR_EQUAL_HEX32 threshold actual line message =
    UnityAssertGreaterOrLessOrEqualNumber (as_UNITY_UINT32 threshold) (as_UNITY_UINT32 actual)
     UNITY_GREATER_OR_EQUAL message line UNITY_DISPLAY_STYLE_HEX32"
definition UNITY_TEST_ASSERT_GREATER_OR_EQUAL_CHAR where
  "UNITY_TEST_ASSERT_GREATER_OR_EQUAL_CHAR threshold actual line message =
    UnityAssertGreaterOrLessOrEqualNumber (as_UNITY_INT8 threshold) (as_UNITY_INT8 actual)
     UNITY_GREATER_OR_EQUAL message line UNITY_DISPLAY_STYLE_CHAR"

subsection \<open>Smaller or equal\<close>

definition UNITY_TEST_ASSERT_SMALLER_OR_EQUAL_INT where
  "UNITY_TEST_ASSERT_SMALLER_OR_EQUAL_INT threshold actual line message =
    UnityAssertGreaterOrLessOrEqualNumber threshold actual UNITY_SMALLER_OR_EQUAL message line
     UNITY_DISPLAY_STYLE_INT"
definition UNITY_TEST_ASSERT_SMALLER_OR_EQUAL_INT8 where
  "UNITY_TEST_ASSERT_SMALLER_OR_EQUAL_INT8 threshold actual line message =
    UnityAssertGreaterOrLessOrEqualNumber (as_UNITY_INT8 threshold) (as_UNITY_INT8 actual)
     UNITY_SMALLER_OR_EQUAL message line UNITY_DISPLAY_STYLE_INT8"
definition UNITY_TEST_ASSERT_SMALLER_OR_EQUAL_INT16 where
  "UNITY_TEST_ASSERT_SMALLER_OR_EQUAL_INT16 threshold actual line message =
    UnityAssertGreaterOrLessOrEqualNumber (as_UNITY_INT16 threshold) (as_UNITY_INT16 actual)
     UNITY_SMALLER_OR_EQUAL message line UNITY_DISPLAY_STYLE_INT16"
definition UNITY_TEST_ASSERT_SMALLER_OR_EQUAL_INT32 where
  "UNITY_TEST_ASSERT_SMALLER_OR_EQUAL_INT32 threshold actual line message =
    UnityAssertGreaterOrLessOrEqualNumber (as_UNITY_INT32 threshold) (as_UNITY_INT32 actual)
     UNITY_SMALLER_OR_EQUAL message line UNITY_DISPLAY_STYLE_INT32"
definition UNITY_TEST_ASSERT_SMALLER_OR_EQUAL_UINT where
  "UNITY_TEST_ASSERT_SMALLER_OR_EQUAL_UINT threshold actual line message =
    UnityAssertGreaterOrLessOrEqualNumber threshold actual UNITY_SMALLER_OR_EQUAL message line
     UNITY_DISPLAY_STYLE_UINT"
definition UNITY_TEST_ASSERT_SMALLER_OR_EQUAL_UINT8 where
  "UNITY_TEST_ASSERT_SMALLER_OR_EQUAL_UINT8 threshold actual line message =
    UnityAssertGreaterOrLessOrEqualNumber (as_UNITY_UINT8 threshold) (as_UNITY_UINT8 actual)
     UNITY_SMALLER_OR_EQUAL message line UNITY_DISPLAY_STYLE_UINT8"
definition UNITY_TEST_ASSERT_SMALLER_OR_EQUAL_UINT16 where
  "UNITY_TEST_ASSERT_SMALLER_OR_EQUAL_UINT16 threshold actual line message =
    UnityAssertGreaterOrLessOrEqualNumber (as_UNITY_UINT16 threshold) (as_UNITY_UINT16 actual)
     UNITY_SMALLER_OR_EQUAL message line UNITY_DISPLAY_STYLE_UINT16"
definition UNITY_TEST_ASSERT_SMALLER_OR_EQUAL_UINT32 where
  "UNITY_TEST_ASSERT_SMALLER_OR_EQUAL_UINT32 threshold actual line message =
    UnityAssertGreaterOrLessOrEqualNumber (as_UNITY_UINT32 threshold) (as_UNITY_UINT32 actual)
     UNITY_SMALLER_OR_EQUAL message line UNITY_DISPLAY_STYLE_UINT32"
definition UNITY_TEST_ASSERT_SMALLER_OR_EQUAL_HEX8 where
  "UNITY_TEST_ASSERT_SMALLER_OR_EQUAL_HEX8 threshold actual line message =
    UnityAssertGreaterOrLessOrEqualNumber (as_UNITY_UINT8 threshold) (as_UNITY_UINT8 actual)
     UNITY_SMALLER_OR_EQUAL message line UNITY_DISPLAY_STYLE_HEX8"
definition UNITY_TEST_ASSERT_SMALLER_OR_EQUAL_HEX16 where
  "UNITY_TEST_ASSERT_SMALLER_OR_EQUAL_HEX16 threshold actual line message =
    UnityAssertGreaterOrLessOrEqualNumber (as_UNITY_UINT16 threshold) (as_UNITY_UINT16 actual)
     UNITY_SMALLER_OR_EQUAL message line UNITY_DISPLAY_STYLE_HEX16"
definition UNITY_TEST_ASSERT_SMALLER_OR_EQUAL_HEX32 where
  "UNITY_TEST_ASSERT_SMALLER_OR_EQUAL_HEX32 threshold actual line message =
    UnityAssertGreaterOrLessOrEqualNumber (as_UNITY_UINT32 threshold) (as_UNITY_UINT32 actual)
     UNITY_SMALLER_OR_EQUAL message line UNITY_DISPLAY_STYLE_HEX32"
definition UNITY_TEST_ASSERT_SMALLER_OR_EQUAL_CHAR where
  "UNITY_TEST_ASSERT_SMALLER_OR_EQUAL_CHAR threshold actual line message =
    UnityAssertGreaterOrLessOrEqualNumber (as_UNITY_INT8 threshold) (as_UNITY_INT8 actual)
     UNITY_SMALLER_OR_EQUAL message line UNITY_DISPLAY_STYLE_CHAR"

subsection \<open>Within a delta\<close>

definition UNITY_TEST_ASSERT_INT_WITHIN where
  "UNITY_TEST_ASSERT_INT_WITHIN delta expected actual line message =
    UnityAssertNumbersWithin delta expected actual message line UNITY_DISPLAY_STYLE_INT"
definition UNITY_TEST_ASSERT_INT8_WITHIN where
  "UNITY_TEST_ASSERT_INT8_WITHIN delta expected actual line message =
    UnityAssertNumbersWithin (as_UNITY_UINT8 delta) (as_UNITY_INT8 expected) (as_UNITY_INT8
     actual) message line UNITY_DISPLAY_STYLE_INT8"
definition UNITY_TEST_ASSERT_INT16_WITHIN where
  "UNITY_TEST_ASSERT_INT16_WITHIN delta expected actual line message =
    UnityAssertNumbersWithin (as_UNITY_UINT16 delta) (as_UNITY_INT16 expected) (as_UNITY_INT16
     actual) message line UNITY_DISPLAY_STYLE_INT16"
definition UNITY_TEST_ASSERT_INT32_WITHIN where
  "UNITY_TEST_ASSERT_INT32_WITHIN delta expected actual line message =
    UnityAssertNumbersWithin (as_UNITY_UINT32 delta) (as_UNITY_INT32 expected) (as_UNITY_INT32
     actual) message line UNITY_DISPLAY_STYLE_INT32"
definition UNITY_TEST_ASSERT_UINT_WITHIN where
  "UNITY_TEST_ASSERT_UINT_WITHIN delta expected actual line message =
    UnityAssertNumbersWithin delta expected actual message line UNITY_DISPLAY_STYLE_UINT"
definition UNITY_TEST_ASSERT_UINT8_WITHIN where
  "UNITY_TEST_ASSERT_UINT8_WITHIN delta expected actual line message =
    UnityAssertNumbersWithin (as_UNITY_UINT8 delta) (as_UNITY_UINT8 expected) (as_UNITY_UINT8
     actual) message line UNITY_DISPLAY_STYLE_UINT8"
definition UNITY_TEST_ASSERT_UINT16_WITHIN where
  "UNITY_TEST_ASSERT_UINT16_WITHIN delta expected actual line message =
    UnityAssertNumbersWithin (as_UNITY_UINT16 delta) (as_UNITY_UINT16 expected) (as_UNITY_UINT16
     actual) message line UNITY_DISPLAY_STYLE_UINT16"
definition UNITY_TEST_ASSERT_UINT32_WITHIN where
  "UNITY_TEST_ASSERT_UINT32_WITHIN delta expected actual line message =
    UnityAssertNumbersWithin (as_UNITY_UINT32 delta) (as_UNITY_UINT32 expected) (as_UNITY_UINT32
     actual) message line UNITY_DISPLAY_STYLE_UINT32"
definition UNITY_TEST_ASSERT_HEX8_WITHIN where
  "UNITY_TEST_ASSERT_HEX8_WITHIN delta expected actual line message =
    UnityAssertNumbersWithin (as_UNITY_UINT8 delta) (as_UNITY_UINT8 expected) (as_UNITY_UINT8
     actual) message line UNITY_DISPLAY_STYLE_HEX8"
definition UNITY_TEST_ASSERT_HEX16_WITHIN where
  "UNITY_TEST_ASSERT_HEX16_WITHIN delta expected actual line message =
    UnityAssertNumbersWithin (as_UNITY_UINT16 delta) (as_UNITY_UINT16 expected) (as_UNITY_UINT16
     actual) message line UNITY_DISPLAY_STYLE_HEX16"
definition UNITY_TEST_ASSERT_HEX32_WITHIN where
  "UNITY_TEST_ASSERT_HEX32_WITHIN delta expected actual line message =
    UnityAssertNumbersWithin (as_UNITY_UINT32 delta) (as_UNITY_UINT32 expected) (as_UNITY_UINT32
     actual) message line UNITY_DISPLAY_STYLE_HEX32"
definition UNITY_TEST_ASSERT_CHAR_WITHIN where
  "UNITY_TEST_ASSERT_CHAR_WITHIN delta expected actual line message =
    UnityAssertNumbersWithin (as_UNITY_UINT8 delta) (as_UNITY_INT8 expected) (as_UNITY_INT8
     actual) message line UNITY_DISPLAY_STYLE_CHAR"

subsection \<open>Arrays within a delta\<close>

definition UNITY_TEST_ASSERT_INT_ARRAY_WITHIN where
  "UNITY_TEST_ASSERT_INT_ARRAY_WITHIN mem delta expected actual num_elements line message =
    UnityAssertNumbersArrayWithin delta mem expected actual (as_length num_elements) message line
     UNITY_DISPLAY_STYLE_INT UNITY_ARRAY_TO_ARRAY"
definition UNITY_TEST_ASSERT_INT8_ARRAY_WITHIN where
  "UNITY_TEST_ASSERT_INT8_ARRAY_WITHIN mem delta expected actual num_elements line message =
    UnityAssertNumbersArrayWithin (as_UNITY_UINT8 delta) mem expected actual (as_length
     num_elements) message line UNITY_DISPLAY_STYLE_INT8 UNITY_ARRAY_TO_ARRAY"
definition UNITY_TEST_ASSERT_INT16_ARRAY_WITHIN where
  "UNITY_TEST_ASSERT_INT16_ARRAY_WITHIN mem delta expected actual num_elements line message =
    UnityAssertNumbersArrayWithin (as_UNITY_UINT16 delta) mem expected actual (as_length
     num_elements) message line UNITY_DISPLAY_STYLE_INT16 UNITY_ARRAY_TO_ARRAY"
definition UNITY_TEST_ASSERT_INT32_ARRAY_WITHIN where
  "UNITY_TEST_ASSERT_INT32_ARRAY_WITHIN mem delta expected actual num_elements line message =
    UnityAssertNumbersArrayWithin (as_UNITY_UINT32 delta) mem expected actual (as_length
     num_elements) message line UNITY_DISPLAY_STYLE_INT32 UNITY_ARRAY_TO_ARRAY"
definition UNITY_TEST_ASSERT_UINT_ARRAY_WITHIN where
  "UNITY_TEST_ASSERT_UINT_ARRAY_WITHIN mem delta expected actual num_elements line message =
    UnityAssertNumbersArrayWithin delta mem expected actual (as_length num_elements) message line
     UNITY_DISPLAY_STYLE_UINT UNITY_ARRAY_TO_ARRAY"
definition UNITY_TEST_ASSERT_UINT8_ARRAY_WITHIN where
  "UNITY_TEST_ASSERT_UINT8_ARRAY_WITHIN mem delta expected actual num_elements line message =
    UnityAssertNumbersArrayWithin (as_UNITY_UINT8 delta) mem expected actual (as_length
     num_elements) message line UNITY_DISPLAY_STYLE_UINT8 UNITY_ARRAY_TO_ARRAY"
definition UNITY_TEST_ASSERT_UINT16_ARRAY_WITHIN where
  "UNITY_TEST_ASSERT_UINT16_ARRAY_WITHIN mem delta expected actual num_elements line message =
    UnityAssertNumbersArrayWithin (as_UNITY_UINT16 delta) mem expected actual (as_length
     num_elements) message line UNITY_DISPLAY_STYLE_UINT16 UNITY_ARRAY_TO_ARRAY"
definition UNITY_TEST_ASSERT_UINT32_ARRAY_WITHIN where
  "UNITY_TEST_ASSERT_UINT32_ARRAY_WITHIN mem delta expected actual num_elements line message =
    UnityAssertNumbersArrayWithin (as_UNITY_UINT32 delta) mem expected actual (as_length
     num_elements) message line UNITY_DISPLAY_STYLE_UINT32 UNITY_ARRAY_TO_ARRAY"
definition UNITY_TEST_ASSERT_HEX8_ARRAY_WITHIN where
  "UNITY_TEST_ASSERT_HEX8_ARRAY_WITHIN mem delta expected actual num_elements line message =
    UnityAssertNumbersArrayWithin (as_UNITY_UINT8 delta) mem expected actual (as_length
     num_elements) message line UNITY_DISPLAY_STYLE_HEX8 UNITY_ARRAY_TO_ARRAY"
definition UNITY_TEST_ASSERT_HEX16_ARRAY_WITHIN where
  "UNITY_TEST_ASSERT_HEX16_ARRAY_WITHIN mem delta expected actual num_elements line message =
    UnityAssertNumbersArrayWithin (as_UNITY_UINT16 delta) mem expected actual (as_length
     num_elements) message line UNITY_DISPLAY_STYLE_HEX16 UNITY_ARRAY_TO_ARRAY"
definition UNITY_TEST_ASSERT_HEX32_ARRAY_WITHIN where
  "UNITY_TEST_ASSERT_HEX32_ARRAY_WITHIN mem delta expected actual num_elements line message =
    UnityAssertNumbersArrayWithin (as_UNITY_UINT32 delta) mem expected actual (as_length
     num_elements) message line UNITY_DISPLAY_STYLE_HEX32 UNITY_ARRAY_TO_ARRAY"
definition UNITY_TEST_ASSERT_CHAR_ARRAY_WITHIN where
  "UNITY_TEST_ASSERT_CHAR_ARRAY_WITHIN mem delta expected actual num_elements line message =
    UnityAssertNumbersArrayWithin (as_UNITY_UINT8 delta) mem expected actual (as_length
     num_elements) message line UNITY_DISPLAY_STYLE_CHAR UNITY_ARRAY_TO_ARRAY"

subsection \<open>Pointers, strings and memory\<close>

definition UNITY_TEST_ASSERT_EQUAL_PTR where
  "UNITY_TEST_ASSERT_EQUAL_PTR expected actual line message =
    UnityAssertEqualNumber expected actual message line UNITY_DISPLAY_STYLE_POINTER"
definition UNITY_TEST_ASSERT_EQUAL_STRING where
  "UNITY_TEST_ASSERT_EQUAL_STRING expected actual line message =
    UnityAssertEqualString expected actual message line"
definition UNITY_TEST_ASSERT_EQUAL_STRING_LEN where
  "UNITY_TEST_ASSERT_EQUAL_STRING_LEN expected actual len line message =
    UnityAssertEqualStringLen expected actual (as_length len) message line"
definition UNITY_TEST_ASSERT_EQUAL_MEMORY where
  "UNITY_TEST_ASSERT_EQUAL_MEMORY mem expected actual len line message =
    UnityAssertEqualMemory mem expected actual (as_length len) 1 message line UNITY_ARRAY_TO_ARRAY"

subsection \<open>Arrays\<close>

definition UNITY_TEST_ASSERT_EQUAL_INT_ARRAY where
  "UNITY_TEST_ASSERT_EQUAL_INT_ARRAY mem expected actual num_elements line message =
    UnityAssertEqualIntArray mem expected actual (as_length num_elements) message line
     UNITY_DISPLAY_STYLE_INT UNITY_ARRAY_TO_ARRAY"
definition UNITY_TEST_ASSERT_EQUAL_INT8_ARRAY where
  "UNITY_TEST_ASSERT_EQUAL_INT8_ARRAY mem expected actual num_elements line message =
    UnityAssertEqualIntArray mem expected actual (as_length num_elements) message line
     UNITY_DISPLAY_STYLE_INT8 UNITY_ARRAY_TO_ARRAY"
definition UNITY_TEST_ASSERT_EQUAL_INT16_ARRAY where
  "UNITY_TEST_ASSERT_EQUAL_INT16_ARRAY mem expected actual num_elements line message =
    UnityAssertEqualIntArray mem expected actual (as_length num_elements) message line
     UNITY_DISPLAY_STYLE_INT16 UNITY_ARRAY_TO_ARRAY"
definition UNITY_TEST_ASSERT_EQUAL_INT32_ARRAY where
  "UNITY_TEST_ASSERT_EQUAL_INT32_ARRAY mem expected actual num_elements line message =
    UnityAssertEqualIntArray mem expected actual (as_length num_elements) message line
     UNITY_DISPLAY_STYLE_INT32 UNITY_ARRAY_TO_ARRAY"
definition UNITY_TEST_ASSERT_EQUAL_UINT_ARRAY where
  "UNITY_TEST_ASSERT_EQUAL_UINT_ARRAY mem expected actual num_elements line message =
    UnityAssertEqualIntArray mem expected actual (as_length num_elements) message line
     UNITY_DISPLAY_STYLE_UINT UNITY_ARRAY_TO_ARRAY"
definition UNITY_TEST_ASSERT_EQUAL_UINT8_ARRAY where
  "UNITY_TEST_ASSERT_EQUAL_UINT8_ARRAY mem expected actual num_elements line message =
    UnityAssertEqualIntArray mem expected actual (as_length num_elements) message line
     UNITY_DISPLAY_STYLE_UINT8 UNITY_ARRAY_TO_ARRAY"
definition UNITY_TEST_ASSERT_EQUAL_UINT16_ARRAY where
  "UNITY_TEST_ASSERT_EQUAL_UINT16_ARRAY mem expected actual num_elements line message =
    UnityAssertEqualIntArray mem expected actual (as_length num_elements) message line
     UNITY_DISPLAY_STYLE_UINT16 UNITY_ARRAY_TO_ARRAY"
definition UNITY_TEST_ASSERT_EQUAL_UINT32_ARRAY where
  "UNITY_TEST_ASSERT_EQUAL_UINT32_ARRAY mem expected actual num_elements line message =
    UnityAssertEqualIntArray mem expected actual (as_length num_elements) message line
     UNITY_DISPLAY_STYLE_UINT32 UNITY_ARRAY_TO_ARRAY"
definition UNITY_TEST_ASSERT_EQUAL_HEX8_ARRAY where
  "UNITY_TEST_ASSERT_EQUAL_HEX8_ARRAY mem expected actual num_elements line message =
    UnityAssertEqualIntArray mem expected actual (as_length num_elements) message line
     UNITY_DISPLAY_STYLE_HEX8 UNITY_ARRAY_TO_ARRAY"
definition UNITY_TEST_ASSERT_EQUAL_HEX16_ARRAY where
  "UNITY_TEST_ASSERT_EQUAL_HEX16_ARRAY mem expected actual num_elements line message =
    UnityAssertEqualIntArray mem expected actual (as_length num_elements) message line
     UNITY_DISPLAY_STYLE_HEX16 UNITY_ARRAY_TO_ARRAY"
definition UNITY_TEST_ASSERT_EQUAL_HEX32_ARRAY where
  "UNITY_TEST_ASSERT_EQUAL_HEX32_ARRAY mem expected actual num_elements line message =
    UnityAssertEqualIntArray mem expected actual (as_length num_elements) message line
     UNITY_DISPLAY_STYLE_HEX32 UNITY_ARRAY_TO_ARRAY"
definition UNITY_TEST_ASSERT_EQUAL_PTR_ARRAY where
  "UNITY_TEST_ASSERT_EQUAL_PTR_ARRAY mem expected actual num_elements line message =
    UnityAssertEqualIntArray mem expected actual (as_length num_elements) message line
     UNITY_DISPLAY_STYLE_POINTER UNITY_ARRAY_TO_ARRAY"
definition UNITY_TEST_ASSERT_EQUAL_STRING_ARRAY where
  "UNITY_TEST_ASSERT_EQUAL_STRING_ARRAY mem expected actual num_elements line message =
    UnityAssertEqualStringArray mem expected actual (as_length num_elements) message line
     UNITY_ARRAY_TO_ARRAY"
definition UNITY_TEST_ASSERT_EQUAL_MEMORY_ARRAY where
  "UNITY_TEST_ASSERT_EQUAL_MEMORY_ARRAY mem expected actual len num_elements line message =
    UnityAssertEqualMemory mem expected actual (as_length len) (as_length num_elements) message
     line UNITY_ARRAY_TO_ARRAY"
definition UNITY_TEST_ASSERT_EQUAL_CHAR_ARRAY where
  "UNITY_TEST_ASSERT_EQUAL_CHAR_ARRAY mem expected actual num_elements line message =
    UnityAssertEqualIntArray mem expected actual (as_length num_elements) message line
     UNITY_DISPLAY_STYLE_CHAR UNITY_ARRAY_TO_ARRAY"

subsection \<open>Arrays compared to a single value\<close>

definition UNITY_TEST_ASSERT_EACH_EQUAL_INT where
  "UNITY_TEST_ASSERT_EACH_EQUAL_INT mem quick expected actual num_elements line message =
    (let (p, mem) = UnityNumToPtr quick expected (of_nat (UNITY_INT_WIDTH div 8)) mem in
     UnityAssertEqualIntArray mem p actual (as_length num_elements) message line
     UNITY_DISPLAY_STYLE_INT UNITY_ARRAY_TO_VAL)"
definition UNITY_TEST_ASSERT_EACH_EQUAL_INT8 where
  "UNITY_TEST_ASSERT_EACH_EQUAL_INT8 mem quick expected actual num_elements line message =
    (let (p, mem) = UnityNumToPtr quick (as_UNITY_INT8 expected) 1 mem in UnityAssertEqualIntArray
     mem p actual (as_length num_elements) message line UNITY_DISPLAY_STYLE_INT8
     UNITY_ARRAY_TO_VAL)"
definition UNITY_TEST_ASSERT_EACH_EQUAL_INT16 where
  "UNITY_TEST_ASSERT_EACH_EQUAL_INT16 mem quick expected actual num_elements line message =
    (let (p, mem) = UnityNumToPtr quick (as_UNITY_INT16 expected) 2 mem in
     UnityAssertEqualIntArray mem p actual (as_length num_elements) message line
     UNITY_DISPLAY_STYLE_INT16 UNITY_ARRAY_TO_VAL)"
definition UNITY_TEST_ASSERT_EACH_EQUAL_INT32 where
  "UNITY_TEST_ASSERT_EACH_EQUAL_INT32 mem quick expected actual num_elements line message =
    (let (p, mem) = UnityNumToPtr quick (as_UNITY_INT32 expected) 4 mem in
     UnityAssertEqualIntArray mem p actual (as_length num_elements) message line
     UNITY_DISPLAY_STYLE_INT32 UNITY_ARRAY_TO_VAL)"
definition UNITY_TEST_ASSERT_EACH_EQUAL_UINT where
  "UNITY_TEST_ASSERT_EACH_EQUAL_UINT mem quick expected actual num_elements line message =
    (let (p, mem) = UnityNumToPtr quick expected (of_nat (UNITY_INT_WIDTH div 8)) mem in
     UnityAssertEqualIntArray mem p actual (as_length num_elements) message line
     UNITY_DISPLAY_STYLE_UINT UNITY_ARRAY_TO_VAL)"
definition UNITY_TEST_ASSERT_EACH_EQUAL_UINT8 where
  "UNITY_TEST_ASSERT_EACH_EQUAL_UINT8 mem quick expected actual num_elements line message =
    (let (p, mem) = UnityNumToPtr quick (as_UNITY_UINT8 expected) 1 mem in
     UnityAssertEqualIntArray mem p actual (as_length num_elements) message line
     UNITY_DISPLAY_STYLE_UINT8 UNITY_ARRAY_TO_VAL)"
definition UNITY_TEST_ASSERT_EACH_EQUAL_UINT16 where
  "UNITY_TEST_ASSERT_EACH_EQUAL_UINT16 mem quick expected actual num_elements line message =
    (let (p, mem) = UnityNumToPtr quick (as_UNITY_UINT16 expected) 2 mem in
     UnityAssertEqualIntArray mem p actual (as_length num_elements) message line
     UNITY_DISPLAY_STYLE_UINT16 UNITY_ARRAY_TO_VAL)"
definition UNITY_TEST_ASSERT_EACH_EQUAL_UINT32 where
  "UNITY_TEST_ASSERT_EACH_EQUAL_UINT32 mem quick expected actual num_elements line message =
    (let (p, mem) = UnityNumToPtr quick (as_UNITY_UINT32 expected) 4 mem in
     UnityAssertEqualIntArray mem p actual (as_length num_elements) message line
     UNITY_DISPLAY_STYLE_UINT32 UNITY_ARRAY_TO_VAL)"
definition UNITY_TEST_ASSERT_EACH_EQUAL_HEX8 where
  "UNITY_TEST_ASSERT_EACH_EQUAL_HEX8 mem quick expected actual num_elements line message =
    (let (p, mem) = UnityNumToPtr quick (as_UNITY_INT8 expected) 1 mem in UnityAssertEqualIntArray
     mem p actual (as_length num_elements) message line UNITY_DISPLAY_STYLE_HEX8
     UNITY_ARRAY_TO_VAL)"
definition UNITY_TEST_ASSERT_EACH_EQUAL_HEX16 where
  "UNITY_TEST_ASSERT_EACH_EQUAL_HEX16 mem quick expected actual num_elements line message =
    (let (p, mem) = UnityNumToPtr quick (as_UNITY_INT16 expected) 2 mem in
     UnityAssertEqualIntArray mem p actual (as_length num_elements) message line
     UNITY_DISPLAY_STYLE_HEX16 UNITY_ARRAY_TO_VAL)"
definition UNITY_TEST_ASSERT_EACH_EQUAL_HEX32 where
  "UNITY_TEST_ASSERT_EACH_EQUAL_HEX32 mem quick expected actual num_elements line message =
    (let (p, mem) = UnityNumToPtr quick (as_UNITY_INT32 expected) 4 mem in
     UnityAssertEqualIntArray mem p actual (as_length num_elements) message line
     UNITY_DISPLAY_STYLE_HEX32 UNITY_ARRAY_TO_VAL)"
definition UNITY_TEST_ASSERT_EACH_EQUAL_PTR where
  "UNITY_TEST_ASSERT_EACH_EQUAL_PTR mem quick expected actual num_elements line message =
    (let (p, mem) = UnityNumToPtr quick expected (of_nat (UNITY_POINTER_WIDTH div 8)) mem in
     UnityAssertEqualIntArray mem p actual (as_length num_elements) message line
     UNITY_DISPLAY_STYLE_POINTER UNITY_ARRAY_TO_VAL)"
definition UNITY_TEST_ASSERT_EACH_EQUAL_STRING where
  "UNITY_TEST_ASSERT_EACH_EQUAL_STRING mem expected actual num_elements line message =
    UnityAssertEqualStringArray mem expected actual (as_length num_elements) message line
     UNITY_ARRAY_TO_VAL"
definition UNITY_TEST_ASSERT_EACH_EQUAL_MEMORY where
  "UNITY_TEST_ASSERT_EACH_EQUAL_MEMORY mem expected actual len num_elements line message =
    UnityAssertEqualMemory mem expected actual (as_length len) (as_length num_elements) message
     line UNITY_ARRAY_TO_VAL"
definition UNITY_TEST_ASSERT_EACH_EQUAL_CHAR where
  "UNITY_TEST_ASSERT_EACH_EQUAL_CHAR mem quick expected actual num_elements line message =
    (let (p, mem) = UnityNumToPtr quick (as_UNITY_INT8 expected) 1 mem in UnityAssertEqualIntArray
     mem p actual (as_length num_elements) message line UNITY_DISPLAY_STYLE_CHAR
     UNITY_ARRAY_TO_VAL)"

subsection \<open>64-bit integers\<close>

definition UNITY_TEST_ASSERT_EQUAL_INT64 where
  "UNITY_TEST_ASSERT_EQUAL_INT64 expected actual line message =
    UnityAssertEqualNumber expected actual message line UNITY_DISPLAY_STYLE_INT64"
definition UNITY_TEST_ASSERT_EQUAL_UINT64 where
  "UNITY_TEST_ASSERT_EQUAL_UINT64 expected actual line message =
    UnityAssertEqualNumber expected actual message line UNITY_DISPLAY_STYLE_UINT64"
definition UNITY_TEST_ASSERT_EQUAL_HEX64 where
  "UNITY_TEST_ASSERT_EQUAL_HEX64 expected actual line message =
    UnityAssertEqualNumber expected actual message line UNITY_DISPLAY_STYLE_HEX64"
definition UNITY_TEST_ASSERT_EQUAL_INT64_ARRAY where
  "UNITY_TEST_ASSERT_EQUAL_INT64_ARRAY mem expected actual num_elements line message =
    UnityAssertEqualIntArray mem expected actual (as_length num_elements) message line
     UNITY_DISPLAY_STYLE_INT64 UNITY_ARRAY_TO_ARRAY"
definition UNITY_TEST_ASSERT_EQUAL_UINT64_ARRAY where
  "UNITY_TEST_ASSERT_EQUAL_UINT64_ARRAY mem expected actual num_elements line message =
    UnityAssertEqualIntArray mem expected actual (as_length num_elements) message line
     UNITY_DISPLAY_STYLE_UINT64 UNITY_ARRAY_TO_ARRAY"
definition UNITY_TEST_ASSERT_EQUAL_HEX64_ARRAY where
  "UNITY_TEST_ASSERT_EQUAL_HEX64_ARRAY mem expected actual num_elements line message =
    UnityAssertEqualIntArray mem expected actual (as_length num_elements) message line
     UNITY_DISPLAY_STYLE_HEX64 UNITY_ARRAY_TO_ARRAY"
definition UNITY_TEST_ASSERT_EACH_EQUAL_INT64 where
  "UNITY_TEST_ASSERT_EACH_EQUAL_INT64 mem quick expected actual num_elements line message =
    (let (p, mem) = UnityNumToPtr quick expected 8 mem in UnityAssertEqualIntArray mem p actual
     (as_length num_elements) message line UNITY_DISPLAY_STYLE_INT64 UNITY_ARRAY_TO_VAL)"
definition UNITY_TEST_ASSERT_EACH_EQUAL_UINT64 where
  "UNITY_TEST_ASSERT_EACH_EQUAL_UINT64 mem quick expected actual num_elements line message =
    (let (p, mem) = UnityNumToPtr quick expected 8 mem in UnityAssertEqualIntArray mem p actual
     (as_length num_elements) message line UNITY_DISPLAY_STYLE_UINT64 UNITY_ARRAY_TO_VAL)"
definition UNITY_TEST_ASSERT_EACH_EQUAL_HEX64 where
  "UNITY_TEST_ASSERT_EACH_EQUAL_HEX64 mem quick expected actual num_elements line message =
    (let (p, mem) = UnityNumToPtr quick expected 8 mem in UnityAssertEqualIntArray mem p actual
     (as_length num_elements) message line UNITY_DISPLAY_STYLE_HEX64 UNITY_ARRAY_TO_VAL)"
definition UNITY_TEST_ASSERT_INT64_WITHIN where
  "UNITY_TEST_ASSERT_INT64_WITHIN delta expected actual line message =
    UnityAssertNumbersWithin delta expected actual message line UNITY_DISPLAY_STYLE_INT64"
definition UNITY_TEST_ASSERT_UINT64_WITHIN where
  "UNITY_TEST_ASSERT_UINT64_WITHIN delta expected actual line message =
    UnityAssertNumbersWithin delta expected actual message line UNITY_DISPLAY_STYLE_UINT64"
definition UNITY_TEST_ASSERT_HEX64_WITHIN where
  "UNITY_TEST_ASSERT_HEX64_WITHIN delta expected actual line message =
    UnityAssertNumbersWithin delta expected actual message line UNITY_DISPLAY_STYLE_HEX64"
definition UNITY_TEST_ASSERT_NOT_EQUAL_INT64 where
  "UNITY_TEST_ASSERT_NOT_EQUAL_INT64 threshold actual line message =
    UnityAssertGreaterOrLessOrEqualNumber threshold actual UNITY_NOT_EQUAL message line
     UNITY_DISPLAY_STYLE_INT64"
definition UNITY_TEST_ASSERT_NOT_EQUAL_UINT64 where
  "UNITY_TEST_ASSERT_NOT_EQUAL_UINT64 threshold actual line message =
    UnityAssertGreaterOrLessOrEqualNumber threshold actual UNITY_NOT_EQUAL message line
     UNITY_DISPLAY_STYLE_UINT64"
definition UNITY_TEST_ASSERT_NOT_EQUAL_HEX64 where
  "UNITY_TEST_ASSERT_NOT_EQUAL_HEX64 threshold actual line message =
    UnityAssertGreaterOrLessOrEqualNumber threshold actual UNITY_NOT_EQUAL message line
     UNITY_DISPLAY_STYLE_HEX64"
definition UNITY_TEST_ASSERT_GREATER_THAN_INT64 where
  "UNITY_TEST_ASSERT_GREATER_THAN_INT64 threshold actual line message =
    UnityAssertGreaterOrLessOrEqualNumber threshold actual UNITY_GREATER_THAN message line
     UNITY_DISPLAY_STYLE_INT64"
definition UNITY_TEST_ASSERT_GREATER_THAN_UINT64 where
  "UNITY_TEST_ASSERT_GREATER_THAN_UINT64 threshold actual line message =
    UnityAssertGreaterOrLessOrEqualNumber threshold actual UNITY_GREATER_THAN message line
     UNITY_DISPLAY_STYLE_UINT64"
definition UNITY_TEST_ASSERT_GREATER_THAN_HEX64 where
  "UNITY_TEST_ASSERT_GREATER_THAN_HEX64 threshold actual line message =
    UnityAssertGreaterOrLessOrEqualNumber threshold actual UNITY_GREATER_THAN message line
     UNITY_DISPLAY_STYLE_HEX64"
definition UNITY_TEST_ASSERT_GREATER_OR_EQUAL_INT64 where
  "UNITY_TEST_ASSERT_GREATER_OR_EQUAL_INT64 threshold actual line message =
    UnityAssertGreaterOrLessOrEqualNumber threshold actual UNITY_GREATER_OR_EQUAL message line
     UNITY_DISPLAY_STYLE_INT64"
definition UNITY_TEST_ASSERT_GREATER_OR_EQUAL_UINT64 where
  "UNITY_TEST_ASSERT_GREATER_OR_EQUAL_UINT64 threshold actual line message =
    UnityAssertGreaterOrLessOrEqualNumber threshold actual UNITY_GREATER_OR_EQUAL message line
     UNITY_DISPLAY_STYLE_UINT64"
definition UNITY_TEST_ASSERT_GREATER_OR_EQUAL_HEX64 where
  "UNITY_TEST_ASSERT_GREATER_OR_EQUAL_HEX64 threshold actual line message =
    UnityAssertGreaterOrLessOrEqualNumber threshold actual UNITY_GREATER_OR_EQUAL message line
     UNITY_DISPLAY_STYLE_HEX64"
definition UNITY_TEST_ASSERT_SMALLER_THAN_INT64 where
  "UNITY_TEST_ASSERT_SMALLER_THAN_INT64 threshold actual line message =
    UnityAssertGreaterOrLessOrEqualNumber threshold actual UNITY_SMALLER_THAN message line
     UNITY_DISPLAY_STYLE_INT64"
definition UNITY_TEST_ASSERT_SMALLER_THAN_UINT64 where
  "UNITY_TEST_ASSERT_SMALLER_THAN_UINT64 threshold actual line message =
    UnityAssertGreaterOrLessOrEqualNumber threshold actual UNITY_SMALLER_THAN message line
     UNITY_DISPLAY_STYLE_UINT64"
definition UNITY_TEST_ASSERT_SMALLER_THAN_HEX64 where
  "UNITY_TEST_ASSERT_SMALLER_THAN_HEX64 threshold actual line message =
    UnityAssertGreaterOrLessOrEqualNumber threshold actual UNITY_SMALLER_THAN message line
     UNITY_DISPLAY_STYLE_HEX64"
definition UNITY_TEST_ASSERT_SMALLER_OR_EQUAL_INT64 where
  "UNITY_TEST_ASSERT_SMALLER_OR_EQUAL_INT64 threshold actual line message =
    UnityAssertGreaterOrLessOrEqualNumber threshold actual UNITY_SMALLER_OR_EQUAL message line
     UNITY_DISPLAY_STYLE_INT64"
definition UNITY_TEST_ASSERT_SMALLER_OR_EQUAL_UINT64 where
  "UNITY_TEST_ASSERT_SMALLER_OR_EQUAL_UINT64 threshold actual line message =
    UnityAssertGreaterOrLessOrEqualNumber threshold actual UNITY_SMALLER_OR_EQUAL message line
     UNITY_DISPLAY_STYLE_UINT64"
definition UNITY_TEST_ASSERT_SMALLER_OR_EQUAL_HEX64 where
  "UNITY_TEST_ASSERT_SMALLER_OR_EQUAL_HEX64 threshold actual line message =
    UnityAssertGreaterOrLessOrEqualNumber threshold actual UNITY_SMALLER_OR_EQUAL message line
     UNITY_DISPLAY_STYLE_HEX64"
definition UNITY_TEST_ASSERT_INT64_ARRAY_WITHIN where
  "UNITY_TEST_ASSERT_INT64_ARRAY_WITHIN mem delta expected actual num_elements line message =
    UnityAssertNumbersArrayWithin delta mem expected actual (as_length num_elements) message line
     UNITY_DISPLAY_STYLE_INT64 UNITY_ARRAY_TO_ARRAY"
definition UNITY_TEST_ASSERT_UINT64_ARRAY_WITHIN where
  "UNITY_TEST_ASSERT_UINT64_ARRAY_WITHIN mem delta expected actual num_elements line message =
    UnityAssertNumbersArrayWithin delta mem expected actual (as_length num_elements) message line
     UNITY_DISPLAY_STYLE_UINT64 UNITY_ARRAY_TO_ARRAY"
definition UNITY_TEST_ASSERT_HEX64_ARRAY_WITHIN where
  "UNITY_TEST_ASSERT_HEX64_ARRAY_WITHIN mem delta expected actual num_elements line message =
    UnityAssertNumbersArrayWithin delta mem expected actual (as_length num_elements) message line
     UNITY_DISPLAY_STYLE_HEX64 UNITY_ARRAY_TO_ARRAY"

end
