(* ===== verification/Unity_Float_Macros.thy ===== *)
theory Unity_Float_Macros
  imports Unity_Float_Assert Unity_Internal_Macros
begin

text \<open>
  The assertion macros on \<^verbatim>\<open>float\<close> and \<^verbatim>\<open>double\<close> (\<^verbatim>\<open>unity/src/unity_internals.h\<close> and
  \<^verbatim>\<open>unity/src/unity.h\<close>), one definition per macro; numbers arrive as values of the type the macro
  casts them to. The macros on \<^verbatim>\<open>double\<close> exist twice: without \<^verbatim>\<open>UNITY_INCLUDE_DOUBLE\<close> (the suffix
  \<open>_off\<close>) they fail with a message.
\<close>

section \<open>Internal macros\<close>

subsection \<open>Macros on float\<close>

definition UNITY_TEST_ASSERT_FLOAT_WITHIN where
  "UNITY_TEST_ASSERT_FLOAT_WITHIN dbl delta expected actual line message =
    UnityAssertFloatsWithin dbl delta expected actual message line"
definition UNITY_TEST_ASSERT_FLOAT_NOT_WITHIN where
  "UNITY_TEST_ASSERT_FLOAT_NOT_WITHIN dbl delta expected actual line message =
    UnityAssertFloatsNotWithin dbl delta expected actual message line"
definition UNITY_TEST_ASSERT_EQUAL_FLOAT where
  "UNITY_TEST_ASSERT_EQUAL_FLOAT dbl expected actual line message =
    UNITY_TEST_ASSERT_FLOAT_WITHIN dbl (fmul single expected UNITY_FLOAT_PRECISION) expected
     actual line message"
definition UNITY_TEST_ASSERT_NOT_EQUAL_FLOAT where
  "UNITY_TEST_ASSERT_NOT_EQUAL_FLOAT dbl expected actual line message =
    UNITY_TEST_ASSERT_FLOAT_NOT_WITHIN dbl (fmul single expected UNITY_FLOAT_PRECISION) expected
     actual line message"
definition UNITY_TEST_ASSERT_FLOAT_ARRAY_WITHIN where
  "UNITY_TEST_ASSERT_FLOAT_ARRAY_WITHIN dbl mem delta expected actual num_elements line message =
    UnityAssertWithinFloatArray dbl mem delta expected actual (as_length num_elements) message
     line UNITY_ARRAY_TO_ARRAY"
definition UNITY_TEST_ASSERT_EQUAL_FLOAT_ARRAY where
  "UNITY_TEST_ASSERT_EQUAL_FLOAT_ARRAY dbl mem expected actual num_elements line message =
    UnityAssertWithinFloatArray dbl mem fzero expected actual (as_length num_elements) message
     line UNITY_ARRAY_TO_ARRAY"
definition UNITY_TEST_ASSERT_EACH_EQUAL_FLOAT where
  "UNITY_TEST_ASSERT_EACH_EQUAL_FLOAT dbl mem quick expected actual num_elements line message =
    (let (p, mem) = UnityFloatToPtr quick expected mem in UnityAssertWithinFloatArray dbl mem
     fzero p actual (as_length num_elements) message line UNITY_ARRAY_TO_VAL)"
definition UNITY_TEST_ASSERT_GREATER_THAN_FLOAT where
  "UNITY_TEST_ASSERT_GREATER_THAN_FLOAT dbl threshold actual line message =
    UnityAssertGreaterOrLessFloat dbl threshold actual UNITY_GREATER_THAN message line"
definition UNITY_TEST_ASSERT_GREATER_OR_EQUAL_FLOAT where
  "UNITY_TEST_ASSERT_GREATER_OR_EQUAL_FLOAT dbl threshold actual line message =
    UnityAssertGreaterOrLessFloat dbl threshold actual UNITY_GREATER_OR_EQUAL message line"
definition UNITY_TEST_ASSERT_LESS_THAN_FLOAT where
  "UNITY_TEST_ASSERT_LESS_THAN_FLOAT dbl threshold actual line message =
    UnityAssertGreaterOrLessFloat dbl threshold actual UNITY_SMALLER_THAN message line"
definition UNITY_TEST_ASSERT_LESS_OR_EQUAL_FLOAT where
  "UNITY_TEST_ASSERT_LESS_OR_EQUAL_FLOAT dbl threshold actual line message =
    UnityAssertGreaterOrLessFloat dbl threshold actual UNITY_SMALLER_OR_EQUAL message line"
definition UNITY_TEST_ASSERT_FLOAT_IS_INF where
  "UNITY_TEST_ASSERT_FLOAT_IS_INF dbl actual line message =
    UnityAssertFloatSpecial dbl actual message line UNITY_FLOAT_IS_INF"
definition UNITY_TEST_ASSERT_FLOAT_IS_NEG_INF where
  "UNITY_TEST_ASSERT_FLOAT_IS_NEG_INF dbl actual line message =
    UnityAssertFloatSpecial dbl actual message line UNITY_FLOAT_IS_NEG_INF"
definition UNITY_TEST_ASSERT_FLOAT_IS_NAN where
  "UNITY_TEST_ASSERT_FLOAT_IS_NAN dbl actual line message =
    UnityAssertFloatSpecial dbl actual message line UNITY_FLOAT_IS_NAN"
definition UNITY_TEST_ASSERT_FLOAT_IS_DETERMINATE where
  "UNITY_TEST_ASSERT_FLOAT_IS_DETERMINATE dbl actual line message =
    UnityAssertFloatSpecial dbl actual message line UNITY_FLOAT_IS_DET"
definition UNITY_TEST_ASSERT_FLOAT_IS_NOT_INF where
  "UNITY_TEST_ASSERT_FLOAT_IS_NOT_INF dbl actual line message =
    UnityAssertFloatSpecial dbl actual message line UNITY_FLOAT_IS_NOT_INF"
definition UNITY_TEST_ASSERT_FLOAT_IS_NOT_NEG_INF where
  "UNITY_TEST_ASSERT_FLOAT_IS_NOT_NEG_INF dbl actual line message =
    UnityAssertFloatSpecial dbl actual message line UNITY_FLOAT_IS_NOT_NEG_INF"
definition UNITY_TEST_ASSERT_FLOAT_IS_NOT_NAN where
  "UNITY_TEST_ASSERT_FLOAT_IS_NOT_NAN dbl actual line message =
    UnityAssertFloatSpecial dbl actual message line UNITY_FLOAT_IS_NOT_NAN"
definition UNITY_TEST_ASSERT_FLOAT_IS_NOT_DETERMINATE where
  "UNITY_TEST_ASSERT_FLOAT_IS_NOT_DETERMINATE dbl actual line message =
    UnityAssertFloatSpecial dbl actual message line UNITY_FLOAT_IS_NOT_DET"

subsection \<open>Macros on double, without support for it\<close>

definition UNITY_TEST_ASSERT_DOUBLE_WITHIN_off where
  "UNITY_TEST_ASSERT_DOUBLE_WITHIN_off delta expected actual line (message :: c_string) u =
    Inr (UNITY_TEST_FAIL line UnityStrErrDouble u)"
definition UNITY_TEST_ASSERT_DOUBLE_NOT_WITHIN_off where
  "UNITY_TEST_ASSERT_DOUBLE_NOT_WITHIN_off delta expected actual line (message :: c_string) u =
    Inr (UNITY_TEST_FAIL line UnityStrErrDouble u)"
definition UNITY_TEST_ASSERT_EQUAL_DOUBLE_off where
  "UNITY_TEST_ASSERT_EQUAL_DOUBLE_off expected actual line (message :: c_string) u =
    Inr (UNITY_TEST_FAIL line UnityStrErrDouble u)"
definition UNITY_TEST_ASSERT_NOT_EQUAL_DOUBLE_off where
  "UNITY_TEST_ASSERT_NOT_EQUAL_DOUBLE_off expected actual line (message :: c_string) u =
    Inr (UNITY_TEST_FAIL line UnityStrErrDouble u)"
definition UNITY_TEST_ASSERT_DOUBLE_ARRAY_WITHIN_off where
  "UNITY_TEST_ASSERT_DOUBLE_ARRAY_WITHIN_off delta expected actual num_elements line (message :: c_string) u =
    Inr (UNITY_TEST_FAIL line UnityStrErrDouble u)"
definition UNITY_TEST_ASSERT_EQUAL_DOUBLE_ARRAY_off where
  "UNITY_TEST_ASSERT_EQUAL_DOUBLE_ARRAY_off expected actual num_elements line (message :: c_string) u =
    Inr (UNITY_TEST_FAIL line UnityStrErrDouble u)"
definition UNITY_TEST_ASSERT_EACH_EQUAL_DOUBLE_off where
  "UNITY_TEST_ASSERT_EACH_EQUAL_DOUBLE_off expected actual num_elements line (message :: c_string) u =
    Inr (UNITY_TEST_FAIL line UnityStrErrDouble u)"
definition UNITY_TEST_ASSERT_GREATER_THAN_DOUBLE_off where
  "UNITY_TEST_ASSERT_GREATER_THAN_DOUBLE_off threshold actual line (message :: c_string) u =
    Inr (UNITY_TEST_FAIL line UnityStrErrDouble u)"
definition UNITY_TEST_ASSERT_GREATER_OR_EQUAL_DOUBLE_off where
  "UNITY_TEST_ASSERT_GREATER_OR_EQUAL_DOUBLE_off threshold actual line (message :: c_string) u =
    Inr (UNITY_TEST_FAIL line UnityStrErrDouble u)"
definition UNITY_TEST_ASSERT_LESS_THAN_DOUBLE_off where
  "UNITY_TEST_ASSERT_LESS_THAN_DOUBLE_off threshold actual line (message :: c_string) u =
    Inr (UNITY_TEST_FAIL line UnityStrErrDouble u)"
definition UNITY_TEST_ASSERT_LESS_OR_EQUAL_DOUBLE_off where
  "UNITY_TEST_ASSERT_LESS_OR_EQUAL_DOUBLE_off threshold actual line (message :: c_string) u =
    Inr (UNITY_TEST_FAIL line UnityStrErrDouble u)"
definition UNITY_TEST_ASSERT_DOUBLE_IS_INF_off where
  "UNITY_TEST_ASSERT_DOUBLE_IS_INF_off actual line (message :: c_string) u =
    Inr (UNITY_TEST_FAIL line UnityStrErrDouble u)"
definition UNITY_TEST_ASSERT_DOUBLE_IS_NEG_INF_off where
  "UNITY_TEST_ASSERT_DOUBLE_IS_NEG_INF_off actual line (message :: c_string) u =
    Inr (UNITY_TEST_FAIL line UnityStrErrDouble u)"
definition UNITY_TEST_ASSERT_DOUBLE_IS_NAN_off where
  "UNITY_TEST_ASSERT_DOUBLE_IS_NAN_off actual line (message :: c_string) u =
    Inr (UNITY_TEST_FAIL line UnityStrErrDouble u)"
definition UNITY_TEST_ASSERT_DOUBLE_IS_DETERMINATE_off where
  "UNITY_TEST_ASSERT_DOUBLE_IS_DETERMINATE_off actual line (message :: c_string) u =
    Inr (UNITY_TEST_FAIL line UnityStrErrDouble u)"
definition UNITY_TEST_ASSERT_DOUBLE_IS_NOT_INF_off where
  "UNITY_TEST_ASSERT_DOUBLE_IS_NOT_INF_off actual line (message :: c_string) u =
    Inr (UNITY_TEST_FAIL line UnityStrErrDouble u)"
definition UNITY_TEST_ASSERT_DOUBLE_IS_NOT_NEG_INF_off where
  "UNITY_TEST_ASSERT_DOUBLE_IS_NOT_NEG_INF_off actual line (message :: c_string) u =
    Inr (UNITY_TEST_FAIL line UnityStrErrDouble u)"
definition UNITY_TEST_ASSERT_DOUBLE_IS_NOT_NAN_off where
  "UNITY_TEST_ASSERT_DOUBLE_IS_NOT_NAN_off actual line (message :: c_string) u =
    Inr (UNITY_TEST_FAIL line UnityStrErrDouble u)"
definition UNITY_TEST_ASSERT_DOUBLE_IS_NOT_DETERMINATE_off where
  "UNITY_TEST_ASSERT_DOUBLE_IS_NOT_DETERMINATE_off actual line (message :: c_string) u =
    Inr (UNITY_TEST_FAIL line UnityStrErrDouble u)"

subsection \<open>Macros on double\<close>

definition UNITY_TEST_ASSERT_DOUBLE_WITHIN where
  "UNITY_TEST_ASSERT_DOUBLE_WITHIN delta expected actual line message =
    UnityAssertDoublesWithin delta expected actual message line"
definition UNITY_TEST_ASSERT_DOUBLE_NOT_WITHIN where
  "UNITY_TEST_ASSERT_DOUBLE_NOT_WITHIN delta expected actual line message =
    UnityAssertDoublesNotWithin delta expected actual message line"
definition UNITY_TEST_ASSERT_EQUAL_DOUBLE where
  "UNITY_TEST_ASSERT_EQUAL_DOUBLE expected actual line message =
    UNITY_TEST_ASSERT_DOUBLE_WITHIN (fmul double expected UNITY_DOUBLE_PRECISION) expected actual
     line message"
definition UNITY_TEST_ASSERT_NOT_EQUAL_DOUBLE where
  "UNITY_TEST_ASSERT_NOT_EQUAL_DOUBLE expected actual line message =
    UNITY_TEST_ASSERT_DOUBLE_NOT_WITHIN (fmul double expected UNITY_DOUBLE_PRECISION) expected
     actual line message"
definition UNITY_TEST_ASSERT_DOUBLE_ARRAY_WITHIN where
  "UNITY_TEST_ASSERT_DOUBLE_ARRAY_WITHIN mem delta expected actual num_elements line message =
    UnityAssertWithinDoubleArray mem delta expected actual (as_length num_elements) message line
     UNITY_ARRAY_TO_ARRAY"
definition UNITY_TEST_ASSERT_EQUAL_DOUBLE_ARRAY where
  "UNITY_TEST_ASSERT_EQUAL_DOUBLE_ARRAY mem expected actual num_elements line message =
    UnityAssertWithinDoubleArray mem fzero expected actual (as_length num_elements) message line
     UNITY_ARRAY_TO_ARRAY"
definition UNITY_TEST_ASSERT_EACH_EQUAL_DOUBLE where
  "UNITY_TEST_ASSERT_EACH_EQUAL_DOUBLE mem quick expected actual num_elements line message =
    (let (p, mem) = UnityDoubleToPtr quick expected mem in UnityAssertWithinDoubleArray mem fzero
     p actual (as_length num_elements) message line UNITY_ARRAY_TO_VAL)"
definition UNITY_TEST_ASSERT_GREATER_THAN_DOUBLE where
  "UNITY_TEST_ASSERT_GREATER_THAN_DOUBLE threshold actual line message =
    UnityAssertGreaterOrLessDouble threshold actual UNITY_GREATER_THAN message line"
definition UNITY_TEST_ASSERT_GREATER_OR_EQUAL_DOUBLE where
  "UNITY_TEST_ASSERT_GREATER_OR_EQUAL_DOUBLE threshold actual line message =
    UnityAssertGreaterOrLessDouble threshold actual UNITY_GREATER_OR_EQUAL message line"
definition UNITY_TEST_ASSERT_LESS_THAN_DOUBLE where
  "UNITY_TEST_ASSERT_LESS_THAN_DOUBLE threshold actual line message =
    UnityAssertGreaterOrLessDouble threshold actual UNITY_SMALLER_THAN message line"
definition UNITY_TEST_ASSERT_LESS_OR_EQUAL_DOUBLE where
  "UNITY_TEST_ASSERT_LESS_OR_EQUAL_DOUBLE threshold actual line message =
    UnityAssertGreaterOrLessDouble threshold actual UNITY_SMALLER_OR_EQUAL message line"
definition UNITY_TEST_ASSERT_DOUBLE_IS_INF where
  "UNITY_TEST_ASSERT_DOUBLE_IS_INF actual line message =
    UnityAssertDoubleSpecial actual message line UNITY_FLOAT_IS_INF"
definition UNITY_TEST_ASSERT_DOUBLE_IS_NEG_INF where
  "UNITY_TEST_ASSERT_DOUBLE_IS_NEG_INF actual line message =
    UnityAssertDoubleSpecial actual message line UNITY_FLOAT_IS_NEG_INF"
definition UNITY_TEST_ASSERT_DOUBLE_IS_NAN where
  "UNITY_TEST_ASSERT_DOUBLE_IS_NAN actual line message =
    UnityAssertDoubleSpecial actual message line UNITY_FLOAT_IS_NAN"
definition UNITY_TEST_ASSERT_DOUBLE_IS_DETERMINATE where
  "UNITY_TEST_ASSERT_DOUBLE_IS_DETERMINATE actual line message =
    UnityAssertDoubleSpecial actual message line UNITY_FLOAT_IS_DET"
definition UNITY_TEST_ASSERT_DOUBLE_IS_NOT_INF where
  "UNITY_TEST_ASSERT_DOUBLE_IS_NOT_INF actual line message =
    UnityAssertDoubleSpecial actual message line UNITY_FLOAT_IS_NOT_INF"
definition UNITY_TEST_ASSERT_DOUBLE_IS_NOT_NEG_INF where
  "UNITY_TEST_ASSERT_DOUBLE_IS_NOT_NEG_INF actual line message =
    UnityAssertDoubleSpecial actual message line UNITY_FLOAT_IS_NOT_NEG_INF"
definition UNITY_TEST_ASSERT_DOUBLE_IS_NOT_NAN where
  "UNITY_TEST_ASSERT_DOUBLE_IS_NOT_NAN actual line message =
    UnityAssertDoubleSpecial actual message line UNITY_FLOAT_IS_NOT_NAN"
definition UNITY_TEST_ASSERT_DOUBLE_IS_NOT_DETERMINATE where
  "UNITY_TEST_ASSERT_DOUBLE_IS_NOT_DETERMINATE actual line message =
    UnityAssertDoubleSpecial actual message line UNITY_FLOAT_IS_NOT_DET"

section \<open>The macros of the interface\<close>

subsection \<open>Float\<close>

definition TEST_ASSERT_FLOAT_WITHIN where
  "TEST_ASSERT_FLOAT_WITHIN dbl delta expected actual line =
    UNITY_TEST_ASSERT_FLOAT_WITHIN dbl delta expected actual line None"
definition TEST_ASSERT_FLOAT_NOT_WITHIN where
  "TEST_ASSERT_FLOAT_NOT_WITHIN dbl delta expected actual line =
    UNITY_TEST_ASSERT_FLOAT_NOT_WITHIN dbl delta expected actual line None"
definition TEST_ASSERT_EQUAL_FLOAT where
  "TEST_ASSERT_EQUAL_FLOAT dbl expected actual line =
    UNITY_TEST_ASSERT_EQUAL_FLOAT dbl expected actual line None"
definition TEST_ASSERT_NOT_EQUAL_FLOAT where
  "TEST_ASSERT_NOT_EQUAL_FLOAT dbl expected actual line =
    UNITY_TEST_ASSERT_NOT_EQUAL_FLOAT dbl expected actual line None"
definition TEST_ASSERT_FLOAT_ARRAY_WITHIN where
  "TEST_ASSERT_FLOAT_ARRAY_WITHIN dbl mem delta expected actual num_elements line =
    UNITY_TEST_ASSERT_FLOAT_ARRAY_WITHIN dbl mem delta expected actual num_elements line None"
definition TEST_ASSERT_EQUAL_FLOAT_ARRAY where
  "TEST_ASSERT_EQUAL_FLOAT_ARRAY dbl mem expected actual num_elements line =
    UNITY_TEST_ASSERT_EQUAL_FLOAT_ARRAY dbl mem expected actual num_elements line None"
definition TEST_ASSERT_EACH_EQUAL_FLOAT where
  "TEST_ASSERT_EACH_EQUAL_FLOAT dbl mem quick expected actual num_elements line =
    UNITY_TEST_ASSERT_EACH_EQUAL_FLOAT dbl mem quick expected actual num_elements line None"
definition TEST_ASSERT_GREATER_THAN_FLOAT where
  "TEST_ASSERT_GREATER_THAN_FLOAT dbl threshold actual line =
    UNITY_TEST_ASSERT_GREATER_THAN_FLOAT dbl threshold actual line None"
definition TEST_ASSERT_GREATER_OR_EQUAL_FLOAT where
  "TEST_ASSERT_GREATER_OR_EQUAL_FLOAT dbl threshold actual line =
    UNITY_TEST_ASSERT_GREATER_OR_EQUAL_FLOAT dbl threshold actual line None"
definition TEST_ASSERT_LESS_THAN_FLOAT where
  "TEST_ASSERT_LESS_THAN_FLOAT dbl threshold actual line =
    UNITY_TEST_ASSERT_LESS_THAN_FLOAT dbl threshold actual line None"
definition TEST_ASSERT_LESS_OR_EQUAL_FLOAT where
  "TEST_ASSERT_LESS_OR_EQUAL_FLOAT dbl threshold actual line =
    UNITY_TEST_ASSERT_LESS_OR_EQUAL_FLOAT dbl threshold actual line None"
definition TEST_ASSERT_FLOAT_IS_INF where
  "TEST_ASSERT_FLOAT_IS_INF dbl actual line =
    UNITY_TEST_ASSERT_FLOAT_IS_INF dbl actual line None"
definition TEST_ASSERT_FLOAT_IS_NEG_INF where
  "TEST_ASSERT_FLOAT_IS_NEG_INF dbl actual line =
    UNITY_TEST_ASSERT_FLOAT_IS_NEG_INF dbl actual line None"
definition TEST_ASSERT_FLOAT_IS_NAN where
  "TEST_ASSERT_FLOAT_IS_NAN dbl actual line =
    UNITY_TEST_ASSERT_FLOAT_IS_NAN dbl actual line None"
definition TEST_ASSERT_FLOAT_IS_DETERMINATE where
  "TEST_ASSERT_FLOAT_IS_DETERMINATE dbl actual line =
    UNITY_TEST_ASSERT_FLOAT_IS_DETERMINATE dbl actual line None"
definition TEST_ASSERT_FLOAT_IS_NOT_INF where
  "TEST_ASSERT_FLOAT_IS_NOT_INF dbl actual line =
    UNITY_TEST_ASSERT_FLOAT_IS_NOT_INF dbl actual line None"
definition TEST_ASSERT_FLOAT_IS_NOT_NEG_INF where
  "TEST_ASSERT_FLOAT_IS_NOT_NEG_INF dbl actual line =
    UNITY_TEST_ASSERT_FLOAT_IS_NOT_NEG_INF dbl actual line None"
definition TEST_ASSERT_FLOAT_IS_NOT_NAN where
  "TEST_ASSERT_FLOAT_IS_NOT_NAN dbl actual line =
    UNITY_TEST_ASSERT_FLOAT_IS_NOT_NAN dbl actual line None"
definition TEST_ASSERT_FLOAT_IS_NOT_DETERMINATE where
  "TEST_ASSERT_FLOAT_IS_NOT_DETERMINATE dbl actual line =
    UNITY_TEST_ASSERT_FLOAT_IS_NOT_DETERMINATE dbl actual line None"

subsection \<open>Double\<close>

definition TEST_ASSERT_DOUBLE_WITHIN where
  "TEST_ASSERT_DOUBLE_WITHIN dbl delta expected actual line =
    (if dbl then UNITY_TEST_ASSERT_DOUBLE_WITHIN delta expected actual line None else
     UNITY_TEST_ASSERT_DOUBLE_WITHIN_off delta expected actual line None)"
definition TEST_ASSERT_DOUBLE_NOT_WITHIN where
  "TEST_ASSERT_DOUBLE_NOT_WITHIN dbl delta expected actual line =
    (if dbl then UNITY_TEST_ASSERT_DOUBLE_NOT_WITHIN delta expected actual line None else
     UNITY_TEST_ASSERT_DOUBLE_NOT_WITHIN_off delta expected actual line None)"
definition TEST_ASSERT_EQUAL_DOUBLE where
  "TEST_ASSERT_EQUAL_DOUBLE dbl expected actual line =
    (if dbl then UNITY_TEST_ASSERT_EQUAL_DOUBLE expected actual line None else
     UNITY_TEST_ASSERT_EQUAL_DOUBLE_off expected actual line None)"
definition TEST_ASSERT_NOT_EQUAL_DOUBLE where
  "TEST_ASSERT_NOT_EQUAL_DOUBLE dbl expected actual line =
    (if dbl then UNITY_TEST_ASSERT_NOT_EQUAL_DOUBLE expected actual line None else
     UNITY_TEST_ASSERT_NOT_EQUAL_DOUBLE_off expected actual line None)"
definition TEST_ASSERT_DOUBLE_ARRAY_WITHIN where
  "TEST_ASSERT_DOUBLE_ARRAY_WITHIN dbl mem delta expected actual num_elements line =
    (if dbl then UNITY_TEST_ASSERT_DOUBLE_ARRAY_WITHIN mem delta expected actual num_elements line
     None else UNITY_TEST_ASSERT_DOUBLE_ARRAY_WITHIN_off delta expected actual num_elements line
     None)"
definition TEST_ASSERT_EQUAL_DOUBLE_ARRAY where
  "TEST_ASSERT_EQUAL_DOUBLE_ARRAY dbl mem expected actual num_elements line =
    (if dbl then UNITY_TEST_ASSERT_EQUAL_DOUBLE_ARRAY mem expected actual num_elements line None
     else UNITY_TEST_ASSERT_EQUAL_DOUBLE_ARRAY_off expected actual num_elements line None)"
definition TEST_ASSERT_EACH_EQUAL_DOUBLE where
  "TEST_ASSERT_EACH_EQUAL_DOUBLE dbl mem quick expected actual num_elements line =
    (if dbl then UNITY_TEST_ASSERT_EACH_EQUAL_DOUBLE mem quick expected actual num_elements line
     None else UNITY_TEST_ASSERT_EACH_EQUAL_DOUBLE_off expected actual num_elements line None)"
definition TEST_ASSERT_GREATER_THAN_DOUBLE where
  "TEST_ASSERT_GREATER_THAN_DOUBLE dbl threshold actual line =
    (if dbl then UNITY_TEST_ASSERT_GREATER_THAN_DOUBLE threshold actual line None else
     UNITY_TEST_ASSERT_GREATER_THAN_DOUBLE_off threshold actual line None)"
definition TEST_ASSERT_GREATER_OR_EQUAL_DOUBLE where
  "TEST_ASSERT_GREATER_OR_EQUAL_DOUBLE dbl threshold actual line =
    (if dbl then UNITY_TEST_ASSERT_GREATER_OR_EQUAL_DOUBLE threshold actual line None else
     UNITY_TEST_ASSERT_GREATER_OR_EQUAL_DOUBLE_off threshold actual line None)"
definition TEST_ASSERT_LESS_THAN_DOUBLE where
  "TEST_ASSERT_LESS_THAN_DOUBLE dbl threshold actual line =
    (if dbl then UNITY_TEST_ASSERT_LESS_THAN_DOUBLE threshold actual line None else
     UNITY_TEST_ASSERT_LESS_THAN_DOUBLE_off threshold actual line None)"
definition TEST_ASSERT_LESS_OR_EQUAL_DOUBLE where
  "TEST_ASSERT_LESS_OR_EQUAL_DOUBLE dbl threshold actual line =
    (if dbl then UNITY_TEST_ASSERT_LESS_OR_EQUAL_DOUBLE threshold actual line None else
     UNITY_TEST_ASSERT_LESS_OR_EQUAL_DOUBLE_off threshold actual line None)"
definition TEST_ASSERT_DOUBLE_IS_INF where
  "TEST_ASSERT_DOUBLE_IS_INF dbl actual line =
    (if dbl then UNITY_TEST_ASSERT_DOUBLE_IS_INF actual line None else
     UNITY_TEST_ASSERT_DOUBLE_IS_INF_off actual line None)"
definition TEST_ASSERT_DOUBLE_IS_NEG_INF where
  "TEST_ASSERT_DOUBLE_IS_NEG_INF dbl actual line =
    (if dbl then UNITY_TEST_ASSERT_DOUBLE_IS_NEG_INF actual line None else
     UNITY_TEST_ASSERT_DOUBLE_IS_NEG_INF_off actual line None)"
definition TEST_ASSERT_DOUBLE_IS_NAN where
  "TEST_ASSERT_DOUBLE_IS_NAN dbl actual line =
    (if dbl then UNITY_TEST_ASSERT_DOUBLE_IS_NAN actual line None else
     UNITY_TEST_ASSERT_DOUBLE_IS_NAN_off actual line None)"
definition TEST_ASSERT_DOUBLE_IS_DETERMINATE where
  "TEST_ASSERT_DOUBLE_IS_DETERMINATE dbl actual line =
    (if dbl then UNITY_TEST_ASSERT_DOUBLE_IS_DETERMINATE actual line None else
     UNITY_TEST_ASSERT_DOUBLE_IS_DETERMINATE_off actual line None)"
definition TEST_ASSERT_DOUBLE_IS_NOT_INF where
  "TEST_ASSERT_DOUBLE_IS_NOT_INF dbl actual line =
    (if dbl then UNITY_TEST_ASSERT_DOUBLE_IS_NOT_INF actual line None else
     UNITY_TEST_ASSERT_DOUBLE_IS_NOT_INF_off actual line None)"
definition TEST_ASSERT_DOUBLE_IS_NOT_NEG_INF where
  "TEST_ASSERT_DOUBLE_IS_NOT_NEG_INF dbl actual line =
    (if dbl then UNITY_TEST_ASSERT_DOUBLE_IS_NOT_NEG_INF actual line None else
     UNITY_TEST_ASSERT_DOUBLE_IS_NOT_NEG_INF_off actual line None)"
definition TEST_ASSERT_DOUBLE_IS_NOT_NAN where
  "TEST_ASSERT_DOUBLE_IS_NOT_NAN dbl actual line =
    (if dbl then UNITY_TEST_ASSERT_DOUBLE_IS_NOT_NAN actual line None else
     UNITY_TEST_ASSERT_DOUBLE_IS_NOT_NAN_off actual line None)"
definition TEST_ASSERT_DOUBLE_IS_NOT_DETERMINATE where
  "TEST_ASSERT_DOUBLE_IS_NOT_DETERMINATE dbl actual line =
    (if dbl then UNITY_TEST_ASSERT_DOUBLE_IS_NOT_DETERMINATE actual line None else
     UNITY_TEST_ASSERT_DOUBLE_IS_NOT_DETERMINATE_off actual line None)"

subsection \<open>Float, with a message\<close>

definition TEST_ASSERT_FLOAT_WITHIN_MESSAGE where
  "TEST_ASSERT_FLOAT_WITHIN_MESSAGE dbl delta expected actual message line =
    UNITY_TEST_ASSERT_FLOAT_WITHIN dbl delta expected actual line message"
definition TEST_ASSERT_EQUAL_FLOAT_MESSAGE where
  "TEST_ASSERT_EQUAL_FLOAT_MESSAGE dbl expected actual message line =
    UNITY_TEST_ASSERT_EQUAL_FLOAT dbl expected actual line message"
definition TEST_ASSERT_NOT_EQUAL_FLOAT_MESSAGE where
  "TEST_ASSERT_NOT_EQUAL_FLOAT_MESSAGE dbl expected actual message line =
    UNITY_TEST_ASSERT_NOT_EQUAL_FLOAT dbl expected actual line message"
definition TEST_ASSERT_FLOAT_ARRAY_WITHIN_MESSAGE where
  "TEST_ASSERT_FLOAT_ARRAY_WITHIN_MESSAGE dbl mem delta expected actual num_elements message line =
    UNITY_TEST_ASSERT_FLOAT_ARRAY_WITHIN dbl mem delta expected actual num_elements line message"
definition TEST_ASSERT_EQUAL_FLOAT_ARRAY_MESSAGE where
  "TEST_ASSERT_EQUAL_FLOAT_ARRAY_MESSAGE dbl mem expected actual num_elements message line =
    UNITY_TEST_ASSERT_EQUAL_FLOAT_ARRAY dbl mem expected actual num_elements line message"
definition TEST_ASSERT_EACH_EQUAL_FLOAT_MESSAGE where
  "TEST_ASSERT_EACH_EQUAL_FLOAT_MESSAGE dbl mem quick expected actual num_elements message line =
    UNITY_TEST_ASSERT_EACH_EQUAL_FLOAT dbl mem quick expected actual num_elements line message"
definition TEST_ASSERT_GREATER_THAN_FLOAT_MESSAGE where
  "TEST_ASSERT_GREATER_THAN_FLOAT_MESSAGE dbl threshold actual message line =
    UNITY_TEST_ASSERT_GREATER_THAN_FLOAT dbl threshold actual line message"
definition TEST_ASSERT_GREATER_OR_EQUAL_FLOAT_MESSAGE where
  "TEST_ASSERT_GREATER_OR_EQUAL_FLOAT_MESSAGE dbl threshold actual message line =
    UNITY_TEST_ASSERT_GREATER_OR_EQUAL_FLOAT dbl threshold actual line message"
definition TEST_ASSERT_LESS_THAN_FLOAT_MESSAGE where
  "TEST_ASSERT_LESS_THAN_FLOAT_MESSAGE dbl threshold actual message line =
    UNITY_TEST_ASSERT_LESS_THAN_FLOAT dbl threshold actual line message"
definition TEST_ASSERT_LESS_OR_EQUAL_FLOAT_MESSAGE where
  "TEST_ASSERT_LESS_OR_EQUAL_FLOAT_MESSAGE dbl threshold actual message line =
    UNITY_TEST_ASSERT_LESS_OR_EQUAL_FLOAT dbl threshold actual line message"
definition TEST_ASSERT_FLOAT_IS_INF_MESSAGE where
  "TEST_ASSERT_FLOAT_IS_INF_MESSAGE dbl actual message line =
    UNITY_TEST_ASSERT_FLOAT_IS_INF dbl actual line message"
definition TEST_ASSERT_FLOAT_IS_NEG_INF_MESSAGE where
  "TEST_ASSERT_FLOAT_IS_NEG_INF_MESSAGE dbl actual message line =
    UNITY_TEST_ASSERT_FLOAT_IS_NEG_INF dbl actual line message"
definition TEST_ASSERT_FLOAT_IS_NAN_MESSAGE where
  "TEST_ASSERT_FLOAT_IS_NAN_MESSAGE dbl actual message line =
    UNITY_TEST_ASSERT_FLOAT_IS_NAN dbl actual line message"
definition TEST_ASSERT_FLOAT_IS_DETERMINATE_MESSAGE where
  "TEST_ASSERT_FLOAT_IS_DETERMINATE_MESSAGE dbl actual message line =
    UNITY_TEST_ASSERT_FLOAT_IS_DETERMINATE dbl actual line message"
definition TEST_ASSERT_FLOAT_IS_NOT_INF_MESSAGE where
  "TEST_ASSERT_FLOAT_IS_NOT_INF_MESSAGE dbl actual message line =
    UNITY_TEST_ASSERT_FLOAT_IS_NOT_INF dbl actual line message"
definition TEST_ASSERT_FLOAT_IS_NOT_NEG_INF_MESSAGE where
  "TEST_ASSERT_FLOAT_IS_NOT_NEG_INF_MESSAGE dbl actual message line =
    UNITY_TEST_ASSERT_FLOAT_IS_NOT_NEG_INF dbl actual line message"
definition TEST_ASSERT_FLOAT_IS_NOT_NAN_MESSAGE where
  "TEST_ASSERT_FLOAT_IS_NOT_NAN_MESSAGE dbl actual message line =
    UNITY_TEST_ASSERT_FLOAT_IS_NOT_NAN dbl actual line message"
definition TEST_ASSERT_FLOAT_IS_NOT_DETERMINATE_MESSAGE where
  "TEST_ASSERT_FLOAT_IS_NOT_DETERMINATE_MESSAGE dbl actual message line =
    UNITY_TEST_ASSERT_FLOAT_IS_NOT_DETERMINATE dbl actual line message"

subsection \<open>Double, with a message\<close>

definition TEST_ASSERT_DOUBLE_WITHIN_MESSAGE where
  "TEST_ASSERT_DOUBLE_WITHIN_MESSAGE dbl delta expected actual message line =
    (if dbl then UNITY_TEST_ASSERT_DOUBLE_WITHIN delta expected actual line message else
     UNITY_TEST_ASSERT_DOUBLE_WITHIN_off delta expected actual line message)"
definition TEST_ASSERT_EQUAL_DOUBLE_MESSAGE where
  "TEST_ASSERT_EQUAL_DOUBLE_MESSAGE dbl expected actual message line =
    (if dbl then UNITY_TEST_ASSERT_EQUAL_DOUBLE expected actual line message else
     UNITY_TEST_ASSERT_EQUAL_DOUBLE_off expected actual line message)"
definition TEST_ASSERT_NOT_EQUAL_DOUBLE_MESSAGE where
  "TEST_ASSERT_NOT_EQUAL_DOUBLE_MESSAGE dbl expected actual message line =
    (if dbl then UNITY_TEST_ASSERT_NOT_EQUAL_DOUBLE expected actual line message else
     UNITY_TEST_ASSERT_NOT_EQUAL_DOUBLE_off expected actual line message)"
definition TEST_ASSERT_DOUBLE_ARRAY_WITHIN_MESSAGE where
  "TEST_ASSERT_DOUBLE_ARRAY_WITHIN_MESSAGE dbl mem delta expected actual num_elements message line =
    (if dbl then UNITY_TEST_ASSERT_DOUBLE_ARRAY_WITHIN mem delta expected actual num_elements line
     message else UNITY_TEST_ASSERT_DOUBLE_ARRAY_WITHIN_off delta expected actual num_elements
     line message)"
definition TEST_ASSERT_EQUAL_DOUBLE_ARRAY_MESSAGE where
  "TEST_ASSERT_EQUAL_DOUBLE_ARRAY_MESSAGE dbl mem expected actual num_elements message line =
    (if dbl then UNITY_TEST_ASSERT_EQUAL_DOUBLE_ARRAY mem expected actual num_elements line
     message else UNITY_TEST_ASSERT_EQUAL_DOUBLE_ARRAY_off expected actual num_elements line
     message)"
definition TEST_ASSERT_EACH_EQUAL_DOUBLE_MESSAGE where
  "TEST_ASSERT_EACH_EQUAL_DOUBLE_MESSAGE dbl mem quick expected actual num_elements message line =
    (if dbl then UNITY_TEST_ASSERT_EACH_EQUAL_DOUBLE mem quick expected actual num_elements line
     message else UNITY_TEST_ASSERT_EACH_EQUAL_DOUBLE_off expected actual num_elements line
     message)"
definition TEST_ASSERT_GREATER_THAN_DOUBLE_MESSAGE where
  "TEST_ASSERT_GREATER_THAN_DOUBLE_MESSAGE dbl threshold actual message line =
    (if dbl then UNITY_TEST_ASSERT_GREATER_THAN_DOUBLE threshold actual line message else
     UNITY_TEST_ASSERT_GREATER_THAN_DOUBLE_off threshold actual line message)"
definition TEST_ASSERT_GREATER_OR_EQUAL_DOUBLE_MESSAGE where
  "TEST_ASSERT_GREATER_OR_EQUAL_DOUBLE_MESSAGE dbl threshold actual message line =
    (if dbl then UNITY_TEST_ASSERT_GREATER_OR_EQUAL_DOUBLE threshold actual line message else
     UNITY_TEST_ASSERT_GREATER_OR_EQUAL_DOUBLE_off threshold actual line message)"
definition TEST_ASSERT_LESS_THAN_DOUBLE_MESSAGE where
  "TEST_ASSERT_LESS_THAN_DOUBLE_MESSAGE dbl threshold actual message line =
    (if dbl then UNITY_TEST_ASSERT_LESS_THAN_DOUBLE threshold actual line message else
     UNITY_TEST_ASSERT_LESS_THAN_DOUBLE_off threshold actual line message)"
definition TEST_ASSERT_LESS_OR_EQUAL_DOUBLE_MESSAGE where
  "TEST_ASSERT_LESS_OR_EQUAL_DOUBLE_MESSAGE dbl threshold actual message line =
    (if dbl then UNITY_TEST_ASSERT_LESS_OR_EQUAL_DOUBLE threshold actual line message else
     UNITY_TEST_ASSERT_LESS_OR_EQUAL_DOUBLE_off threshold actual line message)"
definition TEST_ASSERT_DOUBLE_IS_INF_MESSAGE where
  "TEST_ASSERT_DOUBLE_IS_INF_MESSAGE dbl actual message line =
    (if dbl then UNITY_TEST_ASSERT_DOUBLE_IS_INF actual line message else
     UNITY_TEST_ASSERT_DOUBLE_IS_INF_off actual line message)"
definition TEST_ASSERT_DOUBLE_IS_NEG_INF_MESSAGE where
  "TEST_ASSERT_DOUBLE_IS_NEG_INF_MESSAGE dbl actual message line =
    (if dbl then UNITY_TEST_ASSERT_DOUBLE_IS_NEG_INF actual line message else
     UNITY_TEST_ASSERT_DOUBLE_IS_NEG_INF_off actual line message)"
definition TEST_ASSERT_DOUBLE_IS_NAN_MESSAGE where
  "TEST_ASSERT_DOUBLE_IS_NAN_MESSAGE dbl actual message line =
    (if dbl then UNITY_TEST_ASSERT_DOUBLE_IS_NAN actual line message else
     UNITY_TEST_ASSERT_DOUBLE_IS_NAN_off actual line message)"
definition TEST_ASSERT_DOUBLE_IS_DETERMINATE_MESSAGE where
  "TEST_ASSERT_DOUBLE_IS_DETERMINATE_MESSAGE dbl actual message line =
    (if dbl then UNITY_TEST_ASSERT_DOUBLE_IS_DETERMINATE actual line message else
     UNITY_TEST_ASSERT_DOUBLE_IS_DETERMINATE_off actual line message)"
definition TEST_ASSERT_DOUBLE_IS_NOT_INF_MESSAGE where
  "TEST_ASSERT_DOUBLE_IS_NOT_INF_MESSAGE dbl actual message line =
    (if dbl then UNITY_TEST_ASSERT_DOUBLE_IS_NOT_INF actual line message else
     UNITY_TEST_ASSERT_DOUBLE_IS_NOT_INF_off actual line message)"
definition TEST_ASSERT_DOUBLE_IS_NOT_NEG_INF_MESSAGE where
  "TEST_ASSERT_DOUBLE_IS_NOT_NEG_INF_MESSAGE dbl actual message line =
    (if dbl then UNITY_TEST_ASSERT_DOUBLE_IS_NOT_NEG_INF actual line message else
     UNITY_TEST_ASSERT_DOUBLE_IS_NOT_NEG_INF_off actual line message)"
definition TEST_ASSERT_DOUBLE_IS_NOT_NAN_MESSAGE where
  "TEST_ASSERT_DOUBLE_IS_NOT_NAN_MESSAGE dbl actual message line =
    (if dbl then UNITY_TEST_ASSERT_DOUBLE_IS_NOT_NAN actual line message else
     UNITY_TEST_ASSERT_DOUBLE_IS_NOT_NAN_off actual line message)"
definition TEST_ASSERT_DOUBLE_IS_NOT_DETERMINATE_MESSAGE where
  "TEST_ASSERT_DOUBLE_IS_NOT_DETERMINATE_MESSAGE dbl actual message line =
    (if dbl then UNITY_TEST_ASSERT_DOUBLE_IS_NOT_DETERMINATE actual line message else
     UNITY_TEST_ASSERT_DOUBLE_IS_NOT_DETERMINATE_off actual line message)"

section \<open>What the macros on floats accept\<close>

lemma fmul_nan: "fmul f x y = NaN \<longleftrightarrow> x = NaN \<or> y = NaN \<or>
  (fp_isinf x \<and> (\<exists>s. y = Finite s 0)) \<or> (fp_isinf y \<and> (\<exists>s. x = Finite s 0))"
  by (cases x; cases y) (auto simp: rounded_def Let_def)

lemma fmul_ok: "0 < precision f \<Longrightarrow> fp_ok f (fmul f x y)"
  by (cases x; cases y) (simp_all add: fp_ok_rounded, simp_all add: fp_ok_def)

lemma precision_finite:
  "\<exists>k. UNITY_FLOAT_PRECISION = Finite False (Suc k)" "\<exists>k. UNITY_DOUBLE_PRECISION = Finite False (Suc k)"
proof -
  have *: "2 ^ 132 \<le> round_units 24 (2 ^ 149) 100000" "round_units 24 (2 ^ 149) 100000 \<le> 2 ^ 133"
    using representableI [of 1 24 132] representableI [of 1 24 133]
    by (intro round_units_ge round_units_le; simp)+
  have **: "2 ^ 1034 \<le> round_units 53 (2 ^ 1074) (10 ^ 12)" "round_units 53 (2 ^ 1074) (10 ^ 12) \<le> 2 ^ 1035"
    using representableI [of 1 53 1034] representableI [of 1 53 1035]
    by (intro round_units_ge round_units_le; simp)+
  have "round_units 24 (2 ^ 149) 100000 < 2 ^ 277" by (rule le_less_trans [OF *(2)]) simp
  moreover have "round_units 53 (2 ^ 1074) (10 ^ 12) < 2 ^ 2098" by (rule le_less_trans [OF **(2)]) simp
  moreover have "\<exists>k. round_units 24 (2 ^ 149) 100000 = Suc k" "\<exists>k. round_units 53 (2 ^ 1074) (10 ^ 12) = Suc k"
    using *(1) **(1) by (simp_all add: gr0_conv_Suc [symmetric])
  ultimately show "\<exists>k. UNITY_FLOAT_PRECISION = Finite False (Suc k)" "\<exists>k. UNITY_DOUBLE_PRECISION = Finite False (Suc k)"
    by (simp_all add: UNITY_FLOAT_PRECISION_def UNITY_DOUBLE_PRECISION_def fp_lit_def rounded_finite)
qed

text \<open>
  A float equals itself under the equality macro, whatever it is: a number (its delta is a
  fraction of it), an infinity, or a NaN. The macro for \<^verbatim>\<open>double\<close> accepts as much if Unity is compiled
  with \<^verbatim>\<open>UNITY_INCLUDE_DOUBLE\<close>, and fails on everything if it is not.
\<close>
theorem equal_float_reflexive:
  assumes "\<not> fail_or_ignore u"
  shows "asserts_res True u
      (TEST_ASSERT_EQUAL_FLOAT dbl (fp_of_bits single w) (fp_of_bits single w) line u) \<and>
    asserts_res dbl u
      (TEST_ASSERT_EQUAL_DOUBLE dbl (fp_of_bits double v) (fp_of_bits double v) line u)"
proof
  let ?x = "fp_of_bits single w" and ?y = "fp_of_bits double v"
  have x: "fp_ok single ?x" and y: "fp_ok double ?y" by (rule fp_of_bits_ok; simp)+
  obtain k l where P: "UNITY_FLOAT_PRECISION = Finite False (Suc k)" "UNITY_DOUBLE_PRECISION = Finite False (Suc l)"
    using precision_finite by blast
  have "fmul single ?x UNITY_FLOAT_PRECISION = NaN \<longrightarrow> ?x = NaN"
    "fmul double ?y UNITY_DOUBLE_PRECISION = NaN \<longrightarrow> ?y = NaN"
    unfolding P by (simp_all add: fmul_nan)
  then have within: "UNITY_FLOAT_OR_DOUBLE_WITHIN single (fmul single ?x UNITY_FLOAT_PRECISION) ?x ?x"
    "UNITY_FLOAT_OR_DOUBLE_WITHIN double (fmul double ?y UNITY_DOUBLE_PRECISION) ?y ?y"
    using x y by (simp_all add: within_itself fmul_ok)
  show "asserts_res True u (TEST_ASSERT_EQUAL_FLOAT dbl ?x ?x line u)"
    using assert_within_asserts [of single dbl ?x ?x u "fmul single ?x UNITY_FLOAT_PRECISION"] x assms within(1)
    by (simp add: TEST_ASSERT_EQUAL_FLOAT_def UNITY_TEST_ASSERT_EQUAL_FLOAT_def
        UNITY_TEST_ASSERT_FLOAT_WITHIN_def UnityAssertFloatsWithin_def printable_def)
  show "asserts_res dbl u (TEST_ASSERT_EQUAL_DOUBLE dbl ?y ?y line u)"
  proof (cases dbl)
    case True
    then show ?thesis
      using assert_within_asserts [of double True ?y ?y u "fmul double ?y UNITY_DOUBLE_PRECISION"] y assms within(2)
      by (simp add: TEST_ASSERT_EQUAL_DOUBLE_def UNITY_TEST_ASSERT_EQUAL_DOUBLE_def
          UNITY_TEST_ASSERT_DOUBLE_WITHIN_def UnityAssertDoublesWithin_def printable_def)
  next
    case False
    then show ?thesis
      using UnityFail_asserts [OF assms, of UnityStrErrDouble line]
      by (simp add: TEST_ASSERT_EQUAL_DOUBLE_def UNITY_TEST_ASSERT_EQUAL_DOUBLE_off_def UNITY_TEST_FAIL_def
          asserts_res_def)
  qed
qed

theorem equal_float_reflexive_witness:
  "asserts_res True unity_fresh
     (TEST_ASSERT_EQUAL_FLOAT False (fp_of_bits single 0x7FC00000) (fp_of_bits single 0x7FC00000) 1 unity_fresh)"
  using equal_float_reflexive [OF unity_fresh_ok] by blast

text \<open>
  An array compared with a single value: accepted exactly if every element is within a
  hundred-thousandth of it, with the value stored where the elements do not overlap it.
\<close>
lemma each_equal_float_asserts:
  assumes "\<not> fail_or_ignore u" and "as_length n \<noteq> 0" and "fp_ok single x"
    and "quick \<noteq> actual" "quick \<noteq> NULL" "actual \<noteq> NULL"
    and "\<forall>i < unat (as_length n).
      load_float (snd (UnityFloatToPtr quick x mem)) single (actual + of_nat (i * 4)) = Inr (as i)"
  shows "asserts_res (\<forall>i < unat (as_length n). element_within single UNITY_FLOAT_PRECISION fzero x (as i)) u
    (TEST_ASSERT_EACH_EQUAL_FLOAT dbl mem quick x actual n line u)"
proof -
  obtain mem' where q: "UnityFloatToPtr quick x mem = (quick, mem')" by (simp add: UnityFloatToPtr_def)
  have "load_float mem' single quick = Inr x"
    using float_stored [OF assms(3), of quick mem] by (simp add: q)
  then have "asserts_res (\<forall>i < unat (as_length n). element_within single UNITY_FLOAT_PRECISION fzero x (as i)) u
    (float_array_loop single UNITY_FLOAT_PRECISION dbl mem' fzero (as_length n) None line UNITY_ARRAY_TO_VAL
      (unat (as_length n)) quick actual u)"
    using assms(7) by (intro float_array_loop_asserts) (simp_all add: printable_def step_ptr_def sizeof_float_def q)
  then show ?thesis
    using assms
    by (simp add: TEST_ASSERT_EACH_EQUAL_FLOAT_def UNITY_TEST_ASSERT_EACH_EQUAL_FLOAT_def q
        UnityAssertWithinFloatArray_def assert_within_array_def UnityIsOneArrayNull_def fp_isnan_def Let_def)
qed

end
