(* ===== verification/Unity_Api.thy ===== *)
theory Unity_Api
  imports Unity_Internal_Macros
begin

text \<open>
  The assertion macros a test program writes (\<^verbatim>\<open>unity/src/unity.h\<close>), without those on floating
  point, one definition per macro; \<open>line\<close> is \<^verbatim>\<open>__LINE__\<close>. What the families accept is stated
  at the end, with two places where a macro does not check what its name says.
\<close>

section \<open>The macros\<close>

definition TEST_FAIL_MESSAGE where "TEST_FAIL_MESSAGE message line = UNITY_TEST_FAIL line message"
definition TEST_FAIL where "TEST_FAIL line = UNITY_TEST_FAIL line None"
definition TEST_IGNORE_MESSAGE where
  "TEST_IGNORE_MESSAGE message line =
    UNITY_TEST_IGNORE line message"
definition TEST_IGNORE where "TEST_IGNORE line = UNITY_TEST_IGNORE line None"
definition TEST_MESSAGE where "TEST_MESSAGE message line = UnityMessage message line"
definition TEST_PASS where "TEST_PASS u = Jumps u"
definition TEST_PASS_MESSAGE where
  "TEST_PASS_MESSAGE message line u = Jumps (UnityMessage message line u)"

subsection \<open>Boolean\<close>

definition TEST_ASSERT where
  "TEST_ASSERT condition line =
    UNITY_TEST_ASSERT condition line (Some '' Expression Evaluated To FALSE'')"
definition TEST_ASSERT_TRUE where
  "TEST_ASSERT_TRUE condition line =
    UNITY_TEST_ASSERT condition line (Some '' Expected TRUE Was FALSE'')"
definition TEST_ASSERT_UNLESS where
  "TEST_ASSERT_UNLESS condition line =
    UNITY_TEST_ASSERT (\<not> condition) line (Some '' Expression Evaluated To TRUE'')"
definition TEST_ASSERT_FALSE where
  "TEST_ASSERT_FALSE condition line =
    UNITY_TEST_ASSERT (\<not> condition) line (Some '' Expected FALSE Was TRUE'')"
definition TEST_ASSERT_NULL where
  "TEST_ASSERT_NULL pointer line =
    UNITY_TEST_ASSERT_NULL pointer line (Some '' Expected NULL'')"
definition TEST_ASSERT_NOT_NULL where
  "TEST_ASSERT_NOT_NULL pointer line =
    UNITY_TEST_ASSERT_NOT_NULL pointer line (Some '' Expected Non-NULL'')"
definition TEST_ASSERT_EMPTY where
  "TEST_ASSERT_EMPTY pointer line =
    UNITY_TEST_ASSERT_EMPTY pointer line (Some '' Expected Empty'')"
definition TEST_ASSERT_NOT_EMPTY where
  "TEST_ASSERT_NOT_EMPTY pointer line =
    UNITY_TEST_ASSERT_NOT_EMPTY pointer line (Some '' Expected Non-Empty'')"

subsection \<open>Integers (of all sizes)\<close>

definition TEST_ASSERT_EQUAL_INT where
  "TEST_ASSERT_EQUAL_INT expected actual line =
    UNITY_TEST_ASSERT_EQUAL_INT expected actual line None"
definition TEST_ASSERT_EQUAL_INT8 where
  "TEST_ASSERT_EQUAL_INT8 expected actual line =
    UNITY_TEST_ASSERT_EQUAL_INT8 expected actual line None"
definition TEST_ASSERT_EQUAL_INT16 where
  "TEST_ASSERT_EQUAL_INT16 expected actual line =
    UNITY_TEST_ASSERT_EQUAL_INT16 expected actual line None"
definition TEST_ASSERT_EQUAL_INT32 where
  "TEST_ASSERT_EQUAL_INT32 expected actual line =
    UNITY_TEST_ASSERT_EQUAL_INT32 expected actual line None"
definition TEST_ASSERT_EQUAL_INT64 where
  "TEST_ASSERT_EQUAL_INT64 expected actual line =
    UNITY_TEST_ASSERT_EQUAL_INT64 expected actual line None"
definition TEST_ASSERT_EQUAL_UINT where
  "TEST_ASSERT_EQUAL_UINT expected actual line =
    UNITY_TEST_ASSERT_EQUAL_UINT expected actual line None"
definition TEST_ASSERT_EQUAL_UINT8 where
  "TEST_ASSERT_EQUAL_UINT8 expected actual line =
    UNITY_TEST_ASSERT_EQUAL_UINT8 expected actual line None"
definition TEST_ASSERT_EQUAL_UINT16 where
  "TEST_ASSERT_EQUAL_UINT16 expected actual line =
    UNITY_TEST_ASSERT_EQUAL_UINT16 expected actual line None"
definition TEST_ASSERT_EQUAL_UINT32 where
  "TEST_ASSERT_EQUAL_UINT32 expected actual line =
    UNITY_TEST_ASSERT_EQUAL_UINT32 expected actual line None"
definition TEST_ASSERT_EQUAL_UINT64 where
  "TEST_ASSERT_EQUAL_UINT64 expected actual line =
    UNITY_TEST_ASSERT_EQUAL_UINT64 expected actual line None"
definition TEST_ASSERT_EQUAL_size_t where
  "TEST_ASSERT_EQUAL_size_t expected actual line =
    UNITY_TEST_ASSERT_EQUAL_UINT expected actual line None"
definition TEST_ASSERT_EQUAL_HEX where
  "TEST_ASSERT_EQUAL_HEX expected actual line =
    UNITY_TEST_ASSERT_EQUAL_HEX32 expected actual line None"
definition TEST_ASSERT_EQUAL_HEX8 where
  "TEST_ASSERT_EQUAL_HEX8 expected actual line =
    UNITY_TEST_ASSERT_EQUAL_HEX8 expected actual line None"
definition TEST_ASSERT_EQUAL_HEX16 where
  "TEST_ASSERT_EQUAL_HEX16 expected actual line =
    UNITY_TEST_ASSERT_EQUAL_HEX16 expected actual line None"
definition TEST_ASSERT_EQUAL_HEX32 where
  "TEST_ASSERT_EQUAL_HEX32 expected actual line =
    UNITY_TEST_ASSERT_EQUAL_HEX32 expected actual line None"
definition TEST_ASSERT_EQUAL_HEX64 where
  "TEST_ASSERT_EQUAL_HEX64 expected actual line =
    UNITY_TEST_ASSERT_EQUAL_HEX64 expected actual line None"
definition TEST_ASSERT_EQUAL_CHAR where
  "TEST_ASSERT_EQUAL_CHAR expected actual line =
    UNITY_TEST_ASSERT_EQUAL_CHAR expected actual line None"
definition TEST_ASSERT_BITS where
  "TEST_ASSERT_BITS msk expected actual line =
    UNITY_TEST_ASSERT_BITS msk expected actual line None"
definition TEST_ASSERT_BITS_HIGH where
  "TEST_ASSERT_BITS_HIGH msk actual line =
    UNITY_TEST_ASSERT_BITS msk (- 1) actual line None"
definition TEST_ASSERT_BITS_LOW where
  "TEST_ASSERT_BITS_LOW msk actual line =
    UNITY_TEST_ASSERT_BITS msk 0 actual line None"
definition TEST_ASSERT_BIT_HIGH where
  "TEST_ASSERT_BIT_HIGH bit_no actual line u =
    (if bit_no < 64 then Inr (UNITY_TEST_ASSERT_BITS (push_bit bit_no 1) (- 1) actual line None u)
     else Inl Bad_argument)"
definition TEST_ASSERT_BIT_LOW where
  "TEST_ASSERT_BIT_LOW bit_no actual line u =
    (if bit_no < 64 then Inr (UNITY_TEST_ASSERT_BITS (push_bit bit_no 1) 0 actual line None u)
     else Inl Bad_argument)"

subsection \<open>Integer Not Equal To (of all sizes)\<close>

definition TEST_ASSERT_NOT_EQUAL_INT where
  "TEST_ASSERT_NOT_EQUAL_INT threshold actual line =
    UNITY_TEST_ASSERT_NOT_EQUAL_INT threshold actual line None"
definition TEST_ASSERT_NOT_EQUAL_INT8 where
  "TEST_ASSERT_NOT_EQUAL_INT8 threshold actual line =
    UNITY_TEST_ASSERT_NOT_EQUAL_INT8 threshold actual line None"
definition TEST_ASSERT_NOT_EQUAL_INT16 where
  "TEST_ASSERT_NOT_EQUAL_INT16 threshold actual line =
    UNITY_TEST_ASSERT_NOT_EQUAL_INT16 threshold actual line None"
definition TEST_ASSERT_NOT_EQUAL_INT32 where
  "TEST_ASSERT_NOT_EQUAL_INT32 threshold actual line =
    UNITY_TEST_ASSERT_NOT_EQUAL_INT32 threshold actual line None"
definition TEST_ASSERT_NOT_EQUAL_INT64 where
  "TEST_ASSERT_NOT_EQUAL_INT64 threshold actual line =
    UNITY_TEST_ASSERT_NOT_EQUAL_INT64 threshold actual line None"
definition TEST_ASSERT_NOT_EQUAL_UINT where
  "TEST_ASSERT_NOT_EQUAL_UINT threshold actual line =
    UNITY_TEST_ASSERT_NOT_EQUAL_UINT threshold actual line None"
definition TEST_ASSERT_NOT_EQUAL_UINT8 where
  "TEST_ASSERT_NOT_EQUAL_UINT8 threshold actual line =
    UNITY_TEST_ASSERT_NOT_EQUAL_UINT8 threshold actual line None"
definition TEST_ASSERT_NOT_EQUAL_UINT16 where
  "TEST_ASSERT_NOT_EQUAL_UINT16 threshold actual line =
    UNITY_TEST_ASSERT_NOT_EQUAL_UINT16 threshold actual line None"
definition TEST_ASSERT_NOT_EQUAL_UINT32 where
  "TEST_ASSERT_NOT_EQUAL_UINT32 threshold actual line =
    UNITY_TEST_ASSERT_NOT_EQUAL_UINT32 threshold actual line None"
definition TEST_ASSERT_NOT_EQUAL_UINT64 where
  "TEST_ASSERT_NOT_EQUAL_UINT64 threshold actual line =
    UNITY_TEST_ASSERT_NOT_EQUAL_UINT64 threshold actual line None"
definition TEST_ASSERT_NOT_EQUAL_size_t where
  "TEST_ASSERT_NOT_EQUAL_size_t threshold actual line =
    UNITY_TEST_ASSERT_NOT_EQUAL_UINT threshold actual line None"
definition TEST_ASSERT_NOT_EQUAL_HEX8 where
  "TEST_ASSERT_NOT_EQUAL_HEX8 threshold actual line =
    UNITY_TEST_ASSERT_NOT_EQUAL_HEX8 threshold actual line None"
definition TEST_ASSERT_NOT_EQUAL_HEX16 where
  "TEST_ASSERT_NOT_EQUAL_HEX16 threshold actual line =
    UNITY_TEST_ASSERT_NOT_EQUAL_HEX16 threshold actual line None"
definition TEST_ASSERT_NOT_EQUAL_HEX32 where
  "TEST_ASSERT_NOT_EQUAL_HEX32 threshold actual line =
    UNITY_TEST_ASSERT_NOT_EQUAL_HEX32 threshold actual line None"
definition TEST_ASSERT_NOT_EQUAL_HEX64 where
  "TEST_ASSERT_NOT_EQUAL_HEX64 threshold actual line =
    UNITY_TEST_ASSERT_NOT_EQUAL_HEX64 threshold actual line None"
definition TEST_ASSERT_NOT_EQUAL_CHAR where
  "TEST_ASSERT_NOT_EQUAL_CHAR threshold actual line =
    UNITY_TEST_ASSERT_NOT_EQUAL_CHAR threshold actual line None"

subsection \<open>Integer Greater Than/ Less Than (of all sizes)\<close>

definition TEST_ASSERT_GREATER_THAN where
  "TEST_ASSERT_GREATER_THAN threshold actual line =
    UNITY_TEST_ASSERT_GREATER_THAN_INT threshold actual line None"
definition TEST_ASSERT_GREATER_THAN_INT where
  "TEST_ASSERT_GREATER_THAN_INT threshold actual line =
    UNITY_TEST_ASSERT_GREATER_THAN_INT threshold actual line None"
definition TEST_ASSERT_GREATER_THAN_INT8 where
  "TEST_ASSERT_GREATER_THAN_INT8 threshold actual line =
    UNITY_TEST_ASSERT_GREATER_THAN_INT8 threshold actual line None"
definition TEST_ASSERT_GREATER_THAN_INT16 where
  "TEST_ASSERT_GREATER_THAN_INT16 threshold actual line =
    UNITY_TEST_ASSERT_GREATER_THAN_INT16 threshold actual line None"
definition TEST_ASSERT_GREATER_THAN_INT32 where
  "TEST_ASSERT_GREATER_THAN_INT32 threshold actual line =
    UNITY_TEST_ASSERT_GREATER_THAN_INT32 threshold actual line None"
definition TEST_ASSERT_GREATER_THAN_INT64 where
  "TEST_ASSERT_GREATER_THAN_INT64 threshold actual line =
    UNITY_TEST_ASSERT_GREATER_THAN_INT64 threshold actual line None"
definition TEST_ASSERT_GREATER_THAN_UINT where
  "TEST_ASSERT_GREATER_THAN_UINT threshold actual line =
    UNITY_TEST_ASSERT_GREATER_THAN_UINT threshold actual line None"
definition TEST_ASSERT_GREATER_THAN_UINT8 where
  "TEST_ASSERT_GREATER_THAN_UINT8 threshold actual line =
    UNITY_TEST_ASSERT_GREATER_THAN_UINT8 threshold actual line None"
definition TEST_ASSERT_GREATER_THAN_UINT16 where
  "TEST_ASSERT_GREATER_THAN_UINT16 threshold actual line =
    UNITY_TEST_ASSERT_GREATER_THAN_UINT16 threshold actual line None"
definition TEST_ASSERT_GREATER_THAN_UINT32 where
  "TEST_ASSERT_GREATER_THAN_UINT32 threshold actual line =
    UNITY_TEST_ASSERT_GREATER_THAN_UINT32 threshold actual line None"
definition TEST_ASSERT_GREATER_THAN_UINT64 where
  "TEST_ASSERT_GREATER_THAN_UINT64 threshold actual line =
    UNITY_TEST_ASSERT_GREATER_THAN_UINT64 threshold actual line None"
definition TEST_ASSERT_GREATER_THAN_size_t where
  "TEST_ASSERT_GREATER_THAN_size_t threshold actual line =
    UNITY_TEST_ASSERT_GREATER_THAN_UINT threshold actual line None"
definition TEST_ASSERT_GREATER_THAN_HEX8 where
  "TEST_ASSERT_GREATER_THAN_HEX8 threshold actual line =
    UNITY_TEST_ASSERT_GREATER_THAN_HEX8 threshold actual line None"
definition TEST_ASSERT_GREATER_THAN_HEX16 where
  "TEST_ASSERT_GREATER_THAN_HEX16 threshold actual line =
    UNITY_TEST_ASSERT_GREATER_THAN_HEX16 threshold actual line None"
definition TEST_ASSERT_GREATER_THAN_HEX32 where
  "TEST_ASSERT_GREATER_THAN_HEX32 threshold actual line =
    UNITY_TEST_ASSERT_GREATER_THAN_HEX32 threshold actual line None"
definition TEST_ASSERT_GREATER_THAN_HEX64 where
  "TEST_ASSERT_GREATER_THAN_HEX64 threshold actual line =
    UNITY_TEST_ASSERT_GREATER_THAN_HEX64 threshold actual line None"
definition TEST_ASSERT_GREATER_THAN_CHAR where
  "TEST_ASSERT_GREATER_THAN_CHAR threshold actual line =
    UNITY_TEST_ASSERT_GREATER_THAN_CHAR threshold actual line None"
definition TEST_ASSERT_LESS_THAN where
  "TEST_ASSERT_LESS_THAN threshold actual line =
    UNITY_TEST_ASSERT_SMALLER_THAN_INT threshold actual line None"
definition TEST_ASSERT_LESS_THAN_INT where
  "TEST_ASSERT_LESS_THAN_INT threshold actual line =
    UNITY_TEST_ASSERT_SMALLER_THAN_INT threshold actual line None"
definition TEST_ASSERT_LESS_THAN_INT8 where
  "TEST_ASSERT_LESS_THAN_INT8 threshold actual line =
    UNITY_TEST_ASSERT_SMALLER_THAN_INT8 threshold actual line None"
definition TEST_ASSERT_LESS_THAN_INT16 where
  "TEST_ASSERT_LESS_THAN_INT16 threshold actual line =
    UNITY_TEST_ASSERT_SMALLER_THAN_INT16 threshold actual line None"
definition TEST_ASSERT_LESS_THAN_INT32 where
  "TEST_ASSERT_LESS_THAN_INT32 threshold actual line =
    UNITY_TEST_ASSERT_SMALLER_THAN_INT32 threshold actual line None"
definition TEST_ASSERT_LESS_THAN_INT64 where
  "TEST_ASSERT_LESS_THAN_INT64 threshold actual line =
    UNITY_TEST_ASSERT_SMALLER_THAN_INT64 threshold actual line None"
definition TEST_ASSERT_LESS_THAN_UINT where
  "TEST_ASSERT_LESS_THAN_UINT threshold actual line =
    UNITY_TEST_ASSERT_SMALLER_THAN_UINT threshold actual line None"
definition TEST_ASSERT_LESS_THAN_UINT8 where
  "TEST_ASSERT_LESS_THAN_UINT8 threshold actual line =
    UNITY_TEST_ASSERT_SMALLER_THAN_UINT8 threshold actual line None"
definition TEST_ASSERT_LESS_THAN_UINT16 where
  "TEST_ASSERT_LESS_THAN_UINT16 threshold actual line =
    UNITY_TEST_ASSERT_SMALLER_THAN_UINT16 threshold actual line None"
definition TEST_ASSERT_LESS_THAN_UINT32 where
  "TEST_ASSERT_LESS_THAN_UINT32 threshold actual line =
    UNITY_TEST_ASSERT_SMALLER_THAN_UINT32 threshold actual line None"
definition TEST_ASSERT_LESS_THAN_UINT64 where
  "TEST_ASSERT_LESS_THAN_UINT64 threshold actual line =
    UNITY_TEST_ASSERT_SMALLER_THAN_UINT64 threshold actual line None"
definition TEST_ASSERT_LESS_THAN_size_t where
  "TEST_ASSERT_LESS_THAN_size_t threshold actual line =
    UNITY_TEST_ASSERT_SMALLER_THAN_UINT threshold actual line None"
definition TEST_ASSERT_LESS_THAN_HEX8 where
  "TEST_ASSERT_LESS_THAN_HEX8 threshold actual line =
    UNITY_TEST_ASSERT_SMALLER_THAN_HEX8 threshold actual line None"
definition TEST_ASSERT_LESS_THAN_HEX16 where
  "TEST_ASSERT_LESS_THAN_HEX16 threshold actual line =
    UNITY_TEST_ASSERT_SMALLER_THAN_HEX16 threshold actual line None"
definition TEST_ASSERT_LESS_THAN_HEX32 where
  "TEST_ASSERT_LESS_THAN_HEX32 threshold actual line =
    UNITY_TEST_ASSERT_SMALLER_THAN_HEX32 threshold actual line None"
definition TEST_ASSERT_LESS_THAN_HEX64 where
  "TEST_ASSERT_LESS_THAN_HEX64 threshold actual line =
    UNITY_TEST_ASSERT_SMALLER_THAN_HEX64 threshold actual line None"
definition TEST_ASSERT_LESS_THAN_CHAR where
  "TEST_ASSERT_LESS_THAN_CHAR threshold actual line =
    UNITY_TEST_ASSERT_SMALLER_THAN_CHAR threshold actual line None"
definition TEST_ASSERT_GREATER_OR_EQUAL where
  "TEST_ASSERT_GREATER_OR_EQUAL threshold actual line =
    UNITY_TEST_ASSERT_GREATER_OR_EQUAL_INT threshold actual line None"
definition TEST_ASSERT_GREATER_OR_EQUAL_INT where
  "TEST_ASSERT_GREATER_OR_EQUAL_INT threshold actual line =
    UNITY_TEST_ASSERT_GREATER_OR_EQUAL_INT threshold actual line None"
definition TEST_ASSERT_GREATER_OR_EQUAL_INT8 where
  "TEST_ASSERT_GREATER_OR_EQUAL_INT8 threshold actual line =
    UNITY_TEST_ASSERT_GREATER_OR_EQUAL_INT8 threshold actual line None"
definition TEST_ASSERT_GREATER_OR_EQUAL_INT16 where
  "TEST_ASSERT_GREATER_OR_EQUAL_INT16 threshold actual line =
    UNITY_TEST_ASSERT_GREATER_OR_EQUAL_INT16 threshold actual line None"
definition TEST_ASSERT_GREATER_OR_EQUAL_INT32 where
  "TEST_ASSERT_GREATER_OR_EQUAL_INT32 threshold actual line =
    UNITY_TEST_ASSERT_GREATER_OR_EQUAL_INT32 threshold actual line None"
definition TEST_ASSERT_GREATER_OR_EQUAL_INT64 where
  "TEST_ASSERT_GREATER_OR_EQUAL_INT64 threshold actual line =
    UNITY_TEST_ASSERT_GREATER_OR_EQUAL_INT64 threshold actual line None"
definition TEST_ASSERT_GREATER_OR_EQUAL_UINT where
  "TEST_ASSERT_GREATER_OR_EQUAL_UINT threshold actual line =
    UNITY_TEST_ASSERT_GREATER_OR_EQUAL_UINT threshold actual line None"
definition TEST_ASSERT_GREATER_OR_EQUAL_UINT8 where
  "TEST_ASSERT_GREATER_OR_EQUAL_UINT8 threshold actual line =
    UNITY_TEST_ASSERT_GREATER_OR_EQUAL_UINT8 threshold actual line None"
definition TEST_ASSERT_GREATER_OR_EQUAL_UINT16 where
  "TEST_ASSERT_GREATER_OR_EQUAL_UINT16 threshold actual line =
    UNITY_TEST_ASSERT_GREATER_OR_EQUAL_UINT16 threshold actual line None"
definition TEST_ASSERT_GREATER_OR_EQUAL_UINT32 where
  "TEST_ASSERT_GREATER_OR_EQUAL_UINT32 threshold actual line =
    UNITY_TEST_ASSERT_GREATER_OR_EQUAL_UINT32 threshold actual line None"
definition TEST_ASSERT_GREATER_OR_EQUAL_UINT64 where
  "TEST_ASSERT_GREATER_OR_EQUAL_UINT64 threshold actual line =
    UNITY_TEST_ASSERT_GREATER_OR_EQUAL_UINT64 threshold actual line None"
definition TEST_ASSERT_GREATER_OR_EQUAL_size_t where
  "TEST_ASSERT_GREATER_OR_EQUAL_size_t threshold actual line =
    UNITY_TEST_ASSERT_GREATER_OR_EQUAL_UINT threshold actual line None"
definition TEST_ASSERT_GREATER_OR_EQUAL_HEX8 where
  "TEST_ASSERT_GREATER_OR_EQUAL_HEX8 threshold actual line =
    UNITY_TEST_ASSERT_GREATER_OR_EQUAL_HEX8 threshold actual line None"
definition TEST_ASSERT_GREATER_OR_EQUAL_HEX16 where
  "TEST_ASSERT_GREATER_OR_EQUAL_HEX16 threshold actual line =
    UNITY_TEST_ASSERT_GREATER_OR_EQUAL_HEX16 threshold actual line None"
definition TEST_ASSERT_GREATER_OR_EQUAL_HEX32 where
  "TEST_ASSERT_GREATER_OR_EQUAL_HEX32 threshold actual line =
    UNITY_TEST_ASSERT_GREATER_OR_EQUAL_HEX32 threshold actual line None"
definition TEST_ASSERT_GREATER_OR_EQUAL_HEX64 where
  "TEST_ASSERT_GREATER_OR_EQUAL_HEX64 threshold actual line =
    UNITY_TEST_ASSERT_GREATER_OR_EQUAL_HEX64 threshold actual line None"
definition TEST_ASSERT_GREATER_OR_EQUAL_CHAR where
  "TEST_ASSERT_GREATER_OR_EQUAL_CHAR threshold actual line =
    UNITY_TEST_ASSERT_GREATER_OR_EQUAL_CHAR threshold actual line None"
definition TEST_ASSERT_LESS_OR_EQUAL where
  "TEST_ASSERT_LESS_OR_EQUAL threshold actual line =
    UNITY_TEST_ASSERT_SMALLER_OR_EQUAL_INT threshold actual line None"
definition TEST_ASSERT_LESS_OR_EQUAL_INT where
  "TEST_ASSERT_LESS_OR_EQUAL_INT threshold actual line =
    UNITY_TEST_ASSERT_SMALLER_OR_EQUAL_INT threshold actual line None"
definition TEST_ASSERT_LESS_OR_EQUAL_INT8 where
  "TEST_ASSERT_LESS_OR_EQUAL_INT8 threshold actual line =
    UNITY_TEST_ASSERT_SMALLER_OR_EQUAL_INT8 threshold actual line None"
definition TEST_ASSERT_LESS_OR_EQUAL_INT16 where
  "TEST_ASSERT_LESS_OR_EQUAL_INT16 threshold actual line =
    UNITY_TEST_ASSERT_SMALLER_OR_EQUAL_INT16 threshold actual line None"
definition TEST_ASSERT_LESS_OR_EQUAL_INT32 where
  "TEST_ASSERT_LESS_OR_EQUAL_INT32 threshold actual line =
    UNITY_TEST_ASSERT_SMALLER_OR_EQUAL_INT32 threshold actual line None"
definition TEST_ASSERT_LESS_OR_EQUAL_INT64 where
  "TEST_ASSERT_LESS_OR_EQUAL_INT64 threshold actual line =
    UNITY_TEST_ASSERT_SMALLER_OR_EQUAL_INT64 threshold actual line None"
definition TEST_ASSERT_LESS_OR_EQUAL_UINT where
  "TEST_ASSERT_LESS_OR_EQUAL_UINT threshold actual line =
    UNITY_TEST_ASSERT_SMALLER_OR_EQUAL_UINT threshold actual line None"
definition TEST_ASSERT_LESS_OR_EQUAL_UINT8 where
  "TEST_ASSERT_LESS_OR_EQUAL_UINT8 threshold actual line =
    UNITY_TEST_ASSERT_SMALLER_OR_EQUAL_UINT8 threshold actual line None"
definition TEST_ASSERT_LESS_OR_EQUAL_UINT16 where
  "TEST_ASSERT_LESS_OR_EQUAL_UINT16 threshold actual line =
    UNITY_TEST_ASSERT_SMALLER_OR_EQUAL_UINT16 threshold actual line None"
definition TEST_ASSERT_LESS_OR_EQUAL_UINT32 where
  "TEST_ASSERT_LESS_OR_EQUAL_UINT32 threshold actual line =
    UNITY_TEST_ASSERT_SMALLER_OR_EQUAL_UINT32 threshold actual line None"
definition TEST_ASSERT_LESS_OR_EQUAL_UINT64 where
  "TEST_ASSERT_LESS_OR_EQUAL_UINT64 threshold actual line =
    UNITY_TEST_ASSERT_SMALLER_OR_EQUAL_UINT64 threshold actual line None"
definition TEST_ASSERT_LESS_OR_EQUAL_size_t where
  "TEST_ASSERT_LESS_OR_EQUAL_size_t threshold actual line =
    UNITY_TEST_ASSERT_SMALLER_OR_EQUAL_UINT threshold actual line None"
definition TEST_ASSERT_LESS_OR_EQUAL_HEX8 where
  "TEST_ASSERT_LESS_OR_EQUAL_HEX8 threshold actual line =
    UNITY_TEST_ASSERT_SMALLER_OR_EQUAL_HEX8 threshold actual line None"
definition TEST_ASSERT_LESS_OR_EQUAL_HEX16 where
  "TEST_ASSERT_LESS_OR_EQUAL_HEX16 threshold actual line =
    UNITY_TEST_ASSERT_SMALLER_OR_EQUAL_HEX16 threshold actual line None"
definition TEST_ASSERT_LESS_OR_EQUAL_HEX32 where
  "TEST_ASSERT_LESS_OR_EQUAL_HEX32 threshold actual line =
    UNITY_TEST_ASSERT_SMALLER_OR_EQUAL_HEX32 threshold actual line None"
definition TEST_ASSERT_LESS_OR_EQUAL_HEX64 where
  "TEST_ASSERT_LESS_OR_EQUAL_HEX64 threshold actual line =
    UNITY_TEST_ASSERT_SMALLER_OR_EQUAL_HEX64 threshold actual line None"
definition TEST_ASSERT_LESS_OR_EQUAL_CHAR where
  "TEST_ASSERT_LESS_OR_EQUAL_CHAR threshold actual line =
    UNITY_TEST_ASSERT_SMALLER_OR_EQUAL_CHAR threshold actual line None"

subsection \<open>Integer Ranges (of all sizes)\<close>

definition TEST_ASSERT_INT_WITHIN where
  "TEST_ASSERT_INT_WITHIN delta expected actual line =
    UNITY_TEST_ASSERT_INT_WITHIN delta expected actual line None"
definition TEST_ASSERT_INT8_WITHIN where
  "TEST_ASSERT_INT8_WITHIN delta expected actual line =
    UNITY_TEST_ASSERT_INT8_WITHIN delta expected actual line None"
definition TEST_ASSERT_INT16_WITHIN where
  "TEST_ASSERT_INT16_WITHIN delta expected actual line =
    UNITY_TEST_ASSERT_INT16_WITHIN delta expected actual line None"
definition TEST_ASSERT_INT32_WITHIN where
  "TEST_ASSERT_INT32_WITHIN delta expected actual line =
    UNITY_TEST_ASSERT_INT32_WITHIN delta expected actual line None"
definition TEST_ASSERT_INT64_WITHIN where
  "TEST_ASSERT_INT64_WITHIN delta expected actual line =
    UNITY_TEST_ASSERT_INT64_WITHIN delta expected actual line None"
definition TEST_ASSERT_UINT_WITHIN where
  "TEST_ASSERT_UINT_WITHIN delta expected actual line =
    UNITY_TEST_ASSERT_UINT_WITHIN delta expected actual line None"
definition TEST_ASSERT_UINT8_WITHIN where
  "TEST_ASSERT_UINT8_WITHIN delta expected actual line =
    UNITY_TEST_ASSERT_UINT8_WITHIN delta expected actual line None"
definition TEST_ASSERT_UINT16_WITHIN where
  "TEST_ASSERT_UINT16_WITHIN delta expected actual line =
    UNITY_TEST_ASSERT_UINT16_WITHIN delta expected actual line None"
definition TEST_ASSERT_UINT32_WITHIN where
  "TEST_ASSERT_UINT32_WITHIN delta expected actual line =
    UNITY_TEST_ASSERT_UINT32_WITHIN delta expected actual line None"
definition TEST_ASSERT_UINT64_WITHIN where
  "TEST_ASSERT_UINT64_WITHIN delta expected actual line =
    UNITY_TEST_ASSERT_UINT64_WITHIN delta expected actual line None"
definition TEST_ASSERT_size_t_WITHIN where
  "TEST_ASSERT_size_t_WITHIN delta expected actual line =
    UNITY_TEST_ASSERT_UINT_WITHIN delta expected actual line None"
definition TEST_ASSERT_HEX_WITHIN where
  "TEST_ASSERT_HEX_WITHIN delta expected actual line =
    UNITY_TEST_ASSERT_HEX32_WITHIN delta expected actual line None"
definition TEST_ASSERT_HEX8_WITHIN where
  "TEST_ASSERT_HEX8_WITHIN delta expected actual line =
    UNITY_TEST_ASSERT_HEX8_WITHIN delta expected actual line None"
definition TEST_ASSERT_HEX16_WITHIN where
  "TEST_ASSERT_HEX16_WITHIN delta expected actual line =
    UNITY_TEST_ASSERT_HEX16_WITHIN delta expected actual line None"
definition TEST_ASSERT_HEX32_WITHIN where
  "TEST_ASSERT_HEX32_WITHIN delta expected actual line =
    UNITY_TEST_ASSERT_HEX32_WITHIN delta expected actual line None"
definition TEST_ASSERT_HEX64_WITHIN where
  "TEST_ASSERT_HEX64_WITHIN delta expected actual line =
    UNITY_TEST_ASSERT_HEX64_WITHIN delta expected actual line None"
definition TEST_ASSERT_CHAR_WITHIN where
  "TEST_ASSERT_CHAR_WITHIN delta expected actual line =
    UNITY_TEST_ASSERT_CHAR_WITHIN delta expected actual line None"

subsection \<open>Integer Array Ranges (of all sizes)\<close>

definition TEST_ASSERT_INT_ARRAY_WITHIN where
  "TEST_ASSERT_INT_ARRAY_WITHIN mem delta expected actual num_elements line =
    UNITY_TEST_ASSERT_INT_ARRAY_WITHIN mem delta expected actual num_elements line None"
definition TEST_ASSERT_INT8_ARRAY_WITHIN where
  "TEST_ASSERT_INT8_ARRAY_WITHIN mem delta expected actual num_elements line =
    UNITY_TEST_ASSERT_INT8_ARRAY_WITHIN mem delta expected actual num_elements line None"
definition TEST_ASSERT_INT16_ARRAY_WITHIN where
  "TEST_ASSERT_INT16_ARRAY_WITHIN mem delta expected actual num_elements line =
    UNITY_TEST_ASSERT_INT16_ARRAY_WITHIN mem delta expected actual num_elements line None"
definition TEST_ASSERT_INT32_ARRAY_WITHIN where
  "TEST_ASSERT_INT32_ARRAY_WITHIN mem delta expected actual num_elements line =
    UNITY_TEST_ASSERT_INT32_ARRAY_WITHIN mem delta expected actual num_elements line None"
definition TEST_ASSERT_INT64_ARRAY_WITHIN where
  "TEST_ASSERT_INT64_ARRAY_WITHIN mem delta expected actual num_elements line =
    UNITY_TEST_ASSERT_INT64_ARRAY_WITHIN mem delta expected actual num_elements line None"
definition TEST_ASSERT_UINT_ARRAY_WITHIN where
  "TEST_ASSERT_UINT_ARRAY_WITHIN mem delta expected actual num_elements line =
    UNITY_TEST_ASSERT_UINT_ARRAY_WITHIN mem delta expected actual num_elements line None"
definition TEST_ASSERT_UINT8_ARRAY_WITHIN where
  "TEST_ASSERT_UINT8_ARRAY_WITHIN mem delta expected actual num_elements line =
    UNITY_TEST_ASSERT_UINT8_ARRAY_WITHIN mem delta expected actual num_elements line None"
definition TEST_ASSERT_UINT16_ARRAY_WITHIN where
  "TEST_ASSERT_UINT16_ARRAY_WITHIN mem delta expected actual num_elements line =
    UNITY_TEST_ASSERT_UINT16_ARRAY_WITHIN mem delta expected actual num_elements line None"
definition TEST_ASSERT_UINT32_ARRAY_WITHIN where
  "TEST_ASSERT_UINT32_ARRAY_WITHIN mem delta expected actual num_elements line =
    UNITY_TEST_ASSERT_UINT32_ARRAY_WITHIN mem delta expected actual num_elements line None"
definition TEST_ASSERT_UINT64_ARRAY_WITHIN where
  "TEST_ASSERT_UINT64_ARRAY_WITHIN mem delta expected actual num_elements line =
    UNITY_TEST_ASSERT_UINT64_ARRAY_WITHIN mem delta expected actual num_elements line None"
definition TEST_ASSERT_size_t_ARRAY_WITHIN where
  "TEST_ASSERT_size_t_ARRAY_WITHIN mem delta expected actual num_elements line =
    UNITY_TEST_ASSERT_UINT_ARRAY_WITHIN mem delta expected actual num_elements line None"
definition TEST_ASSERT_HEX_ARRAY_WITHIN where
  "TEST_ASSERT_HEX_ARRAY_WITHIN mem delta expected actual num_elements line =
    UNITY_TEST_ASSERT_HEX32_ARRAY_WITHIN mem delta expected actual num_elements line None"
definition TEST_ASSERT_HEX8_ARRAY_WITHIN where
  "TEST_ASSERT_HEX8_ARRAY_WITHIN mem delta expected actual num_elements line =
    UNITY_TEST_ASSERT_HEX8_ARRAY_WITHIN mem delta expected actual num_elements line None"
definition TEST_ASSERT_HEX16_ARRAY_WITHIN where
  "TEST_ASSERT_HEX16_ARRAY_WITHIN mem delta expected actual num_elements line =
    UNITY_TEST_ASSERT_HEX16_ARRAY_WITHIN mem delta expected actual num_elements line None"
definition TEST_ASSERT_HEX32_ARRAY_WITHIN where
  "TEST_ASSERT_HEX32_ARRAY_WITHIN mem delta expected actual num_elements line =
    UNITY_TEST_ASSERT_HEX32_ARRAY_WITHIN mem delta expected actual num_elements line None"
definition TEST_ASSERT_HEX64_ARRAY_WITHIN where
  "TEST_ASSERT_HEX64_ARRAY_WITHIN mem delta expected actual num_elements line =
    UNITY_TEST_ASSERT_HEX64_ARRAY_WITHIN mem delta expected actual num_elements line None"
definition TEST_ASSERT_CHAR_ARRAY_WITHIN where
  "TEST_ASSERT_CHAR_ARRAY_WITHIN mem delta expected actual num_elements line =
    UNITY_TEST_ASSERT_CHAR_ARRAY_WITHIN mem delta expected actual num_elements line None"

subsection \<open>Structs and Strings\<close>

definition TEST_ASSERT_EQUAL_PTR where
  "TEST_ASSERT_EQUAL_PTR expected actual line =
    UNITY_TEST_ASSERT_EQUAL_PTR expected actual line None"
definition TEST_ASSERT_EQUAL_STRING where
  "TEST_ASSERT_EQUAL_STRING expected actual line =
    UNITY_TEST_ASSERT_EQUAL_STRING expected actual line None"
definition TEST_ASSERT_EQUAL_STRING_LEN where
  "TEST_ASSERT_EQUAL_STRING_LEN expected actual len line =
    UNITY_TEST_ASSERT_EQUAL_STRING_LEN expected actual len line None"
definition TEST_ASSERT_EQUAL_MEMORY where
  "TEST_ASSERT_EQUAL_MEMORY mem expected actual len line =
    UNITY_TEST_ASSERT_EQUAL_MEMORY mem expected actual len line None"

subsection \<open>Arrays\<close>

definition TEST_ASSERT_EQUAL_INT_ARRAY where
  "TEST_ASSERT_EQUAL_INT_ARRAY mem expected actual num_elements line =
    UNITY_TEST_ASSERT_EQUAL_INT_ARRAY mem expected actual num_elements line None"
definition TEST_ASSERT_EQUAL_INT8_ARRAY where
  "TEST_ASSERT_EQUAL_INT8_ARRAY mem expected actual num_elements line =
    UNITY_TEST_ASSERT_EQUAL_INT8_ARRAY mem expected actual num_elements line None"
definition TEST_ASSERT_EQUAL_INT16_ARRAY where
  "TEST_ASSERT_EQUAL_INT16_ARRAY mem expected actual num_elements line =
    UNITY_TEST_ASSERT_EQUAL_INT16_ARRAY mem expected actual num_elements line None"
definition TEST_ASSERT_EQUAL_INT32_ARRAY where
  "TEST_ASSERT_EQUAL_INT32_ARRAY mem expected actual num_elements line =
    UNITY_TEST_ASSERT_EQUAL_INT32_ARRAY mem expected actual num_elements line None"
definition TEST_ASSERT_EQUAL_INT64_ARRAY where
  "TEST_ASSERT_EQUAL_INT64_ARRAY mem expected actual num_elements line =
    UNITY_TEST_ASSERT_EQUAL_INT64_ARRAY mem expected actual num_elements line None"
definition TEST_ASSERT_EQUAL_UINT_ARRAY where
  "TEST_ASSERT_EQUAL_UINT_ARRAY mem expected actual num_elements line =
    UNITY_TEST_ASSERT_EQUAL_UINT_ARRAY mem expected actual num_elements line None"
definition TEST_ASSERT_EQUAL_UINT8_ARRAY where
  "TEST_ASSERT_EQUAL_UINT8_ARRAY mem expected actual num_elements line =
    UNITY_TEST_ASSERT_EQUAL_UINT8_ARRAY mem expected actual num_elements line None"
definition TEST_ASSERT_EQUAL_UINT16_ARRAY where
  "TEST_ASSERT_EQUAL_UINT16_ARRAY mem expected actual num_elements line =
    UNITY_TEST_ASSERT_EQUAL_UINT16_ARRAY mem expected actual num_elements line None"
definition TEST_ASSERT_EQUAL_UINT32_ARRAY where
  "TEST_ASSERT_EQUAL_UINT32_ARRAY mem expected actual num_elements line =
    UNITY_TEST_ASSERT_EQUAL_UINT32_ARRAY mem expected actual num_elements line None"
definition TEST_ASSERT_EQUAL_UINT64_ARRAY where
  "TEST_ASSERT_EQUAL_UINT64_ARRAY mem expected actual num_elements line =
    UNITY_TEST_ASSERT_EQUAL_UINT64_ARRAY mem expected actual num_elements line None"
definition TEST_ASSERT_EQUAL_size_t_ARRAY where
  "TEST_ASSERT_EQUAL_size_t_ARRAY mem expected actual num_elements line =
    UNITY_TEST_ASSERT_EQUAL_UINT_ARRAY mem expected actual num_elements line None"
definition TEST_ASSERT_EQUAL_HEX_ARRAY where
  "TEST_ASSERT_EQUAL_HEX_ARRAY mem expected actual num_elements line =
    UNITY_TEST_ASSERT_EQUAL_HEX32_ARRAY mem expected actual num_elements line None"
definition TEST_ASSERT_EQUAL_HEX8_ARRAY where
  "TEST_ASSERT_EQUAL_HEX8_ARRAY mem expected actual num_elements line =
    UNITY_TEST_ASSERT_EQUAL_HEX8_ARRAY mem expected actual num_elements line None"
definition TEST_ASSERT_EQUAL_HEX16_ARRAY where
  "TEST_ASSERT_EQUAL_HEX16_ARRAY mem expected actual num_elements line =
    UNITY_TEST_ASSERT_EQUAL_HEX16_ARRAY mem expected actual num_elements line None"
definition TEST_ASSERT_EQUAL_HEX32_ARRAY where
  "TEST_ASSERT_EQUAL_HEX32_ARRAY mem expected actual num_elements line =
    UNITY_TEST_ASSERT_EQUAL_HEX32_ARRAY mem expected actual num_elements line None"
definition TEST_ASSERT_EQUAL_HEX64_ARRAY where
  "TEST_ASSERT_EQUAL_HEX64_ARRAY mem expected actual num_elements line =
    UNITY_TEST_ASSERT_EQUAL_HEX64_ARRAY mem expected actual num_elements line None"
definition TEST_ASSERT_EQUAL_PTR_ARRAY where
  "TEST_ASSERT_EQUAL_PTR_ARRAY mem expected actual num_elements line =
    UNITY_TEST_ASSERT_EQUAL_PTR_ARRAY mem expected actual num_elements line None"
definition TEST_ASSERT_EQUAL_STRING_ARRAY where
  "TEST_ASSERT_EQUAL_STRING_ARRAY mem expected actual num_elements line =
    UNITY_TEST_ASSERT_EQUAL_STRING_ARRAY mem expected actual num_elements line None"
definition TEST_ASSERT_EQUAL_MEMORY_ARRAY where
  "TEST_ASSERT_EQUAL_MEMORY_ARRAY mem expected actual len num_elements line =
    UNITY_TEST_ASSERT_EQUAL_MEMORY_ARRAY mem expected actual len num_elements line None"
definition TEST_ASSERT_EQUAL_CHAR_ARRAY where
  "TEST_ASSERT_EQUAL_CHAR_ARRAY mem expected actual num_elements line =
    UNITY_TEST_ASSERT_EQUAL_CHAR_ARRAY mem expected actual num_elements line None"

subsection \<open>Arrays Compared To Single Value\<close>

definition TEST_ASSERT_EACH_EQUAL_INT where
  "TEST_ASSERT_EACH_EQUAL_INT mem quick expected actual num_elements line =
    UNITY_TEST_ASSERT_EACH_EQUAL_INT mem quick expected actual num_elements line None"
definition TEST_ASSERT_EACH_EQUAL_INT8 where
  "TEST_ASSERT_EACH_EQUAL_INT8 mem quick expected actual num_elements line =
    UNITY_TEST_ASSERT_EACH_EQUAL_INT8 mem quick expected actual num_elements line None"
definition TEST_ASSERT_EACH_EQUAL_INT16 where
  "TEST_ASSERT_EACH_EQUAL_INT16 mem quick expected actual num_elements line =
    UNITY_TEST_ASSERT_EACH_EQUAL_INT16 mem quick expected actual num_elements line None"
definition TEST_ASSERT_EACH_EQUAL_INT32 where
  "TEST_ASSERT_EACH_EQUAL_INT32 mem quick expected actual num_elements line =
    UNITY_TEST_ASSERT_EACH_EQUAL_INT32 mem quick expected actual num_elements line None"
definition TEST_ASSERT_EACH_EQUAL_INT64 where
  "TEST_ASSERT_EACH_EQUAL_INT64 mem quick expected actual num_elements line =
    UNITY_TEST_ASSERT_EACH_EQUAL_INT64 mem quick expected actual num_elements line None"
definition TEST_ASSERT_EACH_EQUAL_UINT where
  "TEST_ASSERT_EACH_EQUAL_UINT mem quick expected actual num_elements line =
    UNITY_TEST_ASSERT_EACH_EQUAL_UINT mem quick expected actual num_elements line None"
definition TEST_ASSERT_EACH_EQUAL_UINT8 where
  "TEST_ASSERT_EACH_EQUAL_UINT8 mem quick expected actual num_elements line =
    UNITY_TEST_ASSERT_EACH_EQUAL_UINT8 mem quick expected actual num_elements line None"
definition TEST_ASSERT_EACH_EQUAL_UINT16 where
  "TEST_ASSERT_EACH_EQUAL_UINT16 mem quick expected actual num_elements line =
    UNITY_TEST_ASSERT_EACH_EQUAL_UINT16 mem quick expected actual num_elements line None"
definition TEST_ASSERT_EACH_EQUAL_UINT32 where
  "TEST_ASSERT_EACH_EQUAL_UINT32 mem quick expected actual num_elements line =
    UNITY_TEST_ASSERT_EACH_EQUAL_UINT32 mem quick expected actual num_elements line None"
definition TEST_ASSERT_EACH_EQUAL_UINT64 where
  "TEST_ASSERT_EACH_EQUAL_UINT64 mem quick expected actual num_elements line =
    UNITY_TEST_ASSERT_EACH_EQUAL_UINT64 mem quick expected actual num_elements line None"
definition TEST_ASSERT_EACH_EQUAL_size_t where
  "TEST_ASSERT_EACH_EQUAL_size_t mem quick expected actual num_elements line =
    UNITY_TEST_ASSERT_EACH_EQUAL_UINT mem quick expected actual num_elements line None"
definition TEST_ASSERT_EACH_EQUAL_HEX where
  "TEST_ASSERT_EACH_EQUAL_HEX mem quick expected actual num_elements line =
    UNITY_TEST_ASSERT_EACH_EQUAL_HEX32 mem quick expected actual num_elements line None"
definition TEST_ASSERT_EACH_EQUAL_HEX8 where
  "TEST_ASSERT_EACH_EQUAL_HEX8 mem quick expected actual num_elements line =
    UNITY_TEST_ASSERT_EACH_EQUAL_HEX8 mem quick expected actual num_elements line None"
definition TEST_ASSERT_EACH_EQUAL_HEX16 where
  "TEST_ASSERT_EACH_EQUAL_HEX16 mem quick expected actual num_elements line =
    UNITY_TEST_ASSERT_EACH_EQUAL_HEX16 mem quick expected actual num_elements line None"
definition TEST_ASSERT_EACH_EQUAL_HEX32 where
  "TEST_ASSERT_EACH_EQUAL_HEX32 mem quick expected actual num_elements line =
    UNITY_TEST_ASSERT_EACH_EQUAL_HEX32 mem quick expected actual num_elements line None"
definition TEST_ASSERT_EACH_EQUAL_HEX64 where
  "TEST_ASSERT_EACH_EQUAL_HEX64 mem quick expected actual num_elements line =
    UNITY_TEST_ASSERT_EACH_EQUAL_HEX64 mem quick expected actual num_elements line None"
definition TEST_ASSERT_EACH_EQUAL_PTR where
  "TEST_ASSERT_EACH_EQUAL_PTR mem quick expected actual num_elements line =
    UNITY_TEST_ASSERT_EACH_EQUAL_PTR mem quick expected actual num_elements line None"
definition TEST_ASSERT_EACH_EQUAL_STRING where
  "TEST_ASSERT_EACH_EQUAL_STRING mem expected actual num_elements line =
    UNITY_TEST_ASSERT_EACH_EQUAL_STRING mem expected actual num_elements line None"
definition TEST_ASSERT_EACH_EQUAL_MEMORY where
  "TEST_ASSERT_EACH_EQUAL_MEMORY mem expected actual len num_elements line =
    UNITY_TEST_ASSERT_EACH_EQUAL_MEMORY mem expected actual len num_elements line None"
definition TEST_ASSERT_EACH_EQUAL_CHAR where
  "TEST_ASSERT_EACH_EQUAL_CHAR mem quick expected actual num_elements line =
    UNITY_TEST_ASSERT_EACH_EQUAL_CHAR mem quick expected actual num_elements line None"

subsection \<open>Boolean\<close>

definition TEST_ASSERT_MESSAGE where
  "TEST_ASSERT_MESSAGE condition message line =
    UNITY_TEST_ASSERT condition line message"
definition TEST_ASSERT_TRUE_MESSAGE where
  "TEST_ASSERT_TRUE_MESSAGE condition message line =
    UNITY_TEST_ASSERT condition line message"
definition TEST_ASSERT_UNLESS_MESSAGE where
  "TEST_ASSERT_UNLESS_MESSAGE condition message line =
    UNITY_TEST_ASSERT (\<not> condition) line message"
definition TEST_ASSERT_FALSE_MESSAGE where
  "TEST_ASSERT_FALSE_MESSAGE condition message line =
    UNITY_TEST_ASSERT (\<not> condition) line message"
definition TEST_ASSERT_NULL_MESSAGE where
  "TEST_ASSERT_NULL_MESSAGE pointer message line =
    UNITY_TEST_ASSERT_NULL pointer line message"
definition TEST_ASSERT_NOT_NULL_MESSAGE where
  "TEST_ASSERT_NOT_NULL_MESSAGE pointer message line =
    UNITY_TEST_ASSERT_NOT_NULL pointer line message"
definition TEST_ASSERT_EMPTY_MESSAGE where
  "TEST_ASSERT_EMPTY_MESSAGE pointer message line =
    UNITY_TEST_ASSERT_EMPTY pointer line message"
definition TEST_ASSERT_NOT_EMPTY_MESSAGE where
  "TEST_ASSERT_NOT_EMPTY_MESSAGE pointer message line =
    UNITY_TEST_ASSERT_NOT_EMPTY pointer line message"

subsection \<open>Integers (of all sizes)\<close>

definition TEST_ASSERT_EQUAL_INT_MESSAGE where
  "TEST_ASSERT_EQUAL_INT_MESSAGE expected actual message line =
    UNITY_TEST_ASSERT_EQUAL_INT expected actual line message"
definition TEST_ASSERT_EQUAL_INT8_MESSAGE where
  "TEST_ASSERT_EQUAL_INT8_MESSAGE expected actual message line =
    UNITY_TEST_ASSERT_EQUAL_INT8 expected actual line message"
definition TEST_ASSERT_EQUAL_INT16_MESSAGE where
  "TEST_ASSERT_EQUAL_INT16_MESSAGE expected actual message line =
    UNITY_TEST_ASSERT_EQUAL_INT16 expected actual line message"
definition TEST_ASSERT_EQUAL_INT32_MESSAGE where
  "TEST_ASSERT_EQUAL_INT32_MESSAGE expected actual message line =
    UNITY_TEST_ASSERT_EQUAL_INT32 expected actual line message"
definition TEST_ASSERT_EQUAL_INT64_MESSAGE where
  "TEST_ASSERT_EQUAL_INT64_MESSAGE expected actual message line =
    UNITY_TEST_ASSERT_EQUAL_INT64 expected actual line message"
definition TEST_ASSERT_EQUAL_UINT_MESSAGE where
  "TEST_ASSERT_EQUAL_UINT_MESSAGE expected actual message line =
    UNITY_TEST_ASSERT_EQUAL_UINT expected actual line message"
definition TEST_ASSERT_EQUAL_UINT8_MESSAGE where
  "TEST_ASSERT_EQUAL_UINT8_MESSAGE expected actual message line =
    UNITY_TEST_ASSERT_EQUAL_UINT8 expected actual line message"
definition TEST_ASSERT_EQUAL_UINT16_MESSAGE where
  "TEST_ASSERT_EQUAL_UINT16_MESSAGE expected actual message line =
    UNITY_TEST_ASSERT_EQUAL_UINT16 expected actual line message"
definition TEST_ASSERT_EQUAL_UINT32_MESSAGE where
  "TEST_ASSERT_EQUAL_UINT32_MESSAGE expected actual message line =
    UNITY_TEST_ASSERT_EQUAL_UINT32 expected actual line message"
definition TEST_ASSERT_EQUAL_UINT64_MESSAGE where
  "TEST_ASSERT_EQUAL_UINT64_MESSAGE expected actual message line =
    UNITY_TEST_ASSERT_EQUAL_UINT64 expected actual line message"
definition TEST_ASSERT_EQUAL_size_t_MESSAGE where
  "TEST_ASSERT_EQUAL_size_t_MESSAGE expected actual message line =
    UNITY_TEST_ASSERT_EQUAL_UINT expected actual line message"
definition TEST_ASSERT_EQUAL_HEX_MESSAGE where
  "TEST_ASSERT_EQUAL_HEX_MESSAGE expected actual message line =
    UNITY_TEST_ASSERT_EQUAL_HEX32 expected actual line message"
definition TEST_ASSERT_EQUAL_HEX8_MESSAGE where
  "TEST_ASSERT_EQUAL_HEX8_MESSAGE expected actual message line =
    UNITY_TEST_ASSERT_EQUAL_HEX8 expected actual line message"
definition TEST_ASSERT_EQUAL_HEX16_MESSAGE where
  "TEST_ASSERT_EQUAL_HEX16_MESSAGE expected actual message line =
    UNITY_TEST_ASSERT_EQUAL_HEX16 expected actual line message"
definition TEST_ASSERT_EQUAL_HEX32_MESSAGE where
  "TEST_ASSERT_EQUAL_HEX32_MESSAGE expected actual message line =
    UNITY_TEST_ASSERT_EQUAL_HEX32 expected actual line message"
definition TEST_ASSERT_EQUAL_HEX64_MESSAGE where
  "TEST_ASSERT_EQUAL_HEX64_MESSAGE expected actual message line =
    UNITY_TEST_ASSERT_EQUAL_HEX64 expected actual line message"
definition TEST_ASSERT_BITS_MESSAGE where
  "TEST_ASSERT_BITS_MESSAGE msk expected actual message line =
    UNITY_TEST_ASSERT_BITS msk expected actual line message"
definition TEST_ASSERT_BITS_HIGH_MESSAGE where
  "TEST_ASSERT_BITS_HIGH_MESSAGE msk actual message line =
    UNITY_TEST_ASSERT_BITS msk (ucast (- 1 :: 32 word)) actual line message"
definition TEST_ASSERT_BITS_LOW_MESSAGE where
  "TEST_ASSERT_BITS_LOW_MESSAGE msk actual message line =
    UNITY_TEST_ASSERT_BITS msk 0 actual line message"
definition TEST_ASSERT_BIT_HIGH_MESSAGE where
  "TEST_ASSERT_BIT_HIGH_MESSAGE bit_no actual message line u =
    (if bit_no < 32
     then Inr (UNITY_TEST_ASSERT_BITS (ucast (push_bit bit_no 1 :: 32 word)) (ucast (- 1 :: 32 word))
       actual line message u)
     else Inl Bad_argument)"
definition TEST_ASSERT_BIT_LOW_MESSAGE where
  "TEST_ASSERT_BIT_LOW_MESSAGE bit_no actual message line u =
    (if bit_no < 32 then Inr (UNITY_TEST_ASSERT_BITS (ucast (push_bit bit_no 1 :: 32 word)) 0 actual line message u)
     else Inl Bad_argument)"
definition TEST_ASSERT_EQUAL_CHAR_MESSAGE where
  "TEST_ASSERT_EQUAL_CHAR_MESSAGE expected actual message line =
    UNITY_TEST_ASSERT_EQUAL_CHAR expected actual line message"

subsection \<open>Integer Not Equal To (of all sizes)\<close>

definition TEST_ASSERT_NOT_EQUAL_INT_MESSAGE where
  "TEST_ASSERT_NOT_EQUAL_INT_MESSAGE threshold actual message line =
    UNITY_TEST_ASSERT_NOT_EQUAL_INT threshold actual line message"
definition TEST_ASSERT_NOT_EQUAL_INT8_MESSAGE where
  "TEST_ASSERT_NOT_EQUAL_INT8_MESSAGE threshold actual message line =
    UNITY_TEST_ASSERT_NOT_EQUAL_INT8 threshold actual line message"
definition TEST_ASSERT_NOT_EQUAL_INT16_MESSAGE where
  "TEST_ASSERT_NOT_EQUAL_INT16_MESSAGE threshold actual message line =
    UNITY_TEST_ASSERT_NOT_EQUAL_INT16 threshold actual line message"
definition TEST_ASSERT_NOT_EQUAL_INT32_MESSAGE where
  "TEST_ASSERT_NOT_EQUAL_INT32_MESSAGE threshold actual message line =
    UNITY_TEST_ASSERT_NOT_EQUAL_INT32 threshold actual line message"
definition TEST_ASSERT_NOT_EQUAL_INT64_MESSAGE where
  "TEST_ASSERT_NOT_EQUAL_INT64_MESSAGE threshold actual message line =
    UNITY_TEST_ASSERT_NOT_EQUAL_INT64 threshold actual line message"
definition TEST_ASSERT_NOT_EQUAL_UINT_MESSAGE where
  "TEST_ASSERT_NOT_EQUAL_UINT_MESSAGE threshold actual message line =
    UNITY_TEST_ASSERT_NOT_EQUAL_UINT threshold actual line message"
definition TEST_ASSERT_NOT_EQUAL_UINT8_MESSAGE where
  "TEST_ASSERT_NOT_EQUAL_UINT8_MESSAGE threshold actual message line =
    UNITY_TEST_ASSERT_NOT_EQUAL_UINT8 threshold actual line message"
definition TEST_ASSERT_NOT_EQUAL_UINT16_MESSAGE where
  "TEST_ASSERT_NOT_EQUAL_UINT16_MESSAGE threshold actual message line =
    UNITY_TEST_ASSERT_NOT_EQUAL_UINT16 threshold actual line message"
definition TEST_ASSERT_NOT_EQUAL_UINT32_MESSAGE where
  "TEST_ASSERT_NOT_EQUAL_UINT32_MESSAGE threshold actual message line =
    UNITY_TEST_ASSERT_NOT_EQUAL_UINT32 threshold actual line message"
definition TEST_ASSERT_NOT_EQUAL_UINT64_MESSAGE where
  "TEST_ASSERT_NOT_EQUAL_UINT64_MESSAGE threshold actual message line =
    UNITY_TEST_ASSERT_NOT_EQUAL_UINT64 threshold actual line message"
definition TEST_ASSERT_NOT_EQUAL_size_t_MESSAGE where
  "TEST_ASSERT_NOT_EQUAL_size_t_MESSAGE threshold actual message line =
    UNITY_TEST_ASSERT_NOT_EQUAL_UINT threshold actual line message"
definition TEST_ASSERT_NOT_EQUAL_HEX8_MESSAGE where
  "TEST_ASSERT_NOT_EQUAL_HEX8_MESSAGE threshold actual message line =
    UNITY_TEST_ASSERT_NOT_EQUAL_HEX8 threshold actual line message"
definition TEST_ASSERT_NOT_EQUAL_HEX16_MESSAGE where
  "TEST_ASSERT_NOT_EQUAL_HEX16_MESSAGE threshold actual message line =
    UNITY_TEST_ASSERT_NOT_EQUAL_HEX16 threshold actual line message"
definition TEST_ASSERT_NOT_EQUAL_HEX32_MESSAGE where
  "TEST_ASSERT_NOT_EQUAL_HEX32_MESSAGE threshold actual message line =
    UNITY_TEST_ASSERT_NOT_EQUAL_HEX32 threshold actual line message"
definition TEST_ASSERT_NOT_EQUAL_HEX64_MESSAGE where
  "TEST_ASSERT_NOT_EQUAL_HEX64_MESSAGE threshold actual message line =
    UNITY_TEST_ASSERT_NOT_EQUAL_HEX64 threshold actual line message"
definition TEST_ASSERT_NOT_EQUAL_CHAR_MESSAGE where
  "TEST_ASSERT_NOT_EQUAL_CHAR_MESSAGE threshold actual message line =
    UNITY_TEST_ASSERT_NOT_EQUAL_CHAR threshold actual line message"

subsection \<open>Integer Greater Than/ Less Than (of all sizes)\<close>

definition TEST_ASSERT_GREATER_THAN_MESSAGE where
  "TEST_ASSERT_GREATER_THAN_MESSAGE threshold actual message line =
    UNITY_TEST_ASSERT_GREATER_THAN_INT threshold actual line message"
definition TEST_ASSERT_GREATER_THAN_INT_MESSAGE where
  "TEST_ASSERT_GREATER_THAN_INT_MESSAGE threshold actual message line =
    UNITY_TEST_ASSERT_GREATER_THAN_INT threshold actual line message"
definition TEST_ASSERT_GREATER_THAN_INT8_MESSAGE where
  "TEST_ASSERT_GREATER_THAN_INT8_MESSAGE threshold actual message line =
    UNITY_TEST_ASSERT_GREATER_THAN_INT8 threshold actual line message"
definition TEST_ASSERT_GREATER_THAN_INT16_MESSAGE where
  "TEST_ASSERT_GREATER_THAN_INT16_MESSAGE threshold actual message line =
    UNITY_TEST_ASSERT_GREATER_THAN_INT16 threshold actual line message"
definition TEST_ASSERT_GREATER_THAN_INT32_MESSAGE where
  "TEST_ASSERT_GREATER_THAN_INT32_MESSAGE threshold actual message line =
    UNITY_TEST_ASSERT_GREATER_THAN_INT32 threshold actual line message"
definition TEST_ASSERT_GREATER_THAN_INT64_MESSAGE where
  "TEST_ASSERT_GREATER_THAN_INT64_MESSAGE threshold actual message line =
    UNITY_TEST_ASSERT_GREATER_THAN_INT64 threshold actual line message"
definition TEST_ASSERT_GREATER_THAN_UINT_MESSAGE where
  "TEST_ASSERT_GREATER_THAN_UINT_MESSAGE threshold actual message line =
    UNITY_TEST_ASSERT_GREATER_THAN_UINT threshold actual line message"
definition TEST_ASSERT_GREATER_THAN_UINT8_MESSAGE where
  "TEST_ASSERT_GREATER_THAN_UINT8_MESSAGE threshold actual message line =
    UNITY_TEST_ASSERT_GREATER_THAN_UINT8 threshold actual line message"
definition TEST_ASSERT_GREATER_THAN_UINT16_MESSAGE where
  "TEST_ASSERT_GREATER_THAN_UINT16_MESSAGE threshold actual message line =
    UNITY_TEST_ASSERT_GREATER_THAN_UINT16 threshold actual line message"
definition TEST_ASSERT_GREATER_THAN_UINT32_MESSAGE where
  "TEST_ASSERT_GREATER_THAN_UINT32_MESSAGE threshold actual message line =
    UNITY_TEST_ASSERT_GREATER_THAN_UINT32 threshold actual line message"
definition TEST_ASSERT_GREATER_THAN_UINT64_MESSAGE where
  "TEST_ASSERT_GREATER_THAN_UINT64_MESSAGE threshold actual message line =
    UNITY_TEST_ASSERT_GREATER_THAN_UINT64 threshold actual line message"
definition TEST_ASSERT_GREATER_THAN_size_t_MESSAGE where
  "TEST_ASSERT_GREATER_THAN_size_t_MESSAGE threshold actual message line =
    UNITY_TEST_ASSERT_GREATER_THAN_UINT threshold actual line message"
definition TEST_ASSERT_GREATER_THAN_HEX8_MESSAGE where
  "TEST_ASSERT_GREATER_THAN_HEX8_MESSAGE threshold actual message line =
    UNITY_TEST_ASSERT_GREATER_THAN_HEX8 threshold actual line message"
definition TEST_ASSERT_GREATER_THAN_HEX16_MESSAGE where
  "TEST_ASSERT_GREATER_THAN_HEX16_MESSAGE threshold actual message line =
    UNITY_TEST_ASSERT_GREATER_THAN_HEX16 threshold actual line message"
definition TEST_ASSERT_GREATER_THAN_HEX32_MESSAGE where
  "TEST_ASSERT_GREATER_THAN_HEX32_MESSAGE threshold actual message line =
    UNITY_TEST_ASSERT_GREATER_THAN_HEX32 threshold actual line message"
definition TEST_ASSERT_GREATER_THAN_HEX64_MESSAGE where
  "TEST_ASSERT_GREATER_THAN_HEX64_MESSAGE threshold actual message line =
    UNITY_TEST_ASSERT_GREATER_THAN_HEX64 threshold actual line message"
definition TEST_ASSERT_GREATER_THAN_CHAR_MESSAGE where
  "TEST_ASSERT_GREATER_THAN_CHAR_MESSAGE threshold actual message line =
    UNITY_TEST_ASSERT_GREATER_THAN_CHAR threshold actual line message"
definition TEST_ASSERT_LESS_THAN_MESSAGE where
  "TEST_ASSERT_LESS_THAN_MESSAGE threshold actual message line =
    UNITY_TEST_ASSERT_SMALLER_THAN_INT threshold actual line message"
definition TEST_ASSERT_LESS_THAN_INT_MESSAGE where
  "TEST_ASSERT_LESS_THAN_INT_MESSAGE threshold actual message line =
    UNITY_TEST_ASSERT_SMALLER_THAN_INT threshold actual line message"
definition TEST_ASSERT_LESS_THAN_INT8_MESSAGE where
  "TEST_ASSERT_LESS_THAN_INT8_MESSAGE threshold actual message line =
    UNITY_TEST_ASSERT_SMALLER_THAN_INT8 threshold actual line message"
definition TEST_ASSERT_LESS_THAN_INT16_MESSAGE where
  "TEST_ASSERT_LESS_THAN_INT16_MESSAGE threshold actual message line =
    UNITY_TEST_ASSERT_SMALLER_THAN_INT16 threshold actual line message"
definition TEST_ASSERT_LESS_THAN_INT32_MESSAGE where
  "TEST_ASSERT_LESS_THAN_INT32_MESSAGE threshold actual message line =
    UNITY_TEST_ASSERT_SMALLER_THAN_INT32 threshold actual line message"
definition TEST_ASSERT_LESS_THAN_INT64_MESSAGE where
  "TEST_ASSERT_LESS_THAN_INT64_MESSAGE threshold actual message line =
    UNITY_TEST_ASSERT_SMALLER_THAN_INT64 threshold actual line message"
definition TEST_ASSERT_LESS_THAN_UINT_MESSAGE where
  "TEST_ASSERT_LESS_THAN_UINT_MESSAGE threshold actual message line =
    UNITY_TEST_ASSERT_SMALLER_THAN_UINT threshold actual line message"
definition TEST_ASSERT_LESS_THAN_UINT8_MESSAGE where
  "TEST_ASSERT_LESS_THAN_UINT8_MESSAGE threshold actual message line =
    UNITY_TEST_ASSERT_SMALLER_THAN_UINT8 threshold actual line message"
definition TEST_ASSERT_LESS_THAN_UINT16_MESSAGE where
  "TEST_ASSERT_LESS_THAN_UINT16_MESSAGE threshold actual message line =
    UNITY_TEST_ASSERT_SMALLER_THAN_UINT16 threshold actual line message"
definition TEST_ASSERT_LESS_THAN_UINT32_MESSAGE where
  "TEST_ASSERT_LESS_THAN_UINT32_MESSAGE threshold actual message line =
    UNITY_TEST_ASSERT_SMALLER_THAN_UINT32 threshold actual line message"
definition TEST_ASSERT_LESS_THAN_UINT64_MESSAGE where
  "TEST_ASSERT_LESS_THAN_UINT64_MESSAGE threshold actual message line =
    UNITY_TEST_ASSERT_SMALLER_THAN_UINT64 threshold actual line message"
definition TEST_ASSERT_LESS_THAN_size_t_MESSAGE where
  "TEST_ASSERT_LESS_THAN_size_t_MESSAGE threshold actual message line =
    UNITY_TEST_ASSERT_SMALLER_THAN_UINT threshold actual line message"
definition TEST_ASSERT_LESS_THAN_HEX8_MESSAGE where
  "TEST_ASSERT_LESS_THAN_HEX8_MESSAGE threshold actual message line =
    UNITY_TEST_ASSERT_SMALLER_THAN_HEX8 threshold actual line message"
definition TEST_ASSERT_LESS_THAN_HEX16_MESSAGE where
  "TEST_ASSERT_LESS_THAN_HEX16_MESSAGE threshold actual message line =
    UNITY_TEST_ASSERT_SMALLER_THAN_HEX16 threshold actual line message"
definition TEST_ASSERT_LESS_THAN_HEX32_MESSAGE where
  "TEST_ASSERT_LESS_THAN_HEX32_MESSAGE threshold actual message line =
    UNITY_TEST_ASSERT_SMALLER_THAN_HEX32 threshold actual line message"
definition TEST_ASSERT_LESS_THAN_HEX64_MESSAGE where
  "TEST_ASSERT_LESS_THAN_HEX64_MESSAGE threshold actual message line =
    UNITY_TEST_ASSERT_SMALLER_THAN_HEX64 threshold actual line message"
definition TEST_ASSERT_LESS_THAN_CHAR_MESSAGE where
  "TEST_ASSERT_LESS_THAN_CHAR_MESSAGE threshold actual message line =
    UNITY_TEST_ASSERT_SMALLER_THAN_CHAR threshold actual line message"
definition TEST_ASSERT_GREATER_OR_EQUAL_MESSAGE where
  "TEST_ASSERT_GREATER_OR_EQUAL_MESSAGE threshold actual message line =
    UNITY_TEST_ASSERT_GREATER_OR_EQUAL_INT threshold actual line message"
definition TEST_ASSERT_GREATER_OR_EQUAL_INT_MESSAGE where
  "TEST_ASSERT_GREATER_OR_EQUAL_INT_MESSAGE threshold actual message line =
    UNITY_TEST_ASSERT_GREATER_OR_EQUAL_INT threshold actual line message"
definition TEST_ASSERT_GREATER_OR_EQUAL_INT8_MESSAGE where
  "TEST_ASSERT_GREATER_OR_EQUAL_INT8_MESSAGE threshold actual message line =
    UNITY_TEST_ASSERT_GREATER_OR_EQUAL_INT8 threshold actual line message"
definition TEST_ASSERT_GREATER_OR_EQUAL_INT16_MESSAGE where
  "TEST_ASSERT_GREATER_OR_EQUAL_INT16_MESSAGE threshold actual message line =
    UNITY_TEST_ASSERT_GREATER_OR_EQUAL_INT16 threshold actual line message"
definition TEST_ASSERT_GREATER_OR_EQUAL_INT32_MESSAGE where
  "TEST_ASSERT_GREATER_OR_EQUAL_INT32_MESSAGE threshold actual message line =
    UNITY_TEST_ASSERT_GREATER_OR_EQUAL_INT32 threshold actual line message"
definition TEST_ASSERT_GREATER_OR_EQUAL_INT64_MESSAGE where
  "TEST_ASSERT_GREATER_OR_EQUAL_INT64_MESSAGE threshold actual message line =
    UNITY_TEST_ASSERT_GREATER_OR_EQUAL_INT64 threshold actual line message"
definition TEST_ASSERT_GREATER_OR_EQUAL_UINT_MESSAGE where
  "TEST_ASSERT_GREATER_OR_EQUAL_UINT_MESSAGE threshold actual message line =
    UNITY_TEST_ASSERT_GREATER_OR_EQUAL_UINT threshold actual line message"
definition TEST_ASSERT_GREATER_OR_EQUAL_UINT8_MESSAGE where
  "TEST_ASSERT_GREATER_OR_EQUAL_UINT8_MESSAGE threshold actual message line =
    UNITY_TEST_ASSERT_GREATER_OR_EQUAL_UINT8 threshold actual line message"
definition TEST_ASSERT_GREATER_OR_EQUAL_UINT16_MESSAGE where
  "TEST_ASSERT_GREATER_OR_EQUAL_UINT16_MESSAGE threshold actual message line =
    UNITY_TEST_ASSERT_GREATER_OR_EQUAL_UINT16 threshold actual line message"
definition TEST_ASSERT_GREATER_OR_EQUAL_UINT32_MESSAGE where
  "TEST_ASSERT_GREATER_OR_EQUAL_UINT32_MESSAGE threshold actual message line =
    UNITY_TEST_ASSERT_GREATER_OR_EQUAL_UINT32 threshold actual line message"
definition TEST_ASSERT_GREATER_OR_EQUAL_UINT64_MESSAGE where
  "TEST_ASSERT_GREATER_OR_EQUAL_UINT64_MESSAGE threshold actual message line =
    UNITY_TEST_ASSERT_GREATER_OR_EQUAL_UINT64 threshold actual line message"
definition TEST_ASSERT_GREATER_OR_EQUAL_size_t_MESSAGE where
  "TEST_ASSERT_GREATER_OR_EQUAL_size_t_MESSAGE threshold actual message line =
    UNITY_TEST_ASSERT_GREATER_OR_EQUAL_UINT threshold actual line message"
definition TEST_ASSERT_GREATER_OR_EQUAL_HEX8_MESSAGE where
  "TEST_ASSERT_GREATER_OR_EQUAL_HEX8_MESSAGE threshold actual message line =
    UNITY_TEST_ASSERT_GREATER_OR_EQUAL_HEX8 threshold actual line message"
definition TEST_ASSERT_GREATER_OR_EQUAL_HEX16_MESSAGE where
  "TEST_ASSERT_GREATER_OR_EQUAL_HEX16_MESSAGE threshold actual message line =
    UNITY_TEST_ASSERT_GREATER_OR_EQUAL_HEX16 threshold actual line message"
definition TEST_ASSERT_GREATER_OR_EQUAL_HEX32_MESSAGE where
  "TEST_ASSERT_GREATER_OR_EQUAL_HEX32_MESSAGE threshold actual message line =
    UNITY_TEST_ASSERT_GREATER_OR_EQUAL_HEX32 threshold actual line message"
definition TEST_ASSERT_GREATER_OR_EQUAL_HEX64_MESSAGE where
  "TEST_ASSERT_GREATER_OR_EQUAL_HEX64_MESSAGE threshold actual message line =
    UNITY_TEST_ASSERT_GREATER_OR_EQUAL_HEX64 threshold actual line message"
definition TEST_ASSERT_GREATER_OR_EQUAL_CHAR_MESSAGE where
  "TEST_ASSERT_GREATER_OR_EQUAL_CHAR_MESSAGE threshold actual message line =
    UNITY_TEST_ASSERT_GREATER_OR_EQUAL_CHAR threshold actual line message"
definition TEST_ASSERT_LESS_OR_EQUAL_MESSAGE where
  "TEST_ASSERT_LESS_OR_EQUAL_MESSAGE threshold actual message line =
    UNITY_TEST_ASSERT_SMALLER_OR_EQUAL_INT threshold actual line message"
definition TEST_ASSERT_LESS_OR_EQUAL_INT_MESSAGE where
  "TEST_ASSERT_LESS_OR_EQUAL_INT_MESSAGE threshold actual message line =
    UNITY_TEST_ASSERT_SMALLER_OR_EQUAL_INT threshold actual line message"
definition TEST_ASSERT_LESS_OR_EQUAL_INT8_MESSAGE where
  "TEST_ASSERT_LESS_OR_EQUAL_INT8_MESSAGE threshold actual message line =
    UNITY_TEST_ASSERT_SMALLER_OR_EQUAL_INT8 threshold actual line message"
definition TEST_ASSERT_LESS_OR_EQUAL_INT16_MESSAGE where
  "TEST_ASSERT_LESS_OR_EQUAL_INT16_MESSAGE threshold actual message line =
    UNITY_TEST_ASSERT_SMALLER_OR_EQUAL_INT16 threshold actual line message"
definition TEST_ASSERT_LESS_OR_EQUAL_INT32_MESSAGE where
  "TEST_ASSERT_LESS_OR_EQUAL_INT32_MESSAGE threshold actual message line =
    UNITY_TEST_ASSERT_SMALLER_OR_EQUAL_INT32 threshold actual line message"
definition TEST_ASSERT_LESS_OR_EQUAL_INT64_MESSAGE where
  "TEST_ASSERT_LESS_OR_EQUAL_INT64_MESSAGE threshold actual message line =
    UNITY_TEST_ASSERT_SMALLER_OR_EQUAL_INT64 threshold actual line message"
definition TEST_ASSERT_LESS_OR_EQUAL_UINT_MESSAGE where
  "TEST_ASSERT_LESS_OR_EQUAL_UINT_MESSAGE threshold actual message line =
    UNITY_TEST_ASSERT_SMALLER_OR_EQUAL_UINT threshold actual line message"
definition TEST_ASSERT_LESS_OR_EQUAL_UINT8_MESSAGE where
  "TEST_ASSERT_LESS_OR_EQUAL_UINT8_MESSAGE threshold actual message line =
    UNITY_TEST_ASSERT_SMALLER_OR_EQUAL_UINT8 threshold actual line message"
definition TEST_ASSERT_LESS_OR_EQUAL_UINT16_MESSAGE where
  "TEST_ASSERT_LESS_OR_EQUAL_UINT16_MESSAGE threshold actual message line =
    UNITY_TEST_ASSERT_SMALLER_OR_EQUAL_UINT16 threshold actual line message"
definition TEST_ASSERT_LESS_OR_EQUAL_UINT32_MESSAGE where
  "TEST_ASSERT_LESS_OR_EQUAL_UINT32_MESSAGE threshold actual message line =
    UNITY_TEST_ASSERT_SMALLER_OR_EQUAL_UINT32 threshold actual line message"
definition TEST_ASSERT_LESS_OR_EQUAL_UINT64_MESSAGE where
  "TEST_ASSERT_LESS_OR_EQUAL_UINT64_MESSAGE threshold actual message line =
    UNITY_TEST_ASSERT_SMALLER_OR_EQUAL_UINT64 threshold actual line message"
definition TEST_ASSERT_LESS_OR_EQUAL_size_t_MESSAGE where
  "TEST_ASSERT_LESS_OR_EQUAL_size_t_MESSAGE threshold actual message line =
    UNITY_TEST_ASSERT_SMALLER_OR_EQUAL_UINT threshold actual line message"
definition TEST_ASSERT_LESS_OR_EQUAL_HEX8_MESSAGE where
  "TEST_ASSERT_LESS_OR_EQUAL_HEX8_MESSAGE threshold actual message line =
    UNITY_TEST_ASSERT_SMALLER_OR_EQUAL_HEX8 threshold actual line message"
definition TEST_ASSERT_LESS_OR_EQUAL_HEX16_MESSAGE where
  "TEST_ASSERT_LESS_OR_EQUAL_HEX16_MESSAGE threshold actual message line =
    UNITY_TEST_ASSERT_SMALLER_OR_EQUAL_HEX16 threshold actual line message"
definition TEST_ASSERT_LESS_OR_EQUAL_HEX32_MESSAGE where
  "TEST_ASSERT_LESS_OR_EQUAL_HEX32_MESSAGE threshold actual message line =
    UNITY_TEST_ASSERT_SMALLER_OR_EQUAL_HEX32 threshold actual line message"
definition TEST_ASSERT_LESS_OR_EQUAL_HEX64_MESSAGE where
  "TEST_ASSERT_LESS_OR_EQUAL_HEX64_MESSAGE threshold actual message line =
    UNITY_TEST_ASSERT_SMALLER_OR_EQUAL_HEX64 threshold actual line message"
definition TEST_ASSERT_LESS_OR_EQUAL_CHAR_MESSAGE where
  "TEST_ASSERT_LESS_OR_EQUAL_CHAR_MESSAGE threshold actual message line =
    UNITY_TEST_ASSERT_SMALLER_OR_EQUAL_CHAR threshold actual line message"

subsection \<open>Integer Ranges (of all sizes)\<close>

definition TEST_ASSERT_INT_WITHIN_MESSAGE where
  "TEST_ASSERT_INT_WITHIN_MESSAGE delta expected actual message line =
    UNITY_TEST_ASSERT_INT_WITHIN delta expected actual line message"
definition TEST_ASSERT_INT8_WITHIN_MESSAGE where
  "TEST_ASSERT_INT8_WITHIN_MESSAGE delta expected actual message line =
    UNITY_TEST_ASSERT_INT8_WITHIN delta expected actual line message"
definition TEST_ASSERT_INT16_WITHIN_MESSAGE where
  "TEST_ASSERT_INT16_WITHIN_MESSAGE delta expected actual message line =
    UNITY_TEST_ASSERT_INT16_WITHIN delta expected actual line message"
definition TEST_ASSERT_INT32_WITHIN_MESSAGE where
  "TEST_ASSERT_INT32_WITHIN_MESSAGE delta expected actual message line =
    UNITY_TEST_ASSERT_INT32_WITHIN delta expected actual line message"
definition TEST_ASSERT_INT64_WITHIN_MESSAGE where
  "TEST_ASSERT_INT64_WITHIN_MESSAGE delta expected actual message line =
    UNITY_TEST_ASSERT_INT64_WITHIN delta expected actual line message"
definition TEST_ASSERT_UINT_WITHIN_MESSAGE where
  "TEST_ASSERT_UINT_WITHIN_MESSAGE delta expected actual message line =
    UNITY_TEST_ASSERT_UINT_WITHIN delta expected actual line message"
definition TEST_ASSERT_UINT8_WITHIN_MESSAGE where
  "TEST_ASSERT_UINT8_WITHIN_MESSAGE delta expected actual message line =
    UNITY_TEST_ASSERT_UINT8_WITHIN delta expected actual line message"
definition TEST_ASSERT_UINT16_WITHIN_MESSAGE where
  "TEST_ASSERT_UINT16_WITHIN_MESSAGE delta expected actual message line =
    UNITY_TEST_ASSERT_UINT16_WITHIN delta expected actual line message"
definition TEST_ASSERT_UINT32_WITHIN_MESSAGE where
  "TEST_ASSERT_UINT32_WITHIN_MESSAGE delta expected actual message line =
    UNITY_TEST_ASSERT_UINT32_WITHIN delta expected actual line message"
definition TEST_ASSERT_UINT64_WITHIN_MESSAGE where
  "TEST_ASSERT_UINT64_WITHIN_MESSAGE delta expected actual message line =
    UNITY_TEST_ASSERT_UINT64_WITHIN delta expected actual line message"
definition TEST_ASSERT_size_t_WITHIN_MESSAGE where
  "TEST_ASSERT_size_t_WITHIN_MESSAGE delta expected actual message line =
    UNITY_TEST_ASSERT_UINT_WITHIN delta expected actual line message"
definition TEST_ASSERT_HEX_WITHIN_MESSAGE where
  "TEST_ASSERT_HEX_WITHIN_MESSAGE delta expected actual message line =
    UNITY_TEST_ASSERT_HEX32_WITHIN delta expected actual line message"
definition TEST_ASSERT_HEX8_WITHIN_MESSAGE where
  "TEST_ASSERT_HEX8_WITHIN_MESSAGE delta expected actual message line =
    UNITY_TEST_ASSERT_HEX8_WITHIN delta expected actual line message"
definition TEST_ASSERT_HEX16_WITHIN_MESSAGE where
  "TEST_ASSERT_HEX16_WITHIN_MESSAGE delta expected actual message line =
    UNITY_TEST_ASSERT_HEX16_WITHIN delta expected actual line message"
definition TEST_ASSERT_HEX32_WITHIN_MESSAGE where
  "TEST_ASSERT_HEX32_WITHIN_MESSAGE delta expected actual message line =
    UNITY_TEST_ASSERT_HEX32_WITHIN delta expected actual line message"
definition TEST_ASSERT_HEX64_WITHIN_MESSAGE where
  "TEST_ASSERT_HEX64_WITHIN_MESSAGE delta expected actual message line =
    UNITY_TEST_ASSERT_HEX64_WITHIN delta expected actual line message"
definition TEST_ASSERT_CHAR_WITHIN_MESSAGE where
  "TEST_ASSERT_CHAR_WITHIN_MESSAGE delta expected actual message line =
    UNITY_TEST_ASSERT_CHAR_WITHIN delta expected actual line message"

subsection \<open>Integer Array Ranges (of all sizes)\<close>

definition TEST_ASSERT_INT_ARRAY_WITHIN_MESSAGE where
  "TEST_ASSERT_INT_ARRAY_WITHIN_MESSAGE mem delta expected actual num_elements message line =
    UNITY_TEST_ASSERT_INT_ARRAY_WITHIN mem delta expected actual num_elements line message"
definition TEST_ASSERT_INT8_ARRAY_WITHIN_MESSAGE where
  "TEST_ASSERT_INT8_ARRAY_WITHIN_MESSAGE mem delta expected actual num_elements message line =
    UNITY_TEST_ASSERT_INT8_ARRAY_WITHIN mem delta expected actual num_elements line message"
definition TEST_ASSERT_INT16_ARRAY_WITHIN_MESSAGE where
  "TEST_ASSERT_INT16_ARRAY_WITHIN_MESSAGE mem delta expected actual num_elements message line =
    UNITY_TEST_ASSERT_INT16_ARRAY_WITHIN mem delta expected actual num_elements line message"
definition TEST_ASSERT_INT32_ARRAY_WITHIN_MESSAGE where
  "TEST_ASSERT_INT32_ARRAY_WITHIN_MESSAGE mem delta expected actual num_elements message line =
    UNITY_TEST_ASSERT_INT32_ARRAY_WITHIN mem delta expected actual num_elements line message"
definition TEST_ASSERT_INT64_ARRAY_WITHIN_MESSAGE where
  "TEST_ASSERT_INT64_ARRAY_WITHIN_MESSAGE mem delta expected actual num_elements message line =
    UNITY_TEST_ASSERT_INT64_ARRAY_WITHIN mem delta expected actual num_elements line message"
definition TEST_ASSERT_UINT_ARRAY_WITHIN_MESSAGE where
  "TEST_ASSERT_UINT_ARRAY_WITHIN_MESSAGE mem delta expected actual num_elements message line =
    UNITY_TEST_ASSERT_UINT_ARRAY_WITHIN mem delta expected actual num_elements line message"
definition TEST_ASSERT_UINT8_ARRAY_WITHIN_MESSAGE where
  "TEST_ASSERT_UINT8_ARRAY_WITHIN_MESSAGE mem delta expected actual num_elements message line =
    UNITY_TEST_ASSERT_UINT8_ARRAY_WITHIN mem delta expected actual num_elements line message"
definition TEST_ASSERT_UINT16_ARRAY_WITHIN_MESSAGE where
  "TEST_ASSERT_UINT16_ARRAY_WITHIN_MESSAGE mem delta expected actual num_elements message line =
    UNITY_TEST_ASSERT_UINT16_ARRAY_WITHIN mem delta expected actual num_elements line message"
definition TEST_ASSERT_UINT32_ARRAY_WITHIN_MESSAGE where
  "TEST_ASSERT_UINT32_ARRAY_WITHIN_MESSAGE mem delta expected actual num_elements message line =
    UNITY_TEST_ASSERT_UINT32_ARRAY_WITHIN mem delta expected actual num_elements line message"
definition TEST_ASSERT_UINT64_ARRAY_WITHIN_MESSAGE where
  "TEST_ASSERT_UINT64_ARRAY_WITHIN_MESSAGE mem delta expected actual num_elements message line =
    UNITY_TEST_ASSERT_UINT64_ARRAY_WITHIN mem delta expected actual num_elements line message"
definition TEST_ASSERT_size_t_ARRAY_WITHIN_MESSAGE where
  "TEST_ASSERT_size_t_ARRAY_WITHIN_MESSAGE mem delta expected actual num_elements message line =
    UNITY_TEST_ASSERT_UINT_ARRAY_WITHIN mem delta expected actual num_elements line message"
definition TEST_ASSERT_HEX_ARRAY_WITHIN_MESSAGE where
  "TEST_ASSERT_HEX_ARRAY_WITHIN_MESSAGE mem delta expected actual num_elements message line =
    UNITY_TEST_ASSERT_HEX32_ARRAY_WITHIN mem delta expected actual num_elements line message"
definition TEST_ASSERT_HEX8_ARRAY_WITHIN_MESSAGE where
  "TEST_ASSERT_HEX8_ARRAY_WITHIN_MESSAGE mem delta expected actual num_elements message line =
    UNITY_TEST_ASSERT_HEX8_ARRAY_WITHIN mem delta expected actual num_elements line message"
definition TEST_ASSERT_HEX16_ARRAY_WITHIN_MESSAGE where
  "TEST_ASSERT_HEX16_ARRAY_WITHIN_MESSAGE mem delta expected actual num_elements message line =
    UNITY_TEST_ASSERT_HEX16_ARRAY_WITHIN mem delta expected actual num_elements line message"
definition TEST_ASSERT_HEX32_ARRAY_WITHIN_MESSAGE where
  "TEST_ASSERT_HEX32_ARRAY_WITHIN_MESSAGE mem delta expected actual num_elements message line =
    UNITY_TEST_ASSERT_HEX32_ARRAY_WITHIN mem delta expected actual num_elements line message"
definition TEST_ASSERT_HEX64_ARRAY_WITHIN_MESSAGE where
  "TEST_ASSERT_HEX64_ARRAY_WITHIN_MESSAGE mem delta expected actual num_elements message line =
    UNITY_TEST_ASSERT_HEX64_ARRAY_WITHIN mem delta expected actual num_elements line message"
definition TEST_ASSERT_CHAR_ARRAY_WITHIN_MESSAGE where
  "TEST_ASSERT_CHAR_ARRAY_WITHIN_MESSAGE mem delta expected actual num_elements message line =
    UNITY_TEST_ASSERT_CHAR_ARRAY_WITHIN mem delta expected actual num_elements line message"

subsection \<open>Structs and Strings\<close>

definition TEST_ASSERT_EQUAL_PTR_MESSAGE where
  "TEST_ASSERT_EQUAL_PTR_MESSAGE expected actual message line =
    UNITY_TEST_ASSERT_EQUAL_PTR expected actual line message"
definition TEST_ASSERT_EQUAL_STRING_MESSAGE where
  "TEST_ASSERT_EQUAL_STRING_MESSAGE expected actual message line =
    UNITY_TEST_ASSERT_EQUAL_STRING expected actual line message"
definition TEST_ASSERT_EQUAL_STRING_LEN_MESSAGE where
  "TEST_ASSERT_EQUAL_STRING_LEN_MESSAGE expected actual len message line =
    UNITY_TEST_ASSERT_EQUAL_STRING_LEN expected actual len line message"
definition TEST_ASSERT_EQUAL_MEMORY_MESSAGE where
  "TEST_ASSERT_EQUAL_MEMORY_MESSAGE mem expected actual len message line =
    UNITY_TEST_ASSERT_EQUAL_MEMORY mem expected actual len line message"

subsection \<open>Arrays\<close>

definition TEST_ASSERT_EQUAL_INT_ARRAY_MESSAGE where
  "TEST_ASSERT_EQUAL_INT_ARRAY_MESSAGE mem expected actual num_elements message line =
    UNITY_TEST_ASSERT_EQUAL_INT_ARRAY mem expected actual num_elements line message"
definition TEST_ASSERT_EQUAL_INT8_ARRAY_MESSAGE where
  "TEST_ASSERT_EQUAL_INT8_ARRAY_MESSAGE mem expected actual num_elements message line =
    UNITY_TEST_ASSERT_EQUAL_INT8_ARRAY mem expected actual num_elements line message"
definition TEST_ASSERT_EQUAL_INT16_ARRAY_MESSAGE where
  "TEST_ASSERT_EQUAL_INT16_ARRAY_MESSAGE mem expected actual num_elements message line =
    UNITY_TEST_ASSERT_EQUAL_INT16_ARRAY mem expected actual num_elements line message"
definition TEST_ASSERT_EQUAL_INT32_ARRAY_MESSAGE where
  "TEST_ASSERT_EQUAL_INT32_ARRAY_MESSAGE mem expected actual num_elements message line =
    UNITY_TEST_ASSERT_EQUAL_INT32_ARRAY mem expected actual num_elements line message"
definition TEST_ASSERT_EQUAL_INT64_ARRAY_MESSAGE where
  "TEST_ASSERT_EQUAL_INT64_ARRAY_MESSAGE mem expected actual num_elements message line =
    UNITY_TEST_ASSERT_EQUAL_INT64_ARRAY mem expected actual num_elements line message"
definition TEST_ASSERT_EQUAL_UINT_ARRAY_MESSAGE where
  "TEST_ASSERT_EQUAL_UINT_ARRAY_MESSAGE mem expected actual num_elements message line =
    UNITY_TEST_ASSERT_EQUAL_UINT_ARRAY mem expected actual num_elements line message"
definition TEST_ASSERT_EQUAL_UINT8_ARRAY_MESSAGE where
  "TEST_ASSERT_EQUAL_UINT8_ARRAY_MESSAGE mem expected actual num_elements message line =
    UNITY_TEST_ASSERT_EQUAL_UINT8_ARRAY mem expected actual num_elements line message"
definition TEST_ASSERT_EQUAL_UINT16_ARRAY_MESSAGE where
  "TEST_ASSERT_EQUAL_UINT16_ARRAY_MESSAGE mem expected actual num_elements message line =
    UNITY_TEST_ASSERT_EQUAL_UINT16_ARRAY mem expected actual num_elements line message"
definition TEST_ASSERT_EQUAL_UINT32_ARRAY_MESSAGE where
  "TEST_ASSERT_EQUAL_UINT32_ARRAY_MESSAGE mem expected actual num_elements message line =
    UNITY_TEST_ASSERT_EQUAL_UINT32_ARRAY mem expected actual num_elements line message"
definition TEST_ASSERT_EQUAL_UINT64_ARRAY_MESSAGE where
  "TEST_ASSERT_EQUAL_UINT64_ARRAY_MESSAGE mem expected actual num_elements message line =
    UNITY_TEST_ASSERT_EQUAL_UINT64_ARRAY mem expected actual num_elements line message"
definition TEST_ASSERT_EQUAL_size_t_ARRAY_MESSAGE where
  "TEST_ASSERT_EQUAL_size_t_ARRAY_MESSAGE mem expected actual num_elements message line =
    UNITY_TEST_ASSERT_EQUAL_UINT_ARRAY mem expected actual num_elements line message"
definition TEST_ASSERT_EQUAL_HEX_ARRAY_MESSAGE where
  "TEST_ASSERT_EQUAL_HEX_ARRAY_MESSAGE mem expected actual num_elements message line =
    UNITY_TEST_ASSERT_EQUAL_HEX32_ARRAY mem expected actual num_elements line message"
definition TEST_ASSERT_EQUAL_HEX8_ARRAY_MESSAGE where
  "TEST_ASSERT_EQUAL_HEX8_ARRAY_MESSAGE mem expected actual num_elements message line =
    UNITY_TEST_ASSERT_EQUAL_HEX8_ARRAY mem expected actual num_elements line message"
definition TEST_ASSERT_EQUAL_HEX16_ARRAY_MESSAGE where
  "TEST_ASSERT_EQUAL_HEX16_ARRAY_MESSAGE mem expected actual num_elements message line =
    UNITY_TEST_ASSERT_EQUAL_HEX16_ARRAY mem expected actual num_elements line message"
definition TEST_ASSERT_EQUAL_HEX32_ARRAY_MESSAGE where
  "TEST_ASSERT_EQUAL_HEX32_ARRAY_MESSAGE mem expected actual num_elements message line =
    UNITY_TEST_ASSERT_EQUAL_HEX32_ARRAY mem expected actual num_elements line message"
definition TEST_ASSERT_EQUAL_HEX64_ARRAY_MESSAGE where
  "TEST_ASSERT_EQUAL_HEX64_ARRAY_MESSAGE mem expected actual num_elements message line =
    UNITY_TEST_ASSERT_EQUAL_HEX64_ARRAY mem expected actual num_elements line message"
definition TEST_ASSERT_EQUAL_PTR_ARRAY_MESSAGE where
  "TEST_ASSERT_EQUAL_PTR_ARRAY_MESSAGE mem expected actual num_elements message line =
    UNITY_TEST_ASSERT_EQUAL_PTR_ARRAY mem expected actual num_elements line message"
definition TEST_ASSERT_EQUAL_STRING_ARRAY_MESSAGE where
  "TEST_ASSERT_EQUAL_STRING_ARRAY_MESSAGE mem expected actual num_elements message line =
    UNITY_TEST_ASSERT_EQUAL_STRING_ARRAY mem expected actual num_elements line message"
definition TEST_ASSERT_EQUAL_MEMORY_ARRAY_MESSAGE where
  "TEST_ASSERT_EQUAL_MEMORY_ARRAY_MESSAGE mem expected actual len num_elements message line =
    UNITY_TEST_ASSERT_EQUAL_MEMORY_ARRAY mem expected actual len num_elements line message"
definition TEST_ASSERT_EQUAL_CHAR_ARRAY_MESSAGE where
  "TEST_ASSERT_EQUAL_CHAR_ARRAY_MESSAGE mem expected actual num_elements message line =
    UNITY_TEST_ASSERT_EQUAL_CHAR_ARRAY mem expected actual num_elements line message"

subsection \<open>Arrays Compared To Single Value\<close>

definition TEST_ASSERT_EACH_EQUAL_INT_MESSAGE where
  "TEST_ASSERT_EACH_EQUAL_INT_MESSAGE mem quick expected actual num_elements message line =
    UNITY_TEST_ASSERT_EACH_EQUAL_INT mem quick expected actual num_elements line message"
definition TEST_ASSERT_EACH_EQUAL_INT8_MESSAGE where
  "TEST_ASSERT_EACH_EQUAL_INT8_MESSAGE mem quick expected actual num_elements message line =
    UNITY_TEST_ASSERT_EACH_EQUAL_INT8 mem quick expected actual num_elements line message"
definition TEST_ASSERT_EACH_EQUAL_INT16_MESSAGE where
  "TEST_ASSERT_EACH_EQUAL_INT16_MESSAGE mem quick expected actual num_elements message line =
    UNITY_TEST_ASSERT_EACH_EQUAL_INT16 mem quick expected actual num_elements line message"
definition TEST_ASSERT_EACH_EQUAL_INT32_MESSAGE where
  "TEST_ASSERT_EACH_EQUAL_INT32_MESSAGE mem quick expected actual num_elements message line =
    UNITY_TEST_ASSERT_EACH_EQUAL_INT32 mem quick expected actual num_elements line message"
definition TEST_ASSERT_EACH_EQUAL_INT64_MESSAGE where
  "TEST_ASSERT_EACH_EQUAL_INT64_MESSAGE mem quick expected actual num_elements message line =
    UNITY_TEST_ASSERT_EACH_EQUAL_INT64 mem quick expected actual num_elements line message"
definition TEST_ASSERT_EACH_EQUAL_UINT_MESSAGE where
  "TEST_ASSERT_EACH_EQUAL_UINT_MESSAGE mem quick expected actual num_elements message line =
    UNITY_TEST_ASSERT_EACH_EQUAL_UINT mem quick expected actual num_elements line message"
definition TEST_ASSERT_EACH_EQUAL_UINT8_MESSAGE where
  "TEST_ASSERT_EACH_EQUAL_UINT8_MESSAGE mem quick expected actual num_elements message line =
    UNITY_TEST_ASSERT_EACH_EQUAL_UINT8 mem quick expected actual num_elements line message"
definition TEST_ASSERT_EACH_EQUAL_UINT16_MESSAGE where
  "TEST_ASSERT_EACH_EQUAL_UINT16_MESSAGE mem quick expected actual num_elements message line =
    UNITY_TEST_ASSERT_EACH_EQUAL_UINT16 mem quick expected actual num_elements line message"
definition TEST_ASSERT_EACH_EQUAL_UINT32_MESSAGE where
  "TEST_ASSERT_EACH_EQUAL_UINT32_MESSAGE mem quick expected actual num_elements message line =
    UNITY_TEST_ASSERT_EACH_EQUAL_UINT32 mem quick expected actual num_elements line message"
definition TEST_ASSERT_EACH_EQUAL_UINT64_MESSAGE where
  "TEST_ASSERT_EACH_EQUAL_UINT64_MESSAGE mem quick expected actual num_elements message line =
    UNITY_TEST_ASSERT_EACH_EQUAL_UINT64 mem quick expected actual num_elements line message"
definition TEST_ASSERT_EACH_EQUAL_size_t_MESSAGE where
  "TEST_ASSERT_EACH_EQUAL_size_t_MESSAGE mem quick expected actual num_elements message line =
    UNITY_TEST_ASSERT_EACH_EQUAL_UINT mem quick expected actual num_elements line message"
definition TEST_ASSERT_EACH_EQUAL_HEX_MESSAGE where
  "TEST_ASSERT_EACH_EQUAL_HEX_MESSAGE mem quick expected actual num_elements message line =
    UNITY_TEST_ASSERT_EACH_EQUAL_HEX32 mem quick expected actual num_elements line message"
definition TEST_ASSERT_EACH_EQUAL_HEX8_MESSAGE where
  "TEST_ASSERT_EACH_EQUAL_HEX8_MESSAGE mem quick expected actual num_elements message line =
    UNITY_TEST_ASSERT_EACH_EQUAL_HEX8 mem quick expected actual num_elements line message"
definition TEST_ASSERT_EACH_EQUAL_HEX16_MESSAGE where
  "TEST_ASSERT_EACH_EQUAL_HEX16_MESSAGE mem quick expected actual num_elements message line =
    UNITY_TEST_ASSERT_EACH_EQUAL_HEX16 mem quick expected actual num_elements line message"
definition TEST_ASSERT_EACH_EQUAL_HEX32_MESSAGE where
  "TEST_ASSERT_EACH_EQUAL_HEX32_MESSAGE mem quick expected actual num_elements message line =
    UNITY_TEST_ASSERT_EACH_EQUAL_HEX32 mem quick expected actual num_elements line message"
definition TEST_ASSERT_EACH_EQUAL_HEX64_MESSAGE where
  "TEST_ASSERT_EACH_EQUAL_HEX64_MESSAGE mem quick expected actual num_elements message line =
    UNITY_TEST_ASSERT_EACH_EQUAL_HEX64 mem quick expected actual num_elements line message"
definition TEST_ASSERT_EACH_EQUAL_PTR_MESSAGE where
  "TEST_ASSERT_EACH_EQUAL_PTR_MESSAGE mem quick expected actual num_elements message line =
    UNITY_TEST_ASSERT_EACH_EQUAL_PTR mem quick expected actual num_elements line message"
definition TEST_ASSERT_EACH_EQUAL_STRING_MESSAGE where
  "TEST_ASSERT_EACH_EQUAL_STRING_MESSAGE mem expected actual num_elements message line =
    UNITY_TEST_ASSERT_EACH_EQUAL_STRING mem expected actual num_elements line message"
definition TEST_ASSERT_EACH_EQUAL_MEMORY_MESSAGE where
  "TEST_ASSERT_EACH_EQUAL_MEMORY_MESSAGE mem expected actual len num_elements message line =
    UNITY_TEST_ASSERT_EACH_EQUAL_MEMORY mem expected actual len num_elements line message"
definition TEST_ASSERT_EACH_EQUAL_CHAR_MESSAGE where
  "TEST_ASSERT_EACH_EQUAL_CHAR_MESSAGE mem quick expected actual num_elements message line =
    UNITY_TEST_ASSERT_EACH_EQUAL_CHAR mem quick expected actual num_elements line message"

section \<open>What the macros accept\<close>

text \<open>The value of a cast number is the value of its low bits.\<close>

lemma sint_widened: "sint (scast (w :: 'a::len word) :: UNITY_INT) = sint w" if "LENGTH('a) \<le> 64"
proof -
  have w: "- (2 ^ (LENGTH('a) - 1)) \<le> sint w" "sint w < 2 ^ (LENGTH('a) - 1)"
    using sint_ge [of w] sint_lt [of w] by simp_all
  have "(2 :: int) ^ (LENGTH('a) - 1) \<le> 2 ^ 63" using that by (intro power_increasing) auto
  with w have "signed_take_bit 63 (sint w) = sint w"
    by (intro signed_take_bit_int_eq_self) linarith+
  then show ?thesis by (simp add: signed_scast_eq)
qed

lemma uint_widened: "uint (ucast (w :: 'a::len word) :: UNITY_INT) = uint w" if "LENGTH('a) \<le> 64"
proof -
  have "(2 :: int) ^ LENGTH('a) \<le> 2 ^ 64" using that by (intro power_increasing) auto
  moreover have "uint w < 2 ^ LENGTH('a)" by (rule unsigned_less)
  ultimately have "uint w < 2 ^ 64" by linarith
  then have "take_bit 64 (uint w) = uint w" by (intro take_bit_int_eq_self) auto
  then show ?thesis by (simp add: unsigned_ucast_eq)
qed

lemma cast_values:
  "sint (as_UNITY_INT8 x) = sint (ucast x :: 8 word)"
  "sint (as_UNITY_INT16 x) = sint (ucast x :: 16 word)"
  "sint (as_UNITY_INT32 x) = sint (ucast x :: 32 word)"
  "uint (as_UNITY_UINT8 x) = uint (ucast x :: 8 word)"
  "uint (as_UNITY_UINT16 x) = uint (ucast x :: 16 word)"
  "uint (as_UNITY_UINT32 x) = uint (ucast x :: 32 word)"
  unfolding as_UNITY_INT8_def as_UNITY_INT16_def as_UNITY_INT32_def as_UNITY_UINT8_def
    as_UNITY_UINT16_def as_UNITY_UINT32_def
  by (rule sint_widened uint_widened, simp)+

lemma casts_agree:
  "as_UNITY_INT8 x = as_UNITY_INT8 y \<longleftrightarrow> (ucast x :: 8 word) = ucast y"
  "as_UNITY_INT16 x = as_UNITY_INT16 y \<longleftrightarrow> (ucast x :: 16 word) = ucast y"
  "as_UNITY_INT32 x = as_UNITY_INT32 y \<longleftrightarrow> (ucast x :: 32 word) = ucast y"
  "as_UNITY_UINT8 x = as_UNITY_UINT8 y \<longleftrightarrow> (ucast x :: 8 word) = ucast y"
  "as_UNITY_UINT16 x = as_UNITY_UINT16 y \<longleftrightarrow> (ucast x :: 16 word) = ucast y"
  "as_UNITY_UINT32 x = as_UNITY_UINT32 y \<longleftrightarrow> (ucast x :: 32 word) = ucast y"
  using cast_values [of x] cast_values [of y]
  by (metis signed_word_eqI unsigned_word_eqI)+

lemma bit_low_ones: "bit (ucast (- 1 :: 32 word) :: UNITY_INT) i \<longleftrightarrow> i < 32"
  by (simp add: bit_ucast_iff) arith

lemma equal_asserts:
  assumes "\<not> fail_or_ignore u" and "P \<longleftrightarrow> expected = actual"
  shows "asserts P u (UnityAssertEqualNumber expected actual msg line style u)"
  using UnityAssertEqualNumber_asserts [OF assms(1)] by (simp add: assms(2))

lemmas equal_macro_defs =
  TEST_ASSERT_EQUAL_INT8_def UNITY_TEST_ASSERT_EQUAL_INT8_def
  TEST_ASSERT_EQUAL_INT16_def UNITY_TEST_ASSERT_EQUAL_INT16_def
  TEST_ASSERT_EQUAL_INT32_def UNITY_TEST_ASSERT_EQUAL_INT32_def
  TEST_ASSERT_EQUAL_INT64_def UNITY_TEST_ASSERT_EQUAL_INT64_def
  TEST_ASSERT_EQUAL_UINT8_def UNITY_TEST_ASSERT_EQUAL_UINT8_def
  TEST_ASSERT_EQUAL_UINT16_def UNITY_TEST_ASSERT_EQUAL_UINT16_def
  TEST_ASSERT_EQUAL_UINT32_def UNITY_TEST_ASSERT_EQUAL_UINT32_def
  TEST_ASSERT_EQUAL_HEX8_def UNITY_TEST_ASSERT_EQUAL_HEX8_def
  TEST_ASSERT_EQUAL_HEX16_def UNITY_TEST_ASSERT_EQUAL_HEX16_def
  TEST_ASSERT_EQUAL_HEX32_def UNITY_TEST_ASSERT_EQUAL_HEX32_def
  TEST_ASSERT_EQUAL_CHAR_def UNITY_TEST_ASSERT_EQUAL_CHAR_def



lemmas order_macro_defs =
  TEST_ASSERT_GREATER_THAN_INT8_def UNITY_TEST_ASSERT_GREATER_THAN_INT8_def
  TEST_ASSERT_GREATER_THAN_UINT8_def UNITY_TEST_ASSERT_GREATER_THAN_UINT8_def
  TEST_ASSERT_LESS_THAN_INT16_def UNITY_TEST_ASSERT_SMALLER_THAN_INT16_def
  TEST_ASSERT_LESS_THAN_UINT16_def UNITY_TEST_ASSERT_SMALLER_THAN_UINT16_def
  TEST_ASSERT_GREATER_OR_EQUAL_INT32_def UNITY_TEST_ASSERT_GREATER_OR_EQUAL_INT32_def
  TEST_ASSERT_LESS_OR_EQUAL_UINT32_def UNITY_TEST_ASSERT_SMALLER_OR_EQUAL_UINT32_def

lemma order_asserts:
  assumes "\<not> fail_or_ignore u"
    and "compare \<in> {UNITY_GREATER_THAN, UNITY_GREATER_OR_EQUAL, UNITY_SMALLER_THAN,
      UNITY_SMALLER_OR_EQUAL, UNITY_NOT_EQUAL}"
    and "P = order_holds compare (style_val style actual) (style_val style threshold)"
  shows "asserts P u (UnityAssertGreaterOrLessOrEqualNumber threshold actual compare msg line style u)"
  using GreaterOrLess_core [OF assms(1), of compare style actual threshold msg line]
  by (simp add: order_fails_iff [OF assms(2)] assms(3))

lemma style_val_simps:
  "style_val UNITY_DISPLAY_STYLE_INT8 x = sint x"
  "style_val UNITY_DISPLAY_STYLE_INT16 x = sint x"
  "style_val UNITY_DISPLAY_STYLE_INT32 x = sint x"
  "style_val UNITY_DISPLAY_STYLE_UINT8 x = uint x"
  "style_val UNITY_DISPLAY_STYLE_UINT16 x = uint x"
  "style_val UNITY_DISPLAY_STYLE_UINT32 x = uint x"
  by (simp_all add: style_val_def style_is_def style_defs)

text \<open>
  The order macros of a given width compare the values of the low bits of their arguments, read
  as two's complement for the signed widths and as natural numbers for the unsigned ones: the actual
  value is on the left of the relation the macro names, the threshold on the right.
\<close>
theorem sized_order_asserts:
  assumes "\<not> fail_or_ignore u"
  shows "asserts (sint (ucast actual :: 8 word) > sint (ucast threshold :: 8 word)) u
      (TEST_ASSERT_GREATER_THAN_INT8 threshold actual line u) \<and>
    asserts (uint (ucast actual :: 8 word) > uint (ucast threshold :: 8 word)) u
      (TEST_ASSERT_GREATER_THAN_UINT8 threshold actual line u) \<and>
    asserts (sint (ucast actual :: 16 word) < sint (ucast threshold :: 16 word)) u
      (TEST_ASSERT_LESS_THAN_INT16 threshold actual line u) \<and>
    asserts (uint (ucast actual :: 16 word) < uint (ucast threshold :: 16 word)) u
      (TEST_ASSERT_LESS_THAN_UINT16 threshold actual line u) \<and>
    asserts (sint (ucast actual :: 32 word) \<ge> sint (ucast threshold :: 32 word)) u
      (TEST_ASSERT_GREATER_OR_EQUAL_INT32 threshold actual line u) \<and>
    asserts (uint (ucast actual :: 32 word) \<le> uint (ucast threshold :: 32 word)) u
      (TEST_ASSERT_LESS_OR_EQUAL_UINT32 threshold actual line u)"
  unfolding order_macro_defs
  by (intro conjI order_asserts [OF assms])
    (simp_all add: style_val_simps cast_values order_holds_simps)

theorem sized_order_asserts_witness:
  "asserts False unity_fresh (TEST_ASSERT_GREATER_THAN_INT8 1 200 1 unity_fresh) \<and>
   asserts True unity_fresh (TEST_ASSERT_GREATER_THAN_UINT8 1 200 1 unity_fresh)"
  using sized_order_asserts [OF unity_fresh_ok, of 1 200 1] by simp

section \<open>Two macros that check less than their names say\<close>

text \<open>
  C34: \<^verbatim>\<open>TEST_ASSERT_BITS_HIGH\<close> asserts that every bit of the mask is set. Its variant with a message
  compares with \<^verbatim>\<open>(UNITY_UINT32)(-1)\<close>, which has only the low 32 bits set: on the bits of the mask
  from 32 up it asserts that they are clear.
\<close>
theorem bits_high_message_differs:
  assumes "\<not> fail_or_ignore u"
  shows "asserts (\<forall>i. bit msk i \<longrightarrow> bit actual i) u (TEST_ASSERT_BITS_HIGH msk actual line u) \<and>
    asserts (\<forall>i. bit msk i \<longrightarrow> bit actual i = (i < 32)) u
      (TEST_ASSERT_BITS_HIGH_MESSAGE msk actual message line u)"
proof -
  have high: "bit (- 1 :: UNITY_INT) i \<longleftrightarrow> i < 64" for i
    by simp
  have below: "bit msk i \<Longrightarrow> i < 64" for i
    using bit_imp_le_length [of msk i] by simp
  have "(\<forall>i. bit msk i \<longrightarrow> bit (- 1 :: UNITY_INT) i = bit actual i) \<longleftrightarrow> (\<forall>i. bit msk i \<longrightarrow> bit actual i)"
    using below by auto
  moreover have "(\<forall>i. bit msk i \<longrightarrow> bit (ucast (- 1 :: 32 word) :: UNITY_INT) i = bit actual i) \<longleftrightarrow>
      (\<forall>i. bit msk i \<longrightarrow> bit actual i = (i < 32))"
    by (auto simp: bit_low_ones)
  ultimately show ?thesis
    using UnityAssertBits_asserts [OF assms, of msk "- 1" actual None line]
      UnityAssertBits_asserts [OF assms, of msk "ucast (- 1 :: 32 word)" actual message line]
    by (simp only: TEST_ASSERT_BITS_HIGH_def TEST_ASSERT_BITS_HIGH_MESSAGE_def UNITY_TEST_ASSERT_BITS_def)
qed

theorem bits_high_message_differs_witness:
  "asserts True unity_fresh (TEST_ASSERT_BITS_HIGH (push_bit 40 1) (- 1) 1 unity_fresh) \<and>
   asserts False unity_fresh (TEST_ASSERT_BITS_HIGH_MESSAGE (push_bit 40 1) (- 1) None 1 unity_fresh)"
proof -
  have one: "bit (push_bit 40 1 :: UNITY_INT) i \<longleftrightarrow> i = 40" for i
    unfolding bit_push_bit_iff bit_1_iff by auto
  have high: "(\<forall>i. bit (push_bit 40 1 :: UNITY_INT) i \<longrightarrow> bit (- 1 :: UNITY_INT) i) = True"
    and "(\<forall>i. bit (push_bit 40 1 :: UNITY_INT) i \<longrightarrow> bit (- 1 :: UNITY_INT) i = (i < 32)) = False"
    unfolding one by auto
  with bits_high_message_differs [OF unity_fresh_ok, of "push_bit 40 1" "- 1" 1 None] show ?thesis
    by (simp only: simp_thms)
qed

lemma ucast_up_inject: "(ucast (v :: 32 word) :: UNITY_INT) = ucast w \<longleftrightarrow> v = w"
proof
  assume "(ucast v :: UNITY_INT) = ucast w"
  then have "uint (ucast v :: UNITY_INT) = uint (ucast w :: UNITY_INT)" by simp
  then have "uint v = uint w" by (simp add: uint_widened)
  then show "v = w" by (rule unsigned_word_eqI)
qed simp

lemma four_byte_element:
  "load_unsigned mem p 4 = Inr (ucast (e :: 32 word)) \<Longrightarrow>
   equal_element mem p UNITY_DISPLAY_STYLE_UINT = Inr (ucast e)"
proof -
  assume "load_unsigned mem p 4 = Inr (ucast e)"
  moreover have "signed_take_bit 31 (ucast e :: 64 word) AND 0xFFFFFFFF = ucast e"
  proof -
    have "(0xFFFFFFFF :: 64 word) = mask 32" by (simp add: mask_eq_exp_minus_1)
    then have "signed_take_bit 31 (ucast e :: 64 word) AND 0xFFFFFFFF = take_bit 32 (ucast e)"
      by (simp only: take_bit_eq_mask [symmetric]) (simp add: take_bit_signed_take_bit)
    also have "\<dots> = ucast e"
      by (rule bit_word_eqI) (auto simp: bit_take_bit_iff bit_ucast_iff dest: bit_imp_le_length)
    finally show ?thesis .
  qed
  ultimately show ?thesis
    by (simp add: equal_element_def load_signed_def element_length_def style_length_def style_has_def
        style_defs)
qed

lemma uint_element_length [simp]: "element_length UNITY_DISPLAY_STYLE_UINT = 4"
  by (simp add: element_length_def style_length_def style_defs)

text \<open>
  C35: on a platform with 8-byte \<^verbatim>\<open>size_t\<close> the array macro for it, which borrows the style of
  \<^verbatim>\<open>unsigned int\<close>, compares the 4-byte words at the offsets \<open>0, 4, \<dots>, 4 * (n - 1)\<close>: for \<open>n\<close> elements
  the first half of the two arrays, taken as bytes.
\<close>
theorem size_t_array_checks_half:
  assumes "\<not> fail_or_ignore u" and "as_length num_elements \<noteq> 0"
    and "expected \<noteq> actual" and "expected \<noteq> NULL" and "actual \<noteq> NULL"
    and "\<forall>i < unat (as_length num_elements).
      load_unsigned mem (expected + of_nat (i * 4)) 4 = Inr (ucast (es i :: 32 word))"
    and "\<forall>i < unat (as_length num_elements).
      load_unsigned mem (actual + of_nat (i * 4)) 4 = Inr (ucast (as i :: 32 word))"
  shows "asserts_res (\<forall>i < unat (as_length num_elements). es i = as i) u
    (TEST_ASSERT_EQUAL_size_t_ARRAY mem expected actual num_elements line u)"
proof -
  have "asserts_res (\<forall>i < unat (as_length num_elements). (ucast (es i) :: UNITY_INT) = ucast (as i)) u
    (int_array_loop mem (as_length num_elements) None line UNITY_DISPLAY_STYLE_UINT UNITY_ARRAY_TO_ARRAY
      (unat (as_length num_elements)) expected actual u)"
    using assms by (intro int_array_loop_asserts) (simp_all add: step_ptr_def four_byte_element)
  then show ?thesis
    using assms
    by (simp add: TEST_ASSERT_EQUAL_size_t_ARRAY_def UNITY_TEST_ASSERT_EQUAL_UINT_ARRAY_def
        UnityAssertEqualIntArray_def prologue_loop ucast_up_inject)
qed

text \<open>Two arrays of two elements, \<open>{5, 1}\<close> at 16 and \<open>{5, 2}\<close> at 32.\<close>

definition size_t_arrays :: c_mem where
  "size_t_arrays =
     \<lparr>bytes = (\<lambda>p. if 16 \<le> p \<and> p < 48
        then Some (if p = 16 \<or> p = 32 then 5 else if p = 24 then 1 else if p = 40 then 2 else 0) else None),
      cells = Map.empty, strs = Map.empty\<rparr>"

lemma size_t_arrays_loads:
  "load_unsigned size_t_arrays 16 4 = Inr 5" "load_unsigned size_t_arrays 20 4 = Inr 0"
  "load_unsigned size_t_arrays 32 4 = Inr 5" "load_unsigned size_t_arrays 36 4 = Inr 0"
  "load_unsigned size_t_arrays 24 8 = Inr 1" "load_unsigned size_t_arrays 40 8 = Inr 2"
  by code_simp+

theorem size_t_array_checks_half_witness:
  "asserts_res True unity_fresh (TEST_ASSERT_EQUAL_size_t_ARRAY size_t_arrays 16 32 2 1 unity_fresh) \<and>
   load_unsigned size_t_arrays 24 8 \<noteq> load_unsigned size_t_arrays 40 8"
  using size_t_array_checks_half [OF unity_fresh_ok, of 2 16 32 size_t_arrays "(!) [5, 0]" "(!) [5, 0]" 1]
  by (simp add: all_below_two as_length_def size_t_arrays_loads)

end
