(* ===== verification/Unity_Variants.thy ===== *)
theory Unity_Variants
  imports Unity_Float_Macros Unity_Api
begin

text \<open>
  Macros of the configurations other than the Makefile's
  (\<^verbatim>\<open>unity/src/unity.h\<close>, \<^verbatim>\<open>unity/src/unity_internals.h\<close>): the choices for what the shorthand
  \<^verbatim>\<open>TEST_ASSERT_EQUAL\<close> stands for (suffixes \<open>_AS_INT\<close>, \<open>_AS_MEM\<close>, \<open>_AS_RAW\<close>, \<open>_AS_NONE\<close>), and
  the macros on \<^verbatim>\<open>float\<close> without floating point (suffix \<open>_off\<close>). Those on 64-bit integers where
  there are none (suffix \<open>_no64\<close>) are added for completeness. The shorthand that compares
  memory takes the addresses of its arguments and \<^verbatim>\<open>sizeof\<close> of the first.
\<close>

section \<open>Shorthand\<close>

definition TEST_ASSERT_EQUAL_AS_INT where
  "TEST_ASSERT_EQUAL_AS_INT expected actual line u =
    UNITY_TEST_ASSERT_EQUAL_INT expected actual line None u"
definition TEST_ASSERT_NOT_EQUAL_AS_INT where
  "TEST_ASSERT_NOT_EQUAL_AS_INT (expected :: UNITY_INT) (actual :: UNITY_INT) line u =
    UNITY_TEST_FAIL line UnityStrErrShorthand u"
definition TEST_ASSERT_EQUAL_MESSAGE_AS_INT where
  "TEST_ASSERT_EQUAL_MESSAGE_AS_INT expected actual message line u =
    UNITY_TEST_ASSERT_EQUAL_INT expected actual line (Some message) u"
definition TEST_ASSERT_NOT_EQUAL_MESSAGE_AS_INT where
  "TEST_ASSERT_NOT_EQUAL_MESSAGE_AS_INT (expected :: UNITY_INT) (actual :: UNITY_INT) (message :: string) line u =
    UNITY_TEST_FAIL line UnityStrErrShorthand u"

definition TEST_ASSERT_EQUAL_AS_MEM where
  "TEST_ASSERT_EQUAL_AS_MEM mem expected actual len line u =
    UNITY_TEST_ASSERT_EQUAL_MEMORY mem expected actual len line None u"
definition TEST_ASSERT_NOT_EQUAL_AS_MEM where
  "TEST_ASSERT_NOT_EQUAL_AS_MEM (expected :: UNITY_INT) (actual :: UNITY_INT) line u =
    UNITY_TEST_FAIL line UnityStrErrShorthand u"
definition TEST_ASSERT_EQUAL_MESSAGE_AS_MEM where
  "TEST_ASSERT_EQUAL_MESSAGE_AS_MEM mem expected actual len message line u =
    UNITY_TEST_ASSERT_EQUAL_MEMORY mem expected actual len line (Some message) u"
definition TEST_ASSERT_NOT_EQUAL_MESSAGE_AS_MEM where
  "TEST_ASSERT_NOT_EQUAL_MESSAGE_AS_MEM (expected :: UNITY_INT) (actual :: UNITY_INT) (message :: string) line u =
    UNITY_TEST_FAIL line UnityStrErrShorthand u"

definition TEST_ASSERT_EQUAL_AS_RAW where
  "TEST_ASSERT_EQUAL_AS_RAW expected actual line u =
    UNITY_TEST_ASSERT (expected = actual) line (Some '' Expected Equal'') u"
definition TEST_ASSERT_NOT_EQUAL_AS_RAW where
  "TEST_ASSERT_NOT_EQUAL_AS_RAW expected actual line u =
    UNITY_TEST_ASSERT (expected \<noteq> actual) line (Some '' Expected Not-Equal'') u"
definition TEST_ASSERT_EQUAL_MESSAGE_AS_RAW where
  "TEST_ASSERT_EQUAL_MESSAGE_AS_RAW expected actual message line u =
    UNITY_TEST_ASSERT (expected = actual) line (Some message) u"
definition TEST_ASSERT_NOT_EQUAL_MESSAGE_AS_RAW where
  "TEST_ASSERT_NOT_EQUAL_MESSAGE_AS_RAW expected actual message line u =
    UNITY_TEST_ASSERT (expected \<noteq> actual) line (Some message) u"

definition TEST_ASSERT_EQUAL_AS_NONE where
  "TEST_ASSERT_EQUAL_AS_NONE (expected :: UNITY_INT) (actual :: UNITY_INT) line u =
    UNITY_TEST_FAIL line UnityStrErrShorthand u"
definition TEST_ASSERT_NOT_EQUAL_AS_NONE where
  "TEST_ASSERT_NOT_EQUAL_AS_NONE (expected :: UNITY_INT) (actual :: UNITY_INT) line u =
    UNITY_TEST_FAIL line UnityStrErrShorthand u"
definition TEST_ASSERT_EQUAL_MESSAGE_AS_NONE where
  "TEST_ASSERT_EQUAL_MESSAGE_AS_NONE (expected :: UNITY_INT) (actual :: UNITY_INT) (message :: string) line u =
    UNITY_TEST_FAIL line UnityStrErrShorthand u"
definition TEST_ASSERT_NOT_EQUAL_MESSAGE_AS_NONE where
  "TEST_ASSERT_NOT_EQUAL_MESSAGE_AS_NONE (expected :: UNITY_INT) (actual :: UNITY_INT) (message :: string) line u =
    UNITY_TEST_FAIL line UnityStrErrShorthand u"

section \<open>Without floating point (UNITY\_EXCLUDE\_FLOAT)\<close>

definition UNITY_TEST_ASSERT_FLOAT_WITHIN_off where
  "UNITY_TEST_ASSERT_FLOAT_WITHIN_off delta expected actual line (message :: c_string) u = UNITY_TEST_FAIL line UnityStrErrFloat u"
definition UNITY_TEST_ASSERT_FLOAT_NOT_WITHIN_off where
  "UNITY_TEST_ASSERT_FLOAT_NOT_WITHIN_off delta expected actual line (message :: c_string) u = UNITY_TEST_FAIL line UnityStrErrFloat u"
definition UNITY_TEST_ASSERT_EQUAL_FLOAT_off where
  "UNITY_TEST_ASSERT_EQUAL_FLOAT_off expected actual line (message :: c_string) u = UNITY_TEST_FAIL line UnityStrErrFloat u"
definition UNITY_TEST_ASSERT_NOT_EQUAL_FLOAT_off where
  "UNITY_TEST_ASSERT_NOT_EQUAL_FLOAT_off expected actual line (message :: c_string) u = UNITY_TEST_FAIL line UnityStrErrFloat u"
definition UNITY_TEST_ASSERT_FLOAT_ARRAY_WITHIN_off where
  "UNITY_TEST_ASSERT_FLOAT_ARRAY_WITHIN_off delta expected actual num_elements line (message :: c_string) u = UNITY_TEST_FAIL line UnityStrErrFloat u"
definition UNITY_TEST_ASSERT_EQUAL_FLOAT_ARRAY_off where
  "UNITY_TEST_ASSERT_EQUAL_FLOAT_ARRAY_off expected actual num_elements line (message :: c_string) u = UNITY_TEST_FAIL line UnityStrErrFloat u"
definition UNITY_TEST_ASSERT_EACH_EQUAL_FLOAT_off where
  "UNITY_TEST_ASSERT_EACH_EQUAL_FLOAT_off expected actual num_elements line (message :: c_string) u = UNITY_TEST_FAIL line UnityStrErrFloat u"
definition UNITY_TEST_ASSERT_GREATER_THAN_FLOAT_off where
  "UNITY_TEST_ASSERT_GREATER_THAN_FLOAT_off threshold actual line (message :: c_string) u = UNITY_TEST_FAIL line UnityStrErrFloat u"
definition UNITY_TEST_ASSERT_GREATER_OR_EQUAL_FLOAT_off where
  "UNITY_TEST_ASSERT_GREATER_OR_EQUAL_FLOAT_off threshold actual line (message :: c_string) u = UNITY_TEST_FAIL line UnityStrErrFloat u"
definition UNITY_TEST_ASSERT_LESS_THAN_FLOAT_off where
  "UNITY_TEST_ASSERT_LESS_THAN_FLOAT_off threshold actual line (message :: c_string) u = UNITY_TEST_FAIL line UnityStrErrFloat u"
definition UNITY_TEST_ASSERT_LESS_OR_EQUAL_FLOAT_off where
  "UNITY_TEST_ASSERT_LESS_OR_EQUAL_FLOAT_off threshold actual line (message :: c_string) u = UNITY_TEST_FAIL line UnityStrErrFloat u"
definition UNITY_TEST_ASSERT_FLOAT_IS_INF_off where
  "UNITY_TEST_ASSERT_FLOAT_IS_INF_off actual line (message :: c_string) u = UNITY_TEST_FAIL line UnityStrErrFloat u"
definition UNITY_TEST_ASSERT_FLOAT_IS_NEG_INF_off where
  "UNITY_TEST_ASSERT_FLOAT_IS_NEG_INF_off actual line (message :: c_string) u = UNITY_TEST_FAIL line UnityStrErrFloat u"
definition UNITY_TEST_ASSERT_FLOAT_IS_NAN_off where
  "UNITY_TEST_ASSERT_FLOAT_IS_NAN_off actual line (message :: c_string) u = UNITY_TEST_FAIL line UnityStrErrFloat u"
definition UNITY_TEST_ASSERT_FLOAT_IS_DETERMINATE_off where
  "UNITY_TEST_ASSERT_FLOAT_IS_DETERMINATE_off actual line (message :: c_string) u = UNITY_TEST_FAIL line UnityStrErrFloat u"
definition UNITY_TEST_ASSERT_FLOAT_IS_NOT_INF_off where
  "UNITY_TEST_ASSERT_FLOAT_IS_NOT_INF_off actual line (message :: c_string) u = UNITY_TEST_FAIL line UnityStrErrFloat u"
definition UNITY_TEST_ASSERT_FLOAT_IS_NOT_NEG_INF_off where
  "UNITY_TEST_ASSERT_FLOAT_IS_NOT_NEG_INF_off actual line (message :: c_string) u = UNITY_TEST_FAIL line UnityStrErrFloat u"
definition UNITY_TEST_ASSERT_FLOAT_IS_NOT_NAN_off where
  "UNITY_TEST_ASSERT_FLOAT_IS_NOT_NAN_off actual line (message :: c_string) u = UNITY_TEST_FAIL line UnityStrErrFloat u"
definition UNITY_TEST_ASSERT_FLOAT_IS_NOT_DETERMINATE_off where
  "UNITY_TEST_ASSERT_FLOAT_IS_NOT_DETERMINATE_off actual line (message :: c_string) u = UNITY_TEST_FAIL line UnityStrErrFloat u"

section \<open>Without 64-bit integers\<close>

definition UNITY_TEST_ASSERT_EQUAL_INT64_no64 where
  "UNITY_TEST_ASSERT_EQUAL_INT64_no64 expected actual line (message :: c_string) u = UNITY_TEST_FAIL line UnityStrErr64 u"
definition UNITY_TEST_ASSERT_EQUAL_UINT64_no64 where
  "UNITY_TEST_ASSERT_EQUAL_UINT64_no64 expected actual line (message :: c_string) u = UNITY_TEST_FAIL line UnityStrErr64 u"
definition UNITY_TEST_ASSERT_EQUAL_HEX64_no64 where
  "UNITY_TEST_ASSERT_EQUAL_HEX64_no64 expected actual line (message :: c_string) u = UNITY_TEST_FAIL line UnityStrErr64 u"
definition UNITY_TEST_ASSERT_EQUAL_INT64_ARRAY_no64 where
  "UNITY_TEST_ASSERT_EQUAL_INT64_ARRAY_no64 expected actual num_elements line (message :: c_string) u = UNITY_TEST_FAIL line UnityStrErr64 u"
definition UNITY_TEST_ASSERT_EQUAL_UINT64_ARRAY_no64 where
  "UNITY_TEST_ASSERT_EQUAL_UINT64_ARRAY_no64 expected actual num_elements line (message :: c_string) u = UNITY_TEST_FAIL line UnityStrErr64 u"
definition UNITY_TEST_ASSERT_EQUAL_HEX64_ARRAY_no64 where
  "UNITY_TEST_ASSERT_EQUAL_HEX64_ARRAY_no64 expected actual num_elements line (message :: c_string) u = UNITY_TEST_FAIL line UnityStrErr64 u"
definition UNITY_TEST_ASSERT_INT64_WITHIN_no64 where
  "UNITY_TEST_ASSERT_INT64_WITHIN_no64 delta expected actual line (message :: c_string) u = UNITY_TEST_FAIL line UnityStrErr64 u"
definition UNITY_TEST_ASSERT_UINT64_WITHIN_no64 where
  "UNITY_TEST_ASSERT_UINT64_WITHIN_no64 delta expected actual line (message :: c_string) u = UNITY_TEST_FAIL line UnityStrErr64 u"
definition UNITY_TEST_ASSERT_HEX64_WITHIN_no64 where
  "UNITY_TEST_ASSERT_HEX64_WITHIN_no64 delta expected actual line (message :: c_string) u = UNITY_TEST_FAIL line UnityStrErr64 u"
definition UNITY_TEST_ASSERT_GREATER_THAN_INT64_no64 where
  "UNITY_TEST_ASSERT_GREATER_THAN_INT64_no64 threshold actual line (message :: c_string) u = UNITY_TEST_FAIL line UnityStrErr64 u"
definition UNITY_TEST_ASSERT_GREATER_THAN_UINT64_no64 where
  "UNITY_TEST_ASSERT_GREATER_THAN_UINT64_no64 threshold actual line (message :: c_string) u = UNITY_TEST_FAIL line UnityStrErr64 u"
definition UNITY_TEST_ASSERT_GREATER_THAN_HEX64_no64 where
  "UNITY_TEST_ASSERT_GREATER_THAN_HEX64_no64 threshold actual line (message :: c_string) u = UNITY_TEST_FAIL line UnityStrErr64 u"
definition UNITY_TEST_ASSERT_GREATER_OR_EQUAL_INT64_no64 where
  "UNITY_TEST_ASSERT_GREATER_OR_EQUAL_INT64_no64 threshold actual line (message :: c_string) u = UNITY_TEST_FAIL line UnityStrErr64 u"
definition UNITY_TEST_ASSERT_GREATER_OR_EQUAL_UINT64_no64 where
  "UNITY_TEST_ASSERT_GREATER_OR_EQUAL_UINT64_no64 threshold actual line (message :: c_string) u = UNITY_TEST_FAIL line UnityStrErr64 u"
definition UNITY_TEST_ASSERT_GREATER_OR_EQUAL_HEX64_no64 where
  "UNITY_TEST_ASSERT_GREATER_OR_EQUAL_HEX64_no64 threshold actual line (message :: c_string) u = UNITY_TEST_FAIL line UnityStrErr64 u"
definition UNITY_TEST_ASSERT_SMALLER_THAN_INT64_no64 where
  "UNITY_TEST_ASSERT_SMALLER_THAN_INT64_no64 threshold actual line (message :: c_string) u = UNITY_TEST_FAIL line UnityStrErr64 u"
definition UNITY_TEST_ASSERT_SMALLER_THAN_UINT64_no64 where
  "UNITY_TEST_ASSERT_SMALLER_THAN_UINT64_no64 threshold actual line (message :: c_string) u = UNITY_TEST_FAIL line UnityStrErr64 u"
definition UNITY_TEST_ASSERT_SMALLER_THAN_HEX64_no64 where
  "UNITY_TEST_ASSERT_SMALLER_THAN_HEX64_no64 threshold actual line (message :: c_string) u = UNITY_TEST_FAIL line UnityStrErr64 u"
definition UNITY_TEST_ASSERT_SMALLER_OR_EQUAL_INT64_no64 where
  "UNITY_TEST_ASSERT_SMALLER_OR_EQUAL_INT64_no64 threshold actual line (message :: c_string) u = UNITY_TEST_FAIL line UnityStrErr64 u"
definition UNITY_TEST_ASSERT_SMALLER_OR_EQUAL_UINT64_no64 where
  "UNITY_TEST_ASSERT_SMALLER_OR_EQUAL_UINT64_no64 threshold actual line (message :: c_string) u = UNITY_TEST_FAIL line UnityStrErr64 u"
definition UNITY_TEST_ASSERT_SMALLER_OR_EQUAL_HEX64_no64 where
  "UNITY_TEST_ASSERT_SMALLER_OR_EQUAL_HEX64_no64 threshold actual line (message :: c_string) u = UNITY_TEST_FAIL line UnityStrErr64 u"
definition UNITY_TEST_ASSERT_INT64_ARRAY_WITHIN_no64 where
  "UNITY_TEST_ASSERT_INT64_ARRAY_WITHIN_no64 delta expected actual num_elements line (message :: c_string) u = UNITY_TEST_FAIL line UnityStrErr64 u"
definition UNITY_TEST_ASSERT_UINT64_ARRAY_WITHIN_no64 where
  "UNITY_TEST_ASSERT_UINT64_ARRAY_WITHIN_no64 delta expected actual num_elements line (message :: c_string) u = UNITY_TEST_FAIL line UnityStrErr64 u"
definition UNITY_TEST_ASSERT_HEX64_ARRAY_WITHIN_no64 where
  "UNITY_TEST_ASSERT_HEX64_ARRAY_WITHIN_no64 delta expected actual num_elements line (message :: c_string) u = UNITY_TEST_FAIL line UnityStrErr64 u"

lemmas no64_defs =
  UNITY_TEST_ASSERT_EQUAL_INT64_no64_def
  UNITY_TEST_ASSERT_EQUAL_UINT64_no64_def
  UNITY_TEST_ASSERT_EQUAL_HEX64_no64_def
  UNITY_TEST_ASSERT_EQUAL_INT64_ARRAY_no64_def
  UNITY_TEST_ASSERT_EQUAL_UINT64_ARRAY_no64_def
  UNITY_TEST_ASSERT_EQUAL_HEX64_ARRAY_no64_def
  UNITY_TEST_ASSERT_INT64_WITHIN_no64_def
  UNITY_TEST_ASSERT_UINT64_WITHIN_no64_def
  UNITY_TEST_ASSERT_HEX64_WITHIN_no64_def
  UNITY_TEST_ASSERT_GREATER_THAN_INT64_no64_def
  UNITY_TEST_ASSERT_GREATER_THAN_UINT64_no64_def
  UNITY_TEST_ASSERT_GREATER_THAN_HEX64_no64_def
  UNITY_TEST_ASSERT_GREATER_OR_EQUAL_INT64_no64_def
  UNITY_TEST_ASSERT_GREATER_OR_EQUAL_UINT64_no64_def
  UNITY_TEST_ASSERT_GREATER_OR_EQUAL_HEX64_no64_def
  UNITY_TEST_ASSERT_SMALLER_THAN_INT64_no64_def
  UNITY_TEST_ASSERT_SMALLER_THAN_UINT64_no64_def
  UNITY_TEST_ASSERT_SMALLER_THAN_HEX64_no64_def
  UNITY_TEST_ASSERT_SMALLER_OR_EQUAL_INT64_no64_def
  UNITY_TEST_ASSERT_SMALLER_OR_EQUAL_UINT64_no64_def
  UNITY_TEST_ASSERT_SMALLER_OR_EQUAL_HEX64_no64_def
  UNITY_TEST_ASSERT_INT64_ARRAY_WITHIN_no64_def
  UNITY_TEST_ASSERT_UINT64_ARRAY_WITHIN_no64_def
  UNITY_TEST_ASSERT_HEX64_ARRAY_WITHIN_no64_def

section \<open>What the variants accept\<close>

lemma UNITY_TEST_ASSERT_asserts: "\<not> fail_or_ignore u \<Longrightarrow> asserts c u (UNITY_TEST_ASSERT c line msg u)"
  using UnityFail_asserts [of u msg line]
  by (auto simp: UNITY_TEST_ASSERT_def UNITY_TEST_FAIL_def asserts_def)

lemmas shorthand_fail_defs =
  TEST_ASSERT_NOT_EQUAL_AS_INT_def
  TEST_ASSERT_NOT_EQUAL_AS_MEM_def
  TEST_ASSERT_EQUAL_AS_NONE_def
  TEST_ASSERT_NOT_EQUAL_AS_NONE_def
  TEST_ASSERT_NOT_EQUAL_MESSAGE_AS_INT_def
  TEST_ASSERT_NOT_EQUAL_MESSAGE_AS_MEM_def
  TEST_ASSERT_EQUAL_MESSAGE_AS_NONE_def
  TEST_ASSERT_NOT_EQUAL_MESSAGE_AS_NONE_def

lemmas float_off_defs =
  UNITY_TEST_ASSERT_FLOAT_WITHIN_off_def UNITY_TEST_ASSERT_FLOAT_NOT_WITHIN_off_def
  UNITY_TEST_ASSERT_EQUAL_FLOAT_off_def UNITY_TEST_ASSERT_NOT_EQUAL_FLOAT_off_def
  UNITY_TEST_ASSERT_FLOAT_ARRAY_WITHIN_off_def UNITY_TEST_ASSERT_EQUAL_FLOAT_ARRAY_off_def
  UNITY_TEST_ASSERT_EACH_EQUAL_FLOAT_off_def UNITY_TEST_ASSERT_GREATER_THAN_FLOAT_off_def
  UNITY_TEST_ASSERT_GREATER_OR_EQUAL_FLOAT_off_def UNITY_TEST_ASSERT_LESS_THAN_FLOAT_off_def
  UNITY_TEST_ASSERT_LESS_OR_EQUAL_FLOAT_off_def UNITY_TEST_ASSERT_FLOAT_IS_INF_off_def
  UNITY_TEST_ASSERT_FLOAT_IS_NEG_INF_off_def UNITY_TEST_ASSERT_FLOAT_IS_NAN_off_def
  UNITY_TEST_ASSERT_FLOAT_IS_DETERMINATE_off_def UNITY_TEST_ASSERT_FLOAT_IS_NOT_INF_off_def
  UNITY_TEST_ASSERT_FLOAT_IS_NOT_NEG_INF_off_def UNITY_TEST_ASSERT_FLOAT_IS_NOT_NAN_off_def
  UNITY_TEST_ASSERT_FLOAT_IS_NOT_DETERMINATE_off_def

text \<open>
  The shorthand on integers: as an integer comparison and raw it accepts exactly equal values. Only
  raw (and by default) there is a macro for inequality; as an integer or memory comparison, or
  without a shorthand, the macros that do not exist fail on everything.
\<close>
theorem shorthand_verdicts:
  assumes "\<not> fail_or_ignore u"
  shows "asserts (expected = actual) u (TEST_ASSERT_EQUAL_AS_INT expected actual line u)"
    and "asserts (expected = actual) u (TEST_ASSERT_EQUAL_AS_RAW expected actual line u)"
    and "asserts (expected \<noteq> actual) u (TEST_ASSERT_NOT_EQUAL_AS_RAW expected actual line u)"
    and "asserts False u (TEST_ASSERT_NOT_EQUAL_AS_INT expected actual line u)"
    and "asserts False u (TEST_ASSERT_NOT_EQUAL_AS_MEM expected actual line u)"
    and "asserts False u (TEST_ASSERT_EQUAL_AS_NONE expected actual line u)"
    and "asserts False u (TEST_ASSERT_NOT_EQUAL_AS_NONE expected actual line u)"
  using assms
  by (simp_all add: TEST_ASSERT_EQUAL_AS_INT_def UNITY_TEST_ASSERT_EQUAL_INT_def equal_asserts
      TEST_ASSERT_EQUAL_AS_RAW_def TEST_ASSERT_NOT_EQUAL_AS_RAW_def UNITY_TEST_ASSERT_asserts
      shorthand_fail_defs UNITY_TEST_FAIL_def UnityFail_asserts)

text \<open>
  As a memory comparison it accepts exactly if the two objects agree byte by byte, padding included.
\<close>
theorem shorthand_memory_verdict:
  assumes "\<not> fail_or_ignore u" and "as_length len \<noteq> 0"
    and "p \<noteq> q" and "p \<noteq> NULL" and "q \<noteq> NULL"
    and "\<forall>i < unat (as_length len). bytes mem (p + of_nat i) = Some (x i)"
    and "\<forall>i < unat (as_length len). bytes mem (q + of_nat i) = Some (y i)"
  shows "asserts_res (\<forall>i < unat (as_length len). x i = y i) u (TEST_ASSERT_EQUAL_AS_MEM mem p q len line u)"
  using UnityAssertEqualMemory_asserts [OF assms(1) _ assms(2-5), of 1 mem UNITY_ARRAY_TO_ARRAY
      "\<lambda>_. x" "\<lambda>_. y" None line] assms(6,7)
  by (simp add: TEST_ASSERT_EQUAL_AS_MEM_def UNITY_TEST_ASSERT_EQUAL_MEMORY_def expected_block_def)

text \<open>Without floating point every assertion on floats fails, with the message that says so.\<close>

theorem float_off_rejects:
  assumes "\<not> fail_or_ignore u"
  shows "asserts False u (UNITY_TEST_ASSERT_FLOAT_WITHIN_off delta expected actual line msg u)"
    and "asserts False u (UNITY_TEST_ASSERT_EQUAL_FLOAT_off expected actual line msg u)"
    and "asserts False u (UNITY_TEST_ASSERT_GREATER_THAN_FLOAT_off expected actual line msg u)"
    and "asserts False u (UNITY_TEST_ASSERT_FLOAT_IS_NAN_off actual line msg u)"
    and "asserts False u (UNITY_TEST_ASSERT_FLOAT_IS_NOT_NAN_off actual line msg u)"
  using assms by (simp_all add: float_off_defs UNITY_TEST_FAIL_def UnityFail_asserts)

text \<open>Without 64-bit integers every assertion on them fails.\<close>

lemma no64_rejects:
  assumes "\<not> fail_or_ignore u"
  shows "asserts False u (UNITY_TEST_ASSERT_EQUAL_INT64_no64 expected actual line msg u)"
    and "asserts False u (UNITY_TEST_ASSERT_UINT64_WITHIN_no64 delta expected actual line msg u)"
    and "asserts False u (UNITY_TEST_ASSERT_GREATER_THAN_HEX64_no64 threshold actual line msg u)"
    and "asserts False u (UNITY_TEST_ASSERT_EQUAL_HEX64_ARRAY_no64 expected actual n line msg u)"
  using assms by (simp_all add: no64_defs UNITY_TEST_FAIL_def UnityFail_asserts)

end
