(* ===== verification/Unity_Configs.thy ===== *)
theory Unity_Configs
  imports Unity_Variants
begin

text \<open>
  Switches of Unity that replace a line of a function (\<^verbatim>\<open>unity/src/unity.c\<close>), and the small macros
  for writing a runner (\<^verbatim>\<open>unity/src/unity_internals.h\<close>), each against what it replaces.
\<close>

section \<open>Comparing pointers of empty arrays (UNITY\_COMPARE\_PTRS\_ON\_ZERO\_ARRAY)\<close>

definition array_prologue_ptrs ::
  "bool \<Rightarrow> addr \<Rightarrow> addr \<Rightarrow> UNITY_LINE_TYPE \<Rightarrow> c_string \<Rightarrow> 'a unity_scheme \<Rightarrow>
   ('a unity_scheme \<Rightarrow> 'a unity_scheme outcome res) \<Rightarrow> 'a unity_scheme outcome res" where
  "array_prologue_ptrs pointless expected actual lineNumber msg u loop =
     (if fail_or_ignore u then Inr (Jumps u)
      else tbind (Inr (if pointless then UNITY_TEST_ASSERT_EQUAL_PTR expected actual lineNumber msg u
                       else Returns u)) (\<lambda>u.
        if expected = actual then Inr (Returns u)
        else case UnityIsOneArrayNull expected actual lineNumber msg u of
               (True, u) \<Rightarrow> Inr (UNITY_FAIL_AND_BAIL u)
             | (False, u) \<Rightarrow> loop u))"

definition UnityAssertEqualIntArray_ptrs ::
  "c_mem \<Rightarrow> addr \<Rightarrow> addr \<Rightarrow> UNITY_UINT32 \<Rightarrow> c_string \<Rightarrow> UNITY_LINE_TYPE \<Rightarrow> UNITY_DISPLAY_STYLE_T \<Rightarrow>
   UNITY_FLAGS_T \<Rightarrow> 'a unity_scheme \<Rightarrow> 'a unity_scheme outcome res" where
  "UnityAssertEqualIntArray_ptrs mem expected actual num_elements msg lineNumber style flags u =
     array_prologue_ptrs (num_elements = 0) expected actual lineNumber msg u
       (int_array_loop mem num_elements msg lineNumber style flags (unat num_elements) expected actual)"

text \<open>An empty array is accepted if it is the expected one; by default it never is.\<close>

lemma equal_ptr_asserts:
  "\<not> fail_or_ignore u \<Longrightarrow> asserts (expected = actual) u (UNITY_TEST_ASSERT_EQUAL_PTR expected actual line msg u)"
  by (simp add: UNITY_TEST_ASSERT_EQUAL_PTR_def equal_asserts)

lemma empty_array_ptrs:
  assumes "\<not> fail_or_ignore u"
  shows "asserts_res (expected = actual) u
      (UnityAssertEqualIntArray_ptrs mem expected actual 0 msg line style flags u)"
    and "asserts_res False u (UnityAssertEqualIntArray mem expected actual 0 msg line style flags u)"
proof -
  show "asserts_res (expected = actual) u
      (UnityAssertEqualIntArray_ptrs mem expected actual 0 msg line style flags u)"
    using assms equal_ptr_asserts [OF assms, of expected actual line msg]
    by (cases "expected = actual")
       (auto simp: UnityAssertEqualIntArray_ptrs_def array_prologue_ptrs_def asserts_def asserts_res_def)
  show "asserts_res False u (UnityAssertEqualIntArray mem expected actual 0 msg line style flags u)"
    using assms
    by (simp add: UnityAssertEqualIntArray_def array_prologue_def UnityPrintPointlessAndBail_def asserts_res_fail)
qed

text \<open>On any other array the switch makes no difference.\<close>

lemma nonempty_array_ptrs:
  "num \<noteq> 0 \<Longrightarrow> UnityAssertEqualIntArray_ptrs mem expected actual num msg line style flags u =
     UnityAssertEqualIntArray mem expected actual num msg line style flags u"
  by (simp add: UnityAssertEqualIntArray_ptrs_def array_prologue_ptrs_def UnityAssertEqualIntArray_def
      array_prologue_def UnityIsOneArrayNull_def)

section \<open>NaN is not NaN (UNITY\_NAN\_NOT\_EQUAL\_NAN)\<close>

definition UNITY_NAN_CHECK_off :: "fp \<Rightarrow> fp \<Rightarrow> bool" where
  "UNITY_NAN_CHECK_off expected actual = False"

definition UNITY_FLOAT_OR_DOUBLE_WITHIN_nan :: "float_format \<Rightarrow> fp \<Rightarrow> fp \<Rightarrow> fp \<Rightarrow> bool" where
  "UNITY_FLOAT_OR_DOUBLE_WITHIN_nan f delta expected actual =
     (if fp_isinf expected \<and> fp_isinf actual \<and> flt expected fzero = flt actual fzero then True
      else if UNITY_NAN_CHECK_off expected actual then True
      else (let diff = fsub f actual expected;
                diff = (if flt diff fzero then fneg diff else diff);
                delta = (if flt delta fzero then fneg delta else delta)
            in \<not> (fp_isnan diff \<or> fp_isinf diff \<or> flt delta diff)))"

lemma nan_switch:
  "UNITY_FLOAT_OR_DOUBLE_WITHIN_nan f delta expected actual \<longleftrightarrow>
     UNITY_FLOAT_OR_DOUBLE_WITHIN f delta expected actual \<and> \<not> (fp_isnan expected \<and> fp_isnan actual)"
proof (cases "fp_isnan expected \<and> fp_isnan actual")
  case True
  then have "expected = NaN" "actual = NaN" by (cases expected; cases actual; simp add: fp_isnan_def)+
  then show ?thesis
    by (simp add: UNITY_FLOAT_OR_DOUBLE_WITHIN_nan_def UNITY_NAN_CHECK_off_def fsub_def fp_isnan_def)
next
  case False
  then have "UNITY_NAN_CHECK expected actual = UNITY_NAN_CHECK_off expected actual"
    by (auto simp: UNITY_NAN_CHECK_def UNITY_NAN_CHECK_off_def)
  then show ?thesis
    using False by (simp only: UNITY_FLOAT_OR_DOUBLE_WITHIN_nan_def UNITY_FLOAT_OR_DOUBLE_WITHIN_def) simp
qed

section \<open>No float printer (UNITY\_EXCLUDE\_FLOAT\_PRINT)\<close>

definition UNITY_PRINT_EXPECTED_AND_ACTUAL_FLOAT_off ::
  "fp \<Rightarrow> fp \<Rightarrow> 'a unity_scheme \<Rightarrow> 'a unity_scheme res" where
  "UNITY_PRINT_EXPECTED_AND_ACTUAL_FLOAT_off expected actual u =
     Inr (emit (UnityPrint UnityStrDelta) u)"

section \<open>Macros for a runner\<close>

definition TEST_LINE_NUM :: "'a unity_scheme \<Rightarrow> UNITY_LINE_TYPE" where
  "TEST_LINE_NUM u = CurrentTestLineNumber (Unity u)"

definition TEST_IS_IGNORED :: "'a unity_scheme \<Rightarrow> UNITY_COUNTER_TYPE" where
  "TEST_IS_IGNORED u = CurrentTestIgnored (Unity u)"

text \<open>\<open>line\<close> is \<^verbatim>\<open>__LINE__\<close>.\<close>

definition UNITY_NEW_TEST :: "c_string \<Rightarrow> 32 word \<Rightarrow> 'a unity_scheme \<Rightarrow> 'a unity_scheme" where
  "UNITY_NEW_TEST a line u =
     (let u = u\<lparr>Unity := (Unity u)\<lparr>CurrentTestName := a\<rparr>\<rparr>;
          u = u\<lparr>Unity := (Unity u)\<lparr>CurrentTestLineNumber := scast line\<rparr>\<rparr>
      in u\<lparr>Unity := (Unity u)\<lparr>NumberOfTests := NumberOfTests (Unity u) + 1\<rparr>\<rparr>)"

definition UNITY_VERSION_MAJOR :: "32 word" where "UNITY_VERSION_MAJOR = 2"
definition UNITY_VERSION_MINOR :: "32 word" where "UNITY_VERSION_MINOR = 5"
definition UNITY_VERSION_BUILD :: "32 word" where "UNITY_VERSION_BUILD = 4"
definition UNITY_VERSION :: "32 word" where
  "UNITY_VERSION = or (or (push_bit 16 UNITY_VERSION_MAJOR) (push_bit 8 UNITY_VERSION_MINOR)) UNITY_VERSION_BUILD"

lemma UNITY_NEW_TEST_unfold:
  "UNITY_NEW_TEST a line u = u\<lparr>Unity := (Unity u)\<lparr>CurrentTestName := a,
     CurrentTestLineNumber := scast line, NumberOfTests := NumberOfTests (Unity u) + 1\<rparr>\<rparr>"
  by (simp add: UNITY_NEW_TEST_def)

text \<open>The default runner starts a test as a hand-written one does.\<close>

lemma runner_starts_test:
  "UnityDefaultTestRun setUp tearDown func name line u =
     (let u = UNITY_CLR_DETAILS (UNITY_NEW_TEST name line u)
      in rbind (TEST_PROTECT (\<lambda>u. tbind (setUp u) func) u) (\<lambda>u.
         rbind (TEST_PROTECT tearDown u) (\<lambda>u.
         Inr (UnityConcludeTest u))))"
  by (simp add: UnityDefaultTestRun_def UNITY_NEW_TEST_unfold)

lemma runner_line: "TEST_LINE_NUM (UNITY_CLR_DETAILS (UNITY_NEW_TEST a line u)) = scast line"
  by (simp add: TEST_LINE_NUM_def UNITY_CLR_DETAILS_def UNITY_NEW_TEST_unfold)

text \<open>The parts of the version can be read back.\<close>

lemma version_parts:
  "drop_bit 16 UNITY_VERSION = UNITY_VERSION_MAJOR"
  "and (drop_bit 8 UNITY_VERSION) 255 = UNITY_VERSION_MINOR"
  "and UNITY_VERSION 255 = UNITY_VERSION_BUILD"
  by (simp_all add: UNITY_VERSION_def UNITY_VERSION_MAJOR_def UNITY_VERSION_MINOR_def UNITY_VERSION_BUILD_def)

end
