(* ===== verification/Unity_Color.thy ===== *)
theory Unity_Color
  imports Unity_Print
begin

text \<open>
  Unity's printer with coloured output (\<^verbatim>\<open>unity/src/unity.c\<close>, compiled with
  \<^verbatim>\<open>UNITY_OUTPUT_COLOR\<close>): ANSI escape sequences are handed through instead of being printed as
  codes. The string is walked by index, so that a read behind its terminator is a fault: the
  printer is shown to compute a reference function on strings, and to read behind the
  terminator exactly on the strings whose last escape sequence is not closed.
\<close>

section \<open>The printer\<close>

abbreviation ESC :: char where "ESC \<equiv> CHR 0x1B"

text \<open>The words of the verdicts; green, green, red and yellow.\<close>

definition UnityStrOk_color :: c_string where
  "UnityStrOk_color = Some (ESC # ''[42mOK'' @ ESC # ''[0m'')"
definition UnityStrPass_color :: c_string where
  "UnityStrPass_color = Some (ESC # ''[42mPASS'' @ ESC # ''[0m'')"
definition UnityStrFail_color :: c_string where
  "UnityStrFail_color = Some (ESC # ''[41mFAIL'' @ ESC # ''[0m'')"
definition UnityStrIgnore_color :: c_string where
  "UnityStrIgnore_color = Some (ESC # ''[43mIGNORE'' @ ESC # ''[0m'')"

text \<open>The sequence from index \<open>p\<close> on: what is printed, and the count that is returned.\<close>

function UnityPrintAnsiEscapeString :: "string \<Rightarrow> nat \<Rightarrow> (string \<times> nat) res" where
  "UnityPrintAnsiEscapeString pch p =
     rbind (char_at pch p) (\<lambda>c.
     if c \<noteq> CHR 0x00 \<and> c \<noteq> CHR ''m'' then
       rbind (UnityPrintAnsiEscapeString pch (p + 1)) (\<lambda>(out, count). Inr (c # out, count + 1))
     else Inr (''m'', 1))"
  by auto
termination
  by (relation "measure (\<lambda>(pch, p). length pch - p)") (auto dest!: char_at_content)

declare UnityPrintAnsiEscapeString.simps [simp del]

lemma escape_count: "UnityPrintAnsiEscapeString s p = Inr (out, n) \<Longrightarrow> 0 < n"
  by (subst (asm) UnityPrintAnsiEscapeString.simps)
     (auto simp: rbind_eq_Inr split: if_splits)

text \<open>The condition reads the second character only if the first is an escape.\<close>

definition at_escape :: "string \<Rightarrow> nat \<Rightarrow> bool res" where
  "at_escape pch p =
     rbind (char_at pch p) (\<lambda>c.
     if c = ESC then rbind (char_at pch (p + 1)) (\<lambda>d. Inr (d = CHR ''['')) else Inr False)"

function print_from :: "string \<Rightarrow> nat \<Rightarrow> string res" where
  "print_from pch p =
     rbind (char_at pch p) (\<lambda>c.
     if c = CHR 0x00 then Inr []
     else rbind (at_escape pch p) (\<lambda>escape.
       if escape then
         rbind (UnityPrintAnsiEscapeString pch p) (\<lambda>(out, count).
         rbind (print_from pch (p + count)) (\<lambda>rest. Inr (out @ rest)))
       else rbind (print_from pch (p + 1)) (\<lambda>rest. Inr (UnityPrintChar c @ rest))))"
  by auto
termination
  by (relation "measure (\<lambda>(pch, p). length pch - p)") (auto dest!: char_at_content escape_count)

declare print_from.simps [simp del]

fun UnityPrint_color :: "c_string \<Rightarrow> string res" where
  "UnityPrint_color None = Inr []"
| "UnityPrint_color (Some s) = print_from s 0"

section \<open>What it prints\<close>

lemma dropWhile_shorter: "dropWhile P xs = y # ys \<Longrightarrow> length ys < length xs"
  by (metis Suc_le_lessD length_Cons length_dropWhile_le)

text \<open>
  The reference: a sequence goes through up to its \<^verbatim>\<open>m\<close>, other characters are printed as
  always; there is no value if a sequence is not closed.
\<close>

function painted :: "string \<Rightarrow> string option" where
  "painted [] = Some []"
| "painted (c # cs) =
     (if c = ESC \<and> take 1 cs = ''['' then
        (case dropWhile (\<lambda>d. d \<noteq> CHR ''m'') cs of
           [] \<Rightarrow> None
         | _ # ds \<Rightarrow> map_option ((@) (c # takeWhile (\<lambda>d. d \<noteq> CHR ''m'') cs @ ''m'')) (painted ds))
      else map_option ((@) (UnityPrintChar c)) (painted cs))"
  by pat_completeness auto
termination
  by (relation "measure length") (auto dest!: dropWhile_shorter)

declare painted.simps(2) [simp del]

lemma painted_char:
  "\<not> (c = ESC \<and> take 1 cs = ''['') \<Longrightarrow> painted (c # cs) = map_option ((@) (UnityPrintChar c)) (painted cs)"
  by (simp only: painted.simps(2) if_False)

lemma painted_open:
  "c = ESC \<and> take 1 cs = ''['' \<Longrightarrow> dropWhile (\<lambda>d. d \<noteq> CHR ''m'') cs = [] \<Longrightarrow> painted (c # cs) = None"
  by (simp only: painted.simps(2) if_True list.case refl conj_absorb simp_thms)

lemma painted_closed:
  "c = ESC \<and> take 1 cs = ''['' \<Longrightarrow> dropWhile (\<lambda>d. d \<noteq> CHR ''m'') cs = d # ds \<Longrightarrow>
   painted (c # cs) = map_option ((@) (c # takeWhile (\<lambda>d. d \<noteq> CHR ''m'') cs @ ''m'')) (painted ds)"
  by (simp only: painted.simps(2) if_True list.case refl conj_absorb simp_thms)

lemma escape_string:
  assumes "drop p s = cs" and "p \<le> length s" and "CHR 0x00 \<notin> set s"
  shows "UnityPrintAnsiEscapeString s p =
    Inr (takeWhile (\<lambda>d. d \<noteq> CHR ''m'') cs @ ''m'', length (takeWhile (\<lambda>d. d \<noteq> CHR ''m'') cs) + 1)"
  using assms(1,2)
proof (induction cs arbitrary: p)
  case Nil
  then show ?case by (subst UnityPrintAnsiEscapeString.simps) (simp add: char_at_drop)
next
  case (Cons c cs)
  have "c \<in> set s" using Cons.prems(1) by (metis in_set_dropD list.set_intros(1))
  with assms(3) have "c \<noteq> CHR 0x00" by auto
  moreover have "drop (Suc p) s = cs" "Suc p \<le> length s" using drop_next [OF Cons.prems(1)] by auto
  ultimately show ?case
    using Cons.IH [of "Suc p"] Cons.prems
    by (subst UnityPrintAnsiEscapeString.simps) (simp add: char_at_drop)
qed

lemma at_escape_drop:
  assumes "drop p s = c # cs" and "CHR 0x00 \<notin> set s"
  shows "at_escape s p = Inr (c = ESC \<and> take 1 cs = ''['')"
proof -
  have p: "p \<le> length s" "Suc p \<le> length s" "drop (Suc p) s = cs" using drop_next [OF assms(1)] by auto
  show ?thesis
    using p assms(1) by (cases cs) (auto simp: at_escape_def char_at_drop)
qed

lemma print_from_painted:
  assumes "CHR 0x00 \<notin> set s"
  shows "drop p s = cs \<Longrightarrow> p \<le> length s \<Longrightarrow>
    print_from s p = (case painted cs of Some out \<Rightarrow> Inr out | None \<Rightarrow> Inl Out_of_bounds)"
proof (induction cs arbitrary: p rule: painted.induct)
  case 1
  then show ?case by (subst print_from.simps) (simp add: char_at_drop)
next
  case (2 c cs)
  have "c \<in> set s" using 2(3) by (metis in_set_dropD list.set_intros(1))
  with assms have c: "c \<noteq> CHR 0x00" "char_at s p = Inr c" using 2(3,4) by (auto simp: char_at_drop)
  note esc = at_escape_drop [OF 2(3) assms]
  have next_p: "drop (Suc p) s = cs" "Suc p \<le> length s" using drop_next [OF 2(3)] by auto
  show ?case
  proof (cases "c = ESC \<and> take 1 cs = ''[''")
    case False
    then have "at_escape s p = Inr False" using esc by auto
    with 2(2) [OF False next_p] c show ?thesis
      by (subst print_from.simps) (simp add: painted_char [OF False] split: option.split)
  next
    case True
    let ?w = "takeWhile (\<lambda>d. d \<noteq> CHR ''m'') cs" let ?q = "p + (length ?w + 2)"
    have out: "UnityPrintAnsiEscapeString s p = Inr (c # ?w @ ''m'', length ?w + 2)"
      using escape_string [OF 2(3,4) assms] True by simp
    have step: "print_from s p = rbind (print_from s ?q) (\<lambda>rest. Inr (c # ?w @ ''m'' @ rest))"
    proof -
      have "at_escape s p = Inr True" using esc True by simp
      with c(1) show ?thesis
        unfolding print_from.simps [of s p] c(2) out rbind.simps by (simp add: append_assoc)
    qed
    have len: "length cs = length ?w + length (dropWhile (\<lambda>d. d \<noteq> CHR ''m'') cs)"
      by (metis length_append takeWhile_dropWhile_id)
    have rest: "length cs = length s - Suc p" using next_p(1) by auto
    show ?thesis
    proof (cases "dropWhile (\<lambda>d. d \<noteq> CHR ''m'') cs")
      case Nil
      have "length cs = length ?w" using len unfolding Nil list.size by linarith
      then have "length s < ?q" using rest by linarith
      then have "print_from s ?q = Inl Out_of_bounds"
        by (subst print_from.simps) (simp add: char_at_def)
      with step painted_open [OF True Nil] show ?thesis by simp
    next
      case (Cons d ds)
      have "drop (length ?w) cs = d # ds"
        using Cons by (metis append_eq_conv_conj takeWhile_dropWhile_id)
      then have "drop (Suc (length ?w)) cs = ds" by (metis drop_Suc_Cons drop_0 drop_drop plus_1_eq_Suc)
      then have "drop ?q s = ds" using next_p(1) by (metis add_Suc_right add_2_eq_Suc' add_Suc drop_drop add.commute)
      moreover have "?q \<le> length s"
        using len rest next_p(2) unfolding Cons list.size by linarith
      ultimately have "print_from s ?q = (case painted ds of Some out \<Rightarrow> Inr out | None \<Rightarrow> Inl Out_of_bounds)"
        using 2(1) [OF True Cons] by simp
      with step painted_closed [OF True Cons] show ?thesis by (simp split: option.split)
    qed
  qed
qed

text \<open>
  C40: coloured output computes the reference, and reads behind the terminator of its string exactly
  if an escape sequence in it is not closed: the helper counts an \<^verbatim>\<open>m\<close> it has not seen.
\<close>
theorem UnityPrint_color_correct:
  assumes "CHR 0x00 \<notin> set s"
  shows "UnityPrint_color (Some s) = (case painted s of Some out \<Rightarrow> Inr out | None \<Rightarrow> Inl Out_of_bounds)"
  using print_from_painted [OF assms, of 0 s] by simp

theorem UnityPrint_color_correct_witness:
  "UnityPrint_color UnityStrFail_color = Inr (the UnityStrFail_color) \<and>
   UnityPrint_color (Some (''odd: '' @ ESC # ''[31'')) = Inl Out_of_bounds"
  using UnityPrint_color_correct [of "the UnityStrFail_color"] UnityPrint_color_correct [of "''odd: '' @ ESC # ''[31''"]
  by (simp add: UnityStrFail_color_def painted.simps UnityPrintChar_def char_val_def)

text \<open>Without escape sequences it prints what the plain printer prints.\<close>

lemma painted_plain: "CHR 0x00 \<notin> set s \<Longrightarrow> ESC \<notin> set s \<Longrightarrow> painted s = Some (print_chars s)"
  by (induction s) (auto simp: painted.simps(2))

lemma color_plain:
  "CHR 0x00 \<notin> set s \<Longrightarrow> ESC \<notin> set s \<Longrightarrow> UnityPrint_color (Some s) = Inr (UnityPrint (Some s))"
  using print_from_painted [of s 0 s] by (simp add: painted_plain)

end
