(* ===== verification/Unity_Color_Printf.thy ===== *)
theory Unity_Color_Printf
  imports Unity_Color Unity_Printf
begin

text \<open>
  \<^verbatim>\<open>UnityPrintFVA\<close> with coloured output (\<^verbatim>\<open>unity/src/unity.c\<close>, compiled with
  \<^verbatim>\<open>UNITY_OUTPUT_COLOR\<close>): it hands escape sequences of the format through, and its \<^verbatim>\<open>%s\<close> prints with
  the coloured \<^verbatim>\<open>UnityPrint\<close>, so both can read behind a terminator. Where neither the format nor a
  string argument has an escape character, it prints what the plain one prints.
\<close>

section \<open>The function\<close>

text \<open>The \<^verbatim>\<open>switch\<close>: only \<^verbatim>\<open>%s\<close> calls a function that prints differently.\<close>

definition print_conversion_color ::
  "bool \<Rightarrow> UnityLengthModifier \<Rightarrow> char \<Rightarrow> va_arg list \<Rightarrow> (string \<times> va_arg list) res" where
  "print_conversion_color dbl length_mod c va =
     (if c = CHR ''s'' then
        rbind (va_string va) (\<lambda>(s, va). rbind (UnityPrint_color s) (\<lambda>out. Inr (out, va)))
      else print_conversion dbl length_mod c va)"

function print_format_color :: "bool \<Rightarrow> string \<Rightarrow> nat \<Rightarrow> va_arg list \<Rightarrow> string res" where
  "print_format_color dbl pch p va =
     rbind (char_at pch p) (\<lambda>c.
     if c = CHR 0x00 then Inr []
     else if c = CHR ''%'' then
       rbind (UnityLengthModifierGet pch (p + 1)) (\<lambda>(length_mod, length_mod_size).
       rbind (char_at pch (p + 1 + length_mod_size)) (\<lambda>d.
       rbind (print_conversion_color dbl length_mod d va) (\<lambda>(out, va).
       rbind (print_format_color dbl pch (p + 1 + length_mod_size + 1) va) (\<lambda>rest. Inr (out @ rest)))))
     else rbind (at_escape pch p) (\<lambda>escape.
       if escape then
         rbind (UnityPrintAnsiEscapeString pch p) (\<lambda>(out, count).
         rbind (print_format_color dbl pch (p + count) va) (\<lambda>rest. Inr (out @ rest)))
       else rbind (print_format_color dbl pch (p + 1) va) (\<lambda>rest.
         Inr ((if c = CHR 0x0A then [CHR 0x0A] else UnityPrintChar c) @ rest))))"
  by auto
termination
  by (relation "measure (\<lambda>(dbl, pch, p, va). length pch - p)")
     (auto dest!: char_at_content escape_count)

declare print_format_color.simps [simp del]

fun UnityPrintFVA_color :: "bool \<Rightarrow> c_string \<Rightarrow> va_arg list \<Rightarrow> string res" where
  "UnityPrintFVA_color dbl None va = Inr []"
| "UnityPrintFVA_color dbl (Some format) va = print_format_color dbl format 0 va"

section \<open>Without escape sequences\<close>

fun uncoloured :: "va_arg \<Rightarrow> bool" where
  "uncoloured (Va_string (Some s)) \<longleftrightarrow> CHR 0x00 \<notin> set s \<and> ESC \<notin> set s"
| "uncoloured arg \<longleftrightarrow> True"

lemma va_string_plain:
  assumes "va_string va = Inr (s, va')" and "list_all uncoloured va"
  shows "UnityPrint_color s = Inr (UnityPrint s) \<and> list_all uncoloured va'"
proof (cases va rule: va_string.cases)
  case (1 t vs)
  with assms show ?thesis by (cases t) (auto simp: color_plain UnityPrint.simps simp del: UnityPrint_color.simps(2))
qed (use assms in auto)

lemma conversion_plain:
  "list_all uncoloured va \<Longrightarrow> print_conversion_color dbl m d va = print_conversion dbl m d va"
  by (auto simp: print_conversion_color_def print_conversion_def
      dest!: va_string_plain intro!: rbind_cong)

text \<open>A conversion leaves some of its arguments.\<close>

definition leaves :: "(va_arg \<Rightarrow> bool) \<Rightarrow> ('x \<times> va_arg list) res \<Rightarrow> bool" where
  "leaves P r \<longleftrightarrow> (\<forall>x va. r = Inr (x, va) \<longrightarrow> list_all P va)"

lemma leaves_bind:
  "leaves P r \<Longrightarrow> (\<And>x va. list_all P va \<Longrightarrow> leaves P (k x va)) \<Longrightarrow> leaves P (rbind r (\<lambda>(x, va). k x va))"
  by (auto simp: leaves_def rbind_eq_Inr)

lemma leaves_out: "list_all P va \<Longrightarrow> leaves P (Inr (x, va))"
  "list_all P va \<Longrightarrow> leaves P (rbind r (\<lambda>out. Inr (out, va)))"
  by (auto simp: leaves_def rbind_eq_Inr)

lemma leaves_if: "leaves P r \<Longrightarrow> leaves P r' \<Longrightarrow> leaves P (if b then r else r')"
  by simp

lemma leaves_va:
  "list_all P va \<Longrightarrow> leaves P (va_int va)"
  "list_all P va \<Longrightarrow> leaves P (va_string va)"
  "list_all P va \<Longrightarrow> leaves P (va_double va)"
  by (auto simp: leaves_def elim: va_int.elims va_string.elims va_double.elims)

lemma leaves_number: "list_all P va \<Longrightarrow> leaves P (UNITY_EXTRACT_ARG b m va)"
proof (cases m)
  case UNITY_LENGTH_MODIFIER_NONE
  assume "list_all P va"
  with UNITY_LENGTH_MODIFIER_NONE show ?thesis
    by (simp only: UNITY_EXTRACT_ARG.simps) (intro leaves_bind leaves_va leaves_out)
qed (auto simp: leaves_def split: list.splits va_arg.splits)

lemma leaves_conversion: "list_all P va \<Longrightarrow> leaves P (print_conversion dbl m d va)"
  unfolding print_conversion_def Let_def
  by (intro leaves_if leaves_bind leaves_out leaves_number leaves_va)

lemma conversion_rest:
  "print_conversion dbl m d va = Inr (out, va') \<Longrightarrow> list_all P va \<Longrightarrow> list_all P va'"
  using leaves_conversion [of P va dbl m d] by (simp add: leaves_def)

lemma no_escape: "char_at s p = Inr c \<Longrightarrow> c \<noteq> ESC \<Longrightarrow> at_escape s p = Inr False"
  by (simp add: at_escape_def)

text \<open>The walk of the plain function and that of the coloured one are the same.\<close>

lemma print_format_uncoloured:
  "ESC \<notin> set s \<Longrightarrow> list_all uncoloured va \<Longrightarrow> print_format_color dbl s p va = print_format dbl s p va"
proof (induction dbl s p va rule: print_format.induct)
  case (1 dbl s p va)
  show ?case
  proof (cases "char_at s p")
    case (Inr c)
    consider "c = CHR 0x00" | (conversion) "c \<noteq> CHR 0x00" "c = CHR ''%''"
      | (other) "c \<noteq> CHR 0x00" "c \<noteq> CHR ''%''" by blast
    then show ?thesis
    proof cases
      case conversion
      note IH = 1(1) [OF Inr conversion _ refl _ _ refl, simplified]
      show ?thesis
        unfolding print_format_color.simps [of dbl s p] print_format.simps [of dbl s p] Inr
        using conversion 1(3,4) by (auto simp: conversion_plain intro!: rbind_cong IH dest: conversion_rest)
    next
      case other
      have "c \<in> set s" using Inr char_at_content [OF Inr other(1)] by (auto simp: char_at_def)
      with 1(3) have "at_escape s p = Inr False" using no_escape [OF Inr] by auto
      with other Inr 1 show ?thesis
        unfolding print_format_color.simps [of dbl s p] print_format.simps [of dbl s p] by simp
    qed (simp add: print_format_color.simps [of dbl s p] print_format.simps [of dbl s p] Inr)
  qed (simp add: print_format_color.simps [of dbl s p] print_format.simps [of dbl s p])
qed

lemma UnityPrintFVA_uncoloured:
  "ESC \<notin> set format \<Longrightarrow> list_all uncoloured va \<Longrightarrow>
   UnityPrintFVA_color dbl (Some format) va = UnityPrintFVA dbl (Some format) va"
  by (simp add: print_format_uncoloured)

text \<open>So a format's type is the same in both configurations.\<close>

lemma UnityPrintFVA_color_typed:
  assumes "CHR 0x00 \<notin> set format" and "ESC \<notin> set format" and "list_all uncoloured va"
  shows "(\<exists>out. UnityPrintFVA_color dbl (Some format) va = Inr out) \<longleftrightarrow> well_typed format va"
  using print_format_typed [OF assms(1), of 0 format dbl va] UnityPrintFVA_uncoloured [OF assms(2,3)] by simp

text \<open>With them a format that is well typed can still be read behind its end.\<close>

lemma coloured_format:
  "UnityPrintFVA_color False (Some (ESC # ''[31m%d'' @ ESC # ''[0m'')) [Va_int 7] = Inr (ESC # ''[31m7'' @ ESC # ''[0m'')"
  "UnityPrintFVA_color False (Some (''%d'' @ ESC # ''[0'')) [Va_int 7] = Inl Out_of_bounds"
  by code_simp+

lemma open_sequence_well_typed: "well_typed (''%d'' @ ESC # ''[0'') [Va_int 7]"
  by (simp add: well_typed_def)

end
