(* ===== verification/Unity_Time.thy ===== *)
theory Unity_Time
  imports Unity_Print "HOL-Library.Signed_Division"
begin

text \<open>
  The time a test took (\<^verbatim>\<open>unity/src/unity_internals.h\<close>, compiled with
  \<^verbatim>\<open>UNITY_INCLUDE_EXEC_TIME\<close>): on POSIX systems the difference of two readings of the
  monotonic clock, elsewhere of a millisecond counter the user supplies. The readings are
  arguments. \<^verbatim>\<open>time_t\<close> and \<^verbatim>\<open>long\<close> are 64 bits wide; their overflow is a fault.
\<close>

record timespec =
  tv_sec :: slong
  tv_nsec :: slong

definition slong_of :: "int \<Rightarrow> slong res" where
  "slong_of i = (if slong_min \<le> i \<and> i \<le> slong_max then Inr (word_of_int i) else Inl Signed_overflow)"

text \<open>The milliseconds: the seconds, then the nanoseconds, whose difference may be negative.\<close>

definition execTimeMs :: "timespec \<Rightarrow> timespec \<Rightarrow> UNITY_UINT res" where
  "execTimeMs start stop =
     rbind (slong_of (sint (tv_sec stop) - sint (tv_sec start))) (\<lambda>s.
     rbind (slong_of (sint s * 1000)) (\<lambda>ms.
     rbind (slong_of (sint (tv_nsec stop) - sint (tv_nsec start))) (\<lambda>n.
     Inr (ms + word_of_int (sint n sdiv 1000000)))))"

definition print_ms :: "UNITY_UINT \<Rightarrow> string" where
  "print_ms ms = UnityPrint (Some '' ('') @ UnityPrintNumberUnsigned ms @ UnityPrint (Some '' ms)'')"

definition UNITY_PRINT_EXEC_TIME :: "timespec \<Rightarrow> timespec \<Rightarrow> string res" where
  "UNITY_PRINT_EXEC_TIME start stop = rbind (execTimeMs start stop) (\<lambda>ms. Inr (print_ms ms))"

text \<open>With \<^verbatim>\<open>UNITY_CLOCK_MS\<close>.\<close>

definition UNITY_PRINT_EXEC_TIME_clock :: "UNITY_UINT \<Rightarrow> UNITY_UINT \<Rightarrow> string" where
  "UNITY_PRINT_EXEC_TIME_clock start stop = print_ms (stop - start)"

section \<open>The time printed is the time that has passed\<close>

text \<open>What \<^verbatim>\<open>clock_gettime\<close> fills in, in nanoseconds, and its documented range.\<close>

definition nanoseconds :: "timespec \<Rightarrow> int" where
  "nanoseconds t = sint (tv_sec t) * 10 ^ 9 + sint (tv_nsec t)"

definition clock_reading :: "timespec \<Rightarrow> bool" where
  "clock_reading t \<longleftrightarrow> 0 \<le> sint (tv_nsec t) \<and> sint (tv_nsec t) < 10 ^ 9"

lemma sdiv_near: "0 < m \<Longrightarrow> \<bar>n - m * (n sdiv m)\<bar> < (m :: int)"
proof -
  assume m: "0 < m"
  have "n - m * (n sdiv m) = sgn n * (\<bar>n\<bar> mod m)"
    using m mult_sgn_abs [of n]
    by (simp add: signed_divide_int_def minus_mult_div_eq_mod [symmetric] right_diff_distrib mult_ac)
  moreover have "\<bar>sgn n * (\<bar>n\<bar> mod m)\<bar> \<le> \<bar>n\<bar> mod m"
    using m by (simp add: abs_mult sgn_if)
  ultimately show ?thesis using m pos_mod_bound [of m "\<bar>n\<bar>"] by linarith
qed

lemma slong_of_ok:
  "\<bar>i\<bar> < 2 ^ 63 \<Longrightarrow> slong_of i = Inr (word_of_int i) \<and> sint (word_of_int i :: slong) = i"
  unfolding slong_of_def slong_min_def slong_max_def
  by (simp add: sint_sbintrunc' abs_less_iff) (rule signed_take_bit_int_eq_self; simp)

lemma execTimeMs_near:
  assumes "clock_reading start" and "clock_reading stop" and "nanoseconds start \<le> nanoseconds stop"
    and "nanoseconds stop - nanoseconds start < 2 ^ 80"
  obtains ms where "execTimeMs start stop = Inr ms"
    and "\<bar>10 ^ 6 * int (unat ms) - (nanoseconds stop - nanoseconds start)\<bar> < 10 ^ 6"
proof -
  let ?s = "sint (tv_sec stop) - sint (tv_sec start)"
  let ?n = "sint (tv_nsec stop) - sint (tv_nsec start)" let ?q = "?n sdiv 1000000"
  have n: "\<bar>?n\<bar> < 10 ^ 9" using assms(1,2) unfolding clock_reading_def by linarith
  have el: "nanoseconds stop - nanoseconds start = ?s * 10 ^ 9 + ?n"
    by (simp add: nanoseconds_def left_diff_distrib)
  have s: "0 \<le> ?s" "?s * 10 ^ 9 < 2 ^ 81" using assms(3,4) el n by simp_all
  have w: "\<bar>?s\<bar> < 2 ^ 63" "\<bar>?s * 1000\<bar> < 2 ^ 63" "\<bar>?n\<bar> < 2 ^ 63" using s n by simp_all
  let ?ms = "word_of_int (?s * 1000) + word_of_int ?q :: UNITY_UINT"
  have near: "\<bar>?n - 1000000 * ?q\<bar> < 1000000" by (rule sdiv_near) simp
  have range: "0 \<le> ?s * 1000 + ?q" "?s * 1000 + ?q < 2 ^ 64"
    using near el assms(3) s n by simp_all
  have "?ms = word_of_int (?s * 1000 + ?q)" by simp
  then have "uint ?ms = (?s * 1000 + ?q) mod 2 ^ 64" by (simp only: uint_word_of_int) simp
  then have ms: "int (unat ?ms) = ?s * 1000 + ?q" using range by simp
  note ok = conjunct1 [OF slong_of_ok] conjunct2 [OF slong_of_ok]
  have "execTimeMs start stop = Inr ?ms"
    by (simp only: execTimeMs_def ok(1) [OF w(1)] ok(2) [OF w(1)] ok(1) [OF w(2)] ok(1) [OF w(3)]
        ok(2) [OF w(3)] rbind.simps)
  moreover have "\<bar>10 ^ 6 * int (unat ?ms) - (nanoseconds stop - nanoseconds start)\<bar> < 10 ^ 6"
    using near unfolding ms el by simp
  ultimately show thesis by (rule that)
qed

text \<open>
  The time printed for a test differs from the time that has passed on the monotonic clock by less
  than a millisecond, whichever way the nanoseconds go, and nothing overflows, for every duration
  up to thirty million years; what is printed reads as that number.
\<close>
theorem exec_time_near:
  assumes "clock_reading start" and "clock_reading stop" and "nanoseconds start \<le> nanoseconds stop"
    and "nanoseconds stop - nanoseconds start < 2 ^ 80"
  shows "\<exists>ms. UNITY_PRINT_EXEC_TIME start stop = Inr ('' ('' @ UnityPrintNumberUnsigned ms @ '' ms)'') \<and>
    read_from 10 0 (UnityPrintNumberUnsigned ms) = unat ms \<and>
    \<bar>10 ^ 6 * int (unat ms) - (nanoseconds stop - nanoseconds start)\<bar> < 10 ^ 6"
proof -
  obtain ms where ms: "execTimeMs start stop = Inr ms"
      "\<bar>10 ^ 6 * int (unat ms) - (nanoseconds stop - nanoseconds start)\<bar> < 10 ^ 6"
    using execTimeMs_near [OF assms] .
  have "print_ms ms = '' ('' @ UnityPrintNumberUnsigned ms @ '' ms)''"
    by (simp add: print_ms_def UnityPrintChar_def char_val_def)
  with ms show ?thesis by (auto simp: UNITY_PRINT_EXEC_TIME_def unsigned_read)
qed

text \<open>From 0.9999995 to 1.0000000 seconds: printed as one millisecond.\<close>

theorem exec_time_near_witness:
  "\<exists>ms. UNITY_PRINT_EXEC_TIME \<lparr>tv_sec = 0, tv_nsec = 999999500\<rparr> \<lparr>tv_sec = 1, tv_nsec = 0\<rparr> =
      Inr ('' ('' @ UnityPrintNumberUnsigned ms @ '' ms)'') \<and> unat ms \<le> 1"
proof -
  let ?t = "\<lparr>tv_sec = 0, tv_nsec = 999999500\<rparr>" and ?u = "\<lparr>tv_sec = 1, tv_nsec = 0\<rparr>"
  have "clock_reading ?t" "clock_reading ?u" "nanoseconds ?t = 999999500" "nanoseconds ?u = 1000000000"
    by (simp_all add: clock_reading_def nanoseconds_def)
  with exec_time_near [of ?t ?u] obtain ms where
    ms: "UNITY_PRINT_EXEC_TIME ?t ?u = Inr ('' ('' @ UnityPrintNumberUnsigned ms @ '' ms)'')"
      "\<bar>10 ^ 6 * int (unat ms) - 500\<bar> < 10 ^ 6"
    by auto
  from ms(2) have "1000000 * int (unat ms) < 1000500" by (simp only: power_numeral) simp
  then have "int (unat ms) < int 2" unfolding of_nat_numeral by linarith
  then have "unat ms \<le> 1" by (simp only: of_nat_less_iff)
  with ms(1) show ?thesis by blast
qed

text \<open>A millisecond counter may wrap between the readings.\<close>

lemma clock_wraps:
  "d < 2 ^ 64 \<Longrightarrow> UNITY_PRINT_EXEC_TIME_clock (of_nat t) (of_nat (t + d)) = print_ms (of_nat d)"
  by (simp add: UNITY_PRINT_EXEC_TIME_clock_def)

end
