(* ===== verification/Unity_Return.thy ===== *)
theory Unity_Return
  imports Unity_Float_Assert
begin

text \<open>
  Unity without \<^verbatim>\<open>setjmp\<close> (\<^verbatim>\<open>UNITY_EXCLUDE_SETJMP_H\<close>, \<^verbatim>\<open>unity/src/unity_internals.h\<close>):
  \<^verbatim>\<open>TEST_PROTECT()\<close> is 1 and \<^verbatim>\<open>TEST_ABORT()\<close> is \<^verbatim>\<open>return\<close>, so a failing assertion returns to
  its test, which goes on. A test that is a sequence of assertions is reported in the same way in
  both configurations, since every assertion does nothing once one has failed.
\<close>

section \<open>The configuration\<close>

text \<open>
  A statement of a test: a call of a function of the framework. With \<^verbatim>\<open>setjmp\<close> a jump skips the
  rest; where \<^verbatim>\<open>TEST_ABORT\<close> returns the rest is run.
\<close>

type_synonym 'w statement = "'w \<Rightarrow> 'w outcome res"

fun statements :: "'w statement list \<Rightarrow> 'w statement" where
  "statements [] u = Inr (Returns u)"
| "statements (a # as) u = tbind (a u) (statements as)"

definition TEST_ABORT_return :: "'w outcome res \<Rightarrow> 'w res" where
  "TEST_ABORT_return r = rbind r (\<lambda>r. Inr (final r))"

fun statements_return :: "'w statement list \<Rightarrow> 'w \<Rightarrow> 'w res" where
  "statements_return [] u = Inr u"
| "statements_return (a # as) u = rbind (TEST_ABORT_return (a u)) (statements_return as)"

definition TEST_PROTECT_return :: "('w \<Rightarrow> 'w res) \<Rightarrow> 'w \<Rightarrow> 'w res" where
  "TEST_PROTECT_return body u = body u"

definition UnityDefaultTestRun_return ::
  "('a unity_scheme \<Rightarrow> 'a unity_scheme res) \<Rightarrow> ('a unity_scheme \<Rightarrow> 'a unity_scheme res) \<Rightarrow>
   ('a unity_scheme \<Rightarrow> 'a unity_scheme res) \<Rightarrow> c_string \<Rightarrow> 32 word \<Rightarrow> 'a unity_scheme \<Rightarrow>
   'a unity_scheme res" where
  "UnityDefaultTestRun_return setUp tearDown func FuncName FuncLineNum u =
     (let u = u\<lparr>Unity := (Unity u)\<lparr>CurrentTestName := FuncName,
                CurrentTestLineNumber := scast FuncLineNum,
                NumberOfTests := NumberOfTests (Unity u) + 1\<rparr>\<rparr>;
          u = UNITY_CLR_DETAILS u
      in rbind (TEST_PROTECT_return (\<lambda>u. rbind (setUp u) func) u) (\<lambda>u.
         rbind (TEST_PROTECT_return tearDown u) (\<lambda>u.
         Inr (UnityConcludeTest u))))"

section \<open>Statements that do nothing after a failure\<close>

text \<open>Once a test has failed or been ignored the statement leaves the state alone; if it jumps, it has.\<close>

definition bails :: "'a unity_scheme statement \<Rightarrow> bool" where
  "bails a \<longleftrightarrow>
     (\<forall>u. fail_or_ignore u \<longrightarrow> TEST_ABORT_return (a u) = Inr u) \<and>
     (\<forall>u v. a u = Inr (Jumps v) \<longrightarrow> fail_or_ignore v)"

lemma bails_done:
  assumes "list_all bails as" and "fail_or_ignore u"
  shows "statements_return as u = Inr u"
  using assms by (induction as) (simp_all add: bails_def)

text \<open>A sequence of them ends in the same state with and without jumps.\<close>

lemma statements_same:
  "list_all bails as \<Longrightarrow> TEST_ABORT_return (statements as u) = statements_return as u"
proof (induction as arbitrary: u)
  case (Cons a as)
  show ?case
  proof (cases "a u")
    case (Inr r)
    show ?thesis
    proof (cases r)
      case (Jumps v)
      then have "statements_return as v = Inr v"
        using Cons.prems Inr by (intro bails_done) (simp_all add: bails_def [of a])
      then show ?thesis using Inr Jumps by (simp add: TEST_ABORT_return_def)
    qed (use Cons Inr in \<open>simp add: TEST_ABORT_return_def\<close>)
  qed (simp add: TEST_ABORT_return_def)
qed (simp add: TEST_ABORT_return_def)

lemma statements_append: "statements (as @ bs) = (\<lambda>u. tbind (statements as u) (statements bs))"
  by (induction as; rule ext; simp add: tbind_assoc)

lemma statements_return_append:
  "statements_return (as @ bs) = (\<lambda>u. rbind (statements_return as u) (statements_return bs))"
  by (induction as; rule ext; simp add: rbind_assoc)

text \<open>The functions of the framework.\<close>

lemma bail_fails [simp]:
  "UNITY_FAIL_AND_BAIL u = Jumps v \<Longrightarrow> fail_or_ignore v" "UNITY_IGNORE_AND_BAIL u = Jumps v \<Longrightarrow> fail_or_ignore v"
  by (auto simp: UNITY_FAIL_AND_BAIL_def UNITY_IGNORE_AND_BAIL_def fail_or_ignore_def)

lemma bails_guarded:
  assumes "\<And>u. a u = RETURN_IF_FAIL_OR_IGNORE u (k u)" and "\<And>u v. k u = Jumps v \<Longrightarrow> fail_or_ignore v"
  shows "bails (\<lambda>u. Inr (a u))"
  using assms(2) by (auto simp: bails_def assms(1) RETURN_IF_FAIL_OR_IGNORE_def TEST_ABORT_return_def)

lemma bails_scalar:
  "bails (\<lambda>u. Inr (UnityAssertEqualNumber expected actual msg line style u))"
  "bails (\<lambda>u. Inr (UnityAssertBits msk expected actual msg line u))"
  "bails (\<lambda>u. Inr (UnityAssertGreaterOrLessOrEqualNumber threshold actual compare msg line style u))"
  "bails (\<lambda>u. Inr (UnityAssertNumbersWithin delta expected actual msg line style u))"
  "bails (\<lambda>u. Inr (UnityFail msg line u))"
  "bails (\<lambda>u. Inr (UnityIgnore msg line u))"
  by (rule bails_guarded,
      simp only: UnityAssertEqualNumber_def UnityAssertBits_def UnityAssertGreaterOrLessOrEqualNumber_def
        UnityAssertNumbersWithin_def UnityFail_def UnityIgnore_def,
      force simp: Let_def split: if_splits)+

lemma bails_res:
  assumes "\<And>u. fail_or_ignore u \<Longrightarrow> a u = Inr (Jumps u)"
    and "\<And>u v. \<not> fail_or_ignore u \<Longrightarrow> a u = Inr (Jumps v) \<Longrightarrow> fail_or_ignore v"
  shows "bails a"
  unfolding bails_def by (metis assms TEST_ABORT_return_def final.simps(2) outcome.inject(2) rbind.simps(2) sum.inject(2))

lemma bails_string:
  "bails (UnityAssertEqualString s t msg line)"
  "bails (UnityAssertEqualStringLen s t len msg line)"
  by (rule bails_res,
      simp add: UnityAssertEqualString_def UnityAssertEqualStringLen_def,
      auto simp: UnityAssertEqualString_def UnityAssertEqualStringLen_def rbind_eq_Inr Let_def
        split: if_splits)+

lemma bails_float:
  "bails (assert_within f dbl delta expected actual msg line)"
  "bails (assert_not_within f dbl delta expected actual msg line)"
  "bails (assert_greater_or_less f prec dbl threshold actual compare msg line)"
  "bails (assert_special f dbl actual msg line style)"
  by (rule bails_res,
      simp add: assert_within_def assert_not_within_def assert_greater_or_less_def assert_special_def,
      auto simp: assert_within_def assert_not_within_def assert_greater_or_less_def assert_special_def
        fail_with_def rbind_eq_Inr Let_def split: if_splits option.splits)+

lemma array_prologue_bails:
  assumes "\<And>u v. loop u = Inr (Jumps v) \<Longrightarrow> fail_or_ignore v"
  shows "bails (\<lambda>u. array_prologue c expected actual line msg u (loop u))"
  using assms
  by (intro bails_res)
     (auto simp: array_prologue_def UnityPrintPointlessAndBail_def split: if_splits prod.splits bool.splits)

lemma int_array_jumps:
  "int_array_loop mem num msg line style flags n expected actual u = Inr (Jumps v) \<Longrightarrow> fail_or_ignore v"
  by (induction n arbitrary: expected actual) (auto simp: rbind_eq_Inr Let_def split: if_splits)

lemma within_array_jumps:
  "within_array_loop delta mem num msg line style flags n expected actual u = Inr (Jumps v) \<Longrightarrow>
   fail_or_ignore v"
  by (induction n arbitrary: expected actual u) (auto simp: rbind_eq_Inr Let_def split: if_splits)

lemma memory_bytes_jumps:
  "memory_bytes_loop mem len num elements msg line n p q u = Inr (Jumps v) \<Longrightarrow> fail_or_ignore v"
  by (induction n arbitrary: p q) (auto simp: Let_def split: if_splits option.splits)

lemma memory_jumps:
  "memory_loop mem len num msg line flags expected n p q u = Inr (Jumps v) \<Longrightarrow> fail_or_ignore v"
proof (induction n arbitrary: p q u)
  case (Suc n)
  show ?case
  proof (cases "memory_bytes_loop mem len num (of_nat n) msg line (unat len) p q u")
    case (Inr r)
    then show ?thesis using Suc by (cases r) (auto dest: memory_bytes_jumps)
  qed (use Suc.prems in simp)
qed simp

lemma string_array_jumps:
  "string_array_loop mem expected actual num msg line flags n j u = Inr (Jumps v) \<Longrightarrow> fail_or_ignore v"
proof (induction n arbitrary: j u)
  case 0
  then show ?case by (subst (asm) string_array_loop.simps) (auto simp: rbind_eq_Inr Let_def split: if_splits)
next
  case (Suc n)
  from Suc.prems show ?case
    by (subst (asm) string_array_loop.simps)
       (auto simp: rbind_eq_Inr Let_def simp del: string_array_loop.simps split: if_splits intro: Suc.IH)
qed

lemma bails_array:
  "bails (UnityAssertEqualIntArray mem expected actual num msg line style flags)"
  "bails (UnityAssertNumbersArrayWithin delta mem expected actual num msg line style flags)"
  "bails (UnityAssertEqualStringArray mem expected actual num msg line flags)"
  "bails (UnityAssertEqualMemory mem expected actual len num msg line flags)"
  unfolding UnityAssertEqualIntArray_def [abs_def] UnityAssertNumbersArrayWithin_def [abs_def]
    UnityAssertEqualStringArray_def [abs_def] UnityAssertEqualMemory_def [abs_def]
  by (rule array_prologue_bails, erule int_array_jumps within_array_jumps string_array_jumps memory_jumps)+

lemmas bails_intros = bails_scalar bails_string bails_float bails_array

section \<open>The same report\<close>

text \<open>
  C24: leaving out \<^verbatim>\<open>setjmp\<close> does not change the report: for a test whose set-up, body and tear-down
  are assertions, the runner without \<^verbatim>\<open>setjmp\<close> ends in the same state, with the same counters and the
  same output, as the one that jumps out of the first failing assertion.
\<close>
theorem runner_without_setjmp:
  assumes "list_all bails s" and "list_all bails f" and "list_all bails t"
  shows "UnityDefaultTestRun_return (statements_return s) (statements_return t) (statements_return f) name line u =
    UnityDefaultTestRun (statements s) (statements t) (statements f) name line u"
proof -
  have protect: "TEST_PROTECT (statements as) = statements_return as" if "list_all bails as"
    for as :: "'a unity_scheme statement list"
    using statements_same [OF that] by (simp add: fun_eq_iff TEST_PROTECT_def TEST_ABORT_return_def)
  have "list_all bails (s @ f)" using assms by simp
  from protect [OF this] protect [OF assms(3)] show ?thesis
    by (simp add: UnityDefaultTestRun_return_def UnityDefaultTestRun_def statements_append
        statements_return_append TEST_PROTECT_return_def)
qed

theorem runner_without_setjmp_witness:
  "UnityDefaultTestRun_return (statements_return [])
      (statements_return [\<lambda>u. Inr (UnityAssertEqualNumber 1 1 None 9 UNITY_DISPLAY_STYLE_INT u)])
      (statements_return [\<lambda>u. Inr (UnityAssertEqualNumber 1 2 None 7 UNITY_DISPLAY_STYLE_INT u),
        \<lambda>u. Inr (UnityFail None 8 u)]) (Some ''t'') 6 unity_fresh =
    UnityDefaultTestRun (statements [])
      (statements [\<lambda>u. Inr (UnityAssertEqualNumber 1 1 None 9 UNITY_DISPLAY_STYLE_INT u)])
      (statements [\<lambda>u. Inr (UnityAssertEqualNumber 1 2 None 7 UNITY_DISPLAY_STYLE_INT u),
        \<lambda>u. Inr (UnityFail None 8 u)]) (Some ''t'') 6 unity_fresh"
  by (rule runner_without_setjmp) (simp_all add: bails_intros)

text \<open>
  \<^verbatim>\<open>UnityMessage\<close> is the exception: it prints after a failure too, which a jump would have skipped.
\<close>

lemma message_after_failure:
  assumes "\<not> fail_or_ignore u"
  shows "statements_return [\<lambda>u. Inr (UnityFail None l u), \<lambda>u. Inr (Returns (UnityMessage m k u))] u \<noteq>
    TEST_ABORT_return (statements [\<lambda>u. Inr (UnityFail None l u), \<lambda>u. Inr (Returns (UnityMessage m k u))] u)"
proof -
  have "printed (UnityMessage m k v) \<noteq> printed v" for v :: "'a unity_scheme"
    by (simp add: UnityMessage_def UnityTestResultsBegin_def UNITY_PRINT_EOL_def Let_def split: if_splits)
  then have "UnityMessage m k v \<noteq> v" for v :: "'a unity_scheme" by metis
  with assms show ?thesis
    by (simp add: UnityFail_def RETURN_IF_FAIL_OR_IGNORE_def UNITY_FAIL_AND_BAIL_def TEST_ABORT_return_def)
qed

end
