(* ===== verification/Unity_Target.thy ===== *)
theory Unity_Target
  imports Unity_Types
begin

text \<open>
  How Unity fits itself to a target (\<^verbatim>\<open>unity/src/unity_internals.h\<close>): the widths found from the limits
  of the C types, and the C types chosen for Unity's own integers. The preprocessor's view of a target
  is a record of macros, defined or not; an undefined macro counts as 0 in a comparison, and
  \<^verbatim>\<open>#error\<close> is \<open>None\<close>. The rest of the library takes what comes out for LP64.
\<close>

section \<open>Widths\<close>

record limits =
  def_UNITY_INT_WIDTH :: "nat option"
  def_UNITY_LONG_WIDTH :: "nat option"
  def_UNITY_POINTER_WIDTH :: "nat option"
  UINT_MAX :: "nat option"
  ULONG_MAX :: "nat option"
  UINTPTR_MAX :: "nat option"

definition cfg_INT_WIDTH :: "limits \<Rightarrow> nat option" where
  "cfg_INT_WIDTH l =
     (case def_UNITY_INT_WIDTH l of
        Some w \<Rightarrow> Some w
      | None \<Rightarrow>
          (case UINT_MAX l of
             Some m \<Rightarrow> if m = 0xFFFF then Some 16
                       else if m = 0xFFFFFFFF then Some 32
                       else if m = 0xFFFFFFFFFFFFFFFF then Some 64
                       else None
           | None \<Rightarrow> Some 32))"

definition cfg_LONG_WIDTH :: "limits \<Rightarrow> nat option" where
  "cfg_LONG_WIDTH l =
     (case def_UNITY_LONG_WIDTH l of
        Some w \<Rightarrow> Some w
      | None \<Rightarrow>
          (case ULONG_MAX l of
             Some m \<Rightarrow> if m = 0xFFFF then Some 16
                       else if m = 0xFFFFFFFF then Some 32
                       else if m = 0xFFFFFFFFFFFFFFFF then Some 64
                       else None
           | None \<Rightarrow> Some 32))"

definition cfg_POINTER_WIDTH :: "limits \<Rightarrow> nat option" where
  "cfg_POINTER_WIDTH l =
     (case def_UNITY_POINTER_WIDTH l of
        Some w \<Rightarrow> Some w
      | None \<Rightarrow>
          (case UINTPTR_MAX l of
             Some m \<Rightarrow> if m \<le> 0xFFFF then Some 16
                       else if m \<le> 0xFFFFFFFF then Some 32
                       else if m \<le> 0xFFFFFFFFFFFFFFFF then Some 64
                       else None
           | None \<Rightarrow> cfg_LONG_WIDTH l))"

text \<open>\<^verbatim>\<open>UNITY_SUPPORT_64\<close>, if it is not defined from outside (\<open>given\<close>).\<close>

definition cfg_SUPPORT_64 :: "bool \<Rightarrow> limits \<Rightarrow> bool" where
  "cfg_SUPPORT_64 given l \<longleftrightarrow> given \<or> cfg_LONG_WIDTH l = Some 64 \<or> cfg_POINTER_WIDTH l = Some 64"

section \<open>Types\<close>

datatype c_int_type = C_char | C_short | C_int | C_long | C_long_long

text \<open>The types behind \<^verbatim>\<open>UNITY_INT8\<close>, \<^verbatim>\<open>UNITY_INT16\<close> and \<^verbatim>\<open>UNITY_INT32\<close>, and their unsigned variants.\<close>

definition cfg_small_types :: "limits \<Rightarrow> (c_int_type \<times> c_int_type \<times> c_int_type) option" where
  "cfg_small_types l =
     (if cfg_INT_WIDTH l = Some 32 then Some (C_char, C_short, C_int)
      else if cfg_INT_WIDTH l = Some 16 then Some (C_char, C_int, C_long)
      else None)"

text \<open>The types behind \<^verbatim>\<open>UNITY_INT64\<close>, if there is one, and behind \<^verbatim>\<open>UNITY_INT\<close>, with \<^verbatim>\<open>UNITY_MAX_NIBBLES\<close>.\<close>

definition cfg_wide_types :: "bool \<Rightarrow> limits \<Rightarrow> (c_int_type option \<times> c_int_type \<times> nat) option" where
  "cfg_wide_types given l =
     (case cfg_small_types l of
        None \<Rightarrow> None
      | Some (t8, t16, t32) \<Rightarrow>
          if \<not> cfg_SUPPORT_64 given l then Some (None, t32, 8)
          else if cfg_LONG_WIDTH l = Some 32 then Some (Some C_long_long, C_long_long, 16)
          else if cfg_LONG_WIDTH l = Some 64 then Some (Some C_long, C_long, 16)
          else None)"

definition cfg_DISPLAY_STYLE_POINTER :: "limits \<Rightarrow> UNITY_DISPLAY_STYLE_T option" where
  "cfg_DISPLAY_STYLE_POINTER l =
     (if cfg_POINTER_WIDTH l = Some 32 then Some UNITY_DISPLAY_STYLE_HEX32
      else if cfg_POINTER_WIDTH l = Some 64 then Some UNITY_DISPLAY_STYLE_HEX64
      else if cfg_POINTER_WIDTH l = Some 16 then Some UNITY_DISPLAY_STYLE_HEX16
      else None)"

section \<open>Data models\<close>

text \<open>A data model: the widths of \<^verbatim>\<open>int\<close>, \<^verbatim>\<open>long\<close> and pointers; the other widths are C's minimum.\<close>

record data_model =
  int_width :: nat
  long_width :: nat
  ptr_width :: nat

definition limits_of :: "data_model \<Rightarrow> limits" where
  "limits_of d = \<lparr>def_UNITY_INT_WIDTH = None, def_UNITY_LONG_WIDTH = None, def_UNITY_POINTER_WIDTH = None,
     UINT_MAX = Some (2 ^ int_width d - 1), ULONG_MAX = Some (2 ^ long_width d - 1),
     UINTPTR_MAX = Some (2 ^ ptr_width d - 1)\<rparr>"

fun width_of :: "data_model \<Rightarrow> c_int_type \<Rightarrow> nat" where
  "width_of d C_char = 8"
| "width_of d C_short = 16"
| "width_of d C_int = int_width d"
| "width_of d C_long = long_width d"
| "width_of d C_long_long = 64"

definition LP64 :: data_model where "LP64 = \<lparr>int_width = 32, long_width = 64, ptr_width = 64\<rparr>"

lemmas cfg_defs = cfg_INT_WIDTH_def cfg_LONG_WIDTH_def cfg_POINTER_WIDTH_def cfg_SUPPORT_64_def
  cfg_small_types_def cfg_wide_types_def cfg_DISPLAY_STYLE_POINTER_def limits_of_def

text \<open>
  The widths are found: a data model's limits give back its widths, of those Unity knows.
\<close>

lemma widths_found:
  assumes "int_width d \<in> {16, 32, 64}" and "long_width d \<in> {32, 64}" and "ptr_width d \<in> {16, 32, 64}"
  shows "cfg_INT_WIDTH (limits_of d) = Some (int_width d)"
    and "cfg_LONG_WIDTH (limits_of d) = Some (long_width d)"
    and "cfg_POINTER_WIDTH (limits_of d) = Some (ptr_width d)"
  using assms by (auto simp: cfg_defs)

text \<open>
  On the usual data models (\<^verbatim>\<open>int\<close> and \<^verbatim>\<open>long\<close> of 16 and 32, 32 and 32, or 32 and 64 bits) Unity's
  types have the widths their names say, and \<^verbatim>\<open>UNITY_INT\<close> holds a \<^verbatim>\<open>long\<close> and a pointer and has
  \<^verbatim>\<open>UNITY_MAX_NIBBLES\<close> nibbles. With a 64-bit \<^verbatim>\<open>int\<close> Unity does not compile.
\<close>

lemma types_have_their_widths:
  assumes "(int_width d, long_width d) \<in> {(16, 32), (32, 32), (32, 64)}" and "ptr_width d \<in> {16, 32, 64}"
  shows "map_option (\<lambda>(t8, t16, t32). (width_of d t8, width_of d t16, width_of d t32))
      (cfg_small_types (limits_of d)) = Some (8, 16, 32)"
    and "\<exists>o64 t n. cfg_wide_types False (limits_of d) = Some (o64, t, n) \<and>
      (\<forall>t64. o64 = Some t64 \<longrightarrow> width_of d t64 = 64) \<and>
      width_of d t = max (long_width d) (max (ptr_width d) 32) \<and> 4 * n = width_of d t"
  using assms
  by (auto simp: cfg_small_types_def cfg_wide_types_def cfg_SUPPORT_64_def widths_found)

lemma int64_rejected: "int_width d = 64 \<Longrightarrow> cfg_small_types (limits_of d) = None"
  by (simp add: cfg_defs)

text \<open>The widths the rest of the library is written for.\<close>

lemma LP64_target:
  "cfg_INT_WIDTH (limits_of LP64) = Some UNITY_INT_WIDTH"
  "cfg_wide_types False (limits_of LP64) = Some (Some C_long, C_long, UNITY_MAX_NIBBLES)"
  "cfg_DISPLAY_STYLE_POINTER (limits_of LP64) = Some UNITY_DISPLAY_STYLE_HEX64"
  by (simp_all add: cfg_defs LP64_def UNITY_INT_WIDTH_def UNITY_MAX_NIBBLES_def)

end
