(* ===== verification/Jemalloc_Config.thy ===== *)
theory Jemalloc_Config
  imports Prelude
begin

text \<open>
  The parts of jemalloc the repository holds: how it was configured
  (\<^verbatim>\<open>internal/jemalloc_internal_defs.h\<close>), the switches its code takes from that
  (\<^verbatim>\<open>internal/jemalloc_preamble.h\<close>), and the flags of its extended interface
  (\<^verbatim>\<open>jemalloc_macros.h\<close>), of which the memory manager passes 0. The allocator itself is not in the
  repository; it is the parameter of \<open>Jemalloc_Api\<close>.
\<close>

section \<open>The configuration (jemalloc\_internal\_defs.h)\<close>

text \<open>
  What the preprocessor knows is the list of macros that are defined; each of the lists is one stretch
  of the header, of those with the macros the switches ask for.
\<close>

type_synonym macros = "string list"

definition defined :: "macros \<Rightarrow> string \<Rightarrow> bool" where
  "defined ms m \<longleftrightarrow> m \<in> set ms"

definition defs_clock :: "string list" where
  "defs_clock =
    [''JEMALLOC_HAVE_MACH_ABSOLUTE_TIME'', ''JEMALLOC_HAVE_CLOCK_REALTIME'']"

definition defs_features :: "string list" where
  "defs_features =
    [''JEMALLOC_STATS'', ''JEMALLOC_FILL'', ''LG_PAGE'', ''LG_HUGEPAGE'',
     ''JEMALLOC_MAPS_COALESCE'', ''JEMALLOC_INTERNAL_UNREACHABLE'', ''JEMALLOC_INTERNAL_FFSLL'',
     ''JEMALLOC_INTERNAL_FFSL'', ''JEMALLOC_INTERNAL_FFS'', ''JEMALLOC_INTERNAL_POPCOUNTL'',
     ''JEMALLOC_INTERNAL_POPCOUNT'', ''JEMALLOC_CACHE_OBLIVIOUS'']"

definition defs_memory :: "string list" where
  "defs_memory =
    [''JEMALLOC_HAVE_MADVISE'', ''JEMALLOC_PURGE_MADVISE_FREE'',
     ''JEMALLOC_PURGE_MADVISE_DONTNEED'', ''JEMALLOC_HAVE_MPROTECT'']"

definition defs_checks :: "string list" where
  "defs_checks =
    [''JEMALLOC_CONFIG_MALLOC_CONF'', ''JEMALLOC_ENABLE_CXX'']"

definition shipped :: macros where
  "shipped = defs_clock @ defs_features @ defs_memory @ defs_checks"

section \<open>The switches (jemalloc\_preamble.h)\<close>

definition config_debug :: "macros \<Rightarrow> bool" where
  "config_debug ms \<longleftrightarrow> defined ms ''JEMALLOC_DEBUG''"

definition have_dss :: "macros \<Rightarrow> bool" where
  "have_dss ms \<longleftrightarrow> defined ms ''JEMALLOC_DSS''"

definition have_madvise_huge :: "macros \<Rightarrow> bool" where
  "have_madvise_huge ms \<longleftrightarrow> defined ms ''JEMALLOC_HAVE_MADVISE_HUGE''"

definition config_fill :: "macros \<Rightarrow> bool" where
  "config_fill ms \<longleftrightarrow> defined ms ''JEMALLOC_FILL''"

definition config_lazy_lock :: "macros \<Rightarrow> bool" where
  "config_lazy_lock ms \<longleftrightarrow> defined ms ''JEMALLOC_LAZY_LOCK''"

definition config_prof :: "macros \<Rightarrow> bool" where
  "config_prof ms \<longleftrightarrow> defined ms ''JEMALLOC_PROF''"

definition config_prof_libgcc :: "macros \<Rightarrow> bool" where
  "config_prof_libgcc ms \<longleftrightarrow> defined ms ''JEMALLOC_PROF_LIBGCC''"

definition config_prof_libunwind :: "macros \<Rightarrow> bool" where
  "config_prof_libunwind ms \<longleftrightarrow> defined ms ''JEMALLOC_PROF_LIBUNWIND''"

definition maps_coalesce :: "macros \<Rightarrow> bool" where
  "maps_coalesce ms \<longleftrightarrow> defined ms ''JEMALLOC_MAPS_COALESCE''"

definition config_stats :: "macros \<Rightarrow> bool" where
  "config_stats ms \<longleftrightarrow> defined ms ''JEMALLOC_STATS''"

definition config_tls :: "macros \<Rightarrow> bool" where
  "config_tls ms \<longleftrightarrow> defined ms ''JEMALLOC_TLS''"

text \<open>\<^verbatim>\<open>JEMALLOC_UTRACE\<close> is defined for the labelled variant too.\<close>

definition JEMALLOC_UTRACE :: "macros \<Rightarrow> bool" where
  "JEMALLOC_UTRACE ms \<longleftrightarrow> defined ms ''JEMALLOC_UTRACE'' \<or> defined ms ''JEMALLOC_UTRACE_LABEL''"

definition config_utrace :: "macros \<Rightarrow> bool" where
  "config_utrace ms \<longleftrightarrow> JEMALLOC_UTRACE ms"

definition config_xmalloc :: "macros \<Rightarrow> bool" where
  "config_xmalloc ms \<longleftrightarrow> defined ms ''JEMALLOC_XMALLOC''"

definition config_cache_oblivious :: "macros \<Rightarrow> bool" where
  "config_cache_oblivious ms \<longleftrightarrow> defined ms ''JEMALLOC_CACHE_OBLIVIOUS''"

definition config_log :: "macros \<Rightarrow> bool" where
  "config_log ms \<longleftrightarrow> defined ms ''JEMALLOC_LOG''"

definition config_opt_safety_checks :: "macros \<Rightarrow> bool" where
  "config_opt_safety_checks ms \<longleftrightarrow> defined ms ''JEMALLOC_OPT_SAFETY_CHECKS'' \<or> defined ms ''JEMALLOC_DEBUG''"

definition config_opt_size_checks :: "macros \<Rightarrow> bool" where
  "config_opt_size_checks ms \<longleftrightarrow> defined ms ''JEMALLOC_OPT_SIZE_CHECKS'' \<or> defined ms ''JEMALLOC_DEBUG''"

definition config_uaf_detection :: "macros \<Rightarrow> bool" where
  "config_uaf_detection ms \<longleftrightarrow> defined ms ''JEMALLOC_UAF_DETECTION'' \<or> defined ms ''JEMALLOC_DEBUG''"

definition config_enable_cxx :: "macros \<Rightarrow> bool" where
  "config_enable_cxx ms \<longleftrightarrow> defined ms ''JEMALLOC_ENABLE_CXX''"

text \<open>\<^verbatim>\<open>JEMALLOC_PERCPU_ARENA\<close> is defined on Windows and where \<^verbatim>\<open>sched_getcpu\<close> is found.\<close>

definition JEMALLOC_PERCPU_ARENA :: "macros \<Rightarrow> bool" where
  "JEMALLOC_PERCPU_ARENA ms \<longleftrightarrow> defined ms ''_WIN32'' \<or> defined ms ''JEMALLOC_HAVE_SCHED_GETCPU'' \<or>
     defined ms ''JEMALLOC_PERCPU_ARENA''"

definition have_percpu_arena :: "macros \<Rightarrow> bool" where
  "have_percpu_arena ms \<longleftrightarrow> JEMALLOC_PERCPU_ARENA ms"

definition force_ivsalloc :: "macros \<Rightarrow> bool" where
  "force_ivsalloc ms \<longleftrightarrow> defined ms ''JEMALLOC_FORCE_IVSALLOC''"

definition have_background_thread :: "macros \<Rightarrow> bool" where
  "have_background_thread ms \<longleftrightarrow> defined ms ''JEMALLOC_BACKGROUND_THREAD''"

definition config_high_res_timer :: "macros \<Rightarrow> bool" where
  "config_high_res_timer ms \<longleftrightarrow> defined ms ''JEMALLOC_HAVE_CLOCK_REALTIME''"

definition have_memcntl :: "macros \<Rightarrow> bool" where
  "have_memcntl ms \<longleftrightarrow> defined ms ''JEMALLOC_HAVE_MEMCNTL''"

text \<open>
  With \<^verbatim>\<open>JEMALLOC_DEBUG\<close> all checks are on.
\<close>

lemma debug_checks_everything:
  "defined ms ''JEMALLOC_DEBUG'' \<Longrightarrow>
   config_debug ms \<and> config_opt_safety_checks ms \<and> config_opt_size_checks ms \<and> config_uaf_detection ms"
  by (simp add: config_debug_def config_opt_safety_checks_def config_opt_size_checks_def
      config_uaf_detection_def)

text \<open>
  As it was built all of them are off: jemalloc does not notice a double free, a use after a free or a
  wrong size, so it is left to \<^verbatim>\<open>freeMem\<close> to be called with blocks only.
\<close>

lemma shipped_unchecked:
  "\<not> config_debug shipped" "\<not> config_opt_safety_checks shipped" "\<not> config_opt_size_checks shipped"
  "\<not> config_uaf_detection shipped" "\<not> config_prof shipped" "\<not> config_xmalloc shipped"
  by code_simp+

lemma shipped_switches:
  "config_fill shipped" "config_stats shipped" "config_cache_oblivious shipped" "maps_coalesce shipped"
  "config_enable_cxx shipped" "config_high_res_timer shipped" "\<not> config_tls shipped"
  "\<not> have_background_thread shipped" "\<not> have_percpu_arena shipped"
  by code_simp+

section \<open>The flags (jemalloc\_macros.h)\<close>

text \<open>\<^verbatim>\<open>ffs\<close>: the number of the lowest bit that is set, from 1; 0 if none is.\<close>

definition ffs :: "32 word \<Rightarrow> 32 word" where
  "ffs x = (case find (bit x) [0..<32] of None \<Rightarrow> 0 | Some i \<Rightarrow> of_nat (i + 1))"

definition MALLOCX_LG_ALIGN :: "32 word \<Rightarrow> 32 word" where
  "MALLOCX_LG_ALIGN la = la"

definition MALLOCX_ALIGN :: "size_t \<Rightarrow> 32 word" where
  "MALLOCX_ALIGN a = (if a < 0x7FFFFFFF then ffs (ucast a) - 1 else ffs (ucast (drop_bit 32 a)) + 31)"

definition MALLOCX_ZERO :: "32 word" where
  "MALLOCX_ZERO = 0x40"

definition MALLOCX_TCACHE :: "32 word \<Rightarrow> 32 word" where
  "MALLOCX_TCACHE tc = push_bit 8 (tc + 2)"

definition MALLOCX_TCACHE_NONE :: "32 word" where
  "MALLOCX_TCACHE_NONE = MALLOCX_TCACHE (- 1)"

definition MALLOCX_ARENA :: "32 word \<Rightarrow> 32 word" where
  "MALLOCX_ARENA a = push_bit 20 (a + 1)"

definition MALLCTL_ARENAS_ALL :: "32 word" where "MALLCTL_ARENAS_ALL = 4096"
definition MALLCTL_ARENAS_DESTROYED :: "32 word" where "MALLCTL_ARENAS_DESTROYED = 4097"

text \<open>The alignment flag of a power of two is its logarithm.\<close>

lemma MALLOCX_ALIGN_power: "k < 64 \<Longrightarrow> MALLOCX_ALIGN (2 ^ k) = of_nat k"
proof -
  assume "k < 64"
  then have "k \<in> set [0..<64]" by simp
  moreover have "list_all (\<lambda>k. MALLOCX_ALIGN (2 ^ k) = of_nat k) [0..<64]" by code_simp
  ultimately show ?thesis unfolding list_all_iff by blast
qed

text \<open>
  The fields of a combined argument do not overlap: alignment below bit 6, zeroing in bit 6, the
  thread cache in bits 8 to 19, the arena above. With flags 0 none is given.
\<close>

definition mallocx_flags :: "32 word \<Rightarrow> bool \<Rightarrow> 32 word \<Rightarrow> 32 word \<Rightarrow> 32 word" where
  "mallocx_flags la zero tc a =
     or (or (MALLOCX_LG_ALIGN la) (if zero then MALLOCX_ZERO else 0)) (or (MALLOCX_TCACHE tc) (MALLOCX_ARENA a))"

lemma bit_bound:
  fixes x :: "32 word"
  assumes "unat x < 2 ^ k" and "bit x n"
  shows "n < k"
proof (rule ccontr)
  assume "\<not> n < k"
  then have "unat x < 2 ^ n" using assms(1) by (meson leI order_less_le_trans one_le_numeral power_increasing)
  then have "\<not> bit (unat x) n" by (simp add: bit_iff_odd)
  with assms(2) show False by (simp add: bit_unsigned_iff)
qed

lemma bit_MALLOCX_ZERO: "bit MALLOCX_ZERO n \<longleftrightarrow> n = 6"
proof -
  have zero: "MALLOCX_ZERO = push_bit 6 1" by code_simp
  show ?thesis unfolding zero bit_push_bit_iff bit_1_iff by auto
qed

lemma mallocx_fields:
  assumes "unat la < 2 ^ 6" and "unat (tc + 2) < 2 ^ 12" and "unat (a + 1) < 2 ^ 12"
  shows "take_bit 6 (mallocx_flags la zero tc a) = la"
    and "bit (mallocx_flags la zero tc a) 6 \<longleftrightarrow> zero"
    and "take_bit 12 (drop_bit 8 (mallocx_flags la zero tc a)) = tc + 2"
    and "drop_bit 20 (mallocx_flags la zero tc a) = a + 1"
proof -
  have bits: "bit (mallocx_flags la zero tc a) n \<longleftrightarrow> bit la n \<or> zero \<and> n = 6 \<or>
      8 \<le> n \<and> n < 32 \<and> bit (tc + 2) (n - 8) \<or> 20 \<le> n \<and> n < 32 \<and> bit (a + 1) (n - 20)" for n
    by (auto simp: mallocx_flags_def MALLOCX_LG_ALIGN_def MALLOCX_TCACHE_def MALLOCX_ARENA_def
        bit_or_iff bit_push_bit_iff bit_MALLOCX_ZERO)
  note small = bit_bound [OF assms(1)] bit_bound [OF assms(2)] bit_bound [OF assms(3)]
  show "take_bit 6 (mallocx_flags la zero tc a) = la"
    by (rule bit_word_eqI) (auto simp: bit_take_bit_iff bits dest: small)
  show "bit (mallocx_flags la zero tc a) 6 \<longleftrightarrow> zero"
    by (auto simp: bits dest: small)
  show "take_bit 12 (drop_bit 8 (mallocx_flags la zero tc a)) = tc + 2"
    by (rule bit_word_eqI) (auto simp: bit_take_bit_iff bit_drop_bit_eq bits dest: small)
  show "drop_bit 20 (mallocx_flags la zero tc a) = a + 1"
    by (rule bit_word_eqI) (auto simp: bit_drop_bit_eq bits dest: small)
qed

lemma mallocx_none: "mallocx_flags 0 False (- 2) (- 1) = 0"
  by code_simp

end
