(* ===== verification/Spec2Isabelle.thy ===== *)
theory Spec2Isabelle
  imports Mem_Client Mem_Linear Unity_Elements Tests_Exit Tests_Free Unity_Options
    Unity_Printf Unity_Configs Unity_Color_Printf Unity_Time Unity_Return Unity_Target Jemalloc_Config
begin

text \<open>
  A verification library for \<^verbatim>\<open>memory_manager\<close>, a memory manager in C that serves two pools of
  memory (execution and storage) from one allocator and keeps their use within limits, together with
  its test program and the Unity test framework the tests run under.

  \<^bold>\<open>The program.\<close> A client calls the functions of \<^verbatim>\<open>include/mem_mgr.h\<close>: initialise with the memory
  to manage, allocate from either pool, free to either pool, destroy. \<^verbatim>\<open>src/mem_mgr.c\<close> asks the policy manager
  (\<^verbatim>\<open>src/policy_mgr.c\<close>) to reserve the bytes, asks jemalloc for a block, and then corrects the
  reservation to the block's real size, or takes it back if there was no block. The policy manager
  keeps the counters of the two pools, and a mutex around them, in a file-scope structure.
  \<^verbatim>\<open>src/tests.c\<close> exercises all of it, with three threads at the end.

  \<^bold>\<open>The memory manager.\<close>
  \<^item> \<open>Prelude\<close>: C's machine types on the LP64 target, the ways a call can go wrong (\<open>fault\<close>),
    signed addition with overflow as a fault, and the locale \<open>invariant\<close> for transition systems,
    with the client and the threads as instances.
  \<^item> \<open>Scheduling\<close>: systems that move under a schedule, as two locales: no move of a good state
    fails (\<open>safe_moves\<close>, which gives an \<open>invariant\<close>), and fair schedules end (\<open>fair_moves\<close>, which
    extends it). The process of the test program is an instance of both.
  \<^item> \<open>Pthread_Mutex\<close>: the mutex operations, with their misuse and deadlock as faults.
  \<^item> \<open>Jemalloc_Api\<close>: the allocator is a parameter, a record of the three functions the code calls,
    with the documented behaviour of each as the laws \<open>je_contract\<close>. A bump allocator shows that the
    laws can hold; only witnesses use it. \<open>Jemalloc_Config\<close> holds what the repository has of jemalloc
    itself: its configuration, in which all its checks are off, and the flags of its calls.
  \<^item> \<open>Policy_Mgr\<close>: \<^verbatim>\<open>policy_mgr.c\<close> as it is, records for the structures and 64-bit words for the
    counters, each function with its guards in the order of the code.
  \<^item> \<open>Policy_Spec\<close>: an abstract policy (a capacity, a quota, a load per pool) on natural numbers, and
    the refinement of it by the code: the same decisions, the same loads, no wrap-around.
  \<^item> \<open>Accounting\<close>: the interface between the two managers as the locale \<open>pool_accounting\<close>; it is
    interpreted on the policy manager's functions in \<open>Policy_Spec\<close>, and the charge and rollback
    patterns of \<^verbatim>\<open>allocMem\<close> are proved inside it.
  \<^item> \<open>Mem_Mgr\<close>: \<^verbatim>\<open>mem_mgr.c\<close>, sequentially: what an allocation and a free do on every branch.
  \<^item> \<open>Mem_Client\<close>: sessions of any number of calls. The counter of a pool is the sum of the real
    sizes of the blocks the client holds in it; no call faults; freeing everything drains the pools.
  \<^item> \<open>Mem_Threads\<close>: one call as the steps of a thread, with locking, reading, writing and jemalloc as
    separate steps; run without interruption they are the sequential functions, and meet the policy.
  \<^item> \<open>Mem_Concurrent\<close>: any number of such threads in any interleaving. Mutual exclusion, the
    accounting equation at every instant, progress, and that the memory in use is bounded so that no
    counter overflows.
  \<^item> \<open>Mem_Linear\<close>: the history of a concurrent run, one effect for each pass through a critical
    section, replays on the abstract policy: concurrent use is some sequential use of it.

  \<^bold>\<open>The test program.\<close> \<open>Tests\<close> models the unit and functional tests of \<^verbatim>\<open>tests.c\<close>;
  \<open>Tests_Pass\<close> shows that they pass over every allocator with the size classes the tests ask for.
  \<open>Tests_Threads\<close> models the concurrency test (a thread's code as a tree of its calls, threads moving
  by the steps of \<open>Mem_Threads\<close> as a schedule says, with the numbers \<^verbatim>\<open>rand\<close> returns) and
  \<^verbatim>\<open>main\<close>; \<open>Tests_Threads_Pass\<close> shows that under every schedule nothing goes wrong, that every fair
  schedule ends the test, and that then \<^verbatim>\<open>main\<close> returns 0 and has printed exactly \<open>main_report\<close>. A schedule is fair if every thread gets
  its turn again and again; the remaining calls and steps of the threads are ordered so that every
  effective move descends, and some thread can always make one: the laws of \<open>fair_moves\<close>.
  \<open>Tests_Exit\<close> runs the program over an allocator that refuses all but one size: seven tests fail, and
  \<^verbatim>\<open>main\<close> returns 0 all the same. \<open>Tests_Free\<close> takes the code behind the \<^verbatim>\<open>return\<close> of \<^verbatim>\<open>testFree\<close>:
  what \<^verbatim>\<open>freeMem\<close> does with a pointer that is no block is up to \<^verbatim>\<open>je_sallocx\<close>.

  \<^bold>\<open>Unity\<close> (\<^verbatim>\<open>unity/src/unity.c\<close>, \<^verbatim>\<open>unity.h\<close>, \<^verbatim>\<open>unity_internals.h\<close>). A state is the record of
  the framework's variables and the characters printed so far; every function is generic in the
  extension of this record, so that the test program adds its own state. A test returns, jumps
  (\<^verbatim>\<open>longjmp\<close>) or goes wrong.
  \<^item> \<open>Unity_Types\<close>: display styles, comparisons, messages, the state.
  \<^item> \<open>Unity_Print\<close>: the printers; reading back what the number printers print gives the number,
    and printing it divides by no zero.
  \<^item> \<open>Unity_Core\<close>: reports, the life cycle of a test, the runner, and the summary; the counters of
    failures and ignored tests are exact.
  \<^item> \<open>Unity_Assert\<close>, \<open>Unity_Arrays\<close>: the assertion functions; each is shown to accept exactly what its
    name says, over the mathematical integers. Arrays, strings and blocks are read from a byte memory
    in which reading outside an object is a fault. \<open>Unity_Elements\<close>: what the assertion on integer
    arrays compares and reports, in terms of the bytes of the arrays.
  \<^item> \<open>Float_Arith\<close>: the formats \<^verbatim>\<open>float\<close> and \<^verbatim>\<open>double\<close>, rounding to nearest and its laws, the
    operations and comparisons Unity uses. The flag \<open>dbl\<close> of the theories that follow is
    \<^verbatim>\<open>UNITY_INCLUDE_DOUBLE\<close>.
  \<^item> \<open>Unity_Float\<close>, \<open>Unity_Float_Print\<close>: the float printer. For every number its scaling loops end,
    no conversion leaves the range of \<^verbatim>\<open>int\<close> and its buffer is large enough; integers of a few digits
    are printed exactly. The proof is made once in the locale \<open>scaled_printer\<close>, over the constants of a
    format, and \<^verbatim>\<open>float\<close> and \<^verbatim>\<open>double\<close> are its instances.
  \<^item> \<open>Unity_Float_Assert\<close>: the assertions on floats and doubles, and what they accept.
  \<^item> \<open>Unity_Macros\<close>, \<open>Unity_Internal_Macros\<close>, \<open>Unity_Api\<close>, \<open>Unity_Float_Macros\<close>: the macros, one
    definition each. \<open>Unity_Variants\<close>: those of configurations other than the Makefile's (the choices
    for the shorthand \<^verbatim>\<open>TEST_ASSERT_EQUAL\<close>, no floating point, no 64-bit integers).
    \<open>Unity_Configs\<close>: switches that replace a line of a function, against what they replace.
  \<^item> \<open>Unity_Target\<close>: the widths and types the preprocessor chooses for a target; for the usual data
    models they are what their names say, and for LP64 what this library assumes.
  \<^item> \<open>Unity_Return\<close>: Unity without \<^verbatim>\<open>setjmp\<close>, where a failing assertion returns to its test. Tests that
    are sequences of assertions are reported alike.
  \<^item> \<open>Unity_Options\<close>: command line options and test selection
    (\<^verbatim>\<open>UNITY_USE_COMMAND_LINE_ARGS\<close>); patterns are walked by index, so that a read behind the
    terminator is a fault. \<open>Unity_Printf\<close>: Unity's own printf
    (\<^verbatim>\<open>UNITY_INCLUDE_PRINT_FORMATTED\<close>), with a type system for formats.
  \<^item> \<open>Unity_Color\<close>: coloured output (\<^verbatim>\<open>UNITY_OUTPUT_COLOR\<close>), against a reference function on
    strings. \<open>Unity_Color_Printf\<close>: the formatted printer in that configuration, against the plain one.
    \<open>Unity_Time\<close>: the time a test took (\<^verbatim>\<open>UNITY_INCLUDE_EXEC_TIME\<close>).

  \<^bold>\<open>Assumptions.\<close> LP64: 64-bit \<^verbatim>\<open>long\<close>, \<^verbatim>\<open>size_t\<close> and pointers, 32-bit \<^verbatim>\<open>int\<close>, little endian. Unless
  said otherwise Unity is configured as the Makefile does, with no macro of its own defined. Reads
  and writes of the counters between lock and unlock are atomic steps, memory is sequentially
  consistent for data the mutex protects. \<^verbatim>\<open>pthread_create\<close> succeeds, as the test takes for granted.
  Addresses do not run around the end of the address space inside one object. Arithmetic on
  \<^verbatim>\<open>float\<close> is done in that format (\<^verbatim>\<open>FLT_EVAL_METHOD\<close> 0, no contraction), rounding to nearest; the
  payload of a NaN is not kept.

  \<^bold>\<open>Bounds.\<close> The accounting theorems ask that the memory managed plus a slack for what jemalloc adds
  in rounding stays below \<open>2 ^ 63\<close>; where the code lacks a guard for such a bound a theorem shows what
  happens beyond it (\<open>initPolicyMgr_split_wraps\<close>, \<open>rounding_exceeds_system_memory\<close>).
  Loops are structural recursion on a count, or functions with a measure. The scaling loops of the
  float printer are partial functions, since on arbitrary constants they need not end; they are shown
  to end for every number Unity can be given. So is the comparison of strings, whose 32-bit index
  wraps: it is shown to end exactly if the strings do not share their first 2^32 characters. The steps of threads are an inductive relation, or a
  function of a schedule of any length. No fuel is used.

  \<^bold>\<open>Not modelled.\<close> jemalloc: its code is not in the repository, and of the headers under
  \<^verbatim>\<open>src/jemalloc\<close>, which are generated by its build, only the configuration holds more than
  declarations and renamings; the program uses three of its functions, which are the
  parameter of \<open>Jemalloc_Api\<close>. The build files. In Unity: the functions compiled for 32-bit
  \<^verbatim>\<open>UNITY_INT\<close> or without details, the Windows clock, and output flushing, which is an empty macro. Prototypes, include guards and
  compiler attributes have no behaviour.
\<close>

end
